(* ===== verification/Prelude.thy ===== *)
theory Prelude
  imports Main "HOL-Library.AList" "HOL-Library.Char_ord" "HOL-Library.List_Lexorder"
    "HOL-Library.Sublist" "HOL-Library.Word"
begin

text \<open>
  Shared vocabulary of the development: the result and effect types every operation of the node
  returns, the parts of Rust's standard library the code uses (strings, \<open>HashMap\<close>, \<open>BTreeMap\<close>,
  decimal formatting and parsing of \<open>usize\<close>), and the lemmas the components share.

  A Rust \<open>String\<close> is its UTF-8 byte sequence, a \<open>char list\<close>: Isabelle's \<open>char\<close> is a byte, and the
  order of Rust strings is the lexicographic order of their bytes, which is the order that
  \<open>List_Lexorder\<close> and \<open>Char_ord\<close> give to \<open>char list\<close>.
\<close>

named_theorems monad_simps \<open>inversion rules of the result and effect binds\<close>
named_theorems bt_simps \<open>lookup and order facts of ordered maps\<close>

section \<open>Results and effects\<close>

text \<open>
  \<open>error\<close> is the source's \<open>Error\<close> enum. A computation of the node ends in a value, in an \<open>Error\<close>,
  or in a panic; \<open>OutOfFuel\<close> marks the model's own bound on a loop the source does not bound.
\<close>

datatype error =
    BadRequest string
  | Unauthorized string
  | Forbidden string
  | NotFound string
  | Conflict string
  | InternalServerError string
  | Unimplemented string

datatype failure = Err error | Panic string | OutOfFuel

type_synonym 'a result = "failure + 'a"

text \<open>
  An effectful operation runs on the provider's state. The state is returned in every case: an error
  does not undo what was already written to the store.
\<close>

type_synonym ('s, 'a) io = "'s \<Rightarrow> 'a result \<times> 's"

definition rbind :: "'a result \<Rightarrow> ('a \<Rightarrow> 'b result) \<Rightarrow> 'b result" where
  "rbind m k = (case m of Inl e \<Rightarrow> Inl e | Inr a \<Rightarrow> k a)"

definition rguard :: "bool \<Rightarrow> error \<Rightarrow> unit result" where
  "rguard b e = (if b then Inr () else Inl (Err e))"

definition some_or :: "'a option \<Rightarrow> error \<Rightarrow> 'a result" where
  "some_or x e = (case x of None \<Rightarrow> Inl (Err e) | Some a \<Rightarrow> Inr a)"

definition sret :: "'a \<Rightarrow> ('s, 'a) io" where
  "sret a s = (Inr a, s)"

definition sfail :: "failure \<Rightarrow> ('s, 'a) io" where
  "sfail e s = (Inl e, s)"

definition lift :: "'a result \<Rightarrow> ('s, 'a) io" where
  "lift m s = (m, s)"

definition sbind :: "('s, 'a) io \<Rightarrow> ('a \<Rightarrow> ('s, 'b) io) \<Rightarrow> ('s, 'b) io" where
  "sbind m k s = (case m s of (Inl e, t) \<Rightarrow> (Inl e, t) | (Inr a, t) \<Rightarrow> k a t)"

fun sfor :: "'a list \<Rightarrow> ('a \<Rightarrow> ('s, unit) io) \<Rightarrow> ('s, unit) io" where
  "sfor [] f = sret ()"
| "sfor (x # xs) f = sbind (f x) (\<lambda>_. sfor xs f)"

fun smapm :: "'a list \<Rightarrow> ('a \<Rightarrow> ('s, 'b) io) \<Rightarrow> ('s, 'b list) io" where
  "smapm [] f = sret []"
| "smapm (x # xs) f = sbind (f x) (\<lambda>y. sbind (smapm xs f) (\<lambda>ys. sret (y # ys)))"

fun rmapm :: "'a list \<Rightarrow> ('a \<Rightarrow> 'b result) \<Rightarrow> 'b list result" where
  "rmapm [] f = Inr []"
| "rmapm (x # xs) f = rbind (f x) (\<lambda>y. rbind (rmapm xs f) (\<lambda>ys. Inr (y # ys)))"

fun rfor :: "'a list \<Rightarrow> ('a \<Rightarrow> unit result) \<Rightarrow> unit result" where
  "rfor [] f = Inr ()"
| "rfor (x # xs) f = rbind (f x) (\<lambda>_. rfor xs f)"

text \<open>\<open>map_err\<close> on a call into a library, whose error is a message.\<close>

definition map_err :: "(string \<Rightarrow> error) \<Rightarrow> string + 'a \<Rightarrow> 'a result" where
  "map_err f m = (case m of Inl e \<Rightarrow> Inl (Err (f e)) | Inr a \<Rightarrow> Inr a)"

text \<open>The conversions of \<open>error.rs\<close>: \<open>anyhow\<close> errors, and so on, become internal errors.\<close>

definition internal :: "string \<Rightarrow> string \<Rightarrow> error" where
  "internal lib e = InternalServerError (lib @ '': '' @ e)"

lemma rbind_simps [simp]:
  "rbind (Inl e) k = Inl e" "rbind (Inr a) k = k a"
  by (simp_all add: rbind_def)

lemma rbind_Inr_iff [monad_simps]: "rbind m k = Inr b \<longleftrightarrow> (\<exists>a. m = Inr a \<and> k a = Inr b)"
  by (cases m) auto

lemma rbind_Inl_iff [monad_simps]:
  "rbind m k = Inl e \<longleftrightarrow> m = Inl e \<or> (\<exists>a. m = Inr a \<and> k a = Inl e)"
  by (cases m) auto

lemma rguard_Inr_iff [monad_simps]: "rguard b e = Inr u \<longleftrightarrow> b"
  by (simp add: rguard_def)

lemma rguard_Inl_iff [monad_simps]: "rguard b e = Inl f \<longleftrightarrow> \<not> b \<and> f = Err e"
  by (auto simp: rguard_def)

lemma rguard_True [simp]: "b \<Longrightarrow> rguard b e = Inr ()"
  by (simp add: rguard_def)

lemma rguard_False [simp]: "\<not> b \<Longrightarrow> rguard b e = Inl (Err e)"
  by (simp add: rguard_def)

lemma some_or_simps [simp]: "some_or (Some a) e = Inr a" "some_or None e = Inl (Err e)"
  by (simp_all add: some_or_def)

lemma some_or_Inr_iff [monad_simps]: "some_or x e = Inr a \<longleftrightarrow> x = Some a"
  by (cases x) auto

lemma some_or_Inl_iff [monad_simps]: "some_or x e = Inl f \<longleftrightarrow> x = None \<and> f = Err e"
  by (cases x) auto

lemma map_err_simps [simp]: "map_err f (Inr a) = Inr a" "map_err f (Inl e) = Inl (Err (f e))"
  by (simp_all add: map_err_def)

lemma map_err_Inr_iff [monad_simps]: "map_err f m = Inr a \<longleftrightarrow> m = Inr a"
  by (cases m) auto

lemma map_err_Inl_iff [monad_simps]: "map_err f m = Inl x \<longleftrightarrow> (\<exists>e. m = Inl e \<and> x = Err (f e))"
  by (cases m) auto

lemma sbind_sret [simp]: "sbind (sret a) k = k a"
  by (simp add: sbind_def sret_def fun_eq_iff)

lemma sbind_sfail [simp]: "sbind (sfail e) k = sfail e"
  by (simp add: sbind_def sfail_def fun_eq_iff)

lemma sbind_lift_Inr [simp]: "sbind (lift (Inr a)) k = k a"
  by (simp add: sbind_def lift_def fun_eq_iff)

lemma sbind_lift_Inl [simp]: "sbind (lift (Inl e)) k = sfail e"
  by (simp add: sbind_def lift_def sfail_def fun_eq_iff)

lemma sbind_assoc: "sbind (sbind m k) l = sbind m (\<lambda>a. sbind (k a) l)"
  by (auto simp: sbind_def fun_eq_iff split: prod.splits sum.splits)

lemma sret_eq_iff [monad_simps]: "sret a s = (r, t) \<longleftrightarrow> r = Inr a \<and> t = s"
  by (auto simp: sret_def)

lemma sfail_eq_iff [monad_simps]: "sfail e s = (r, t) \<longleftrightarrow> r = Inl e \<and> t = s"
  by (auto simp: sfail_def)

lemma lift_eq_iff [monad_simps]: "lift m s = (r, t) \<longleftrightarrow> m = r \<and> t = s"
  by (auto simp: lift_def)

lemma sbind_Inr_iff [monad_simps]:
  "sbind m k s = (Inr b, u) \<longleftrightarrow> (\<exists>a t. m s = (Inr a, t) \<and> k a t = (Inr b, u))"
  by (cases "m s"; cases "fst (m s)") (auto simp: sbind_def)

lemma sbind_Inl_iff [monad_simps]:
  "sbind m k s = (Inl e, u) \<longleftrightarrow>
     m s = (Inl e, u) \<or> (\<exists>a t. m s = (Inr a, t) \<and> k a t = (Inl e, u))"
  by (cases "m s"; cases "fst (m s)") (auto simp: sbind_def)

lemma sbind_run: "m s = (Inr a, t) \<Longrightarrow> sbind m k s = k a t"
  by (simp add: sbind_def)

lemma sbind_run_err: "m s = (Inl e, t) \<Longrightarrow> sbind m k s = (Inl e, t)"
  by (simp add: sbind_def)

lemma sbind_lift_run: "sbind (lift r) k s = (case r of Inl e \<Rightarrow> (Inl e, s) | Inr a \<Rightarrow> k a s)"
  by (cases r) (simp_all add: sfail_def)

text \<open>An operation reads only when it leaves the state as it found it, whatever it returns.\<close>

definition reads_only :: "('s, 'a) io \<Rightarrow> bool" where
  "reads_only m \<longleftrightarrow> (\<forall>s. snd (m s) = s)"

named_theorems reads_only_intros \<open>operations that leave the store unchanged\<close>

lemma reads_only_sret [reads_only_intros]: "reads_only (sret a)"
  by (simp add: reads_only_def sret_def)

lemma reads_only_sfail [reads_only_intros]: "reads_only (sfail e)"
  by (simp add: reads_only_def sfail_def)

lemma reads_only_lift [reads_only_intros]: "reads_only (lift m)"
  by (simp add: reads_only_def lift_def)

lemma reads_only_sbind [reads_only_intros]:
  assumes "reads_only m" and "\<And>a. reads_only (k a)"
  shows "reads_only (sbind m k)"
  using assms by (auto simp: reads_only_def sbind_def split: prod.splits sum.splits)
    (metis snd_conv)+

lemma reads_only_if [reads_only_intros]:
  "(c \<Longrightarrow> reads_only m) \<Longrightarrow> (\<not> c \<Longrightarrow> reads_only n) \<Longrightarrow> reads_only (if c then m else n)"
  by simp

lemma reads_only_case_option [reads_only_intros]:
  "reads_only n \<Longrightarrow> (\<And>a. reads_only (f a)) \<Longrightarrow> reads_only (case x of None \<Rightarrow> n | Some a \<Rightarrow> f a)"
  by (cases x) auto

lemma reads_only_case_prod [reads_only_intros]:
  "(\<And>a b. reads_only (f a b)) \<Longrightarrow> reads_only (case p of (a, b) \<Rightarrow> f a b)"
  by (cases p) auto

lemma reads_only_case_list [reads_only_intros]:
  "reads_only n \<Longrightarrow> (\<And>x xs. reads_only (f x xs)) \<Longrightarrow>
    reads_only (case l of [] \<Rightarrow> n | x # xs \<Rightarrow> f x xs)"
  by (cases l) auto

lemma reads_only_smapm [reads_only_intros]:
  "(\<And>x. reads_only (f x)) \<Longrightarrow> reads_only (smapm xs f)"
  by (induction xs) (auto intro!: reads_only_intros)

lemma reads_only_sfor [reads_only_intros]:
  "(\<And>x. reads_only (f x)) \<Longrightarrow> reads_only (sfor xs f)"
  by (induction xs) (auto intro!: reads_only_intros)

lemma reads_only_state: "reads_only m \<Longrightarrow> m s = (r, t) \<Longrightarrow> t = s"
  by (metis reads_only_def snd_conv)

section \<open>Strings\<close>

definition starts_with :: "string \<Rightarrow> string \<Rightarrow> bool" where
  "starts_with s p \<longleftrightarrow> take (length p) s = p"

lemma starts_with_iff: "starts_with s p \<longleftrightarrow> (\<exists>r. s = p @ r)"
  unfolding starts_with_def by (metis append_eq_conv_conj)

text \<open>\<open>str::split\<close> on a character: one piece more than there are separators.\<close>

fun split_on :: "char \<Rightarrow> string \<Rightarrow> string list" where
  "split_on c [] = [[]]"
| "split_on c (x # xs) =
     (if x = c then [] # split_on c xs
      else (case split_on c xs of [] \<Rightarrow> [[x]] | p # ps \<Rightarrow> (x # p) # ps))"

fun split_once :: "char \<Rightarrow> string \<Rightarrow> (string \<times> string) option" where
  "split_once c [] = None"
| "split_once c (x # xs) =
     (if x = c then Some ([], xs)
      else (case split_once c xs of None \<Rightarrow> None | Some (a, b) \<Rightarrow> Some (x # a, b)))"

definition rsplit_once :: "char \<Rightarrow> string \<Rightarrow> (string \<times> string) option" where
  "rsplit_once c s =
     (case split_once c (rev s) of None \<Rightarrow> None | Some (a, b) \<Rightarrow> Some (rev b, rev a))"

lemma split_on_ne [simp]: "split_on c s \<noteq> []"
  by (induction s) (auto split: list.splits)

lemma split_once_Some: "split_once c s = Some (a, b) \<Longrightarrow> s = a @ c # b \<and> c \<notin> set a"
  by (induction s arbitrary: a) (auto split: if_splits option.splits)

lemma split_once_None: "split_once c s = None \<longleftrightarrow> c \<notin> set s"
  by (induction s) (auto split: option.splits)

lemma split_once_append [simp]: "c \<notin> set a \<Longrightarrow> split_once c (a @ c # b) = Some (a, b)"
  by (induction a) auto

lemma split_once_length: "split_once c s = Some (a, b) \<Longrightarrow> length b < length s"
  using split_once_Some by fastforce

lemma split_on_no_sep: "c \<notin> set s \<Longrightarrow> split_on c s = [s]"
  by (induction s) auto

lemma split_on_append: "c \<notin> set a \<Longrightarrow> split_on c (a @ c # b) = a # split_on c b"
  by (induction a) auto

lemma length_split_on: "length (split_on c s) = Suc (count_list s c)"
  by (induction s) (auto split: list.splits)

lemma rsplit_once_Some: "rsplit_once c s = Some (a, b) \<Longrightarrow> s = a @ c # b \<and> c \<notin> set b"
proof -
  assume "rsplit_once c s = Some (a, b)"
  then have "split_once c (rev s) = Some (rev b, rev a)"
    by (auto simp: rsplit_once_def split: option.splits)
  then have "rev s = rev b @ c # rev a \<and> c \<notin> set (rev b)"
    by (rule split_once_Some)
  then show ?thesis
    by (metis append.assoc append_Cons append_Nil rev.simps(2) rev_append rev_rev_ident set_rev)
qed

lemma rsplit_once_None: "rsplit_once c s = None \<longleftrightarrow> c \<notin> set s"
  using split_once_None [of c "rev s"] by (auto simp: rsplit_once_def split: option.splits)

section \<open>Decimal numbers\<close>

text \<open>\<open>usize\<close> on the 64-bit targets of the node.\<close>

type_synonym usize = "64 word"

fun decimal :: "nat \<Rightarrow> string" where
  "decimal n = (if n < 10 then [char_of (48 + n)] else decimal (n div 10) @ [char_of (48 + n mod 10)])"

declare decimal.simps [simp del]

text \<open>\<open>format!("{:0>10}", n)\<close>: the decimal digits, padded on the left with zeros to ten places.\<close>

definition pad10 :: "string \<Rightarrow> string" where
  "pad10 s = replicate (10 - length s) (CHR ''0'') @ s"

definition is_digit :: "char \<Rightarrow> bool" where
  "is_digit c \<longleftrightarrow> 48 \<le> (of_char c :: nat) \<and> (of_char c :: nat) \<le> 57"

fun digits_value :: "nat \<Rightarrow> string \<Rightarrow> nat" where
  "digits_value a [] = a"
| "digits_value a (c # cs) = digits_value (a * 10 + (of_char c - 48)) cs"

text \<open>\<open>str::parse::<usize>()\<close>: an optional \<open>+\<close>, then digits, within the range of the type.\<close>

definition parse_usize :: "string \<Rightarrow> string + usize" where
  "parse_usize s =
     (if s = [] then Inl ''cannot parse integer from empty string''
      else let ds = (if hd s = CHR ''+'' \<and> tl s \<noteq> [] then tl s else s) in
        if \<not> list_all is_digit ds then Inl ''invalid digit found in string''
        else if digits_value 0 ds \<ge> 2 ^ 64 then Inl ''number too large to fit in target type''
        else Inr (of_nat (digits_value 0 ds)))"

lemma digits_value_append: "digits_value a (s @ t) = digits_value (digits_value a s) t"
  by (induction s arbitrary: a) auto

lemma digits_value_single: "n < 10 \<Longrightarrow> digits_value a [char_of (48 + n)] = a * 10 + n"
  by simp

lemma is_digit_char_of: "n < 10 \<Longrightarrow> is_digit (char_of (48 + n :: nat))"
  by (simp add: is_digit_def)

lemma decimal_digits: "list_all is_digit (decimal n)"
proof (induction n rule: decimal.induct)
  case (1 n)
  then show ?case
    by (subst decimal.simps) (auto simp: is_digit_char_of)
qed

lemma decimal_value: "digits_value 0 (decimal n) = n"
proof (induction n rule: decimal.induct)
  case (1 n)
  then show ?case
    by (subst decimal.simps) (auto simp: digits_value_append digits_value_single)
qed

lemma decimal_inj: "decimal m = decimal n \<longleftrightarrow> m = n"
  by (metis decimal_value)

lemma decimal_ne [simp]: "decimal n \<noteq> []"
  by (subst decimal.simps) simp

lemma digits_value_zeros: "digits_value 0 (replicate k (CHR ''0'')) = 0"
  by (induction k) simp_all

lemma pad10_value: "digits_value 0 (pad10 (decimal n)) = n"
  by (simp add: pad10_def digits_value_append digits_value_zeros decimal_value)

lemma pad10_digits: "list_all is_digit (pad10 (decimal n))"
proof -
  have "is_digit (CHR ''0'')" by (simp add: is_digit_def)
  then show ?thesis using decimal_digits [of n] by (auto simp: pad10_def list_all_iff)
qed

lemma is_digit_not_plus: "is_digit c \<Longrightarrow> c \<noteq> CHR ''+''"
  by (auto simp: is_digit_def)

lemma pad10_ne [simp]: "pad10 (decimal n) \<noteq> []"
  by (simp add: pad10_def)

lemma parse_usize_pad10: "parse_usize (pad10 (decimal (unat (n :: usize)))) = Inr n"
proof -
  let ?s = "pad10 (decimal (unat n))"
  have "list_all is_digit ?s" by (rule pad10_digits)
  then have "hd ?s \<noteq> CHR ''+''"
    using is_digit_not_plus pad10_ne by (metis list_all_iff list.set_sel(1))
  moreover have "unat n < 2 ^ 64"
    using unsigned_less [of n] by simp
  ultimately show ?thesis
    using pad10_digits by (simp add: parse_usize_def pad10_value Let_def)
qed

section \<open>Ordered maps\<close>

text \<open>
  A \<open>BTreeMap\<close> is the list of its entries in ascending key order, the order in which the code
  iterates over it. A \<open>HashMap\<close> is an association list with distinct keys (\<open>AList.update\<close>); the
  order in which a \<open>HashMap\<close> is iterated is unspecified, and the model takes insertion order.
\<close>

fun bt_insert :: "'k::linorder \<Rightarrow> 'v \<Rightarrow> ('k \<times> 'v) list \<Rightarrow> ('k \<times> 'v) list" where
  "bt_insert k v [] = [(k, v)]"
| "bt_insert k v (p # ps) =
     (if k < fst p then (k, v) # p # ps
      else if k = fst p then (k, v) # ps
      else p # bt_insert k v ps)"

definition bt_remove :: "'k \<Rightarrow> ('k \<times> 'v) list \<Rightarrow> ('k \<times> 'v) list" where
  "bt_remove k ps = filter (\<lambda>p. fst p \<noteq> k) ps"

definition bt_ok :: "('k::linorder \<times> 'v) list \<Rightarrow> bool" where
  "bt_ok ps \<longleftrightarrow> sorted_wrt (<) (map fst ps)"

abbreviation hm_insert :: "'k \<Rightarrow> 'v \<Rightarrow> ('k \<times> 'v) list \<Rightarrow> ('k \<times> 'v) list" where
  "hm_insert \<equiv> AList.update"

lemma bt_ok_Nil [simp]: "bt_ok []"
  by (simp add: bt_ok_def)

lemma bt_ok_Cons: "bt_ok (p # ps) \<longleftrightarrow> (\<forall>q\<in>set ps. fst p < fst q) \<and> bt_ok ps"
  by (auto simp: bt_ok_def)

lemma bt_insert_keys [bt_simps]: "fst ` set (bt_insert k v ps) = insert k (fst ` set ps)"
  by (induction ps) auto

lemma bt_ok_insert [bt_simps]: "bt_ok ps \<Longrightarrow> bt_ok (bt_insert k v ps)"
proof (induction ps)
  case (Cons p ps)
  have "fst q \<in> insert k (fst ` set ps)" if "q \<in> set (bt_insert k v ps)" for q
    using that bt_insert_keys [of k v ps] by blast
  with Cons show ?case
    by (fastforce simp: bt_ok_Cons)
qed (simp add: bt_ok_def)

lemma bt_ok_remove [bt_simps]: "bt_ok ps \<Longrightarrow> bt_ok (bt_remove k ps)"
  by (simp add: bt_ok_def bt_remove_def sorted_wrt_map sorted_wrt_filter)

lemma bt_ok_distinct: "bt_ok ps \<Longrightarrow> distinct (map fst ps)"
  by (simp add: bt_ok_def strict_sorted_iff)

lemma map_of_bt_insert [bt_simps]: "map_of (bt_insert k v ps) = (map_of ps)(k \<mapsto> v)"
  by (induction ps) (auto simp: fun_eq_iff)

lemma map_of_bt_remove [bt_simps]: "map_of (bt_remove k ps) = (map_of ps)(k := None)"
  by (induction ps) (auto simp: bt_remove_def fun_eq_iff)

lemma set_bt_insert: "bt_ok ps \<Longrightarrow> set (bt_insert k v ps) = insert (k, v) {p \<in> set ps. fst p \<noteq> k}"
proof (induction ps)
  case (Cons p ps)
  then show ?case by (cases p) (auto simp: bt_ok_Cons)
qed simp

lemma bt_insert_remove: "bt_ok ps \<Longrightarrow> map_of ps k = None \<Longrightarrow> bt_remove k (bt_insert k v ps) = ps"
proof (induction ps)
  case (Cons p ps)
  then have "fst p \<noteq> k" and "map_of ps k = None"
    by (cases p; auto split: if_splits)+
  moreover from this have "filter (\<lambda>p. fst p \<noteq> k) ps = ps"
    by (metis (mono_tags, lifting) filter_True map_of_eq_None_iff image_eqI)
  ultimately show ?case
    using Cons by (auto simp: bt_remove_def bt_ok_Cons)
qed (simp add: bt_remove_def)

lemma map_of_sorted_iff: "bt_ok ps \<Longrightarrow> map_of ps k = Some v \<longleftrightarrow> (k, v) \<in> set ps"
  by (simp add: bt_ok_distinct)

text \<open>Strings of one width, with anything behind them, keep their order.\<close>

lemma less_append_width: "(x::char list) < y \<Longrightarrow> length x = length y \<Longrightarrow> x @ u < y @ v"
  by (induction x y rule: list_induct2') auto

lemma distinct_pair:
  assumes "distinct xs" and "set xs = {a, b}" and "a \<noteq> b"
  shows "xs = [a, b] \<or> xs = [b, a]"
proof -
  have "length xs = 2" using distinct_card [OF assms(1)] assms(2,3) by simp
  then obtain x y where "xs = [x, y]" by (auto simp: numeral_2_eq_2 length_Suc_conv)
  with assms show ?thesis by (auto simp: doubleton_eq_iff)
qed

end
