(* ===== verification/Core_Types.thy ===== *)
theory Core_Types
  imports Prelude
begin

text \<open>
  The crate's root types (\<open>src/src/lib.rs\<close>), its errors (\<open>src/src/error.rs\<close>) and the reply envelope
  (\<open>src/src/endpoint.rs\<close>): interfaces and methods, message descriptors, value ranges and date
  ranges, and the status code of an error.
\<close>

section \<open>Interfaces, methods and descriptors\<close>

datatype interface = I_Records | I_Protocols | I_Messages

datatype dwn_method = M_Read | M_Write | M_Query | M_Configure | M_Subscribe | M_Delete

primrec interface_str :: "interface \<Rightarrow> string" where
  "interface_str I_Records = ''Records''"
| "interface_str I_Protocols = ''Protocols''"
| "interface_str I_Messages = ''Messages''"

primrec method_str :: "dwn_method \<Rightarrow> string" where
  "method_str M_Read = ''Read''"
| "method_str M_Write = ''Write''"
| "method_str M_Query = ''Query''"
| "method_str M_Configure = ''Configure''"
| "method_str M_Subscribe = ''Subscribe''"
| "method_str M_Delete = ''Delete''"

lemma interface_str_eq_iff [simp]: "interface_str a = interface_str b \<longleftrightarrow> a = b"
  by (cases a; cases b) simp_all

lemma method_str_eq_iff [simp]: "method_str a = method_str b \<longleftrightarrow> a = b"
  by (cases a; cases b) simp_all

definition bool_str :: "bool \<Rightarrow> string" where
  "bool_str b = (if b then ''true'' else ''false'')"

lemma bool_str_eq_iff [simp]: "bool_str a = bool_str b \<longleftrightarrow> a = b"
  by (simp add: bool_str_def)

text \<open>
  A \<open>DateTime<Utc>\<close> is its number of nanoseconds since the epoch. \<open>timestamp_micros\<close> drops the
  sub-microsecond part, rounding down.
\<close>

type_synonym datetime = int

definition timestamp_micros :: "datetime \<Rightarrow> int" where
  "timestamp_micros t = t div 1000"

record descriptor =
  base_interface :: interface
  base_method :: dwn_method
  base_timestamp :: datetime

section \<open>One or many\<close>

datatype 'a one_or_many = One 'a | Many "'a list"

primrec to_vec :: "'a one_or_many \<Rightarrow> 'a list" where
  "to_vec (One v) = [v]"
| "to_vec (Many vs) = vs"

section \<open>Ranges\<close>

datatype 'a lower = Lower_Exclusive 'a | Lower_Inclusive 'a

datatype 'a upper = Upper_Exclusive 'a | Upper_Inclusive 'a

record 'a value_range =
  range_lower :: "'a lower option"
  range_upper :: "'a upper option"

definition range_new :: "'a value_range" where
  "range_new = \<lparr>range_lower = None, range_upper = None\<rparr>"

definition range_gt :: "'a \<Rightarrow> 'a value_range \<Rightarrow> 'a value_range" where
  "range_gt v r = r\<lparr>range_lower := Some (Lower_Exclusive v)\<rparr>"

definition range_ge :: "'a \<Rightarrow> 'a value_range \<Rightarrow> 'a value_range" where
  "range_ge v r = r\<lparr>range_lower := Some (Lower_Inclusive v)\<rparr>"

definition range_lt :: "'a \<Rightarrow> 'a value_range \<Rightarrow> 'a value_range" where
  "range_lt v r = r\<lparr>range_upper := Some (Upper_Exclusive v)\<rparr>"

definition range_le :: "'a \<Rightarrow> 'a value_range \<Rightarrow> 'a value_range" where
  "range_le v r = r\<lparr>range_upper := Some (Upper_Inclusive v)\<rparr>"

definition range_contains :: "'a::linorder value_range \<Rightarrow> 'a \<Rightarrow> bool" where
  "range_contains r v =
     (let lower_ok = (case range_lower r of
            Some (Lower_Exclusive l) \<Rightarrow> v > l
          | Some (Lower_Inclusive l) \<Rightarrow> v \<ge> l
          | None \<Rightarrow> True) in
      if \<not> lower_ok then False
      else (case range_upper r of
            Some (Upper_Exclusive u) \<Rightarrow> v < u
          | Some (Upper_Inclusive u) \<Rightarrow> v \<le> u
          | None \<Rightarrow> True))"

record date_range =
  dr_lower :: "datetime option"
  dr_upper :: "datetime option"

definition date_range_new :: date_range where
  "date_range_new = \<lparr>dr_lower = None, dr_upper = None\<rparr>"

definition date_range_gt :: "datetime \<Rightarrow> date_range \<Rightarrow> date_range" where
  "date_range_gt v r = r\<lparr>dr_lower := Some v\<rparr>"

definition date_range_lt :: "datetime \<Rightarrow> date_range \<Rightarrow> date_range" where
  "date_range_lt v r = r\<lparr>dr_upper := Some v\<rparr>"

definition date_range_contains :: "date_range \<Rightarrow> datetime \<Rightarrow> bool" where
  "date_range_contains r v =
     (if (case dr_lower r of Some l \<Rightarrow> v < l | None \<Rightarrow> False) then False
      else if (case dr_upper r of Some u \<Rightarrow> v \<ge> u | None \<Rightarrow> False) then False
      else True)"

section \<open>Errors and replies\<close>

primrec error_code :: "error \<Rightarrow> nat" where
  "error_code (BadRequest d) = 400"
| "error_code (Unauthorized d) = 401"
| "error_code (Forbidden d) = 403"
| "error_code (NotFound d) = 404"
| "error_code (Conflict d) = 409"
| "error_code (InternalServerError d) = 500"
| "error_code (Unimplemented d) = 501"

primrec error_detail :: "error \<Rightarrow> string" where
  "error_detail (BadRequest d) = d"
| "error_detail (Unauthorized d) = d"
| "error_detail (Forbidden d) = d"
| "error_detail (NotFound d) = d"
| "error_detail (Conflict d) = d"
| "error_detail (InternalServerError d) = d"
| "error_detail (Unimplemented d) = d"

text \<open>\<open>PartialEq\<close> of the source compares the codes only.\<close>

definition error_eq :: "error \<Rightarrow> error \<Rightarrow> bool" where
  "error_eq a b \<longleftrightarrow> error_code a = error_code b"

text \<open>The \<open>Display\<close> text of an error, as the \<open>thiserror\<close> attributes give it.\<close>

definition error_display :: "error \<Rightarrow> string" where
  "error_display e =
     ''{\"code\": '' @ decimal (error_code e) @ '', \"detail\": \"'' @ error_detail e @ ''\"}''"

record status =
  status_code :: nat
  status_detail :: "string option"

record 'a reply =
  reply_status :: status
  reply_body :: "'a option"

definition reply_with :: "nat \<Rightarrow> 'a option \<Rightarrow> 'a reply" where
  "reply_with c b = \<lparr>reply_status = \<lparr>status_code = c, status_detail = None\<rparr>, reply_body = b\<rparr>"

section \<open>What ranges accept\<close>

definition above :: "'a::linorder lower option \<Rightarrow> 'a set" where
  "above l = (case l of None \<Rightarrow> UNIV | Some (Lower_Exclusive x) \<Rightarrow> {x<..} | Some (Lower_Inclusive x) \<Rightarrow> {x..})"

definition below :: "'a::linorder upper option \<Rightarrow> 'a set" where
  "below u = (case u of None \<Rightarrow> UNIV | Some (Upper_Exclusive x) \<Rightarrow> {..<x} | Some (Upper_Inclusive x) \<Rightarrow> {..x})"

lemma range_contains_iff: "range_contains r v \<longleftrightarrow> v \<in> above (range_lower r) \<inter> below (range_upper r)"
  by (auto simp: range_contains_def above_def below_def split: option.splits lower.splits upper.splits)

lemma date_range_contains_iff:
  "date_range_contains r v \<longleftrightarrow>
     (\<forall>l. dr_lower r = Some l \<longrightarrow> l \<le> v) \<and> (\<forall>u. dr_upper r = Some u \<longrightarrow> v < u)"
  by (auto simp: date_range_contains_def split: option.splits)

end
