(* ===== verification/Model.thy ===== *)
theory Model
  imports Core_Types
begin

text \<open>
  The data of the node: every message, descriptor, filter and stored structure of the crate, field by
  field (\<open>src/src/authorization.rs\<close>, \<open>src/src/records\<close>, \<open>src/src/protocols\<close>, \<open>src/src/messages\<close>,
  \<open>src/src/grants.rs\<close>, \<open>src/src/store.rs\<close>, \<open>src/src/hd_key.rs\<close>). The Rust modules refer to each
  other in cycles, so their types stand together here and their operations in the component theories.

  Structs are records; the two structs that contain each other (\<open>Authorization\<close> and
  \<open>DelegatedGrant\<close>) and the rule sets of a protocol, which nest, are datatypes with selectors.
  Byte strings are \<open>char list\<close>, as strings are.
\<close>

type_synonym bytes = "char list"

section \<open>Signatures and authorization\<close>

text \<open>
  A JWS is a value of a library: the node reads its \<open>payload\<close> (base64url text) and hands it to the
  library for everything else, so the rest of it is an opaque text.
\<close>

datatype jws = Jws (jws_payload: string) (jws_rest: string)

record jws_payload =
  jp_descriptor_cid :: string
  jp_permission_grant_id :: "string option"
  jp_delegated_grant_id :: "string option"
  jp_protocol_role :: "string option"

record signature_payload =
  sp_base :: jws_payload
  sp_record_id :: string
  sp_context_id :: "string option"
  sp_attestation_cid :: "string option"
  sp_encryption_cid :: "string option"

datatype tag = Tag_Empty | Tag_String string | Tag_Number "64 word" | Tag_Boolean bool

primrec tag_as_str :: "tag \<Rightarrow> string option" where
  "tag_as_str Tag_Empty = None"
| "tag_as_str (Tag_String s) = Some s"
| "tag_as_str (Tag_Number n) = None"
| "tag_as_str (Tag_Boolean b) = None"

primrec tag_as_u64 :: "tag \<Rightarrow> 64 word option" where
  "tag_as_u64 Tag_Empty = None"
| "tag_as_u64 (Tag_String s) = None"
| "tag_as_u64 (Tag_Number n) = Some n"
| "tag_as_u64 (Tag_Boolean b) = None"

record write_descriptor =
  wd_base :: descriptor
  wd_protocol :: "string option"
  wd_protocol_path :: "string option"
  wd_recipient :: "string option"
  wd_schema :: "string option"
  wd_tags :: "(string \<times> tag) list option"
  wd_parent_id :: "string option"
  wd_data_cid :: string
  wd_data_size :: usize
  wd_data_format :: string
  wd_date_created :: datetime
  wd_published :: "bool option"
  wd_date_published :: "datetime option"

datatype authorization = Authorization
    (signature: jws)
    (owner_signature: "jws option")
    (author_delegated_grant: "delegated_grant option")
    (owner_delegated_grant: "delegated_grant option")
and delegated_grant = DelegatedGrant
    (dg_descriptor: write_descriptor)
    (dg_authorization: authorization)
    (dg_record_id: string)
    (dg_context_id: "string option")
    (dg_encoded_data: string)

section \<open>Keys and encryption\<close>

datatype derivation_scheme = DataFormats | Schemas | ProtocolContext | ProtocolPath

datatype content_algorithm = A256Gcm | XChaCha20Poly1305

datatype key_algorithm = EcdhEsA256Kw | EciesEs256K | EcdhEs

text \<open>A public JWK is a value of a library; the node reads its curve and its coordinates.\<close>

record public_key_jwk =
  jwk_crv :: string
  jwk_x :: string
  jwk_y :: "string option"

record private_key_jwk =
  pk_public_key :: public_key_jwk
  pk_d :: string

record derived_private_jwk =
  dj_root_key_id :: string
  dj_derivation_scheme :: derivation_scheme
  dj_derivation_path :: "string list option"
  dj_derived_private_key :: private_key_jwk

record encrypted_key =
  ek_root_key_id :: string
  ek_derived_public_key :: "public_key_jwk option"
  ek_derivation_scheme :: derivation_scheme
  ek_algorithm :: key_algorithm
  ek_ephemeral_public_key :: public_key_jwk
  ek_initialization_vector :: "string option"
  ek_message_authentication_code :: "string option"
  ek_cek :: string

record encryption_property =
  ep_algorithm :: content_algorithm
  ep_initialization_vector :: string
  ep_key_encryption :: "encrypted_key list"
  ep_message_authentication_code :: "string option"

section \<open>Records messages\<close>

record write_msg =
  w_descriptor :: write_descriptor
  w_authorization :: authorization
  w_record_id :: string
  w_context_id :: "string option"
  w_attestation :: "jws option"
  w_encryption :: "encryption_property option"
  w_encoded_data :: "string option"
  w_data_stream :: "bytes option"

record delete_descriptor =
  del_base :: descriptor
  del_record_id :: string
  del_prune :: bool

record delete =
  del_descriptor :: delete_descriptor
  del_authorization :: authorization

datatype tag_filter = TF_StartsWith string | TF_Range "usize value_range" | TF_Equal tag

record records_filter =
  rf_record_id :: "string option"
  rf_author :: "string one_or_many option"
  rf_attester :: "string option"
  rf_recipient :: "string one_or_many option"
  rf_context_id :: "string option"
  rf_parent_id :: "string option"
  rf_protocol :: "string option"
  rf_protocol_path :: "string option"
  rf_schema :: "string option"
  rf_data_format :: "string option"
  rf_tags :: "(string \<times> tag_filter) list option"
  rf_data_cid :: "string option"
  rf_data_size :: "usize value_range option"
  rf_published :: "bool option"
  rf_date_published :: "date_range option"
  rf_date_created :: "date_range option"
  rf_date_updated :: "date_range option"

datatype sort = CreatedAsc | CreatedDesc | PublishedAsc | PublishedDesc | TimestampAsc | TimestampDesc

record cursor =
  cur_message_cid :: string
  cur_value :: string

record pagination =
  pg_limit :: "usize option"
  pg_cursor :: "cursor option"

record read_descriptor =
  rd_base :: descriptor
  rd_filter :: records_filter

record read =
  rd_descriptor :: read_descriptor
  rd_authorization :: "authorization option"

record query_descriptor =
  qd_base :: descriptor
  qd_filter :: records_filter
  qd_date_sort :: "sort option"
  qd_pagination :: "pagination option"

record records_query =
  rq_descriptor :: query_descriptor
  rq_authorization :: "authorization option"

record subscribe_descriptor =
  sd_base :: descriptor
  sd_filter :: records_filter

record records_subscribe =
  rs_descriptor :: subscribe_descriptor
  rs_authorization :: "authorization option"

section \<open>Protocol definitions\<close>

datatype actor = Anyone | Author | Recipient

datatype action = A_Create | A_Delete | A_Prune | A_Query | A_Subscribe | A_Read | A_Update
  | A_CoDelete | A_CoPrune | A_CoUpdate

record action_rule =
  ar_who :: "actor option"
  ar_role :: "string option"
  ar_of :: "string option"
  ar_can :: "action list"

record size_range =
  size_min :: "usize option"
  size_max :: "usize option"

text \<open>A tag's schema is JSON text (a \<open>serde_json::Value\<close>), which the node only hands on.\<close>

record tag_rules =
  tr_required :: "string list option"
  tr_allow_undefined :: "bool option"
  tr_undefined :: "(string \<times> string) list"

record path_encryption =
  pe_root_key_id :: string
  pe_public_key_jwk :: public_key_jwk

datatype rule_set = RuleSet
    (rs_encryption: "path_encryption option")
    (rs_actions: "action_rule list option")
    (rs_role: "bool option")
    (rs_size: "size_range option")
    (rs_tags: "tag_rules option")
    (rs_structure: "(string \<times> rule_set) list")

record protocol_type =
  pt_schema :: "string option"
  pt_data_formats :: "string list option"

record definition_t =
  def_protocol :: string
  def_published :: bool
  def_types :: "(string \<times> protocol_type) list"
  def_structure :: "(string \<times> rule_set) list"

record configure_descriptor =
  cd_base :: descriptor
  cd_definition :: definition_t

record configure =
  cfg_descriptor :: configure_descriptor
  cfg_authorization :: authorization

record protocols_query =
  pq_base :: descriptor
  pq_filter :: "string option"
  pq_authorization :: "authorization option"

section \<open>Grants\<close>

datatype records_scope = Scope_ContextId string | Scope_ProtocolPath string

primrec records_scope_context_id :: "records_scope \<Rightarrow> string option" where
  "records_scope_context_id (Scope_ContextId i) = Some i"
| "records_scope_context_id (Scope_ProtocolPath p) = None"

primrec records_scope_protocol_path :: "records_scope \<Rightarrow> string option" where
  "records_scope_protocol_path (Scope_ContextId i) = None"
| "records_scope_protocol_path (Scope_ProtocolPath p) = Some p"

datatype scope =
    Scope_Records dwn_method string "records_scope option"
  | Scope_Messages dwn_method "string option"
  | Scope_Protocols dwn_method "string option"

datatype publication = Required | Prohibited

text \<open>The \<open>conditions\<close> of a grant hold one optional field.\<close>

record conditions =
  cond_publication :: "publication option"

record grant_data =
  gd_description :: "string option"
  gd_request_id :: "string option"
  gd_date_expires :: datetime
  gd_delegated :: "bool option"
  gd_scope :: scope
  gd_conditions :: "conditions option"

record request_data =
  req_delegated :: bool
  req_description :: "string option"
  req_scope :: scope
  req_conditions :: "conditions option"

record grant =
  g_id :: string
  g_grantor :: string
  g_grantee :: string
  g_date_granted :: datetime
  g_data :: grant_data

section \<open>Messages interface\<close>

record messages_filter =
  mf_interface :: "interface option"
  mf_method :: "dwn_method option"
  mf_protocol :: "string option"
  mf_message_timestamp :: "date_range option"

record messages_query =
  mq_base :: descriptor
  mq_filters :: "messages_filter list"
  mq_cursor :: "cursor option"
  mq_authorization :: authorization

record messages_read =
  mr_base :: descriptor
  mr_message_cid :: string
  mr_authorization :: authorization

record messages_subscribe =
  ms_base :: descriptor
  ms_filters :: "messages_filter list"
  ms_authorization :: authorization

section \<open>Stored structures\<close>

datatype entry_type = E_Write write_msg | E_Delete delete | E_Configure configure

record entry =
  e_message :: entry_type
  e_indexes :: "(string \<times> string) list"

record index_item =
  ii_message_cid :: string
  ii_fields :: "(string \<times> string) list"

record index =
  ix_field :: string
  ix_items :: "(string \<times> index_item) list"

text \<open>
  The IPLD values of the library that the node builds or matches on; \<open>Ipld_Other\<close> stands for every
  other kind a decoder can return.
\<close>

datatype ipld = Ipld_Bytes bytes | Ipld_Link string | Ipld_List "ipld list" | Ipld_String string
  | Ipld_Map "(string \<times> ipld) list" | Ipld_Other

section \<open>What serialization keeps\<close>

text \<open>
  \<open>serde\<close> writes dates with microsecond precision (\<open>rfc3339_micros\<close>), and skips the data stream of a
  write and the indexes of an entry. \<open>ser_write\<close> and its siblings are the values that remain: what a
  content identifier is computed over, and what a stored block decodes to.
\<close>

definition rfc3339_micros :: "datetime \<Rightarrow> datetime" where
  "rfc3339_micros t = timestamp_micros t * 1000"

definition ser_base :: "descriptor \<Rightarrow> descriptor" where
  "ser_base d = d\<lparr>base_timestamp := rfc3339_micros (base_timestamp d)\<rparr>"

definition ser_write_descriptor :: "write_descriptor \<Rightarrow> write_descriptor" where
  "ser_write_descriptor d = d\<lparr>wd_base := ser_base (wd_base d),
     wd_date_created := rfc3339_micros (wd_date_created d),
     wd_date_published := map_option rfc3339_micros (wd_date_published d)\<rparr>"

primrec ser_authorization :: "authorization \<Rightarrow> authorization"
  and ser_delegated_grant :: "delegated_grant \<Rightarrow> delegated_grant"
where
  "ser_authorization (Authorization s os ad od) =
     Authorization s os (map_option ser_delegated_grant ad) (map_option ser_delegated_grant od)"
| "ser_delegated_grant (DelegatedGrant d a r c e) =
     DelegatedGrant (ser_write_descriptor d) (ser_authorization a) r c e"

definition ser_write :: "write_msg \<Rightarrow> write_msg" where
  "ser_write w = w\<lparr>w_descriptor := ser_write_descriptor (w_descriptor w),
     w_authorization := ser_authorization (w_authorization w), w_data_stream := None\<rparr>"

definition ser_delete_descriptor :: "delete_descriptor \<Rightarrow> delete_descriptor" where
  "ser_delete_descriptor d = d\<lparr>del_base := ser_base (del_base d)\<rparr>"

definition ser_delete :: "delete \<Rightarrow> delete" where
  "ser_delete d = d\<lparr>del_descriptor := ser_delete_descriptor (del_descriptor d),
     del_authorization := ser_authorization (del_authorization d)\<rparr>"

definition ser_configure :: "configure \<Rightarrow> configure" where
  "ser_configure c =
     c\<lparr>cfg_descriptor := (cfg_descriptor c)\<lparr>cd_base := ser_base (cd_base (cfg_descriptor c))\<rparr>,
       cfg_authorization := ser_authorization (cfg_authorization c)\<rparr>"

primrec ser_entry_type :: "entry_type \<Rightarrow> entry_type" where
  "ser_entry_type (E_Write w) = E_Write (ser_write w)"
| "ser_entry_type (E_Delete d) = E_Delete (ser_delete d)"
| "ser_entry_type (E_Configure c) = E_Configure (ser_configure c)"

definition ser_entry :: "entry \<Rightarrow> entry" where
  "ser_entry e = \<lparr>e_message = ser_entry_type (e_message e), e_indexes = []\<rparr>"

text \<open>What the node computes content identifiers over.\<close>

datatype payload =
    P_Text string
  | P_Write write_msg
  | P_Delete delete
  | P_Configure configure
  | P_WriteDescriptor write_descriptor
  | P_DeleteDescriptor delete_descriptor
  | P_ReadDescriptor read_descriptor
  | P_QueryDescriptor query_descriptor
  | P_SubscribeDescriptor subscribe_descriptor
  | P_ConfigureDescriptor configure_descriptor
  | P_ProtocolsQueryDescriptor descriptor "string option"
  | P_MessagesQueryDescriptor descriptor "messages_filter list" "cursor option"
  | P_MessagesReadDescriptor descriptor string
  | P_MessagesSubscribeDescriptor descriptor "messages_filter list"
  | P_Read read
  | P_RecordsQuery records_query
  | P_RecordsSubscribe records_subscribe
  | P_ProtocolsQuery protocols_query
  | P_MessagesQuery messages_query
  | P_MessagesRead messages_read
  | P_MessagesSubscribe messages_subscribe
  | P_EntryId write_descriptor string
  | P_DelegatedGrant delegated_grant
  | P_Attestation "jws option"
  | P_Encryption "encryption_property option"
  | P_Bytes bytes
  | P_Ipld ipld

text \<open>What the node stores in a block.\<close>

datatype block = B_Entry entry | B_Index index | B_Ipld ipld

section \<open>Serialization is idempotent\<close>

lemma rfc3339_micros_idem [simp]: "rfc3339_micros (rfc3339_micros t) = rfc3339_micros t"
  by (simp add: rfc3339_micros_def timestamp_micros_def)

lemma timestamp_micros_ser [simp]: "timestamp_micros (rfc3339_micros t) = timestamp_micros t"
  by (simp add: rfc3339_micros_def timestamp_micros_def)

lemma ser_base_idem [simp]: "ser_base (ser_base d) = ser_base d"
  by (simp add: ser_base_def)

lemma ser_write_descriptor_idem [simp]:
  "ser_write_descriptor (ser_write_descriptor d) = ser_write_descriptor d"
  by (simp add: ser_write_descriptor_def option.map_comp comp_def)

lemma ser_authorization_idem [simp]:
  "ser_authorization (ser_authorization a) = ser_authorization a"
  "ser_delegated_grant (ser_delegated_grant g) = ser_delegated_grant g"
proof (induction a and g)
  case (Authorization s os ad od)
  then show ?case by (cases ad; cases od) auto
qed auto

lemma ser_write_idem [simp]: "ser_write (ser_write w) = ser_write w"
  by (simp add: ser_write_def)

lemma ser_delete_idem [simp]: "ser_delete (ser_delete d) = ser_delete d"
  by (simp add: ser_delete_def ser_delete_descriptor_def)

lemma ser_configure_idem [simp]: "ser_configure (ser_configure c) = ser_configure c"
  by (simp add: ser_configure_def)

lemma ser_entry_type_idem [simp]: "ser_entry_type (ser_entry_type m) = ser_entry_type m"
  by (cases m) simp_all

lemma ser_entry_idem [simp]: "ser_entry (ser_entry e) = ser_entry e"
  by (simp add: ser_entry_def)

end
