(* ===== verification/Schema.thy ===== *)
theory Schema
  imports Core_Types
begin

text \<open>
  The validation of messages and of permission data against JSON schemas (\<open>src/src/schema.rs\<close>): which embedded schema a
  name stands for, which embedded document a reference is retrieved from, and the check itself. The \<open>jsonschema\<close> and
  \<open>serde_json\<close> crates are parameters; a JSON value is its text, and an embedded file is named by its path under
  \<open>src/schemas/\<close>.
\<close>

section \<open>The libraries\<close>

text \<open>
  \<open>sl_from_slice\<close> parses an embedded file, \<open>sl_build\<close> is \<open>jsonschema::options().with_retriever(..).build(..)\<close> followed by
  \<open>iter_errors\<close> (each error with its instance path), and \<open>sl_to_value\<close> is \<open>serde_json::to_value\<close>.
\<close>

record 'i schema_lib =
  sl_from_slice :: "string \<Rightarrow> string + string"
  sl_build :: "(string \<Rightarrow> string \<Rightarrow> string + string) \<Rightarrow> string \<Rightarrow> string + (string \<Rightarrow> (string \<times> string) list)"
  sl_to_value :: "'i \<Rightarrow> string + string"

section \<open>The embedded schemas\<close>

definition schema_files :: "(string \<times> string) list" where
  "schema_files =
     [(''messages-query'', ''interface-methods/messages-query.json''),
      (''messages-read'', ''interface-methods/messages-read.json''),
      (''messages-subscribe'', ''interface-methods/messages-subscribe.json''),
      (''protocols-configure'', ''interface-methods/protocols-configure.json''),
      (''protocols-query'', ''interface-methods/protocols-query.json''),
      (''records-write'', ''interface-methods/records-write.json''),
      (''records-write-encoded'', ''interface-methods/records-write-data-encoded.json''),
      (''records-query'', ''interface-methods/records-query.json''),
      (''records-read'', ''interface-methods/records-read.json''),
      (''records-subscribe'', ''interface-methods/records-subscribe.json''),
      (''records-delete'', ''interface-methods/records-delete.json''),
      (''PermissionRequestData'', ''permissions/permission-request-data.json''),
      (''PermissionGrantData'', ''permissions/permission-grant-data.json''),
      (''PermissionRevocationData'', ''permissions/permission-revocation-data.json'')]"

definition precompiled :: "'i schema_lib \<Rightarrow> string \<Rightarrow> string result" where
  "precompiled L schema_name =
     (case map_of schema_files schema_name of
        Some file \<Rightarrow> map_err (internal ''serde_json'') (sl_from_slice L file)
      | None \<Rightarrow> Inl (Err (BadRequest (''schema not found: '' @ schema_name))))"

text \<open>\<open>Retriever::retrieve\<close>, by the reference and its path; its error is boxed.\<close>

definition retrievable :: "(string \<times> string) list" where
  "retrievable =
     [(''/dwn/json-schemas/defs.json'', ''definitions.json''),
      (''/dwn/json-schemas/messages-filter.json'', ''interface-methods/messages-filter.json''),
      (''/dwn/json-schemas/pagination-cursor.json'', ''interface-methods/pagination-cursor.json''),
      (''/dwn/json-schemas/protocol-definition.json'', ''interface-methods/protocol-definition.json''),
      (''/dwn/json-schemas/protocol-rule-set.json'', ''interface-methods/protocol-rule-set.json''),
      (''/dwn/json-schemas/records-write-data-encoded.json'', ''interface-methods/records-write-data-encoded.json''),
      (''/dwn/json-schemas/records-write-unidentified.json'', ''interface-methods/records-write-unidentified.json''),
      (''/dwn/json-schemas/records-filter.json'', ''interface-methods/records-filter.json''),
      (''/dwn/json-schemas/string-range-filter.json'', ''interface-methods/string-range-filter.json''),
      (''/dwn/json-schemas/number-range-filter.json'', ''interface-methods/number-range-filter.json''),
      (''/dwn/json-schemas/authorization.json'', ''authorization.json''),
      (''/dwn/json-schemas/authorization-owner.json'', ''authorization-owner.json''),
      (''/dwn/json-schemas/authorization-delegated-grant.json'', ''authorization-delegated-grant.json''),
      (''/dwn/json-schemas/general-jws.json'', ''general-jws.json''),
      (''/dwn/json-schemas/public-jwk.json'', ''jwk/public-jwk.json''),
      (''/dwn/json-schemas/general-jwk.json'', ''jwk/general-jwk.json''),
      (''/dwn/json-schemas/permissions/defs.json'', ''permissions/permissions-definitions.json''),
      (''/dwn/json-schemas/permissions/scopes.json'', ''permissions/scopes.json'')]"

definition retrieve :: "'i schema_lib \<Rightarrow> string \<Rightarrow> string \<Rightarrow> string + string" where
  "retrieve L uri path =
     (case map_of retrievable path of
        Some file \<Rightarrow> sl_from_slice L file
      | None \<Rightarrow> Inl (error_display (BadRequest (''Schema not found: '' @ uri))))"

section \<open>Validation\<close>

definition validate_value :: "'i schema_lib \<Rightarrow> string \<Rightarrow> 'i \<Rightarrow> unit result" where
  "validate_value L schema_name v =
     rbind (precompiled L schema_name) (\<lambda>schema.
     rbind (map_err (internal ''jsonschema'') (sl_build L (retrieve L) schema)) (\<lambda>iter_errors.
     rbind (map_err (internal ''serde_json'') (sl_to_value L v)) (\<lambda>value.
     let errors = iter_errors value in
     if errors \<noteq> [] then
       Inl (Err (BadRequest (''validation failed for '' @ schema @ '': '' @
         concat (map (\<lambda>(e, path). CHR 0x0A # '' - '' @ e @ '' at '' @ path) errors))))
     else Inr ())))"

definition to_lowercase :: "string \<Rightarrow> string" where
  "to_lowercase = map (\<lambda>c. if 65 \<le> (of_char c :: nat) \<and> (of_char c :: nat) \<le> 90 then char_of (of_char c + 32 :: nat) else c)"

text \<open>The name of the schema a message is validated against.\<close>

definition schema_name :: "descriptor \<Rightarrow> string" where
  "schema_name d = to_lowercase (interface_str (base_interface d) @ ''-'' @ method_str (base_method d))"

definition schema_validate :: "'i schema_lib \<Rightarrow> ('i \<Rightarrow> descriptor) \<Rightarrow> 'i \<Rightarrow> unit result" where
  "schema_validate L descriptor m = validate_value L (schema_name (descriptor m)) m"

section \<open>References\<close>

text \<open>The references to other documents in each embedded schema, by path, as the files of \<open>src/schemas/\<close> have them.\<close>

definition schema_refs :: "(string \<times> string list) list" where
  "schema_refs =
     [(''interface-methods/messages-query.json'',
        [''/dwn/json-schemas/authorization.json'', ''/dwn/json-schemas/defs.json'',
         ''/dwn/json-schemas/messages-filter.json'', ''/dwn/json-schemas/pagination-cursor.json'']),
      (''interface-methods/messages-read.json'',
        [''/dwn/json-schemas/authorization.json'', ''/dwn/json-schemas/defs.json'']),
      (''interface-methods/messages-subscribe.json'',
        [''/dwn/json-schemas/authorization.json'', ''/dwn/json-schemas/messages-filter.json'']),
      (''interface-methods/protocols-configure.json'',
        [''/dwn/json-schemas/authorization-delegated-grant.json'', ''/dwn/json-schemas/defs.json'',
         ''/dwn/json-schemas/protocol-definition.json'']),
      (''interface-methods/protocols-query.json'',
        [''/dwn/json-schemas/authorization.json'', ''/dwn/json-schemas/defs.json'']),
      (''interface-methods/records-write.json'', [''/dwn/json-schemas/records-write-unidentified.json'']),
      (''interface-methods/records-write-data-encoded.json'', [''/dwn/json-schemas/records-write-unidentified.json'']),
      (''interface-methods/records-query.json'',
        [''/dwn/json-schemas/authorization-delegated-grant.json'', ''/dwn/json-schemas/defs.json'',
         ''/dwn/json-schemas/pagination-cursor.json'', ''/dwn/json-schemas/records-filter.json'']),
      (''interface-methods/records-read.json'',
        [''/dwn/json-schemas/authorization-delegated-grant.json'', ''/dwn/json-schemas/defs.json'',
         ''/dwn/json-schemas/records-filter.json'']),
      (''interface-methods/records-subscribe.json'',
        [''/dwn/json-schemas/authorization-delegated-grant.json'', ''/dwn/json-schemas/defs.json'',
         ''/dwn/json-schemas/records-filter.json'']),
      (''interface-methods/records-delete.json'',
        [''/dwn/json-schemas/authorization-delegated-grant.json'', ''/dwn/json-schemas/defs.json'']),
      (''permissions/permission-request-data.json'', [''/dwn/json-schemas/permissions/defs.json'']),
      (''permissions/permission-grant-data.json'',
        [''/dwn/json-schemas/defs.json'', ''/dwn/json-schemas/permissions/defs.json'']),
      (''permissions/permission-revocation-data.json'', []),
      (''definitions.json'', []),
      (''interface-methods/messages-filter.json'', [''/dwn/json-schemas/defs.json'']),
      (''interface-methods/pagination-cursor.json'', []),
      (''interface-methods/protocol-definition.json'', [''/dwn/json-schemas/protocol-rule-set.json'']),
      (''interface-methods/protocol-rule-set.json'', [''/dwn/json-schemas/public-jwk.json'']),
      (''interface-methods/records-write-unidentified.json'',
        [''/dwn/json-schemas/authorization-owner.json'', ''/dwn/json-schemas/defs.json'',
         ''/dwn/json-schemas/general-jws.json'', ''/dwn/json-schemas/public-jwk.json'']),
      (''interface-methods/records-filter.json'',
        [''/dwn/json-schemas/defs.json'', ''/dwn/json-schemas/number-range-filter.json'',
         ''/dwn/json-schemas/string-range-filter.json'']),
      (''interface-methods/string-range-filter.json'', []),
      (''interface-methods/number-range-filter.json'', []),
      (''authorization.json'', [''/dwn/json-schemas/general-jws.json'']),
      (''authorization-owner.json'',
        [''/dwn/json-schemas/general-jws.json'', ''/dwn/json-schemas/records-write-data-encoded.json'']),
      (''authorization-delegated-grant.json'',
        [''/dwn/json-schemas/general-jws.json'', ''/dwn/json-schemas/records-write-data-encoded.json'']),
      (''general-jws.json'', [''/dwn/json-schemas/defs.json'']),
      (''jwk/public-jwk.json'', [''/dwn/json-schemas/general-jwk.json'']),
      (''jwk/general-jwk.json'', []),
      (''permissions/permissions-definitions.json'', [''/dwn/json-schemas/permissions/scopes.json'']),
      (''permissions/scopes.json'', [])]"

text \<open>The documents that validating against a schema may load: the schema itself, and what they refer to.\<close>

inductive loads :: "string \<Rightarrow> string \<Rightarrow> bool" for name where
  schema: "map_of schema_files name = Some f \<Longrightarrow> loads name f"
| ref: "loads name f \<Longrightarrow> map_of schema_refs f = Some us \<Longrightarrow> u \<in> set us \<Longrightarrow> map_of retrievable u = Some g \<Longrightarrow> loads name g"

text \<open>The files a schema or a reference stands for are among those whose references are listed.\<close>

lemma refs_known: "list_all (\<lambda>f. map_of schema_refs f \<noteq> None) (map snd schema_files @ map snd retrievable)"
  by code_simp

lemma refs_retrievable: "list_all (\<lambda>(f, us). list_all (\<lambda>u. map_of retrievable u \<noteq> None) us) schema_refs"
  by code_simp

lemma map_of_value: "map_of xs k = Some v \<Longrightarrow> v \<in> snd ` set xs"
  by (metis image_eqI map_of_SomeD snd_conv)

lemma loads_file: "loads name f \<Longrightarrow> f \<in> snd ` set schema_files \<union> snd ` set retrievable"
  by (induction rule: loads.induct) (blast dest: map_of_value)+

lemma loads_known: "loads name f \<Longrightarrow> map_of schema_refs f \<noteq> None"
  using loads_file refs_known unfolding list_all_iff set_append set_map by blast

text \<open>The kinds of message that have a schema.\<close>

definition message_kinds :: "(interface \<times> dwn_method) list" where
  "message_kinds =
     [(I_Records, M_Write), (I_Records, M_Read), (I_Records, M_Query), (I_Records, M_Subscribe), (I_Records, M_Delete),
      (I_Protocols, M_Configure), (I_Protocols, M_Query), (I_Messages, M_Query), (I_Messages, M_Read), (I_Messages, M_Subscribe)]"

lemma schema_names:
  "list_all (\<lambda>i. list_all (\<lambda>m. (map_of schema_files (to_lowercase (interface_str i @ ''-'' @ method_str m)) \<noteq> None) =
     ((i, m) \<in> set message_kinds)) [M_Read, M_Write, M_Query, M_Configure, M_Subscribe, M_Delete]) [I_Records, I_Protocols, I_Messages]"
  by code_simp

lemma schema_name_found: "map_of schema_files (schema_name d) \<noteq> None \<longleftrightarrow> (base_interface d, base_method d) \<in> set message_kinds"
proof -
  have "base_interface d \<in> set [I_Records, I_Protocols, I_Messages]" by (cases "base_interface d") simp_all
  moreover have "base_method d \<in> set [M_Read, M_Write, M_Query, M_Configure, M_Subscribe, M_Delete]"
    by (cases "base_method d") simp_all
  ultimately show ?thesis using schema_names unfolding schema_name_def list_all_iff by blast
qed

text \<open>
  Every kind of message the node handles, and no other combination of interface and method, has an embedded schema,
  and whatever documents validating against it loads, each of their references is retrieved: no message is rejected
  because a schema is missing.
\<close>

theorem schemas_resolve:
  assumes "\<And>fl. fl \<in> snd ` set schema_files \<union> snd ` set retrievable \<Longrightarrow> \<exists>doc. sl_from_slice L fl = Inr doc"
  shows "((\<exists>doc. precompiled L (schema_name d) = Inr doc) \<longleftrightarrow> (base_interface d, base_method d) \<in> set message_kinds) \<and>
    (\<forall>f. loads (schema_name d) f \<longrightarrow>
      (\<exists>us. map_of schema_refs f = Some us \<and> (\<forall>u\<in>set us. \<exists>doc. retrieve L uri u = Inr doc)))"
proof (intro conjI allI impI)
  have "\<exists>doc. precompiled L (schema_name d) = Inr doc" if "map_of schema_files (schema_name d) = Some fl" for fl
    using that assms [of fl] map_of_value [OF that] by (force simp: precompiled_def)
  then show "(\<exists>doc. precompiled L (schema_name d) = Inr doc) \<longleftrightarrow> (base_interface d, base_method d) \<in> set message_kinds"
    using schema_name_found [of d] by (auto simp: precompiled_def split: option.splits)
  fix f assume "loads (schema_name d) f"
  then obtain us where us: "map_of schema_refs f = Some us" using loads_known by blast
  have "\<exists>doc. retrieve L uri u = Inr doc" if u: "u \<in> set us" for u
  proof -
    from us u obtain fl where fl: "map_of retrievable u = Some fl"
      using refs_retrievable by (force simp: list_all_iff dest: map_of_SomeD)
    then have "fl \<in> snd ` set retrievable" by (rule map_of_value)
    with fl assms [of fl] show ?thesis by (auto simp: retrieve_def)
  qed
  with us show "\<exists>us. map_of schema_refs f = Some us \<and> (\<forall>u\<in>set us. \<exists>doc. retrieve L uri u = Inr doc)" by blast
qed

text \<open>A library that takes every embedded file as it is.\<close>

definition plain_lib :: "'i schema_lib" where
  "plain_lib = \<lparr>sl_from_slice = Inr, sl_build = (\<lambda>r s. Inr (\<lambda>v. [])), sl_to_value = (\<lambda>v. Inr [])\<rparr>"

theorem schemas_resolve_witness:
  "\<exists>doc. precompiled (plain_lib :: unit schema_lib)
     (schema_name \<lparr>base_interface = I_Messages, base_method = M_Read, base_timestamp = 0\<rparr>) = Inr doc"
proof -
  have "sl_from_slice (plain_lib :: unit schema_lib) fl = Inr fl" for fl by (simp add: plain_lib_def)
  then have files: "\<exists>doc. sl_from_slice (plain_lib :: unit schema_lib) fl = Inr doc" for fl by blast
  show ?thesis
    using schemas_resolve [OF files, where d = "\<lparr>base_interface = I_Messages, base_method = M_Read, base_timestamp = 0\<rparr>"]
    by (simp add: message_kinds_def)
qed

end
