(* ===== verification/Env.thy ===== *)
theory Env
  imports Model Schema
begin

text \<open>
  Everything the node calls but does not define, as one record that the operations take as an
  argument: the provider's block store and event stream (\<open>src/src/provider.rs\<close>), and the libraries
  for content identifiers, DAG-CBOR, base64url, JSON, JSON schema, JWS, JWE, HKDF, dates, ULIDs and URIs.
  \<open>'s\<close> is the provider's state and \<open>'b\<close> the encoded form of a block, which the node only measures,
  stores and decodes. A library's error is its message. \<open>walk_fuel\<close> is the model's own bound on the
  walk up a record's ancestors, which the source does not bound.

  The contracts the node relies on are locales: \<open>block_store\<close> is the promise of the \<open>BlockStore\<close>
  trait, \<open>codec\<close> that of the DAG-CBOR codec, and so on. The lemmas of the storage components are
  proved from these contracts, which \<open>Providers\<close> discharges for concrete stores.
\<close>

record uri_parts =
  uri_scheme :: "string option"
  uri_authority :: "string option"
  uri_path :: string

text \<open>What the JWE library gives for a wrapped content key, and what it takes to decrypt.\<close>

record key_wrap =
  kw_alg :: key_algorithm
  kw_epk :: public_key_jwk
  kw_iv :: "string option"
  kw_tag :: "string option"
  kw_encrypted_key :: string

record jwe =
  jwe_enc :: content_algorithm
  jwe_kid :: string
  jwe_key :: key_wrap
  jwe_aad :: string
  jwe_iv :: string
  jwe_tag :: string
  jwe_ciphertext :: string

text \<open>The permission data that is validated against a schema.\<close>

datatype permission_data = PD_Request request_data | PD_Grant grant_data | PD_Revocation bytes

text \<open>
  A subscription. A stream of events is, at every state, the list of the events that have arrived on it since it was
  opened; the subscriber takes them one by one.
\<close>

record 's subscriber =
  sub_inner :: "'s \<Rightarrow> entry list"

record ('s, 'b) env =
  bs_put :: "string \<Rightarrow> string \<Rightarrow> string \<Rightarrow> 'b \<Rightarrow> 's \<Rightarrow> (string + unit) \<times> 's"
  bs_get :: "string \<Rightarrow> string \<Rightarrow> string \<Rightarrow> 's \<Rightarrow> (string + 'b option) \<times> 's"
  bs_delete :: "string \<Rightarrow> string \<Rightarrow> string \<Rightarrow> 's \<Rightarrow> (string + unit) \<times> 's"
  es_emit :: "string \<Rightarrow> entry \<Rightarrow> 's \<Rightarrow> (string + unit) \<times> 's"
  es_subscribe :: "string \<Rightarrow> 's \<Rightarrow> (string + 's subscriber) \<times> 's"
  dag_encode :: "block \<Rightarrow> string + 'b"
  dag_size :: "'b \<Rightarrow> nat"
  dag_decode_entry :: "'b \<Rightarrow> string + entry"
  dag_decode_index :: "'b \<Rightarrow> string + index"
  dag_decode_ipld :: "'b \<Rightarrow> string + ipld"
  cid_value :: "payload \<Rightarrow> string + string"
  cid_parse :: "string \<Rightarrow> string + string"
  b64_encode :: "bytes \<Rightarrow> string"
  b64_decode :: "string \<Rightarrow> string + bytes"
  json_jws_payload :: "bytes \<Rightarrow> string + jws_payload"
  json_signature_payload :: "bytes \<Rightarrow> string + signature_payload"
  json_grant_data :: "bytes \<Rightarrow> string + grant_data"
  json_request_data :: "bytes \<Rightarrow> string + request_data"
  json_revocation_data :: "bytes \<Rightarrow> string + unit"
  js_lib :: "permission_data schema_lib"
  schema_tags :: "tag_rules \<Rightarrow> (string \<times> tag) list option \<Rightarrow> bool"
  schema_tag_key :: "string \<Rightarrow> error option"
  jws_did :: "jws \<Rightarrow> string + string"
  jws_verify :: "jws \<Rightarrow> string + unit"
  fmt_micros :: "datetime \<Rightarrow> string"
  parse_rfc3339 :: "string \<Rightarrow> string + datetime"
  utc_now :: "'s \<Rightarrow> datetime"
  ulid_new :: "'s \<Rightarrow> string \<times> 's"
  uri_parse :: "string \<Rightarrow> string + uri_parts"
  hkdf_expand :: "bytes \<Rightarrow> bytes \<Rightarrow> string + bytes"
  x25519_public :: "bytes \<Rightarrow> bytes"
  cek_generate :: "'s \<Rightarrow> bytes \<times> 's"
  json_protected :: "content_algorithm \<Rightarrow> string + bytes"
  jwe_content :: "content_algorithm \<Rightarrow> bytes \<Rightarrow> bytes \<Rightarrow> bytes \<Rightarrow> 's \<Rightarrow> (string + string \<times> string \<times> bytes) \<times> 's"
  jwe_public_key :: "bytes \<Rightarrow> string + bytes"
  jwe_wrap :: "key_algorithm \<Rightarrow> bytes \<Rightarrow> string \<Rightarrow> bytes \<Rightarrow> 's \<Rightarrow> (string + key_wrap) \<times> 's"
  jwe_decrypt :: "jwe \<Rightarrow> string \<Rightarrow> string + bytes"
  overflow_checks :: bool
  walk_fuel :: nat

section \<open>Calls into the environment\<close>

text \<open>
  A provider call fails with an \<open>anyhow\<close> error, which \<open>?\<close> turns into an internal error; \<open>with_err\<close>
  is a call followed by \<open>map_err\<close>.
\<close>

definition with_err :: "(string \<Rightarrow> error) \<Rightarrow> ('s \<Rightarrow> (string + 'a) \<times> 's) \<Rightarrow> ('s, 'a) io" where
  "with_err f m s = (case m s of (r, t) \<Rightarrow> (map_err f r, t))"

abbreviation anyhow :: "('s \<Rightarrow> (string + 'a) \<times> 's) \<Rightarrow> ('s, 'a) io" where
  "anyhow \<equiv> with_err (internal ''anyhow'')"

text \<open>
  The default methods of the provider traits run a store function of the crate and turn its error
  into an \<open>anyhow\<close> error; the caller's \<open>?\<close> turns that into an internal error which carries the
  original one as text.
\<close>

definition as_provider_error :: "failure \<Rightarrow> failure" where
  "as_provider_error f =
     (case f of Err e \<Rightarrow> Err (internal ''anyhow'' (error_display e)) | _ \<Rightarrow> f)"

definition via_provider :: "('s, 'a) io \<Rightarrow> ('s, 'a) io" where
  "via_provider m s = (case m s of (Inl f, t) \<Rightarrow> (Inl (as_provider_error f), t) | (Inr a, t) \<Rightarrow> (Inr a, t))"

text \<open>\<open>cid::from_value\<close>: the CBOR encoder's failure is an internal error.\<close>

definition from_value :: "('s, 'b) env \<Rightarrow> payload \<Rightarrow> string result" where
  "from_value E p = map_err (internal ''ciborium'') (cid_value E p)"

lemma with_err_Inr_iff [monad_simps]: "with_err f m s = (Inr a, t) \<longleftrightarrow> m s = (Inr a, t)"
  by (cases "m s") (auto simp: with_err_def monad_simps)

lemma with_err_run [simp]: "m s = (Inr a, t) \<Longrightarrow> with_err f m s = (Inr a, t)"
  by (simp add: with_err_def)

lemma snd_with_err [simp]: "snd (with_err f m s) = snd (m s)"
  by (auto simp: with_err_def split: prod.splits)

lemma via_provider_Inr_iff [monad_simps]: "via_provider m s = (Inr a, t) \<longleftrightarrow> m s = (Inr a, t)"
  by (cases "m s"; cases "fst (m s)") (auto simp: via_provider_def)

lemma via_provider_run: "m s = (Inr a, t) \<Longrightarrow> via_provider m s = (Inr a, t)"
  by (simp add: via_provider_def)

lemma via_provider_Inl_iff:
  "via_provider m s = (Inl f, t) \<longleftrightarrow> (\<exists>g. m s = (Inl g, t) \<and> f = as_provider_error g)"
  by (cases "m s"; cases "fst (m s)") (auto simp: via_provider_def)

lemma snd_via_provider [simp]: "snd (via_provider m s) = snd (m s)"
  by (auto simp: via_provider_def split: prod.splits sum.splits)

lemma reads_only_via_provider [reads_only_intros]: "reads_only m \<Longrightarrow> reads_only (via_provider m)"
  by (simp add: reads_only_def)

lemma reads_only_with_err [reads_only_intros]: "(\<And>s. snd (m s) = s) \<Longrightarrow> reads_only (with_err f m)"
  by (auto simp: reads_only_def with_err_def split: prod.splits) (metis snd_conv)

section \<open>Contracts\<close>

text \<open>
  The block store. \<open>cell\<close> says which place of the store a block of an owner, a partition and a CID
  occupies, \<open>view\<close> what the store holds. A store may put blocks of different owners or partitions in
  the same cell, but never blocks with different CIDs. \<open>good\<close> are the CIDs the store accepts.
\<close>

locale block_store =
  fixes E :: "('s, 'b) env"
    and cell :: "string \<Rightarrow> string \<Rightarrow> string \<Rightarrow> 'k"
    and good :: "string \<Rightarrow> bool"
    and view :: "'s \<Rightarrow> 'k \<Rightarrow> 'b option"
  assumes get: "good c \<Longrightarrow> bs_get E ow pa c s = (Inr (view s (cell ow pa c)), s)"
    and put: "good c \<Longrightarrow> \<exists>t. bs_put E ow pa c d s = (Inr (), t) \<and> view t = (view s)(cell ow pa c \<mapsto> d)"
    and delete: "good c \<Longrightarrow> \<exists>t. bs_delete E ow pa c s = (Inr (), t) \<and> view t = (view s)(cell ow pa c := None)"
    and cell_cid: "good c \<Longrightarrow> good c' \<Longrightarrow> cell ow pa c = cell ow' pa' c' \<Longrightarrow> c = c'"
begin

lemma get_run [simp]: "good c \<Longrightarrow> with_err f (bs_get E ow pa c) s = (Inr (view s (cell ow pa c)), s)"
  by (simp add: get)

lemma put_run:
  assumes "good c"
  obtains t where "with_err f (bs_put E ow pa c d) s = (Inr (), t)"
    and "view t = (view s)(cell ow pa c \<mapsto> d)"
  using put [OF assms, of ow pa d s] by (auto simp: monad_simps)

lemma delete_run:
  assumes "good c"
  obtains t where "with_err f (bs_delete E ow pa c) s = (Inr (), t)"
    and "view t = (view s)(cell ow pa c := None)"
  using delete [OF assms, of ow pa s] by (auto simp: monad_simps)

lemma view_put_other: "good c \<Longrightarrow> good c' \<Longrightarrow> c \<noteq> c' \<Longrightarrow>
    ((view s)(cell ow pa c := x)) (cell ow' pa' c') = view s (cell ow' pa' c')"
  using cell_cid by (metis fun_upd_apply)

end

text \<open>A store that also keeps owners and partitions apart.\<close>

locale partitioned_store = block_store +
  assumes cell_owner: "good c \<Longrightarrow> good c' \<Longrightarrow> cell ow pa c = cell ow' pa' c' \<Longrightarrow> ow = ow' \<and> pa = pa'"

text \<open>The DAG-CBOR codec: decoding a block gives back what serialization kept of the value.\<close>

locale codec =
  fixes E :: "('s, 'b) env"
  assumes decode_entry: "dag_encode E (B_Entry e) = Inr d \<Longrightarrow> dag_decode_entry E d = Inr (ser_entry e)"
    and decode_index: "dag_encode E (B_Index i) = Inr d \<Longrightarrow> dag_decode_index E d = Inr i"
    and decode_ipld: "dag_encode E (B_Ipld v) = Inr d \<Longrightarrow> dag_decode_ipld E d = Inr v"

end
