(* ===== verification/Auth.thy ===== *)
theory Auth
  imports Env
begin

text \<open>
  Message authorization (\<open>src/src/authorization.rs\<close>) and the entry point that authenticates a message
  before it is handled (\<open>src/src/endpoint.rs\<close>).
\<close>

text \<open>The signature that names the message's author: that of the delegated grant, when there is one.\<close>

definition auth_author :: "('s, 'b) env \<Rightarrow> authorization \<Rightarrow> string result" where
  "auth_author E a =
     map_err (\<lambda>e. BadRequest (''issue getting author's DID: '' @ e))
       (case author_delegated_grant a of
          None \<Rightarrow> jws_did E (signature a)
        | Some g \<Rightarrow> jws_did E (signature (dg_authorization g)))"

definition auth_owner :: "('s, 'b) env \<Rightarrow> authorization \<Rightarrow> string option result" where
  "auth_owner E a =
     (case owner_delegated_grant a of
        Some g \<Rightarrow>
          rbind (map_err (internal ''anyhow'') (jws_did E (signature (dg_authorization g)))) (\<lambda>d. Inr (Some d))
      | None \<Rightarrow>
          (case owner_signature a of
             None \<Rightarrow> Inr None
           | Some j \<Rightarrow> rbind (map_err (internal ''anyhow'') (jws_did E j)) (\<lambda>d. Inr (Some d))))"

definition auth_signer :: "('s, 'b) env \<Rightarrow> authorization \<Rightarrow> string result" where
  "auth_signer E a =
     map_err (\<lambda>e. BadRequest (''issue getting signer's DID: '' @ e)) (jws_did E (signature a))"

definition auth_owner_signer :: "('s, 'b) env \<Rightarrow> authorization \<Rightarrow> string result" where
  "auth_owner_signer E a =
     rbind (some_or (owner_delegated_grant a) (BadRequest ''owner delegated grant not found'')) (\<lambda>g.
     map_err (\<lambda>e. BadRequest (''issue getting owner's DID: '' @ e))
       (jws_did E (signature (dg_authorization g))))"

definition auth_payload :: "('s, 'b) env \<Rightarrow> authorization \<Rightarrow> jws_payload result" where
  "auth_payload E a =
     rbind (map_err (\<lambda>e. BadRequest (''issue decoding signature payload: '' @ e))
       (b64_decode E (jws_payload (signature a)))) (\<lambda>decoded.
     map_err (\<lambda>e. BadRequest (''issue deserializing signature payload: '' @ e))
       (json_jws_payload E decoded))"

text \<open>Every signature of the message is verified, the owner's and the grants' included.\<close>

definition auth_verify :: "('s, 'b) env \<Rightarrow> authorization \<Rightarrow> unit result" where
  "auth_verify E a =
     rbind (map_err (internal ''anyhow'') (jws_verify E (signature a))) (\<lambda>_.
     rbind (case owner_signature a of None \<Rightarrow> Inr ()
            | Some j \<Rightarrow> map_err (internal ''anyhow'') (jws_verify E j)) (\<lambda>_.
     rbind (case author_delegated_grant a of None \<Rightarrow> Inr ()
            | Some g \<Rightarrow> map_err (internal ''anyhow'') (jws_verify E (signature (dg_authorization g)))) (\<lambda>_.
     (case owner_delegated_grant a of None \<Rightarrow> Inr ()
      | Some g \<Rightarrow> map_err (internal ''anyhow'') (jws_verify E (signature (dg_authorization g)))))))"

text \<open>\<open>Message::validate\<close>, without the schema check, which is compiled into debug builds only.\<close>

definition validate :: "('s, 'b) env \<Rightarrow> authorization option \<Rightarrow> unit result" where
  "validate E authzn =
     (case authzn of
        None \<Rightarrow> Inr ()
      | Some a \<Rightarrow>
          (case auth_verify E a of
             Inl (Err e) \<Rightarrow> Inl (Err (Unauthorized (''failed to authenticate: '' @ error_display e)))
           | Inl f \<Rightarrow> Inl f
           | Inr u \<Rightarrow> Inr ()))"

text \<open>\<open>endpoint::handle\<close>: validate, then run the message's own handler.\<close>

definition endpoint_handle :: "('s, 'b) env \<Rightarrow> authorization option \<Rightarrow> ('s, 'a) io \<Rightarrow> ('s, 'a) io" where
  "endpoint_handle E authzn handler = sbind (lift (validate E authzn)) (\<lambda>_. handler)"

section \<open>Facts\<close>

text \<open>The signatures a message carries.\<close>

definition signatures :: "authorization \<Rightarrow> jws set" where
  "signatures a = {signature a} \<union> set_option (owner_signature a)
     \<union> (\<lambda>g. signature (dg_authorization g)) ` set_option (author_delegated_grant a)
     \<union> (\<lambda>g. signature (dg_authorization g)) ` set_option (owner_delegated_grant a)"

lemma auth_verify_Inr: "auth_verify E a = Inr u \<longleftrightarrow> (\<forall>j\<in>signatures a. jws_verify E j = Inr ())"
  by (auto simp: auth_verify_def signatures_def monad_simps split: option.splits)

lemma auth_verify_not_panic: "auth_verify E a = Inl f \<Longrightarrow> \<exists>e. f = Err e"
  by (auto simp: auth_verify_def monad_simps split: option.splits)

lemma validate_Inr: "validate E au = Inr u \<longleftrightarrow> (\<forall>a. au = Some a \<longrightarrow> (\<forall>j\<in>signatures a. jws_verify E j = Inr ()))"
proof (cases au)
  case (Some a)
  then show ?thesis
    using auth_verify_Inr [of E a "()"]
    by (cases "auth_verify E a") (auto simp: validate_def split: failure.splits)
qed (simp add: validate_def)

lemma auth_author_ser [simp]: "auth_author E (ser_authorization a) = auth_author E a"
proof (cases a)
  case (Authorization s os ad od)
  have "signature (ser_authorization x) = signature x" for x by (cases x) simp
  then have "signature (dg_authorization (ser_delegated_grant g)) = signature (dg_authorization g)" for g
    by (cases g) simp
  then show ?thesis
    using Authorization by (cases ad) (simp_all add: auth_author_def)
qed

lemma auth_payload_ser [simp]: "auth_payload E (ser_authorization a) = auth_payload E a"
  by (cases a) (simp add: auth_payload_def)

lemma auth_signer_ser [simp]: "auth_signer E (ser_authorization a) = auth_signer E a"
  by (cases a) (simp add: auth_signer_def)

end
