(* ===== verification/Store.thy ===== *)
theory Store
  imports Auth
begin

text \<open>
  Stored entries and store queries (\<open>src/src/store.rs\<close>, and the \<open>build_indexes\<close> and \<open>cid\<close> methods of
  the messages): how a message becomes an entry with its index fields, and how filters become the
  match sets a query is made of. Match sets are or-ed, the matchers of a match set are and-ed.
\<close>

section \<open>Content identifiers of messages\<close>

definition write_cid :: "('s, 'b) env \<Rightarrow> write_msg \<Rightarrow> string result" where
  "write_cid E w = from_value E (P_Write (ser_write (w\<lparr>w_encoded_data := None\<rparr>)))"

definition delete_cid :: "('s, 'b) env \<Rightarrow> delete \<Rightarrow> string result" where
  "delete_cid E d = from_value E (P_Delete (ser_delete d))"

definition configure_cid :: "('s, 'b) env \<Rightarrow> configure \<Rightarrow> string result" where
  "configure_cid E c = from_value E (P_Configure (ser_configure c))"

section \<open>Index fields\<close>

definition insert_some :: "string \<Rightarrow> string option \<Rightarrow> (string \<times> string) list \<Rightarrow> (string \<times> string) list" where
  "insert_some k v m = (case v of None \<Rightarrow> m | Some x \<Rightarrow> hm_insert k x m)"

definition unwrap_or_default :: "string result \<Rightarrow> string" where
  "unwrap_or_default r = (case r of Inl e \<Rightarrow> [] | Inr s \<Rightarrow> s)"

fun insert_tags :: "(string \<times> tag) list \<Rightarrow> (string \<times> string) list \<Rightarrow> (string \<times> string) list" where
  "insert_tags [] m = m"
| "insert_tags ((k, v) # ts) m =
     insert_tags ts (hm_insert (''tag.'' @ k) (case tag_as_str v of None \<Rightarrow> [] | Some s \<Rightarrow> s) m)"

definition write_indexes :: "('s, 'b) env \<Rightarrow> write_msg \<Rightarrow> (string \<times> string) list" where
  "write_indexes E w =
     (let d = w_descriptor w;
          m = hm_insert ''interface'' (interface_str (base_interface (wd_base d))) [];
          m = hm_insert ''method'' (method_str (base_method (wd_base d))) m;
          m = hm_insert ''recordId'' (w_record_id w) m;
          m = insert_some ''contextId'' (w_context_id w) m;
          m = hm_insert ''messageTimestamp'' (fmt_micros E (base_timestamp (wd_base d))) m;
          m = hm_insert ''published'' (bool_str (case wd_published d of None \<Rightarrow> False | Some b \<Rightarrow> b)) m;
          m = hm_insert ''dataFormat'' (wd_data_format d) m;
          m = hm_insert ''dataCid'' (wd_data_cid d) m;
          m = hm_insert ''dataSize'' (pad10 (decimal (unat (wd_data_size d)))) m;
          m = hm_insert ''dateCreated'' (fmt_micros E (wd_date_created d)) m;
          m = insert_some ''recipient'' (wd_recipient d) m;
          m = insert_some ''protocol'' (wd_protocol d) m;
          m = insert_some ''protocolPath'' (wd_protocol_path d) m;
          m = insert_some ''schema'' (wd_schema d) m;
          m = insert_some ''parentId'' (wd_parent_id d) m;
          m = insert_some ''datePublished'' (map_option (fmt_micros E) (wd_date_published d)) m;
          m = hm_insert ''author'' (unwrap_or_default (auth_author E (w_authorization w))) m;
          m = insert_some ''permissionGrantId''
                (case auth_payload E (w_authorization w) of Inl e \<Rightarrow> None | Inr p \<Rightarrow> jp_permission_grant_id p) m;
          m = insert_some ''attester''
                (map_option (\<lambda>j. case jws_did E j of Inl e \<Rightarrow> [] | Inr a \<Rightarrow> a) (w_attestation w)) m
      in insert_tags (case wd_tags d of None \<Rightarrow> [] | Some ts \<Rightarrow> ts) m)"

definition delete_indexes :: "('s, 'b) env \<Rightarrow> delete \<Rightarrow> (string \<times> string) list" where
  "delete_indexes E d =
     (let m = hm_insert ''interface'' (interface_str I_Records) [];
          m = hm_insert ''method'' (method_str M_Delete) m;
          m = hm_insert ''recordId'' (del_record_id (del_descriptor d)) m;
          m = hm_insert ''messageTimestamp'' (fmt_micros E (base_timestamp (del_base (del_descriptor d)))) m;
          m = hm_insert ''author'' (unwrap_or_default (auth_author E (del_authorization d))) m
      in hm_insert ''initial'' ''false'' m)"

definition configure_indexes :: "('s, 'b) env \<Rightarrow> configure \<Rightarrow> (string \<times> string) list" where
  "configure_indexes E c =
     (let d = cfg_descriptor c;
          m = hm_insert ''interface'' (interface_str (base_interface (cd_base d))) [];
          m = hm_insert ''method'' (method_str (base_method (cd_base d))) m;
          m = hm_insert ''protocol'' (def_protocol (cd_definition d)) m;
          m = hm_insert ''published'' (bool_str (def_published (cd_definition d))) m
      in hm_insert ''messageTimestamp'' (fmt_micros E (base_timestamp (cd_base d))) m)"

section \<open>Entries\<close>

definition entry_from_write :: "('s, 'b) env \<Rightarrow> write_msg \<Rightarrow> entry" where
  "entry_from_write E w = \<lparr>e_message = E_Write w, e_indexes = write_indexes E w\<rparr>"

definition entry_from_delete :: "('s, 'b) env \<Rightarrow> delete \<Rightarrow> entry" where
  "entry_from_delete E d = \<lparr>e_message = E_Delete d, e_indexes = delete_indexes E d\<rparr>"

definition entry_from_configure :: "('s, 'b) env \<Rightarrow> configure \<Rightarrow> entry" where
  "entry_from_configure E c = \<lparr>e_message = E_Configure c, e_indexes = configure_indexes E c\<rparr>"

text \<open>\<open>add_index\<close> never replaces an index field that is already there.\<close>

definition add_index :: "string \<Rightarrow> string \<Rightarrow> entry \<Rightarrow> entry" where
  "add_index k v e =
     (if map_of (e_indexes e) k \<noteq> None then e else e\<lparr>e_indexes := hm_insert k v (e_indexes e)\<rparr>)"

definition entry_cid :: "('s, 'b) env \<Rightarrow> entry \<Rightarrow> string result" where
  "entry_cid E e =
     (case e_message e of
        E_Write w \<Rightarrow> write_cid E w
      | E_Delete d \<Rightarrow> delete_cid E d
      | E_Configure c \<Rightarrow> configure_cid E c)"

definition entry_descriptor :: "entry \<Rightarrow> descriptor" where
  "entry_descriptor e =
     (case e_message e of
        E_Write w \<Rightarrow> wd_base (w_descriptor w)
      | E_Delete d \<Rightarrow> del_base (del_descriptor d)
      | E_Configure c \<Rightarrow> cd_base (cfg_descriptor c))"

definition as_write :: "entry \<Rightarrow> write_msg option" where
  "as_write e = (case e_message e of E_Write w \<Rightarrow> Some w | _ \<Rightarrow> None)"

definition as_delete :: "entry \<Rightarrow> delete option" where
  "as_delete e = (case e_message e of E_Delete d \<Rightarrow> Some d | _ \<Rightarrow> None)"

definition as_configure :: "entry \<Rightarrow> configure option" where
  "as_configure e = (case e_message e of E_Configure c \<Rightarrow> Some c | _ \<Rightarrow> None)"

text \<open>The \<open>TryFrom<Entry>\<close> conversions.\<close>

definition write_try_from :: "entry \<Rightarrow> write_msg result" where
  "write_try_from e = some_or (as_write e) (BadRequest ''expected `RecordsWrite` message'')"

definition delete_try_from :: "entry \<Rightarrow> delete result" where
  "delete_try_from e = some_or (as_delete e) (BadRequest ''expected `RecordsDelete` message'')"

definition configure_try_from :: "entry \<Rightarrow> configure result" where
  "configure_try_from e = some_or (as_configure e) (BadRequest ''expected `ProtocolsConfigure` message'')"

section \<open>Matchers\<close>

datatype match_on = MO_Equal string | MO_StartsWith string | MO_OneOf "string list"
  | MO_Range "usize value_range" | MO_DateRange date_range

record matcher =
  m_field :: string
  m_value :: match_on

record match_set =
  mst_inner :: "matcher list"
  mst_index :: "(string \<times> string) option"

record query =
  q_match_sets :: "match_set list"
  q_sort :: sort
  q_pagination :: "pagination option"

definition matcher_is_match :: "('s, 'b) env \<Rightarrow> matcher \<Rightarrow> string \<Rightarrow> bool result" where
  "matcher_is_match E m v =
     (case m_value m of
        MO_Equal f \<Rightarrow> Inr (v = f)
      | MO_StartsWith f \<Rightarrow> Inr (starts_with v f)
      | MO_OneOf fs \<Rightarrow> Inr (v \<in> set fs)
      | MO_Range r \<Rightarrow>
          rbind (map_err (\<lambda>e. BadRequest (''issue parsing usize: '' @ e)) (parse_usize v)) (\<lambda>n.
          Inr (range_contains r n))
      | MO_DateRange r \<Rightarrow>
          rbind (map_err (\<lambda>e. BadRequest (''issue parsing date: '' @ e)) (parse_rfc3339 E v)) (\<lambda>d.
          Inr (date_range_contains r d)))"

primrec sort_str :: "sort \<Rightarrow> string" where
  "sort_str CreatedAsc = ''dateCreated''"
| "sort_str CreatedDesc = ''dateCreated''"
| "sort_str PublishedAsc = ''datePublished''"
| "sort_str PublishedDesc = ''datePublished''"
| "sort_str TimestampAsc = ''messageTimestamp''"
| "sort_str TimestampDesc = ''messageTimestamp''"

definition sort_is_ascending :: "sort \<Rightarrow> bool" where
  "sort_is_ascending s \<longleftrightarrow> s \<in> {CreatedAsc, PublishedAsc, TimestampAsc}"

definition query_is_concise :: "query \<Rightarrow> bool" where
  "query_is_concise q =
     (if q_match_sets q = [] then False
      else list_all (\<lambda>ms. case mst_index ms of None \<Rightarrow> False | Some (_, v) \<Rightarrow> v \<noteq> []) (q_match_sets q))"

section \<open>Records filters\<close>

definition records_filter_new :: records_filter where
  "records_filter_new =
     \<lparr>rf_record_id = None, rf_author = None, rf_attester = None, rf_recipient = None,
      rf_context_id = None, rf_parent_id = None, rf_protocol = None, rf_protocol_path = None,
      rf_schema = None, rf_data_format = None, rf_tags = None, rf_data_cid = None,
      rf_data_size = None, rf_published = None, rf_date_published = None, rf_date_created = None,
      rf_date_updated = None\<rparr>"

definition add_author :: "string \<Rightarrow> records_filter \<Rightarrow> records_filter" where
  "add_author a f =
     (case rf_author f of
        Some (Many xs) \<Rightarrow> f\<lparr>rf_author := Some (Many (xs @ [a]))\<rparr>
      | Some (One x) \<Rightarrow> f\<lparr>rf_author := Some (Many [x, a])\<rparr>
      | None \<Rightarrow> f\<lparr>rf_author := Some (One a)\<rparr>)"

definition add_recipient :: "string \<Rightarrow> records_filter \<Rightarrow> records_filter" where
  "add_recipient a f =
     (case rf_recipient f of
        Some (Many xs) \<Rightarrow> f\<lparr>rf_recipient := Some (Many (xs @ [a]))\<rparr>
      | Some (One x) \<Rightarrow> f\<lparr>rf_recipient := Some (Many [x, a])\<rparr>
      | None \<Rightarrow> f\<lparr>rf_recipient := Some (One a)\<rparr>)"

definition filter_is_concise :: "records_filter \<Rightarrow> bool" where
  "filter_is_concise f \<longleftrightarrow> rf_record_id f \<noteq> None \<or> rf_protocol_path f \<noteq> None
     \<or> rf_context_id f \<noteq> None \<or> rf_parent_id f \<noteq> None \<or> rf_schema f \<noteq> None"

definition filter_as_concise :: "records_filter \<Rightarrow> (string \<times> string) option" where
  "filter_as_concise f =
     (case rf_record_id f of Some v \<Rightarrow> Some (''recordId'', v) | None \<Rightarrow>
     (case rf_protocol_path f of Some v \<Rightarrow> Some (''protocolPath'', v) | None \<Rightarrow>
     (case rf_context_id f of Some v \<Rightarrow> Some (''contextId'', v) | None \<Rightarrow>
     (case rf_parent_id f of Some v \<Rightarrow> Some (''parentId'', v) | None \<Rightarrow>
     (case rf_schema f of Some v \<Rightarrow> Some (''schema'', v) | None \<Rightarrow> None)))))"

abbreviation match_eq :: "string \<Rightarrow> string \<Rightarrow> matcher" where
  "match_eq f v \<equiv> \<lparr>m_field = f, m_value = MO_Equal v\<rparr>"

definition opt_match :: "string \<Rightarrow> ('a \<Rightarrow> match_on) \<Rightarrow> 'a option \<Rightarrow> matcher list" where
  "opt_match f g v = (case v of None \<Rightarrow> [] | Some x \<Rightarrow> [\<lparr>m_field = f, m_value = g x\<rparr>])"

definition tag_matchers :: "string \<times> tag_filter \<Rightarrow> matcher list" where
  "tag_matchers p =
     (case snd p of
        TF_Equal v \<Rightarrow> opt_match (''tag.'' @ fst p) MO_Equal (tag_as_str v)
      | TF_StartsWith v \<Rightarrow> [match_eq (''tag.'' @ fst p) v]
      | TF_Range r \<Rightarrow> [\<lparr>m_field = ''tag.'' @ fst p, m_value = MO_Range r\<rparr>])"

definition match_set_from :: "records_filter \<Rightarrow> match_set" where
  "match_set_from f =
     \<lparr>mst_inner =
        [match_eq ''interface'' (interface_str I_Records)]
        @ opt_match ''recordId'' MO_Equal (rf_record_id f)
        @ opt_match ''published'' (\<lambda>b. MO_Equal (bool_str b)) (rf_published f)
        @ opt_match ''author'' (\<lambda>a. MO_OneOf (to_vec a)) (rf_author f)
        @ opt_match ''recipient'' (\<lambda>a. MO_OneOf (to_vec a)) (rf_recipient f)
        @ opt_match ''protocol'' MO_Equal (rf_protocol f)
        @ opt_match ''protocolPath'' MO_Equal (rf_protocol_path f)
        @ opt_match ''contextId'' MO_StartsWith (rf_context_id f)
        @ opt_match ''schema'' MO_Equal (rf_schema f)
        @ opt_match ''parentId'' MO_Equal (rf_parent_id f)
        @ opt_match ''dataFormat'' MO_Equal (rf_data_format f)
        @ opt_match ''dataSize'' MO_Range (rf_data_size f)
        @ opt_match ''dataCid'' MO_Equal (rf_data_cid f)
        @ opt_match ''dateCreated'' MO_DateRange (rf_date_created f)
        @ opt_match ''datePublished'' MO_DateRange (rf_date_published f)
        @ opt_match ''messageTimestamp'' MO_DateRange (rf_date_updated f)
        @ opt_match ''attester'' MO_Equal (rf_attester f)
        @ (case rf_tags f of None \<Rightarrow> [] | Some ts \<Rightarrow> concat (map tag_matchers ts)),
      mst_index = (if filter_is_concise f then filter_as_concise f else None)\<rparr>"

section \<open>Queries\<close>

definition query_from_records_query :: "records_query \<Rightarrow> query" where
  "query_from_records_query q =
     (let d = rq_descriptor q; ms = match_set_from (qd_filter d) in
      \<lparr>q_match_sets = [ms\<lparr>mst_inner := match_eq ''method'' (method_str M_Write) # mst_inner ms
           @ [match_eq ''initial'' (bool_str False)]\<rparr>],
       q_sort = (case qd_date_sort d of None \<Rightarrow> TimestampAsc | Some s \<Rightarrow> s),
       q_pagination = qd_pagination d\<rparr>)"

definition query_from_read :: "read \<Rightarrow> query" where
  "query_from_read r =
     (let ms = match_set_from (rd_filter (rd_descriptor r)) in
      \<lparr>q_match_sets = [ms\<lparr>mst_inner := mst_inner ms @ [match_eq ''initial'' (bool_str False)]\<rparr>],
       q_sort = TimestampAsc, q_pagination = None\<rparr>)"

text \<open>One filter of a messages query gives two match sets when it names a protocol.\<close>

definition messages_match_sets :: "messages_filter \<Rightarrow> match_set list" where
  "messages_match_sets f =
     (let inner = opt_match ''interface'' (\<lambda>i. MO_Equal (interface_str i)) (mf_interface f)
            @ opt_match ''method'' (\<lambda>m. MO_Equal (method_str m)) (mf_method f)
            @ opt_match ''messageTimestamp'' MO_DateRange (mf_message_timestamp f) in
      case mf_protocol f of
        None \<Rightarrow> [\<lparr>mst_inner = inner, mst_index = None\<rparr>]
      | Some p \<Rightarrow> [\<lparr>mst_inner = inner @ [match_eq ''tag.protocol'' p], mst_index = None\<rparr>,
                   \<lparr>mst_inner = inner @ [match_eq ''protocol'' p], mst_index = None\<rparr>])"

definition query_from_messages_query :: "messages_query \<Rightarrow> query" where
  "query_from_messages_query q =
     \<lparr>q_match_sets = concat (map messages_match_sets (mq_filters q)),
      q_sort = TimestampAsc, q_pagination = None\<rparr>"

text \<open>\<open>ProtocolsQueryBuilder::build\<close>.\<close>

definition protocols_query_build :: "string option \<Rightarrow> bool option \<Rightarrow> query" where
  "protocols_query_build protocol published =
     \<lparr>q_match_sets =
        [\<lparr>mst_inner = [match_eq ''interface'' (interface_str I_Protocols)]
            @ opt_match ''protocol'' MO_Equal protocol
            @ opt_match ''published'' (\<lambda>b. MO_Equal (bool_str b)) published,
          mst_index = Some (''protocol'', [])\<rparr>],
      q_sort = TimestampAsc, q_pagination = None\<rparr>"

record records_query_builder =
  rqb_filters :: "records_filter list"
  rqb_method :: "dwn_method option"
  rqb_include_archived :: bool
  rqb_sort :: sort
  rqb_pagination :: "pagination option"

definition records_query_builder_new :: records_query_builder where
  "records_query_builder_new =
     \<lparr>rqb_filters = [], rqb_method = Some M_Write, rqb_include_archived = False,
      rqb_sort = TimestampAsc, rqb_pagination = None\<rparr>"

definition add_filter :: "records_filter \<Rightarrow> records_query_builder \<Rightarrow> records_query_builder" where
  "add_filter f b = b\<lparr>rqb_filters := rqb_filters b @ [f]\<rparr>"

definition builder_match_set :: "records_query_builder \<Rightarrow> records_filter \<Rightarrow> match_set" where
  "builder_match_set b f =
     (let ms = match_set_from f in
      \<lparr>mst_inner = opt_match ''method'' (\<lambda>m. MO_Equal (method_str m)) (rqb_method b)
          @ (if rqb_include_archived b then [] else [match_eq ''initial'' (bool_str False)])
          @ mst_inner ms,
       mst_index = mst_index ms\<rparr>)"

definition records_query_build :: "records_query_builder \<Rightarrow> query" where
  "records_query_build b =
     \<lparr>q_match_sets = map (builder_match_set b) (rqb_filters b),
      q_sort = rqb_sort b, q_pagination = rqb_pagination b\<rparr>"

text \<open>\<open>GrantedQueryBuilder::build\<close>.\<close>

definition granted_query_build :: "string option \<Rightarrow> date_range option \<Rightarrow> query" where
  "granted_query_build grant_id date_created =
     \<lparr>q_match_sets =
        [\<lparr>mst_inner = [match_eq ''interface'' (interface_str I_Records),
              match_eq ''method'' (method_str M_Write)]
            @ opt_match ''permissionGrantId'' MO_Equal grant_id
            @ opt_match ''dateCreated'' MO_DateRange date_created,
          mst_index = Some (''protocol'', [])\<rparr>],
      q_sort = TimestampAsc, q_pagination = None\<rparr>"

end
