(* ===== verification/Data_Store.thy ===== *)
theory Data_Store
  imports Env
begin

text \<open>
  Blocks and record data (\<open>src/src/store/block.rs\<close>, \<open>src/src/store/data.rs\<close>, \<open>cid::from_reader\<close> of
  \<open>src/src/utils.rs\<close>). A record's data is cut into chunks of 64 bytes, each stored as a block, and a
  root block lists the links to the chunks; the root block is stored under an identifier made from
  the record's id and the data's CID. The lemmas show that what is written is read back.
\<close>

definition MAX_BLOCK_SIZE :: nat where
  "MAX_BLOCK_SIZE = 1048576"

definition MAX_ENCODED_SIZE :: usize where
  "MAX_ENCODED_SIZE = 30000"

definition CHUNK_SIZE :: nat where
  "CHUNK_SIZE = 64"

definition DATA_PARTITION :: string where
  "DATA_PARTITION = ''DATA''"

section \<open>Blocks\<close>

text \<open>\<open>block::encode\<close>; its error is an \<open>anyhow\<close> error.\<close>

definition block_encode :: "('s, 'b) env \<Rightarrow> block \<Rightarrow> string + 'b" where
  "block_encode E v =
     (case dag_encode E v of
        Inl e \<Rightarrow> Inl e
      | Inr d \<Rightarrow> if dag_size E d > MAX_BLOCK_SIZE then Inl ''block is too large'' else Inr d)"

text \<open>\<open>Block::encode\<close>: the encoded block with its CID.\<close>

definition block_new :: "('s, 'b) env \<Rightarrow> ipld \<Rightarrow> (string \<times> 'b) result" where
  "block_new E v =
     (case block_encode E (B_Ipld v) of
        Inl e \<Rightarrow> Inl (Err (internal ''anyhow'' e))
      | Inr d \<Rightarrow> (case cid_value E (P_Ipld v) of
          Inl e \<Rightarrow> Inl (Err (internal ''anyhow'' (error_display (internal ''ciborium'' e))))
        | Inr c \<Rightarrow> Inr (c, d)))"

section \<open>Record data\<close>

text \<open>
  The identifier of the root block. The source builds the map with \<open>BTreeMap::from\<close>, so its entries
  are in key order.
\<close>

definition root_cid :: "('s, 'b) env \<Rightarrow> string \<Rightarrow> string \<Rightarrow> string result" where
  "root_cid E record_id data_cid =
     rbind (block_new E (Ipld_Map
       [(''data_cid'', Ipld_String data_cid), (''record_id'', Ipld_String record_id)]))
     (\<lambda>(c, d). Inr c)"

text \<open>
  The loop of \<open>put\<close>. The reader is the source's \<open>Cursor\<close> over the data: each read returns the next
  chunk, and an empty read ends the loop.
\<close>

function put_chunks :: "('s, 'b) env \<Rightarrow> string \<Rightarrow> bytes \<Rightarrow> ipld list \<Rightarrow> usize \<Rightarrow> ('s, ipld list \<times> usize) io" where
  "put_chunks E ow reader links byte_count =
     (if reader = [] then sret (links, byte_count)
      else
        let buffer = take CHUNK_SIZE reader in
        sbind (lift (block_new E (Ipld_Bytes buffer))) (\<lambda>(cid, data).
        sbind (with_err (\<lambda>e. BadRequest (''issue storing data: '' @ e)) (bs_put E ow DATA_PARTITION cid data)) (\<lambda>_.
        sbind (lift (map_err (\<lambda>e. BadRequest (''issue parsing CID: '' @ e)) (cid_parse E cid))) (\<lambda>link.
        put_chunks E ow (drop (length buffer) reader) (links @ [Ipld_Link link])
          (byte_count + of_nat (length buffer))))))"
  by pat_completeness auto
termination
  by (relation "measure (\<lambda>(E, ow, reader, links, n). length reader)") (auto simp: CHUNK_SIZE_def)

declare put_chunks.simps [simp del]

definition data_put :: "('s, 'b) env \<Rightarrow> string \<Rightarrow> string \<Rightarrow> string \<Rightarrow> bytes \<Rightarrow> ('s, string \<times> usize) io" where
  "data_put E ow record_id data_cid reader =
     sbind (put_chunks E ow reader [] 0) (\<lambda>(links, byte_count).
     sbind (lift (block_new E (Ipld_List links))) (\<lambda>(cid, data).
     sbind (lift (root_cid E record_id data_cid)) (\<lambda>root.
     sbind (anyhow (bs_put E ow DATA_PARTITION root data)) (\<lambda>_.
     sret (cid, byte_count)))))"

text \<open>The loop of \<open>get\<close> over the links of the root block; \<open>None\<close> when a block is missing.\<close>

fun get_chunks :: "('s, 'b) env \<Rightarrow> string \<Rightarrow> ipld list \<Rightarrow> bytes \<Rightarrow> ('s, bytes option) io" where
  "get_chunks E ow [] buf = sret (Some buf)"
| "get_chunks E ow (link # links) buf =
     (case link of
        Ipld_Link link_cid \<Rightarrow>
          sbind (anyhow (bs_get E ow DATA_PARTITION link_cid)) (\<lambda>found.
          case found of
            None \<Rightarrow> sret None
          | Some d \<Rightarrow>
              sbind (lift (map_err (internal ''anyhow'') (dag_decode_ipld E d))) (\<lambda>v.
              case v of
                Ipld_Bytes b \<Rightarrow> get_chunks E ow links (buf @ b)
              | _ \<Rightarrow> sret None))
      | _ \<Rightarrow> sfail (Err (BadRequest ''invalid link'')))"

definition data_get :: "('s, 'b) env \<Rightarrow> string \<Rightarrow> string \<Rightarrow> string \<Rightarrow> ('s, bytes option) io" where
  "data_get E ow record_id data_cid =
     sbind (lift (root_cid E record_id data_cid)) (\<lambda>root.
     sbind (anyhow (bs_get E ow DATA_PARTITION root)) (\<lambda>found.
     case found of
       None \<Rightarrow> sret None
     | Some d \<Rightarrow>
         sbind (lift (map_err (internal ''anyhow'') (dag_decode_ipld E d))) (\<lambda>v.
         case v of
           Ipld_List links \<Rightarrow> get_chunks E ow links []
         | _ \<Rightarrow> sret None)))"

definition data_delete :: "('s, 'b) env \<Rightarrow> string \<Rightarrow> string \<Rightarrow> string \<Rightarrow> ('s, unit) io" where
  "data_delete E ow record_id data_cid =
     sbind (lift (root_cid E record_id data_cid)) (\<lambda>root.
     anyhow (bs_delete E ow DATA_PARTITION root))"

text \<open>
  \<open>cid::from_reader\<close> runs \<open>data::put\<close> on a mock store whose \<open>put\<close> does nothing, for the CID and the
  size only.
\<close>

definition mock_store :: "('s, 'b) env \<Rightarrow> ('s, 'b) env" where
  "mock_store E = E\<lparr>bs_put := (\<lambda>_ _ _ _ s. (Inr (), s))\<rparr>"

definition from_reader :: "('s, 'b) env \<Rightarrow> bytes \<Rightarrow> ('s, string \<times> usize) io" where
  "from_reader E reader = data_put (mock_store E) ''owner'' ''record_id'' ''data_cid'' reader"

section \<open>Reading back what was written\<close>

text \<open>The chunks of a reader, in order.\<close>

function chunks :: "bytes \<Rightarrow> bytes list" where
  "chunks reader = (if reader = [] then [] else take CHUNK_SIZE reader # chunks (drop CHUNK_SIZE reader))"
  by pat_completeness auto
termination
  by (relation "measure length") (auto simp: CHUNK_SIZE_def)

declare chunks.simps [simp del]

lemma chunks_Nil [simp]: "chunks [] = []"
  by (subst chunks.simps) simp

lemma chunks_ne: "r \<noteq> [] \<Longrightarrow> chunks r = take CHUNK_SIZE r # chunks (drop CHUNK_SIZE r)"
  by (subst chunks.simps) simp

lemma concat_chunks: "concat (chunks r) = r"
proof (induction r rule: chunks.induct)
  case (1 r)
  then show ?case by (cases "r = []") (simp_all add: chunks_ne)
qed

lemma chunks_bound: "c \<in> set (chunks r) \<Longrightarrow> 0 < length c \<and> length c \<le> CHUNK_SIZE"
proof (induction r rule: chunks.induct)
  case (1 r)
  then show ?case by (cases "r = []") (auto simp: chunks_ne CHUNK_SIZE_def)
qed

lemma drop_take_length: "drop (length (take n r)) r = drop n r"
  by (cases "n \<le> length r") simp_all

lemma block_encode_Inr:
  "block_encode E v = Inr d \<longleftrightarrow> dag_encode E v = Inr d \<and> dag_size E d \<le> MAX_BLOCK_SIZE"
  by (auto simp: block_encode_def split: sum.splits if_splits)

lemma block_new_Inr: "block_new E v = Inr (c, d) \<longleftrightarrow>
    block_encode E (B_Ipld v) = Inr d \<and> cid_value E (P_Ipld v) = Inr c"
  by (auto simp: block_new_def split: sum.splits)

text \<open>The values whose CID is used as a key of the data partition: chunks and root identifiers.\<close>

fun addressed :: "ipld \<Rightarrow> bool" where
  "addressed (Ipld_Bytes b) = True"
| "addressed (Ipld_Map [(k, Ipld_String a), (l, Ipld_String b)]) = True"
| "addressed _ = False"

text \<open>
  The contract of the data store's surroundings: the block store, the codec, and content identifiers
  that are accepted by the store, parse to themselves, and do not collide on the values they address.
\<close>

locale data_store = block_store E cell good view + codec E
  for E :: "('s, 'b) env" and cell :: "string \<Rightarrow> string \<Rightarrow> string \<Rightarrow> 'k"
    and good :: "string \<Rightarrow> bool" and view :: "'s \<Rightarrow> 'k \<Rightarrow> 'b option" +
  assumes cid_good: "cid_value E p = Inr c \<Longrightarrow> good c \<and> cid_parse E c = Inr c"
    and leaf_unique: "addressed v \<Longrightarrow> cid_value E (P_Ipld v) = Inr c \<Longrightarrow> cid_value E p = Inr c \<Longrightarrow>
      p = P_Ipld v"
begin

definition holds :: "'s \<Rightarrow> string \<Rightarrow> string \<Rightarrow> bytes \<Rightarrow> bool" where
  "holds s ow c b \<longleftrightarrow> cid_value E (P_Ipld (Ipld_Bytes b)) = Inr c \<and>
     (\<exists>d. dag_encode E (B_Ipld (Ipld_Bytes b)) = Inr d \<and> view s (cell ow DATA_PARTITION c) = Some d)"

lemma holds_put_same:
  assumes "block_new E (Ipld_Bytes b) = Inr (c, d)"
    and "view t = (view s)(cell ow DATA_PARTITION c \<mapsto> d)"
  shows "holds t ow c b"
  using assms by (auto simp: holds_def block_new_Inr block_encode_Inr)

lemma holds_put:
  assumes "holds s ow c b" and "cid_value E p = Inr c'" and "good c'"
    and "p = P_Ipld (Ipld_Bytes b) \<Longrightarrow> dag_encode E (B_Ipld (Ipld_Bytes b)) = Inr d"
    and "view t = (view s)(cell ow DATA_PARTITION c' \<mapsto> d)"
  shows "holds t ow c b"
proof (cases "c = c'")
  case True
  with assms(1,2) have "p = P_Ipld (Ipld_Bytes b)"
    using leaf_unique [of "Ipld_Bytes b" c p] by (auto simp: holds_def)
  with assms True show ?thesis by (auto simp: holds_def)
next
  case False
  from assms(1) have "good c" using cid_good by (auto simp: holds_def)
  with False assms show ?thesis using cell_cid by (fastforce simp: holds_def)
qed

lemma put_chunks_Nil [simp]: "put_chunks E ow [] ls n = sret (ls, n)"
  by (subst put_chunks.simps) simp

lemma put_step:
  assumes "rd \<noteq> []" and "put_chunks E ow rd ls n s = (Inr r, t)"
  obtains c d u where "block_new E (Ipld_Bytes (take CHUNK_SIZE rd)) = Inr (c, d)"
    and "view u = (view s)(cell ow DATA_PARTITION c \<mapsto> d)"
    and "put_chunks E ow (drop CHUNK_SIZE rd) (ls @ [Ipld_Link c])
      (n + of_nat (length (take CHUNK_SIZE rd))) u = (Inr r, t)"
proof -
  let ?b = "take CHUNK_SIZE rd"
  from assms obtain c d u link where new: "block_new E (Ipld_Bytes ?b) = Inr (c, d)"
    and bs: "bs_put E ow DATA_PARTITION c d s = (Inr (), u)"
    and link: "cid_parse E c = Inr link"
    and rest: "put_chunks E ow (drop (length ?b) rd) (ls @ [Ipld_Link link])
      (n + of_nat (length ?b)) u = (Inr r, t)"
    by (auto simp: put_chunks.simps [of E ow rd ls n] Let_def monad_simps
        simp del: length_take split: prod.splits)
  from new have "good c" and "cid_parse E c = Inr c"
    using cid_good by (auto simp: block_new_Inr)
  moreover from this put [of c ow DATA_PARTITION d s] bs
  have "view u = (view s)(cell ow DATA_PARTITION c \<mapsto> d)" by auto
  ultimately show thesis
    using that new rest link drop_take_length [of CHUNK_SIZE rd] by simp
qed

lemma holds_put_chunk:
  assumes "holds s ow c b" and "block_new E (Ipld_Bytes b') = Inr (c', d)"
    and "view t = (view s)(cell ow DATA_PARTITION c' \<mapsto> d)"
  shows "holds t ow c b"
  using assms(2) by (intro holds_put [OF assms(1) _ _ _ assms(3)])
    (auto simp: block_new_Inr block_encode_Inr dest: cid_good)

lemma put_chunks_spec:
  assumes "put_chunks E ow rd ls n s = (Inr (ls', m), t)"
  shows "\<exists>cs. ls' = ls @ map Ipld_Link cs \<and> m = n + of_nat (length rd) \<and>
     list_all2 (holds t ow) cs (chunks rd) \<and> (\<forall>c b. holds s ow c b \<longrightarrow> holds t ow c b)"
  using assms
proof (induction rd arbitrary: ls n s rule: chunks.induct)
  case (1 rd)
  show ?case
  proof (cases "rd = []")
    case True
    with 1 show ?thesis by (auto simp: monad_simps)
  next
    case False
    from put_step [OF this "1.prems"] obtain c d u
      where new: "block_new E (Ipld_Bytes (take CHUNK_SIZE rd)) = Inr (c, d)"
        and u: "view u = (view s)(cell ow DATA_PARTITION c \<mapsto> d)"
        and rest: "put_chunks E ow (drop CHUNK_SIZE rd) (ls @ [Ipld_Link c])
          (n + of_nat (length (take CHUNK_SIZE rd))) u = (Inr (ls', m), t)"
      by metis
    from "1.IH" [OF False rest] obtain cs
      where cs: "ls' = (ls @ [Ipld_Link c]) @ map Ipld_Link cs"
        and m: "m = n + of_nat (length (take CHUNK_SIZE rd)) + of_nat (length (drop CHUNK_SIZE rd))"
        and all: "list_all2 (holds t ow) cs (chunks (drop CHUNK_SIZE rd))"
        and keep: "\<forall>c b. holds u ow c b \<longrightarrow> holds t ow c b"
      by blast
    have "length (take CHUNK_SIZE rd) + length (drop CHUNK_SIZE rd) = length rd"
      by (metis append_take_drop_id length_append)
    with m have "m = n + of_nat (length rd)"
      by (metis add.assoc of_nat_add)
    moreover have "holds t ow c (take CHUNK_SIZE rd)"
      using keep holds_put_same [OF new u] by blast
    moreover have "\<forall>c b. holds s ow c b \<longrightarrow> holds t ow c b"
      using keep holds_put_chunk [OF _ new u] by blast
    ultimately show ?thesis
      using cs all False by (intro exI [of _ "c # cs"]) (simp add: chunks_ne)
  qed
qed

lemma get_chunks_holds:
  "list_all2 (holds s ow) cs bs \<Longrightarrow>
     get_chunks E ow (map Ipld_Link cs) buf s = (Inr (Some (buf @ concat bs)), s)"
proof (induction cs arbitrary: bs buf)
  case (Cons c cs)
  then obtain b bs' where bs: "bs = b # bs'" and h: "holds s ow c b"
    and tl: "list_all2 (holds s ow) cs bs'"
    by (auto simp: list_all2_Cons1)
  from h obtain d where "good c" and "view s (cell ow DATA_PARTITION c) = Some d"
    and "dag_decode_ipld E d = Inr (Ipld_Bytes b)"
    using cid_good decode_ipld by (auto simp: holds_def)
  then show ?case
    using Cons.IH [OF tl] bs by (simp add: sbind_def lift_def)
qed (simp add: sret_def)

lemma root_cid_Inr: "root_cid E r dc = Inr c \<longleftrightarrow>
    (\<exists>d. block_new E (Ipld_Map [(''data_cid'', Ipld_String dc), (''record_id'', Ipld_String r)]) = Inr (c, d))"
  by (auto simp: root_cid_def monad_simps)

lemma root_cid_good: "root_cid E r dc = Inr c \<Longrightarrow> good c"
  using cid_good by (auto simp: root_cid_Inr block_new_Inr)

theorem put_get:
  assumes "data_put E ow r dc data s = (Inr (cid, n), t)"
  shows "data_get E ow r dc t = (Inr (Some data), t)" and "n = of_nat (length data)"
proof -
  from assms obtain ls d root u w where chunked: "put_chunks E ow data [] 0 s = (Inr (ls, n), u)"
    and root_block: "block_new E (Ipld_List ls) = Inr (cid, d)"
    and root: "root_cid E r dc = Inr root"
    and bs: "bs_put E ow DATA_PARTITION root d u = (Inr (), t)"
    by (auto simp: data_put_def monad_simps split: prod.splits)
  from put_chunks_spec [OF chunked] obtain cs where ls: "ls = map Ipld_Link cs"
    and n: "n = of_nat (length data)" and all: "list_all2 (holds u ow) cs (chunks data)"
    by auto
  from root_cid_good [OF root] have "good root" .
  with put [of root ow DATA_PARTITION d u] bs
  have t: "view t = (view u)(cell ow DATA_PARTITION root \<mapsto> d)" by auto
  have "holds t ow c b" if "holds u ow c b" for c b
    using root that by (intro holds_put [OF that _ \<open>good root\<close> _ t])
      (auto simp: root_cid_Inr block_new_Inr)
  with all have "list_all2 (holds t ow) cs (chunks data)"
    by (auto intro: list_all2_mono)
  from get_chunks_holds [OF this, of "[]"] ls
  have "get_chunks E ow ls [] t = (Inr (Some data), t)" by (simp add: concat_chunks)
  moreover have "dag_decode_ipld E d = Inr (Ipld_List ls)"
    using root_block decode_ipld by (auto simp: block_new_Inr block_encode_Inr)
  ultimately show "data_get E ow r dc t = (Inr (Some data), t)"
    using root \<open>good root\<close> t by (simp add: data_get_def sbind_def lift_def)
  show "n = of_nat (length data)" by (rule n)
qed

text \<open>After a delete the data of the record is gone.\<close>

theorem delete_get:
  assumes "data_delete E ow r dc s = (Inr (), t)"
  shows "data_get E ow r dc t = (Inr None, t)"
proof -
  from assms obtain root where root: "root_cid E r dc = Inr root"
    and bs: "bs_delete E ow DATA_PARTITION root s = (Inr (), t)"
    by (auto simp: data_delete_def monad_simps)
  from root_cid_good [OF root] have "good root" .
  with delete [of root ow DATA_PARTITION s] bs
  have "view t = (view s)(cell ow DATA_PARTITION root := None)" by auto
  with root \<open>good root\<close> show ?thesis
    by (simp add: data_get_def sbind_def lift_def sret_def)
qed

end

section \<open>The CID of a reader\<close>

lemma mock_store_fields [simp]:
  "dag_encode (mock_store E) = dag_encode E" "dag_size (mock_store E) = dag_size E"
  "cid_value (mock_store E) = cid_value E" "cid_parse (mock_store E) = cid_parse E"
  "bs_put (mock_store E) ow pa c d s = (Inr (), s)"
  by (simp_all add: mock_store_def)

lemma mock_put [simp]: "with_err f (bs_put (mock_store E) ow pa c d) = sret ()"
  by (simp add: fun_eq_iff with_err_def sret_def)

lemma block_new_mock [simp]: "block_new (mock_store E) v = block_new E v"
  unfolding block_new_def block_encode_def mock_store_fields ..

lemma root_cid_mock [simp]: "root_cid (mock_store E) r dc = root_cid E r dc"
  by (simp add: root_cid_def)

lemma put_chunks_mock:
  "put_chunks E ow rd ls n s = (Inr x, t) \<Longrightarrow> put_chunks (mock_store E) ow' rd ls n s' = (Inr x, s')"
proof (induction rd arbitrary: ls n s s' rule: chunks.induct)
  case (1 rd)
  show ?case
  proof (cases "rd = []")
    case True
    with 1 show ?thesis by (simp add: put_chunks.simps [of _ _ "[]"] sret_def)
  next
    case False
    let ?b = "take CHUNK_SIZE rd"
    from False "1.prems" obtain c d u link where new: "block_new E (Ipld_Bytes ?b) = Inr (c, d)"
      and link: "cid_parse E c = Inr link"
      and rest: "put_chunks E ow (drop (length ?b) rd) (ls @ [Ipld_Link link])
        (n + of_nat (length ?b)) u = (Inr x, t)"
      by (auto simp: put_chunks.simps [of E ow rd ls n] Let_def monad_simps
          simp del: length_take split: prod.splits)
    have "put_chunks (mock_store E) ow' (drop (length ?b) rd) (ls @ [Ipld_Link link])
        (n + of_nat (length ?b)) s' = (Inr x, s')"
      using "1.IH" [OF False] rest drop_take_length [of CHUNK_SIZE rd] by simp
    with False new link show ?thesis
      by (subst put_chunks.simps) (simp add: Let_def del: length_take)
  qed
qed

lemma put_chunks_mock_state: "snd (put_chunks (mock_store E) ow rd ls n s) = s"
proof (induction rd arbitrary: ls n rule: chunks.induct)
  case (1 rd)
  show ?case
  proof (cases "rd = []")
    case True
    then show ?thesis by (simp add: put_chunks.simps [of _ _ "[]"] sret_def)
  next
    case False
    with "1.IH" drop_take_length [of CHUNK_SIZE rd] show ?thesis
      by (subst put_chunks.simps)
        (auto simp: Let_def sbind_lift_run simp del: length_take split: sum.splits prod.splits)
  qed
qed

lemma from_reader_state: "from_reader E rd s = (r, t) \<Longrightarrow> t = s"
  using put_chunks_mock_state [of E "''owner''" rd "[]" 0 s]
  by (auto simp: from_reader_def data_put_def sbind_def lift_def sret_def split: prod.splits sum.splits)

end
