(* ===== verification/Index_Store.thy ===== *)
theory Index_Store
  imports Store Data_Store
begin

text \<open>
  The message indexes (\<open>src/src/store/index.rs\<close>). For every owner, partition and field the node keeps
  one block with an ordered map from \<open>value NULL message_cid\<close> to the indexed fields of the message,
  and one block, for the field \<open>message_cid\<close>, from a message to its fields. A query is answered by
  \<open>query_concise\<close> when every match set names an indexed value, and by a scan of the sort field's index
  (\<open>query_full\<close>) otherwise.
\<close>

text \<open>The separators are the code points U+100000 and U+10FFFF, in UTF-8.\<close>

definition NULL_SEP :: string where
  "NULL_SEP = [CHR 0xF4, CHR 0x80, CHR 0x80, CHR 0x80]"

definition MAX_SEP :: string where
  "MAX_SEP = [CHR 0xF4, CHR 0x8F, CHR 0xBF, CHR 0xBF]"

section \<open>One index\<close>

definition index_new :: "string \<Rightarrow> index" where
  "index_new f = \<lparr>ix_field = f, ix_items = []\<rparr>"

definition index_key :: "string \<Rightarrow> string \<Rightarrow> string" where
  "index_key v cid = v @ NULL_SEP @ cid"

definition index_insert_item :: "string \<Rightarrow> index_item \<Rightarrow> index \<Rightarrow> index" where
  "index_insert_item v item ix =
     ix\<lparr>ix_items := bt_insert (index_key v (ii_message_cid item)) item (ix_items ix)\<rparr>"

definition index_remove :: "string \<Rightarrow> string \<Rightarrow> index \<Rightarrow> index" where
  "index_remove v cid ix = ix\<lparr>ix_items := bt_remove (index_key v cid) (ix_items ix)\<rparr>"

definition lower_bound :: "string option \<Rightarrow> index \<Rightarrow> (string \<times> index_item) list" where
  "lower_bound lower ix =
     (case lower of None \<Rightarrow> ix_items ix | Some k \<Rightarrow> filter (\<lambda>p. k \<le> fst p) (ix_items ix))"

definition index_matches :: "string \<Rightarrow> index \<Rightarrow> index_item list" where
  "index_matches v ix =
     (let upper = v @ MAX_SEP in map snd (filter (\<lambda>p. v < fst p \<and> fst p < upper) (ix_items ix)))"

section \<open>The index blocks of an owner\<close>

definition index_cid :: "('s, 'b) env \<Rightarrow> string \<Rightarrow> string \<Rightarrow> string result" where
  "index_cid E ow f = from_value E (P_Text (ow @ ''-'' @ f))"

definition indexes_get :: "('s, 'b) env \<Rightarrow> string \<Rightarrow> string \<Rightarrow> string \<Rightarrow> ('s, index) io" where
  "indexes_get E ow pa f =
     sbind (lift (index_cid E ow f)) (\<lambda>cid.
     sbind (anyhow (bs_get E ow pa cid)) (\<lambda>found.
     case found of
       None \<Rightarrow> sret (index_new f)
     | Some d \<Rightarrow> lift (map_err (internal ''anyhow'') (dag_decode_index E d))))"

text \<open>The old block is deleted first; the new one is encoded after that.\<close>

definition indexes_put :: "('s, 'b) env \<Rightarrow> string \<Rightarrow> string \<Rightarrow> index \<Rightarrow> ('s, unit) io" where
  "indexes_put E ow pa ix =
     sbind (lift (index_cid E ow (ix_field ix))) (\<lambda>cid.
     sbind (anyhow (bs_delete E ow pa cid)) (\<lambda>_.
     sbind (lift (map_err (internal ''anyhow'') (block_encode E (B_Index ix)))) (\<lambda>d.
     anyhow (bs_put E ow pa cid d))))"

definition index_delete :: "('s, 'b) env \<Rightarrow> string \<Rightarrow> string \<Rightarrow> string \<Rightarrow> ('s, unit) io" where
  "index_delete E ow pa message_cid =
     sbind (indexes_get E ow pa ''message_cid'') (\<lambda>messages.
     case map_of (ix_items messages) message_cid of
       None \<Rightarrow> sret ()
     | Some item \<Rightarrow>
         sfor (ii_fields item) (\<lambda>(field, value).
           sbind (indexes_get E ow pa field) (\<lambda>ix.
           indexes_put E ow pa (index_remove value message_cid ix))))"

definition index_insert :: "('s, 'b) env \<Rightarrow> string \<Rightarrow> string \<Rightarrow> entry \<Rightarrow> ('s, unit) io" where
  "index_insert E ow pa e =
     sbind (lift (entry_cid E e)) (\<lambda>message_cid.
     let item = \<lparr>ii_message_cid = message_cid, ii_fields = e_indexes e\<rparr> in
     sbind (index_delete E ow pa message_cid) (\<lambda>_.
     sbind (sfor (e_indexes e) (\<lambda>(field, value).
              sbind (indexes_get E ow pa field) (\<lambda>ix.
              indexes_put E ow pa (index_insert_item value item ix)))) (\<lambda>_.
     sbind (indexes_get E ow pa ''message_cid'') (\<lambda>ix.
     indexes_put E ow pa (ix\<lparr>ix_items := bt_insert message_cid item (ix_items ix)\<rparr>)))))"

section \<open>Queries\<close>

text \<open>Addition on \<open>usize\<close>: a panic where overflow checks are compiled in, wrap-around otherwise.\<close>

definition usize_add :: "('s, 'b) env \<Rightarrow> usize \<Rightarrow> usize \<Rightarrow> usize result" where
  "usize_add E a b =
     (if overflow_checks E \<and> 2 ^ 64 \<le> unat a + unat b then Inl (Panic ''attempt to add with overflow'')
      else Inr (a + b))"

text \<open>The matchers of one match set against one item; a field the item lacks does not match.\<close>

fun match_all :: "('s, 'b) env \<Rightarrow> matcher list \<Rightarrow> index_item \<Rightarrow> bool result" where
  "match_all E [] item = Inr True"
| "match_all E (m # ms) item =
     (case map_of (ii_fields item) (m_field m) of
        None \<Rightarrow> Inr False
      | Some v \<Rightarrow> rbind (matcher_is_match E m v) (\<lambda>b. if b then match_all E ms item else Inr False))"

type_synonym found = "string list \<times> (string \<times> index_item) list"

text \<open>The items of one match set's index: those already matched are skipped.\<close>

fun concise_items :: "('s, 'b) env \<Rightarrow> string \<Rightarrow> matcher list \<Rightarrow> index_item list \<Rightarrow> found \<Rightarrow> found result" where
  "concise_items E sort_field ms [] r = Inr r"
| "concise_items E sort_field ms (item # items) (matches, results) =
     (if ii_message_cid item \<in> set matches then concise_items E sort_field ms items (matches, results)
      else rbind (match_all E ms item) (\<lambda>b.
        if \<not> b then concise_items E sort_field ms items (matches, results)
        else (case map_of (ii_fields item) sort_field of
            None \<Rightarrow> Inl (Panic ''no entry found for key'')
          | Some v \<Rightarrow> concise_items E sort_field ms items
              (ii_message_cid item # matches, bt_insert (v @ ii_message_cid item) item results))))"

fun concise_sets :: "('s, 'b) env \<Rightarrow> string \<Rightarrow> string \<Rightarrow> string \<Rightarrow> match_set list \<Rightarrow> found \<Rightarrow> ('s, found) io" where
  "concise_sets E ow pa sort_field [] r = sret r"
| "concise_sets E ow pa sort_field (ms # mss) r =
     (case mst_index ms of
        None \<Rightarrow> concise_sets E ow pa sort_field mss r
      | Some (field, value) \<Rightarrow>
          sbind (indexes_get E ow pa field) (\<lambda>ix.
          sbind (lift (concise_items E sort_field (mst_inner ms) (index_matches value ix) r)) (\<lambda>r'.
          concise_sets E ow pa sort_field mss r')))"

fun position :: "('a \<Rightarrow> bool) \<Rightarrow> 'a list \<Rightarrow> nat option" where
  "position P [] = None"
| "position P (x # xs) = (if P x then Some 0 else map_option Suc (position P xs))"

text \<open>Slicing \<open>items[start..end]\<close> panics when the start is after the end.\<close>

definition slice :: "'a list \<Rightarrow> usize \<Rightarrow> usize \<Rightarrow> 'a list result" where
  "slice xs i j =
     (if unat j < unat i then Inl (Panic ''slice index starts after its end'')
      else Inr (take (unat j - unat i) (drop (unat i) xs)))"

definition page_start :: "pagination \<Rightarrow> index_item list \<Rightarrow> usize" where
  "page_start p items =
     (case pg_cursor p of
        None \<Rightarrow> 0
      | Some c \<Rightarrow>
          (case position (\<lambda>i. ii_message_cid i = cur_message_cid c) items of
             None \<Rightarrow> 0
           | Some n \<Rightarrow> of_nat n))"

definition paginate :: "('s, 'b) env \<Rightarrow> pagination option \<Rightarrow> index_item list \<Rightarrow> index_item list result" where
  "paginate E pg items =
     (case pg of
        None \<Rightarrow> Inr items
      | Some p \<Rightarrow>
          let limit = (case pg_limit p of None \<Rightarrow> of_nat (length items) | Some l \<Rightarrow> l);
              start = page_start p items in
          rbind (usize_add E start limit) (\<lambda>n.
          rbind (usize_add E n 1) (\<lambda>stop.
          let stop = (if stop > of_nat (length items) then of_nat (length items) else stop) in
          slice items start stop)))"

definition query_concise :: "('s, 'b) env \<Rightarrow> string \<Rightarrow> string \<Rightarrow> query \<Rightarrow> ('s, index_item list) io" where
  "query_concise E ow pa q =
     sbind (concise_sets E ow pa (sort_str (q_sort q)) (q_match_sets q) ([], [])) (\<lambda>(matches, results).
     let items = (if sort_is_ascending (q_sort q) then map snd results else rev (map snd results)) in
     lift (paginate E (q_pagination q) items))"

text \<open>
  The match sets of a full query against one item: the loop goes on after a match set has matched.
\<close>

fun full_sets :: "('s, 'b) env \<Rightarrow> match_set list \<Rightarrow> index_item \<Rightarrow> index_item list \<times> string list \<Rightarrow>
    (index_item list \<times> string list) result" where
  "full_sets E [] item r = Inr r"
| "full_sets E (ms # mss) item (items, matches) =
     rbind (match_all E (mst_inner ms) item) (\<lambda>b.
     full_sets E mss item
       (if b then (items @ [item], ii_message_cid item # matches) else (items, matches)))"

fun full_items :: "('s, 'b) env \<Rightarrow> match_set list \<Rightarrow> usize option \<Rightarrow> index_item list \<Rightarrow>
    index_item list \<times> string list \<Rightarrow> index_item list result" where
  "full_items E mss limit [] (items, matches) = Inr items"
| "full_items E mss limit (item # rest) (items, matches) =
     rbind (case limit of
              None \<Rightarrow> Inr False
            | Some l \<Rightarrow> rbind (usize_add E l 1) (\<lambda>n. Inr (of_nat (length items) = n))) (\<lambda>stop.
     if stop then Inr items
     else if ii_message_cid item \<in> set matches then full_items E mss limit rest (items, matches)
     else if mss = [] then
       full_items E mss limit rest (items @ [item], ii_message_cid item # matches)
     else rbind (full_sets E mss item (items, matches)) (\<lambda>r. full_items E mss limit rest r))"

definition query_full :: "('s, 'b) env \<Rightarrow> string \<Rightarrow> string \<Rightarrow> query \<Rightarrow> ('s, index_item list) io" where
  "query_full E ow pa q =
     (let limit = (case q_pagination q of None \<Rightarrow> None | Some p \<Rightarrow> pg_limit p);
          cur = (case q_pagination q of None \<Rightarrow> None | Some p \<Rightarrow> pg_cursor p);
          start_key = map_option (\<lambda>c. index_key (cur_value c) (cur_message_cid c)) cur in
      sbind (indexes_get E ow pa (sort_str (q_sort q))) (\<lambda>ix.
      lift (full_items E (q_match_sets q) limit (map snd (lower_bound start_key ix)) ([], []))))"

definition index_query :: "('s, 'b) env \<Rightarrow> string \<Rightarrow> string \<Rightarrow> query \<Rightarrow> ('s, index_item list) io" where
  "index_query E ow pa q =
     (if query_is_concise q then query_concise E ow pa q else query_full E ow pa q)"

end
