(* ===== verification/Message_Store.thy ===== *)
theory Message_Store
  imports Index_Store
begin

text \<open>
  The stores built on the block store and the indexes: messages (\<open>src/src/store/message.rs\<close>), the
  event log (\<open>src/src/store/event_log.rs\<close>) and resumable tasks (\<open>src/src/store/task.rs\<close>), as the
  default methods of the provider traits run them (\<open>src/src/provider.rs\<close>).
\<close>

definition MESSAGE_PARTITION :: string where
  "MESSAGE_PARTITION = ''MESSAGE''"

definition EVENTLOG_PARTITION :: string where
  "EVENTLOG_PARTITION = ''EVENTLOG''"

section \<open>Messages\<close>

definition message_put :: "('s, 'b) env \<Rightarrow> string \<Rightarrow> entry \<Rightarrow> ('s, unit) io" where
  "message_put E ow e =
     sbind (lift (entry_cid E e)) (\<lambda>message_cid.
     sbind (anyhow (bs_delete E ow MESSAGE_PARTITION message_cid)) (\<lambda>_.
     sbind (lift (map_err (internal ''anyhow'') (block_encode E (B_Entry e)))) (\<lambda>d.
     sbind (anyhow (bs_put E ow MESSAGE_PARTITION message_cid d)) (\<lambda>_.
     index_insert E ow MESSAGE_PARTITION e))))"

text \<open>The entries of the items found; a missing block is an error.\<close>

definition load_entry :: "('s, 'b) env \<Rightarrow> string \<Rightarrow> string \<Rightarrow> index_item \<Rightarrow> ('s, entry) io" where
  "load_entry E ow pa item =
     sbind (anyhow (bs_get E ow pa (ii_message_cid item))) (\<lambda>found.
     case found of
       None \<Rightarrow> sfail (Err (BadRequest ''missing block for message cid''))
     | Some d \<Rightarrow> lift (map_err (internal ''anyhow'') (dag_decode_entry E d)))"

text \<open>When a page is full, its last item becomes the cursor of the next page.\<close>

definition pop_cursor :: "query \<Rightarrow> string \<Rightarrow> index_item list \<Rightarrow> (index_item list \<times> cursor option) result" where
  "pop_cursor q field results =
     (let limit = (case q_pagination q of None \<Rightarrow> 0 | Some p \<Rightarrow>
            (case pg_limit p of None \<Rightarrow> 0 | Some l \<Rightarrow> l)) in
      if limit > 0 \<and> limit < of_nat (length results) then
        (let item = last results in
         case map_of (ii_fields item) field of
           None \<Rightarrow> Inl (Panic ''no entry found for key'')
         | Some v \<Rightarrow> Inr (butlast results, Some \<lparr>cur_message_cid = ii_message_cid item, cur_value = v\<rparr>))
      else Inr (results, None))"

definition message_query :: "('s, 'b) env \<Rightarrow> string \<Rightarrow> query \<Rightarrow> ('s, entry list \<times> cursor option) io" where
  "message_query E ow q =
     sbind (index_query E ow MESSAGE_PARTITION q) (\<lambda>results.
     sbind (lift (pop_cursor q (sort_str (q_sort q)) results)) (\<lambda>(items, cur).
     sbind (smapm items (load_entry E ow MESSAGE_PARTITION)) (\<lambda>entries.
     sret (entries, cur))))"

definition message_get :: "('s, 'b) env \<Rightarrow> string \<Rightarrow> string \<Rightarrow> ('s, entry option) io" where
  "message_get E ow message_cid =
     sbind (anyhow (bs_get E ow MESSAGE_PARTITION message_cid)) (\<lambda>found.
     case found of
       None \<Rightarrow> sret None
     | Some d \<Rightarrow> sbind (lift (map_err (internal ''anyhow'') (dag_decode_entry E d))) (\<lambda>e. sret (Some e)))"

definition message_delete :: "('s, 'b) env \<Rightarrow> string \<Rightarrow> string \<Rightarrow> ('s, unit) io" where
  "message_delete E ow message_cid =
     sbind (index_delete E ow MESSAGE_PARTITION message_cid) (\<lambda>_.
     anyhow (bs_delete E ow MESSAGE_PARTITION message_cid))"

section \<open>The event log\<close>

definition event_append :: "('s, 'b) env \<Rightarrow> string \<Rightarrow> entry \<Rightarrow> ('s, unit) io" where
  "event_append E ow e =
     sbind (lift (entry_cid E e)) (\<lambda>message_cid.
     sbind (anyhow (bs_delete E ow EVENTLOG_PARTITION message_cid)) (\<lambda>_.
     sbind (lift (map_err (internal ''anyhow'') (block_encode E (B_Entry e)))) (\<lambda>d.
     sbind (anyhow (bs_put E ow EVENTLOG_PARTITION message_cid d)) (\<lambda>_.
     sbind (\<lambda>s. case ulid_new E s of (u, t) \<Rightarrow> (Inr u, t)) (\<lambda>watermark.
     index_insert E ow EVENTLOG_PARTITION
       (e\<lparr>e_indexes := hm_insert ''watermark'' watermark (e_indexes e)\<rparr>))))))"

definition event_query :: "('s, 'b) env \<Rightarrow> string \<Rightarrow> query \<Rightarrow> ('s, entry list \<times> cursor option) io" where
  "event_query E ow q =
     sbind (index_query E ow EVENTLOG_PARTITION q) (\<lambda>results.
     sbind (lift (pop_cursor q ''watermark'' results)) (\<lambda>(items, cur).
     sbind (smapm items (load_entry E ow EVENTLOG_PARTITION)) (\<lambda>entries.
     sret (entries, cur))))"

definition event_events :: "('s, 'b) env \<Rightarrow> string \<Rightarrow> cursor option \<Rightarrow> ('s, entry list \<times> cursor option) io" where
  "event_events E ow cur =
     event_query E ow \<lparr>q_match_sets = [], q_sort = TimestampAsc,
       q_pagination = Some \<lparr>pg_limit = Some 100, pg_cursor = cur\<rparr>\<rparr>"

definition event_delete :: "('s, 'b) env \<Rightarrow> string \<Rightarrow> string \<Rightarrow> ('s, unit) io" where
  "event_delete E ow message_cid =
     sbind (index_delete E ow EVENTLOG_PARTITION message_cid) (\<lambda>_.
     anyhow (bs_delete E ow EVENTLOG_PARTITION message_cid))"

section \<open>The task store\<close>

datatype task_type = RecordsDelete delete

record resumable_task =
  task_id :: string
  task_type :: task_type
  task_timeout :: "64 word"
  task_retry_count :: "64 word"

text \<open>Registration keeps nothing; the other operations are not written yet and panic.\<close>

definition task_register :: "string \<Rightarrow> resumable_task \<Rightarrow> 64 word \<Rightarrow> ('s, unit) io" where
  "task_register ow task timeout = sret ()"

definition task_grab :: "string \<Rightarrow> 64 word \<Rightarrow> ('s, resumable_task list) io" where
  "task_grab ow count = sfail (Panic ''not yet implemented'')"

definition task_read :: "string \<Rightarrow> string \<Rightarrow> ('s, resumable_task option) io" where
  "task_read ow tid = sfail (Panic ''not yet implemented'')"

definition task_extend :: "string \<Rightarrow> string \<Rightarrow> 64 word \<Rightarrow> ('s, unit) io" where
  "task_extend ow tid timeout = sfail (Panic ''not yet implemented'')"

definition task_delete :: "string \<Rightarrow> string \<Rightarrow> ('s, unit) io" where
  "task_delete ow tid = sfail (Panic ''not yet implemented'')"

section \<open>The provider's methods\<close>

text \<open>The default \<open>purge\<close> of every store is not written yet.\<close>

definition MessageStore_purge :: "('s, unit) io" where
  "MessageStore_purge = sfail (Panic ''not yet implemented: implement purge'')"

definition DataStore_purge :: "('s, unit) io" where
  "DataStore_purge = sfail (Panic ''not yet implemented: implement purge'')"

definition TaskStore_purge :: "string \<Rightarrow> ('s, unit) io" where
  "TaskStore_purge ow = sfail (Panic ''not yet implemented'')"

definition EventLog_purge :: "('s, unit) io" where
  "EventLog_purge = sfail (Panic ''not yet implemented'')"

text \<open>The default methods of the traits, over the functions of the stores.\<close>

abbreviation MessageStore_put where "MessageStore_put E ow e \<equiv> via_provider (message_put E ow e)"
abbreviation MessageStore_query where "MessageStore_query E ow q \<equiv> via_provider (message_query E ow q)"
abbreviation MessageStore_get where "MessageStore_get E ow c \<equiv> via_provider (message_get E ow c)"
abbreviation MessageStore_delete where "MessageStore_delete E ow c \<equiv> via_provider (message_delete E ow c)"
abbreviation EventLog_append where "EventLog_append E ow e \<equiv> via_provider (event_append E ow e)"
abbreviation EventLog_query where "EventLog_query E ow q \<equiv> via_provider (event_query E ow q)"
abbreviation EventLog_delete where "EventLog_delete E ow c \<equiv> via_provider (event_delete E ow c)"
abbreviation EventLog_events where "EventLog_events E ow cur \<equiv> via_provider (event_events E ow cur)"
abbreviation TaskStore_register where "TaskStore_register ow task timeout \<equiv> via_provider (task_register ow task timeout)"
abbreviation TaskStore_grab where "TaskStore_grab ow count \<equiv> via_provider (task_grab ow count)"
abbreviation TaskStore_read where "TaskStore_read ow tid \<equiv> via_provider (task_read ow tid)"
abbreviation TaskStore_extend where "TaskStore_extend ow tid timeout \<equiv> via_provider (task_extend ow tid timeout)"
abbreviation TaskStore_delete where "TaskStore_delete ow tid \<equiv> via_provider (task_delete ow tid)"
abbreviation DataStore_put where "DataStore_put E ow r c d \<equiv> via_provider (data_put E ow r c d)"
abbreviation DataStore_get where "DataStore_get E ow r c \<equiv> via_provider (data_get E ow r c)"
abbreviation DataStore_delete where "DataStore_delete E ow r c \<equiv> via_provider (data_delete E ow r c)"
abbreviation EventStream_emit where "EventStream_emit E ow e \<equiv> anyhow (es_emit E ow e)"

end
