(* ===== verification/Index_Refinement.thy ===== *)
theory Index_Refinement
  imports Index_Store
begin

text \<open>
  The indexes as an abstract store. What the index blocks of an owner's partition hold is one map from
  message CIDs to their index fields; \<open>index_insert\<close> and \<open>index_delete\<close> update that map, and a
  concise query returns, in the order of its sort field, the messages of the map that match. The proofs
  use the contracts of the block store, the codec and the content identifiers only.
\<close>

section \<open>Keys\<close>

text \<open>The lead byte of the separators, which no CID contains.\<close>

definition sep_byte :: char where
  "sep_byte = CHR 0xF4"

lemma index_key_inj:
  assumes "index_key v c = index_key w d" and "sep_byte \<notin> set c" and "sep_byte \<notin> set d"
  shows "v = w \<and> c = d"
proof -
  from assms(1) have eq: "rev c @ rev NULL_SEP @ rev v = rev d @ rev NULL_SEP @ rev w"
    by (metis append.assoc index_key_def rev_append)
  have sep: "rev NULL_SEP = [CHR 0x80, CHR 0x80, CHR 0x80] @ [sep_byte]"
    by (simp add: NULL_SEP_def sep_byte_def)
  have split: "takeWhile (\<lambda>x. x \<noteq> sep_byte) (rev x @ rev NULL_SEP @ y) = rev x @ [CHR 0x80, CHR 0x80, CHR 0x80]"
    if "sep_byte \<notin> set x" for x y
    using that by (subst takeWhile_append2) (auto simp: sep sep_byte_def)
  from eq split [OF assms(2)] split [OF assms(3)] have "c = d" by (metis append_same_eq rev_rev_ident)
  with eq show ?thesis by simp
qed

lemma less_append_self: "(x::char list) < x @ y \<longleftrightarrow> y \<noteq> []"
  by (induction x; cases y) simp_all

lemma append_less_same: "((x::char list) @ y < x @ z) = (y < z)"
  by (induction x) auto

lemma index_key_above: "v < index_key v c"
  by (simp add: index_key_def less_append_self NULL_SEP_def)

lemma index_key_below: "index_key v c < v @ MAX_SEP"
  by (simp add: index_key_def append_less_same NULL_SEP_def MAX_SEP_def less_char_def of_char_def)

text \<open>Any longer value that does not go on with a separator's lead byte is in the range too.\<close>

lemma index_key_prefix:
  assumes "b < sep_byte"
  shows "v < index_key (v @ b # w) c" and "index_key (v @ b # w) c < v @ MAX_SEP"
  using assms by (simp_all add: index_key_def less_append_self append_less_same MAX_SEP_def sep_byte_def)

text \<open>What lies in the range starts with the value.\<close>

lemma range_prefix: "(v::char list) < k \<Longrightarrow> k < v @ z \<Longrightarrow> \<exists>r. k = v @ r"
proof (induction v arbitrary: k)
  case (Cons a v)
  then show ?case
    by (cases k) (auto split: if_splits)
qed simp

section \<open>The abstract index\<close>

type_synonym fields = "(string \<times> string) list"

abbreviation item_of :: "string \<Rightarrow> fields \<Rightarrow> index_item" where
  "item_of c fs \<equiv> \<lparr>ii_message_cid = c, ii_fields = fs\<rparr>"

text \<open>The rows of one field's index: a row for each live message that has the field.\<close>

definition rows :: "(string \<rightharpoonup> fields) \<Rightarrow> string \<Rightarrow> (string \<times> index_item) set" where
  "rows live f = {(index_key v c, item_of c fs) | c fs v. live c = Some fs \<and> map_of fs f = Some v}"

definition clean_cid :: "string \<Rightarrow> bool" where
  "clean_cid c \<longleftrightarrow> sep_byte \<notin> set c"

definition wf_fields :: "fields \<Rightarrow> bool" where
  "wf_fields fs \<longleftrightarrow> distinct (map fst fs) \<and> ''message_cid'' \<notin> fst ` set fs"

lemma wf_fields_Nil [simp]: "wf_fields []"
  by (simp add: wf_fields_def)

lemma wf_fields_insert: "wf_fields fs \<Longrightarrow> k \<noteq> ''message_cid'' \<Longrightarrow> wf_fields (hm_insert k v fs)"
  by (simp add: wf_fields_def distinct_update dom_update)

definition live_ok :: "(string \<rightharpoonup> fields) \<Rightarrow> bool" where
  "live_ok live \<longleftrightarrow> (\<forall>c fs. live c = Some fs \<longrightarrow> clean_cid c \<and> wf_fields fs)"

text \<open>An index holds what it should for its field, the reverse index an item for each live message.\<close>

definition field_ok :: "(string \<rightharpoonup> fields) \<Rightarrow> string \<Rightarrow> index \<Rightarrow> bool" where
  "field_ok live f ix \<longleftrightarrow> ix_field ix = f \<and> bt_ok (ix_items ix) \<and>
     (if f = ''message_cid''
      then (\<forall>c fs. live c = Some fs \<longrightarrow> map_of (ix_items ix) c = Some (item_of c fs)) \<and>
           (\<forall>(c, it) \<in> set (ix_items ix). wf_fields (ii_fields it))
      else set (ix_items ix) = rows live f)"

lemma field_ok_field: "field_ok live f ix \<Longrightarrow> ix_field ix = f"
  by (simp add: field_ok_def)

lemma field_ok_reverse_remove:
  "field_ok live ''message_cid'' ix \<Longrightarrow> field_ok (live(c := None)) ''message_cid'' ix"
  by (simp add: field_ok_def)

lemma wf_fields_no_cid: "wf_fields fs \<Longrightarrow> map_of fs ''message_cid'' = None"
  by (simp add: wf_fields_def map_of_eq_None_iff)

lemma rows_key:
  assumes "live_ok live" and "clean_cid c" and "(index_key v c, it) \<in> rows live f"
  shows "\<exists>fs. live c = Some fs \<and> map_of fs f = Some v \<and> it = item_of c fs"
  using assms index_key_inj unfolding rows_def live_ok_def clean_cid_def by blast

lemma rows_cid:
  assumes "live_ok live" and "clean_cid c" and "(k, it) \<in> rows live f"
  shows "ii_message_cid it = c \<longleftrightarrow> (\<exists>fs v. live c = Some fs \<and> map_of fs f = Some v \<and> k = index_key v c)"
proof -
  from assms(3) obtain c' fs v where p: "k = index_key v c'" "it = item_of c' fs" "live c' = Some fs" "map_of fs f = Some v"
    by (auto simp: rows_def)
  with assms(1) have "clean_cid c'" by (simp add: live_ok_def)
  with assms(2) have "c' = c" if "index_key v c' = index_key w c" for w
    using index_key_inj [OF that] by (simp add: clean_cid_def)
  with p show ?thesis by auto
qed

lemma rows_fun_upd_None: "rows (live(c := None)) f = {p \<in> rows live f. ii_message_cid (snd p) \<noteq> c}"
  by (auto simp: rows_def)

lemma rows_remove:
  assumes "live_ok live" and "clean_cid c"
  shows "rows (live(c := None)) f =
    (case live c of None \<Rightarrow> rows live f
     | Some fs \<Rightarrow> (case map_of fs f of None \<Rightarrow> rows live f | Some v \<Rightarrow> {p \<in> rows live f. fst p \<noteq> index_key v c}))"
proof (rule set_eqI)
  fix p :: "string \<times> index_item"
  obtain k it where p: "p = (k, it)" by (cases p)
  show "p \<in> rows (live(c := None)) f \<longleftrightarrow> p \<in> (case live c of None \<Rightarrow> rows live f
     | Some fs \<Rightarrow> (case map_of fs f of None \<Rightarrow> rows live f | Some v \<Rightarrow> {p \<in> rows live f. fst p \<noteq> index_key v c}))"
    using rows_cid [OF assms, of k it f]
    by (cases "p \<in> rows live f") (simp_all add: rows_fun_upd_None p split: option.splits)
qed

lemma rows_insert:
  assumes "live c = None"
  shows "rows (live(c \<mapsto> fs)) f =
    (case map_of fs f of None \<Rightarrow> rows live f | Some v \<Rightarrow> insert (index_key v c, item_of c fs) (rows live f))"
proof -
  have "rows (live(c \<mapsto> fs)) f = (\<lambda>v. (index_key v c, item_of c fs)) ` set_option (map_of fs f) \<union> rows (live(c := None)) f"
    unfolding rows_def by (intro set_eqI; cases "map_of fs f") (auto split: if_splits)
  moreover have "live(c := None) = live" using assms by (simp add: fun_upd_idem)
  ultimately show ?thesis by (cases "map_of fs f") simp_all
qed

lemma field_ok_remove:
  assumes ok: "live_ok live" and c: "clean_cid c" and ix: "field_ok live f ix" and f: "f \<noteq> ''message_cid''"
    and fs: "live c = None \<or> live c = Some fs"
  shows "field_ok (live(c := None)) f (case map_of fs f of None \<Rightarrow> ix | Some v \<Rightarrow> index_remove v c ix)"
proof -
  have "{p \<in> rows live f. fst p \<noteq> index_key v c} = rows live f" if "live c = None" for v
    using rows_key [OF ok c] that by fastforce
  then have "set (ix_items (case map_of fs f of None \<Rightarrow> ix | Some v \<Rightarrow> index_remove v c ix)) = rows (live(c := None)) f"
    using ix f fs rows_remove [OF ok c, of f]
    by (auto simp: field_ok_def index_remove_def bt_remove_def split: option.splits)
  then show ?thesis
    using ix f by (auto simp: field_ok_def index_remove_def bt_ok_remove split: option.splits)
qed

lemma field_ok_insert:
  assumes ok: "live_ok live" and c: "clean_cid c" and ix: "field_ok live f ix" and f: "f \<noteq> ''message_cid''"
    and new: "live c = None"
  shows "field_ok (live(c \<mapsto> fs)) f (case map_of fs f of None \<Rightarrow> ix | Some v \<Rightarrow> index_insert_item v (item_of c fs) ix)"
proof (cases "map_of fs f")
  case (Some v)
  have "{p \<in> rows live f. fst p \<noteq> index_key v c} = rows live f"
    using rows_key [OF ok c] new by fastforce
  with ix f Some show ?thesis
    using rows_insert [of live c fs f, OF new]
    by (auto simp: field_ok_def index_insert_item_def bt_ok_insert set_bt_insert)
qed (use ix f rows_insert [of live c fs f, OF new] in \<open>auto simp: field_ok_def\<close>)

section \<open>The index blocks\<close>

text \<open>
  Where the block of a field's index is kept, what index it holds, and when the index blocks of an owner's
  partition represent the map \<open>live\<close>. \<open>cell\<close> and \<open>view\<close> are those of the block store's contract.
\<close>

definition index_slot :: "('s, 'b) env \<Rightarrow> (string \<Rightarrow> string \<Rightarrow> string \<Rightarrow> 'k) \<Rightarrow> string \<Rightarrow> string \<Rightarrow> string \<Rightarrow> 'k" where
  "index_slot E cell ow pa f = cell ow pa (projr (cid_value E (P_Text (ow @ ''-'' @ f))))"

definition stored_index :: "('s, 'b) env \<Rightarrow> (string \<Rightarrow> string \<Rightarrow> string \<Rightarrow> 'k) \<Rightarrow> ('s \<Rightarrow> 'k \<Rightarrow> 'b option) \<Rightarrow>
    's \<Rightarrow> string \<Rightarrow> string \<Rightarrow> string \<Rightarrow> index option" where
  "stored_index E cell view s ow pa f =
     (case view s (index_slot E cell ow pa f) of
        None \<Rightarrow> Some (index_new f)
      | Some d \<Rightarrow> (case dag_decode_index E d of Inl e \<Rightarrow> None | Inr ix \<Rightarrow> Some ix))"

definition indexed_as :: "('s, 'b) env \<Rightarrow> (string \<Rightarrow> string \<Rightarrow> string \<Rightarrow> 'k) \<Rightarrow> ('s \<Rightarrow> 'k \<Rightarrow> 'b option) \<Rightarrow>
    's \<Rightarrow> string \<Rightarrow> string \<Rightarrow> (string \<rightharpoonup> fields) \<Rightarrow> bool" where
  "indexed_as E cell view s ow pa live \<longleftrightarrow>
     live_ok live \<and> (\<forall>f. \<exists>ix. stored_index E cell view s ow pa f = Some ix \<and> field_ok live f ix)"

text \<open>Blocks other than the index blocks of the owner's partition stay as they are.\<close>

definition same_but_indexes :: "('s, 'b) env \<Rightarrow> (string \<Rightarrow> string \<Rightarrow> string \<Rightarrow> 'k) \<Rightarrow> ('s \<Rightarrow> 'k \<Rightarrow> 'b option) \<Rightarrow>
    string \<Rightarrow> string \<Rightarrow> 's \<Rightarrow> 's \<Rightarrow> bool" where
  "same_but_indexes E cell view ow pa s t \<longleftrightarrow>
     (\<forall>k. (\<forall>f. k \<noteq> index_slot E cell ow pa f) \<longrightarrow> view t k = view s k)"

text \<open>
  The contract: a store that keeps partitions apart, the codec, and content identifiers that the store
  accepts, that contain no separator, and that are those of no other value when they are those of a text.
\<close>

locale index_store = partitioned_store E cell good view + codec E
  for E :: "('s, 'b) env" and cell :: "string \<Rightarrow> string \<Rightarrow> string \<Rightarrow> 'k"
    and good :: "string \<Rightarrow> bool" and view :: "'s \<Rightarrow> 'k \<Rightarrow> 'b option" +
  assumes cid_good: "cid_value E p = Inr c \<Longrightarrow> good c"
    and cid_clean: "cid_value E p = Inr c \<Longrightarrow> clean_cid c"
    and text_cid: "\<exists>c. cid_value E (P_Text t) = Inr c"
    and text_unique: "cid_value E (P_Text t) = Inr c \<Longrightarrow> cid_value E p = Inr c \<Longrightarrow> p = P_Text t"
begin

abbreviation slot :: "string \<Rightarrow> string \<Rightarrow> string \<Rightarrow> 'k" where
  "slot \<equiv> index_slot E cell"

abbreviation the_index :: "'s \<Rightarrow> string \<Rightarrow> string \<Rightarrow> string \<Rightarrow> index option" where
  "the_index \<equiv> stored_index E cell view"

abbreviation frame :: "string \<Rightarrow> string \<Rightarrow> 's \<Rightarrow> 's \<Rightarrow> bool" where
  "frame \<equiv> same_but_indexes E cell view"

abbreviation indexed :: "'s \<Rightarrow> string \<Rightarrow> string \<Rightarrow> (string \<rightharpoonup> fields) \<Rightarrow> bool" where
  "indexed \<equiv> indexed_as E cell view"

lemma slot_eq_iff: "slot ow pa f = slot ow' pa' f' \<longleftrightarrow> ow = ow' \<and> pa = pa' \<and> f = f'"
proof
  obtain c c' where c: "cid_value E (P_Text (ow @ ''-'' @ f)) = Inr c"
    and c': "cid_value E (P_Text (ow' @ ''-'' @ f')) = Inr c'"
    using text_cid by meson
  assume eq: "slot ow pa f = slot ow' pa' f'"
  with c c' have "cell ow pa c = cell ow' pa' c'" by (simp add: index_slot_def)
  then have "ow = ow'" "pa = pa'" "c = c'"
    using cell_owner cell_cid c c' cid_good by metis+
  with text_unique [OF c] c' show "ow = ow' \<and> pa = pa' \<and> f = f'" by auto
qed simp

text \<open>An index block is no message block.\<close>

lemma slot_not_message:
  assumes "cid_value E p = Inr c" and "\<And>t. p \<noteq> P_Text t"
  shows "slot ow pa f \<noteq> cell ow' pa' c"
proof
  obtain c' where c': "cid_value E (P_Text (ow @ ''-'' @ f)) = Inr c'"
    using text_cid by meson
  assume "slot ow pa f = cell ow' pa' c"
  with c' have "c' = c"
    using cell_cid cid_good assms(1) by (metis index_slot_def sum.sel(2))
  with text_unique [OF c'] assms show False by blast
qed

lemma indexes_get_run:
  assumes "the_index s ow pa f = Some ix"
  shows "indexes_get E ow pa f s = (Inr ix, s)"
proof -
  obtain c where c: "cid_value E (P_Text (ow @ ''-'' @ f)) = Inr c"
    using text_cid by meson
  with assms show ?thesis
    using cid_good [OF c]
    by (auto simp: indexes_get_def index_cid_def from_value_def stored_index_def index_slot_def sbind_def lift_def
        sret_def split: option.splits sum.splits)
qed

lemma indexes_put_run:
  assumes "indexes_put E ow pa ix s = (Inr u, t)"
  shows "the_index t ow pa (ix_field ix) = Some ix"
    and "\<And>k. k \<noteq> slot ow pa (ix_field ix) \<Longrightarrow> view t k = view s k"
proof -
  from assms obtain c d x where c: "cid_value E (P_Text (ow @ ''-'' @ ix_field ix)) = Inr c"
    and x: "bs_delete E ow pa c s = (Inr (), x)" and d: "dag_encode E (B_Index ix) = Inr d"
    and t: "bs_put E ow pa c d x = (Inr (), t)"
    by (auto simp: indexes_put_def index_cid_def from_value_def monad_simps block_encode_Inr)
  note g = cid_good [OF c]
  have "view x = (view s)(cell ow pa c := None)" "view t = (view x)(cell ow pa c \<mapsto> d)"
    using delete [OF g, of ow pa s] put [OF g, of ow pa d x] x t by auto
  then show "the_index t ow pa (ix_field ix) = Some ix"
    and "\<And>k. k \<noteq> slot ow pa (ix_field ix) \<Longrightarrow> view t k = view s k"
    using decode_index [OF d] c by (auto simp: stored_index_def index_slot_def)
qed

section \<open>Insertion and deletion\<close>

lemma frame_refl [simp]: "frame ow pa s s"
  by (simp add: same_but_indexes_def)

lemma frame_trans: "frame ow pa s t \<Longrightarrow> frame ow pa t u \<Longrightarrow> frame ow pa s u"
  by (simp add: same_but_indexes_def)

lemma the_index_cong: "view t (slot ow pa f) = view s (slot ow pa f) \<Longrightarrow> the_index t ow pa f = the_index s ow pa f"
  by (simp add: stored_index_def)

lemma update_one:
  assumes "sbind (indexes_get E ow pa f) (\<lambda>ix. indexes_put E ow pa (g ix)) s = (Inr u, t)"
    and "the_index s ow pa f = Some ix" and "ix_field (g ix) = f"
  shows "the_index t ow pa f = Some (g ix)" and "\<And>f'. f' \<noteq> f \<Longrightarrow> the_index t ow pa f' = the_index s ow pa f'"
    and "frame ow pa s t"
proof -
  from assms(1,2) have put: "indexes_put E ow pa (g ix) s = (Inr u, t)"
    by (simp add: indexes_get_run sbind_run)
  note run = indexes_put_run [OF put]
  show "the_index t ow pa f = Some (g ix)" using run(1) assms(3) by simp
  show "\<And>f'. f' \<noteq> f \<Longrightarrow> the_index t ow pa f' = the_index s ow pa f'"
    using run(2) assms(3) slot_eq_iff by (intro the_index_cong) metis
  show "frame ow pa s t" using run(2) assms(3) by (auto simp: same_but_indexes_def)
qed

text \<open>A loop that rewrites the index of each of some fields.\<close>

abbreviation rewrite_index :: "string \<Rightarrow> string \<Rightarrow> (string \<Rightarrow> index \<Rightarrow> index) \<Rightarrow> string \<times> string \<Rightarrow> ('s, unit) io" where
  "rewrite_index ow pa g \<equiv> (\<lambda>(f, v). sbind (indexes_get E ow pa f) (\<lambda>ix. indexes_put E ow pa (g v ix)))"

lemma update_loop:
  assumes "sfor fs (rewrite_index ow pa g) s = (Inr (), t)"
    and "distinct (map fst fs)"
    and "\<And>f. f \<in> fst ` set fs \<Longrightarrow> \<exists>ix. the_index s ow pa f = Some ix \<and> ix_field ix = f"
    and field: "\<And>v ix. ix_field (g v ix) = ix_field ix"
  shows "(\<forall>f. the_index t ow pa f = (case map_of fs f of None \<Rightarrow> the_index s ow pa f
            | Some v \<Rightarrow> map_option (g v) (the_index s ow pa f))) \<and> frame ow pa s t"
  using assms(1-3)
proof (induction fs arbitrary: s)
  case (Cons p fs)
  obtain f0 v0 where p: "p = (f0, v0)" by (cases p)
  from Cons.prems(3) [of f0] p obtain ix0
    where ix0: "the_index s ow pa f0 = Some ix0" "ix_field ix0 = f0" by auto
  from Cons.prems(1) p obtain x where one: "rewrite_index ow pa g (f0, v0) s = (Inr (), x)"
    and rest: "sfor fs (rewrite_index ow pa g) x = (Inr (), t)"
    by (auto simp: sbind_Inr_iff)
  have "ix_field (g v0 ix0) = f0" using field ix0(2) by simp
  note step = update_one [OF one [unfolded prod.case] ix0(1) this]
  have "\<exists>ix. the_index x ow pa f = Some ix \<and> ix_field ix = f" if "f \<in> fst ` set fs" for f
    using that Cons.prems(2) p Cons.prems(3) [of f] step by (cases "f = f0") auto
  with Cons.IH [OF rest] Cons.prems(2)
  have IH: "\<And>f. the_index t ow pa f = (case map_of fs f of None \<Rightarrow> the_index x ow pa f
      | Some v \<Rightarrow> map_option (g v) (the_index x ow pa f))" and "frame ow pa x t"
    by auto
  moreover have "map_of fs f0 = None" using Cons.prems(2) p by (simp add: map_of_eq_None_iff)
  ultimately show ?case
    using step ix0 p frame_trans by (auto split: option.splits)
qed (simp add: monad_simps)

lemma indexed_field: "indexed s ow pa live \<Longrightarrow> \<exists>ix. the_index s ow pa f = Some ix \<and> field_ok live f ix \<and> ix_field ix = f"
  by (metis indexed_as_def field_ok_field)

theorem index_delete_refines:
  assumes ix: "indexed s ow pa live" and c: "clean_cid c" and run: "index_delete E ow pa c s = (Inr (), t)"
  shows "indexed t ow pa (live(c := None)) \<and> frame ow pa s t"
proof -
  from indexed_field [OF ix, of "''message_cid''"] obtain mc
    where mc: "the_index s ow pa ''message_cid'' = Some mc" "field_ok live ''message_cid'' mc" by blast
  have ok: "live_ok live" using ix by (simp add: indexed_as_def)
  then have ok': "live_ok (live(c := None))" by (simp add: live_ok_def)
  show ?thesis
  proof (cases "map_of (ix_items mc) c")
    case None
    with mc(2) have "live c = None" by (cases "live c") (auto simp: field_ok_def)
    moreover have "t = s"
      using run None indexes_get_run [OF mc(1)] by (simp add: index_delete_def sbind_run sret_def)
    ultimately show ?thesis using ix by (simp add: fun_upd_idem)
  next
    case (Some it)
    let ?fs = "ii_fields it"
    have wf: "wf_fields ?fs" using mc(2) Some by (auto simp: field_ok_def dest: map_of_SomeD)
    have live: "live c = None \<or> live c = Some ?fs" using mc(2) Some by (cases "live c") (auto simp: field_ok_def)
    have loop: "sfor ?fs (rewrite_index ow pa (\<lambda>v. index_remove v c)) s = (Inr (), t)"
      using run Some indexes_get_run [OF mc(1)] by (simp add: index_delete_def sbind_run)
    have fr: "frame ow pa s t" and all: "\<And>f. the_index t ow pa f = (case map_of ?fs f of None \<Rightarrow> the_index s ow pa f
        | Some v \<Rightarrow> map_option (index_remove v c) (the_index s ow pa f))"
      using update_loop [OF loop] wf indexed_field [OF ix]
      by (auto simp: wf_fields_def index_remove_def)
    have "\<exists>ix. the_index t ow pa f = Some ix \<and> field_ok (live(c := None)) f ix" for f
    proof (cases "f = ''message_cid''")
      case True
      with wf_fields_no_cid [OF wf] all [of f] mc field_ok_reverse_remove show ?thesis by auto
    next
      case False
      obtain ix where "the_index s ow pa f = Some ix" "field_ok live f ix" using indexed_field [OF ix] by blast
      with all [of f] field_ok_remove [OF ok c _ False live] show ?thesis
        by (cases "map_of ?fs f") (auto dest: spec)
    qed
    with ok' fr show ?thesis by (simp add: indexed_as_def)
  qed
qed

theorem index_insert_refines:
  assumes ix: "indexed s ow pa live" and cid: "entry_cid E e = Inr c" and c: "clean_cid c"
    and wf: "wf_fields (e_indexes e)" and run: "index_insert E ow pa e s = (Inr (), t)"
  shows "indexed t ow pa (live(c \<mapsto> e_indexes e)) \<and> frame ow pa s t"
proof -
  let ?fs = "e_indexes e" and ?mc = "''message_cid''"
  let ?put = "\<lambda>ix. ix\<lparr>ix_items := bt_insert c (item_of c ?fs) (ix_items ix)\<rparr>"
  from run cid obtain x y where del: "index_delete E ow pa c s = (Inr (), x)"
    and loop: "sfor ?fs (rewrite_index ow pa (\<lambda>v. index_insert_item v (item_of c ?fs))) x = (Inr (), y)"
    and rev: "sbind (indexes_get E ow pa ?mc) (\<lambda>ix. indexes_put E ow pa (?put ix)) y = (Inr (), t)"
    by (auto simp: index_insert_def sbind_Inr_iff lift_def Let_def)
  define none where "none = live(c := None)"
  have x: "indexed x ow pa none" and fx: "frame ow pa s x"
    using index_delete_refines [OF ix c del] by (simp_all add: none_def)
  have ok: "live_ok none" "none c = None" using x by (simp_all add: indexed_as_def none_def)
  have fy: "frame ow pa x y" and all: "\<And>f. the_index y ow pa f = (case map_of ?fs f of None \<Rightarrow> the_index x ow pa f
      | Some v \<Rightarrow> map_option (index_insert_item v (item_of c ?fs)) (the_index x ow pa f))"
    using update_loop [OF loop] wf indexed_field [OF x]
    by (auto simp: wf_fields_def index_insert_item_def)
  obtain mc where mc: "the_index x ow pa ?mc = Some mc" "field_ok none ?mc mc" using indexed_field [OF x] by blast
  with all [of ?mc] wf_fields_no_cid [OF wf] have "the_index y ow pa ?mc = Some mc" by simp
  moreover have "ix_field (?put mc) = ?mc" using field_ok_field [OF mc(2)] by simp
  ultimately have t: "the_index t ow pa ?mc = Some (?put mc)" "\<And>f. f \<noteq> ?mc \<Longrightarrow> the_index t ow pa f = the_index y ow pa f"
    "frame ow pa y t"
    using update_one [OF rev, of mc] by simp_all
  have "\<exists>ix. the_index t ow pa f = Some ix \<and> field_ok (none(c \<mapsto> ?fs)) f ix" for f
  proof (cases "f = ?mc")
    case True
    with mc(2) wf t(1) show ?thesis
      by (auto simp: field_ok_def bt_ok_insert map_of_bt_insert set_bt_insert)
  next
    case False
    obtain ix where "the_index x ow pa f = Some ix" "field_ok none f ix" using indexed_field [OF x] by blast
    with all [of f] t(2) [OF False] field_ok_insert [OF ok(1) c _ False ok(2), of ix ?fs] show ?thesis
      by (cases "map_of ?fs f") auto
  qed
  moreover have "live_ok (none(c \<mapsto> ?fs))" using ok c wf by (simp add: live_ok_def)
  moreover have "frame ow pa s t" using fx fy t(3) frame_trans by blast
  ultimately show ?thesis by (simp add: indexed_as_def none_def)
qed

text \<open>An empty store has an empty index.\<close>

lemma indexed_empty: "(\<And>f. view s (slot ow pa f) = None) \<Longrightarrow> indexed s ow pa Map.empty"
  by (simp add: indexed_as_def stored_index_def field_ok_def index_new_def rows_def live_ok_def)

end

end
