(* ===== verification/Index_Query.thy ===== *)
theory Index_Query
  imports Index_Refinement
begin

text \<open>
  What a query of the indexes returns. A concise query returns exactly the live messages that one of its
  match sets accepts, each once, in the order of the sort field; pages of it follow each other without
  gap or overlap. A full query returns only messages that match.
\<close>

section \<open>Collecting\<close>

text \<open>The key by which results are ordered: the sort field's value, then the CID.\<close>

definition sort_of :: "string \<Rightarrow> index_item \<Rightarrow> string" where
  "sort_of sf it = the (map_of (ii_fields it) sf) @ ii_message_cid it"

definition found_ok :: "string \<Rightarrow> index_item set \<Rightarrow> found \<Rightarrow> bool" where
  "found_ok sf U r \<longleftrightarrow> bt_ok (snd r) \<and> set (fst r) = ii_message_cid ` snd ` set (snd r) \<and>
     (\<forall>p\<in>set (snd r). fst p = sort_of sf (snd p)) \<and> snd ` set (snd r) \<subseteq> U"

lemma found_ok_add:
  assumes ok: "found_ok sf U (ms, rs)" and it: "it \<in> U" and inj: "inj_on (sort_of sf) U"
  shows "found_ok sf U (ii_message_cid it # ms, bt_insert (sort_of sf it) it rs)"
    and "snd ` set (bt_insert (sort_of sf it) it rs) = insert it (snd ` set rs)"
proof -
  have "bt_ok rs" using ok by (simp add: found_ok_def)
  note set = set_bt_insert [OF this, of "sort_of sf it" it]
  have "snd p = it" if "p \<in> set rs" "fst p = sort_of sf it" for p
    using that ok it inj by (auto simp: found_ok_def inj_on_def image_subset_iff)
  then show *: "snd ` set (bt_insert (sort_of sf it) it rs) = insert it (snd ` set rs)"
    unfolding set by force
  show "found_ok sf U (ii_message_cid it # ms, bt_insert (sort_of sf it) it rs)"
    using ok it * unfolding found_ok_def by (auto simp: bt_ok_insert set simp del: image_image)
qed

lemma concise_items_spec:
  assumes "found_ok sf U r" and "set items \<subseteq> U"
    and total: "\<And>it. it \<in> U \<Longrightarrow> (\<exists>b. match_all E ms it = Inr b) \<and> map_of (ii_fields it) sf \<noteq> None"
    and inj: "inj_on (sort_of sf) U" "inj_on ii_message_cid U"
  shows "\<exists>r'. concise_items E sf ms items r = Inr r' \<and> found_ok sf U r' \<and>
     snd ` set (snd r') = snd ` set (snd r) \<union> {it \<in> set items. match_all E ms it = Inr True}"
  using assms(1,2)
proof (induction items arbitrary: r)
  case (Cons it items)
  obtain mt rs where r: "r = (mt, rs)" by (cases r)
  from Cons.prems have it: "it \<in> U" and sub: "set items \<subseteq> U" by auto
  from total [OF it] obtain b v where b: "match_all E ms it = Inr b" and v: "map_of (ii_fields it) sf = Some v" by auto
  have seen: "it \<in> snd ` set rs" if "ii_message_cid it \<in> set mt"
  proof -
    from Cons.prems(1) r have "set mt = ii_message_cid ` snd ` set rs" and U: "snd ` set rs \<subseteq> U"
      by (simp_all add: found_ok_def)
    with that have "ii_message_cid it \<in> ii_message_cid ` snd ` set rs" by simp
    then obtain x where x: "x \<in> snd ` set rs" "ii_message_cid it = ii_message_cid x" "x \<in> U"
      using U by (elim imageE [of _ ii_message_cid]) blast
    with inj_onD [OF inj(2) x(2) it x(3)] show ?thesis by simp
  qed
  show ?case
  proof (cases "ii_message_cid it \<notin> set mt \<and> b")
    case True
    let ?r = "(ii_message_cid it # mt, bt_insert (sort_of sf it) it rs)"
    have "found_ok sf U ?r" "snd ` set (snd ?r) = insert it (snd ` set rs)"
      using found_ok_add [OF _ it inj(1)] Cons.prems(1) r by auto
    with Cons.IH [OF _ sub, of ?r] True b v r show ?thesis
      by (auto simp: sort_of_def)
  next
    case False
    with Cons.IH [OF Cons.prems(1) sub] seen b r show ?thesis by auto
  qed
qed simp

section \<open>Concise queries\<close>

text \<open>The messages in the range of the index that a match set names.\<close>

definition in_range :: "match_set \<Rightarrow> string \<Rightarrow> fields \<Rightarrow> bool" where
  "in_range ms c fs = (case mst_index ms of None \<Rightarrow> False
     | Some (f, v) \<Rightarrow> (case map_of fs f of None \<Rightarrow> False
         | Some v' \<Rightarrow> v < index_key v' c \<and> index_key v' c < v @ MAX_SEP))"

lemma in_range_Some: "mst_index ms = Some (f, v) \<Longrightarrow> in_range ms c fs \<longleftrightarrow>
    (\<exists>v'. map_of fs f = Some v' \<and> v < index_key v' c \<and> index_key v' c < v @ MAX_SEP)"
  by (simp add: in_range_def split: option.splits)

definition selects :: "('s, 'b) env \<Rightarrow> query \<Rightarrow> string \<Rightarrow> fields \<Rightarrow> bool" where
  "selects E q c fs = list_ex (\<lambda>ms. in_range ms c fs \<and> match_all E (mst_inner ms) (item_of c fs) = Inr True) (q_match_sets q)"

definition items_of :: "(string \<rightharpoonup> fields) \<Rightarrow> index_item set" where
  "items_of live = {item_of c fs | c fs. live c = Some fs}"

text \<open>
  A query can be answered on a store when no matcher fails on a stored value, every message has the sort
  field, and the sort keys tell messages apart.
\<close>

definition answerable :: "('s, 'b) env \<Rightarrow> (string \<rightharpoonup> fields) \<Rightarrow> query \<Rightarrow> bool" where
  "answerable E live q \<longleftrightarrow>
     (\<forall>it\<in>items_of live. map_of (ii_fields it) (sort_str (q_sort q)) \<noteq> None \<and>
        (\<forall>ms\<in>set (q_match_sets q). \<exists>b. match_all E (mst_inner ms) it = Inr b)) \<and>
     inj_on (sort_of (sort_str (q_sort q))) (items_of live)"

lemma items_of_inj: "inj_on ii_message_cid (items_of live)"
  by (auto simp: inj_on_def items_of_def)

lemma set_index_matches:
  assumes "field_ok live f ix" and "f \<noteq> ''message_cid''"
  shows "set (index_matches v ix) = {item_of c fs | c fs v'. live c = Some fs \<and> map_of fs f = Some v' \<and>
     v < index_key v' c \<and> index_key v' c < v @ MAX_SEP}"
  using assms by (auto simp: field_ok_def index_matches_def rows_def Let_def image_iff)

context index_store
begin

lemma concise_sets_spec:
  assumes ix: "indexed s ow pa live"
    and fields: "\<forall>ms\<in>set mss. \<forall>f v. mst_index ms = Some (f, v) \<longrightarrow> f \<noteq> ''message_cid''"
    and total: "\<forall>ms\<in>set mss. \<forall>it\<in>items_of live. \<exists>b. match_all E (mst_inner ms) it = Inr b"
    and sf: "\<forall>it\<in>items_of live. map_of (ii_fields it) sf \<noteq> None"
    and inj: "inj_on (sort_of sf) (items_of live)"
    and r: "found_ok sf (items_of live) r"
  shows "\<exists>r'. concise_sets E ow pa sf mss r s = (Inr r', s) \<and> found_ok sf (items_of live) r' \<and>
     snd ` set (snd r') = snd ` set (snd r) \<union>
       {item_of c fs | c fs. live c = Some fs \<and>
          list_ex (\<lambda>ms. in_range ms c fs \<and> match_all E (mst_inner ms) (item_of c fs) = Inr True) mss}"
  using fields total r
proof (induction mss arbitrary: r)
  case (Cons ms mss)
  have "\<forall>ms\<in>set mss. \<forall>f v. mst_index ms = Some (f, v) \<longrightarrow> f \<noteq> ''message_cid''"
    "\<forall>ms\<in>set mss. \<forall>it\<in>items_of live. \<exists>b. match_all E (mst_inner ms) it = Inr b"
    using Cons.prems(1,2) by auto
  note tail = Cons.IH [OF this]
  show ?case
  proof (cases "mst_index ms")
    case None
    then have "\<not> in_range ms c fs" for c fs by (simp add: in_range_def)
    with None tail [OF Cons.prems(3)] show ?thesis by simp
  next
    case (Some fv)
    obtain f v where fv: "fv = (f, v)" by (cases fv)
    from indexed_field [OF ix, of f] obtain ixf where
      ixf: "the_index s ow pa f = Some ixf" "field_ok live f ixf" by blast
    have mc: "f \<noteq> ''message_cid''" using Cons.prems(1) Some fv by simp
    note set = set_index_matches [OF ixf(2) mc, of v]
    have sub: "set (index_matches v ixf) \<subseteq> items_of live" unfolding set items_of_def by blast
    from concise_items_spec [OF Cons.prems(3) sub _ inj items_of_inj, of E "mst_inner ms"] Cons.prems(2) sf
    obtain r1 where r1: "concise_items E sf (mst_inner ms) (index_matches v ixf) r = Inr r1"
        "found_ok sf (items_of live) r1"
      and set1: "snd ` set (snd r1) = snd ` set (snd r) \<union>
        {it \<in> set (index_matches v ixf). match_all E (mst_inner ms) it = Inr True}"
      by auto
    have now: "{it \<in> set (index_matches v ixf). match_all E (mst_inner ms) it = Inr True} =
      {item_of c fs | c fs. live c = Some fs \<and> in_range ms c fs \<and> match_all E (mst_inner ms) (item_of c fs) = Inr True}"
      unfolding set in_range_Some [OF Some [unfolded fv]] by blast
    have "concise_sets E ow pa sf (ms # mss) r s = concise_sets E ow pa sf mss r1 s"
      using Some fv r1(1) indexes_get_run [OF ixf(1)] by (simp add: sbind_run)
    moreover have "snd ` set (snd r1) \<union> {item_of c fs | c fs. live c = Some fs \<and>
          list_ex (\<lambda>ms. in_range ms c fs \<and> match_all E (mst_inner ms) (item_of c fs) = Inr True) mss} =
        snd ` set (snd r) \<union> {item_of c fs | c fs. live c = Some fs \<and>
          list_ex (\<lambda>ms. in_range ms c fs \<and> match_all E (mst_inner ms) (item_of c fs) = Inr True) (ms # mss)}"
      unfolding set1 now by auto
    ultimately show ?thesis using tail [OF r1(2)] by simp
  qed
qed (simp add: sret_def)

text \<open>
  A concise query on an index returns the page of the ordered list of the messages it selects, and leaves
  the store as it is.
\<close>

theorem query_concise_exact:
  assumes ix: "indexed s ow pa live" and ans: "answerable E live q"
    and fields: "\<forall>ms\<in>set (q_match_sets q). \<forall>f v. mst_index ms = Some (f, v) \<longrightarrow> f \<noteq> ''message_cid''"
  shows "\<exists>items. query_concise E ow pa q s = (paginate E (q_pagination q) items, s) \<and>
     set items = {item_of c fs | c fs. live c = Some fs \<and> selects E q c fs} \<and>
     distinct (map ii_message_cid items) \<and>
     sorted_wrt (if sort_is_ascending (q_sort q) then (<) else (>)) (map (sort_of (sort_str (q_sort q))) items)"
proof -
  let ?sf = "sort_str (q_sort q)"
  have "found_ok ?sf (items_of live) ([], [])" by (simp add: found_ok_def)
  moreover have "\<forall>ms\<in>set (q_match_sets q). \<forall>it\<in>items_of live. \<exists>b. match_all E (mst_inner ms) it = Inr b"
    "\<forall>it\<in>items_of live. map_of (ii_fields it) ?sf \<noteq> None" "inj_on (sort_of ?sf) (items_of live)"
    using ans by (auto simp: answerable_def)
  ultimately have "\<exists>r'. concise_sets E ow pa ?sf (q_match_sets q) ([], []) s = (Inr r', s) \<and> found_ok ?sf (items_of live) r' \<and>
      snd ` set (snd r') = {item_of c fs | c fs. live c = Some fs \<and> selects E q c fs}"
    using concise_sets_spec [OF ix fields, of ?sf "([], [])"] by (simp add: selects_def)
  then obtain mt rs
    where run: "concise_sets E ow pa ?sf (q_match_sets q) ([], []) s = (Inr (mt, rs), s)"
      and ok: "found_ok ?sf (items_of live) (mt, rs)"
      and set: "snd ` set rs = {item_of c fs | c fs. live c = Some fs \<and> selects E q c fs}"
    by auto
  let ?items = "if sort_is_ascending (q_sort q) then map snd rs else rev (map snd rs)"
  have keys: "map fst rs = map (sort_of ?sf) (map snd rs)" using ok by (auto simp: found_ok_def)
  have sorted: "sorted_wrt (<) (map (sort_of ?sf) (map snd rs))"
    using ok keys by (simp add: found_ok_def bt_ok_def)
  then have "distinct (map (sort_of ?sf) (map snd rs))" by (simp add: strict_sorted_iff)
  then have "distinct (map snd rs)" by (simp only: distinct_map)
  moreover have "inj_on ii_message_cid (set (map snd rs))"
    using items_of_inj ok by (auto simp: found_ok_def intro: inj_on_subset)
  ultimately have "distinct (map ii_message_cid (map snd rs))" by (simp only: distinct_map)
  then have "distinct (map ii_message_cid ?items)" by (simp flip: rev_map)
  moreover have "sorted_wrt (if sort_is_ascending (q_sort q) then (<) else (>)) (map (sort_of ?sf) ?items)"
    using sorted by (simp add: rev_map [symmetric] sorted_wrt_rev)
  moreover have "query_concise E ow pa q s = (paginate E (q_pagination q) ?items, s)"
    using run by (simp add: query_concise_def sbind_run Let_def lift_def)
  ultimately show ?thesis using set by (intro exI [of _ ?items]) auto
qed

end

section \<open>Pages\<close>

lemma position_bound: "position P xs = Some n \<Longrightarrow> n < length xs \<and> P (xs ! n)"
  by (induction xs arbitrary: n) (auto split: if_splits)

lemma position_distinct:
  assumes "distinct (map f xs)" and "n < length xs" and "f (xs ! n) = y"
  shows "position (\<lambda>x. f x = y) xs = Some n"
  using assms
proof (induction xs arbitrary: n)
  case (Cons x xs)
  show ?case
  proof (cases n)
    case (Suc m)
    with Cons.prems have "f (xs ! m) = y" "m < length xs" by auto
    moreover from this Cons.prems(1) have "f x \<noteq> y" by (metis distinct.simps(2) imageI list.simps(9) nth_mem set_map)
    ultimately show ?thesis using Cons Suc by simp
  qed (use Cons.prems in auto)
qed simp

lemma unat_usize: "n < 2 ^ 64 \<Longrightarrow> unat (of_nat n :: usize) = n"
  by (simp add: unsigned_of_nat take_bit_nat_eq_self)

lemma page_start_le: "length items < 2 ^ 64 \<Longrightarrow> unat (page_start p items) \<le> length items"
  by (auto simp: page_start_def unat_usize split: option.splits dest!: position_bound)

lemma usize_add_ok: "unat a + unat b < 2 ^ 64 \<Longrightarrow> usize_add E a b = Inr (a + b)"
  by (simp add: usize_add_def)

lemma unat_add_ok: "unat a + unat b < 2 ^ 64 \<Longrightarrow> unat (a + b :: usize) = unat a + unat b"
  by (subst unat_add_lem [symmetric]) simp

text \<open>A page before its last item is popped: up to one item more than the limit, from the cursor on.\<close>

lemma paginate_page:
  assumes fits: "unat (page_start p items) + unat l + 1 < 2 ^ 64" and len: "length items < 2 ^ 64"
    and l: "pg_limit p = Some l"
  shows "paginate E (Some p) items = Inr (take (unat l + 1) (drop (unat (page_start p items)) items))"
proof -
  let ?i = "page_start p items"
  have a: "unat (?i + l) = unat ?i + unat l" using fits by (intro unat_add_ok) simp
  have b: "unat (?i + l + 1) = unat ?i + unat l + 1" using fits a by (subst unat_add_ok) simp_all
  have n: "unat (of_nat (length items) :: usize) = length items" using len by (rule unat_usize)
  have "usize_add E ?i l = Inr (?i + l)" "usize_add E (?i + l) 1 = Inr (?i + l + 1)"
    using fits a by (simp_all add: usize_add_ok)
  moreover have "(?i + l + 1 > of_nat (length items)) \<longleftrightarrow> unat ?i + unat l + 1 > length items"
    using b n by (simp add: word_less_nat_alt)
  ultimately show ?thesis
    using page_start_le [OF len, of p] b n l by (auto simp: paginate_def Let_def slice_def)
qed

text \<open>The largest limit there is: a panic with overflow checks, an empty page without.\<close>

lemma paginate_max:
  assumes "pg_limit p = Some (- 1)" and "pg_cursor p = None"
  shows "paginate E (Some p) items =
    (if overflow_checks E then Inl (Panic ''attempt to add with overflow'') else Inr [])"
  using assms by (auto simp: paginate_def page_start_def usize_add_def slice_def Let_def unsigned_minus_1_eq_mask mask_eq_exp_minus_1)

section \<open>Full queries\<close>

definition accepts :: "('s, 'b) env \<Rightarrow> match_set list \<Rightarrow> index_item \<Rightarrow> bool" where
  "accepts E mss it \<longleftrightarrow> mss = [] \<or> (\<exists>ms\<in>set mss. match_all E (mst_inner ms) it = Inr True)"

text \<open>A match set adds the item once for itself: an item that \<open>n\<close> match sets accept is added \<open>n\<close> times.\<close>

lemma full_sets_Inr:
  assumes "full_sets E mss it (items, matches) = Inr r"
  shows "fst r = items @ replicate (length (filter (\<lambda>ms. match_all E (mst_inner ms) it = Inr True) mss)) it"
  using assms
proof (induction mss arbitrary: items matches)
  case (Cons ms mss)
  from Cons.prems obtain b where b: "match_all E (mst_inner ms) it = Inr b" by (auto simp: monad_simps)
  with Cons show ?case by (cases b) (auto simp: monad_simps replicate_append_same)
qed auto

lemma full_items_sound:
  assumes "full_items E mss limit rest (items, matches) = Inr r"
  shows "\<exists>more. r = items @ more \<and> set more \<subseteq> set rest \<and> (\<forall>it\<in>set more. accepts E mss it)"
  using assms
proof (induction rest arbitrary: items matches)
  case (Cons it rest)
  from Cons.prems consider "r = items"
    | "full_items E mss limit rest (items, matches) = Inr r"
    | "mss = []" "full_items E mss limit rest (items @ [it], ii_message_cid it # matches) = Inr r"
    | x where "full_sets E mss it (items, matches) = Inr x" "full_items E mss limit rest x = Inr r"
    by (auto simp: monad_simps split: if_splits)
  then show ?case
  proof cases
    case 1
    then show ?thesis by auto
  next
    case 2
    with Cons.IH show ?thesis by fastforce
  next
    case 3
    with Cons.IH [OF 3(2)] show ?thesis by (auto simp: accepts_def)
  next
    case (4 x)
    let ?n = "length (filter (\<lambda>ms. match_all E (mst_inner ms) it = Inr True) mss)"
    obtain y where y: "x = (items @ replicate ?n it, y)"
      using full_sets_Inr [OF 4(1)] by (cases x) auto
    have "accepts E mss it" if "0 < ?n"
      using that by (auto simp: accepts_def filter_empty_conv)
    with Cons.IH [OF 4(2) [unfolded y]] show ?thesis by fastforce
  qed
qed auto

end
