(* ===== verification/Store_Refinement.thy ===== *)
theory Store_Refinement
  imports Message_Store Index_Query
begin

text \<open>
  The message store and the event log as abstract stores: a partial map from message CIDs to entries.
  \<open>message_put\<close>, \<open>message_delete\<close> and their event log counterparts update the map, \<open>message_get\<close> looks
  a message up, and a concise query returns the entries it selects.
\<close>

section \<open>Matching\<close>

lemma match_all_True:
  "match_all E ms it = Inr True \<longleftrightarrow>
     (\<forall>m\<in>set ms. \<exists>v. map_of (ii_fields it) (m_field m) = Some v \<and> matcher_is_match E m v = Inr True)"
  by (induction ms) (auto simp: monad_simps split: option.splits)

text \<open>Matchers on equality, prefixes and sets never fail.\<close>

definition total_matcher :: "matcher \<Rightarrow> bool" where
  "total_matcher m = (case m_value m of MO_Range r \<Rightarrow> False | MO_DateRange r \<Rightarrow> False | _ \<Rightarrow> True)"

lemma match_all_total: "list_all total_matcher ms \<Longrightarrow> \<exists>b. match_all E ms it = Inr b"
proof (induction ms)
  case (Cons m ms)
  then obtain b where b: "match_all E ms it = Inr b" by auto
  show ?case
  proof (cases "map_of (ii_fields it) (m_field m)")
    case (Some v)
    obtain b' where "matcher_is_match E m v = Inr b'"
      using Cons.prems by (cases "m_value m") (auto simp: total_matcher_def matcher_is_match_def)
    with b Some show ?thesis by (cases b') auto
  qed auto
qed auto

section \<open>The stores\<close>

text \<open>
  The block of a message, when the store holds the message \<open>m\<close> under its CID or does not hold it; and when
  the blocks and the indexes of an owner's partition represent the map \<open>msgs\<close>.
\<close>

definition block_holds :: "('s, 'b) env \<Rightarrow> (string \<Rightarrow> string \<Rightarrow> string \<Rightarrow> 'k) \<Rightarrow> ('s \<Rightarrow> 'k \<Rightarrow> 'b option) \<Rightarrow>
    's \<Rightarrow> string \<Rightarrow> string \<Rightarrow> string \<Rightarrow> entry option \<Rightarrow> bool" where
  "block_holds E cell view s ow pa c m \<longleftrightarrow>
     (case m of
        None \<Rightarrow> view s (cell ow pa c) = None
      | Some e \<Rightarrow> entry_cid E e = Inr c \<and>
          (\<exists>d. view s (cell ow pa c) = Some d \<and> dag_decode_entry E d = Inr (ser_entry e)))"

definition stores :: "('s, 'b) env \<Rightarrow> (string \<Rightarrow> string \<Rightarrow> string \<Rightarrow> 'k) \<Rightarrow> ('s \<Rightarrow> 'k \<Rightarrow> 'b option) \<Rightarrow>
    's \<Rightarrow> string \<Rightarrow> string \<Rightarrow> (string \<rightharpoonup> entry) \<Rightarrow> bool" where
  "stores E cell view s ow pa msgs \<longleftrightarrow> indexed_as E cell view s ow pa (map_option e_indexes \<circ> msgs) \<and>
     (\<forall>c e. msgs c = Some e \<longrightarrow> entry_cid E e = Inr c) \<and>
     (\<forall>c e. entry_cid E e = Inr c \<longrightarrow> block_holds E cell view s ow pa c (msgs c))"

text \<open>Nothing outside the owner's partition changes.\<close>

definition changes_only :: "(string \<Rightarrow> string \<Rightarrow> string \<Rightarrow> 'k) \<Rightarrow> (string \<Rightarrow> bool) \<Rightarrow> ('s \<Rightarrow> 'k \<Rightarrow> 'b option) \<Rightarrow>
    string \<Rightarrow> string \<Rightarrow> 's \<Rightarrow> 's \<Rightarrow> bool" where
  "changes_only cell good view ow pa s t \<longleftrightarrow>
     (\<forall>k. (\<forall>c. good c \<longrightarrow> k \<noteq> cell ow pa c) \<longrightarrow> view t k = view s k)"

text \<open>What a message block decodes to is the entry as serialization keeps it.\<close>

lemma entry_cid_payload:
  assumes "entry_cid E e = Inr c"
  obtains p where "cid_value E p = Inr c" and "\<And>t. p \<noteq> P_Text t"
  using assms
  by (cases "e_message e")
    (auto simp: entry_cid_def write_cid_def delete_cid_def configure_cid_def from_value_def monad_simps)

context index_store
begin

abbreviation message_at :: "'s \<Rightarrow> string \<Rightarrow> string \<Rightarrow> string \<Rightarrow> entry option \<Rightarrow> bool" where
  "message_at \<equiv> block_holds E cell view"

abbreviation stored :: "'s \<Rightarrow> string \<Rightarrow> string \<Rightarrow> (string \<rightharpoonup> entry) \<Rightarrow> bool" where
  "stored \<equiv> stores E cell view"

abbreviation only :: "string \<Rightarrow> string \<Rightarrow> 's \<Rightarrow> 's \<Rightarrow> bool" where
  "only \<equiv> changes_only cell good view"

lemma message_at_cong:
  "view t (cell ow pa c) = view s (cell ow pa c) \<Longrightarrow> message_at t ow pa c m = message_at s ow pa c m"
  by (cases m) (simp_all add: block_holds_def)

lemma stored_at: "stored s ow pa msgs \<Longrightarrow> entry_cid E e = Inr c \<Longrightarrow> message_at s ow pa c (msgs c)"
  unfolding stores_def by blast

lemma only_refl [simp]: "only ow pa s s"
  by (simp add: changes_only_def)

lemma only_trans: "only ow pa s t \<Longrightarrow> only ow pa t u \<Longrightarrow> only ow pa s u"
  by (simp add: changes_only_def)

lemma entry_cid_good: "entry_cid E e = Inr c \<Longrightarrow> good c"
  using entry_cid_payload cid_good by metis

lemma slot_good: "\<exists>c. good c \<and> slot ow pa f = cell ow pa c"
proof -
  obtain c where "cid_value E (P_Text (ow @ ''-'' @ f)) = Inr c" using text_cid by meson
  then show ?thesis using cid_good by (auto simp: index_slot_def)
qed

lemma stored_same:
  assumes same: "\<And>c. good c \<Longrightarrow> view t (cell ow pa c) = view s (cell ow pa c)" and st: "stored s ow pa msgs"
  shows "stored t ow pa msgs"
proof -
  have "the_index t ow pa f = the_index s ow pa f" for f
    using slot_good [of ow pa f] same by (intro the_index_cong) auto
  moreover have "message_at t ow pa c m = message_at s ow pa c m" if "entry_cid E e = Inr c" for e c m
    using same [OF entry_cid_good [OF that]] by (rule message_at_cong)
  ultimately show ?thesis using st unfolding stores_def indexed_as_def by metis
qed

lemma frame_only: "frame ow pa s t \<Longrightarrow> only ow pa s t"
  unfolding same_but_indexes_def changes_only_def by (metis slot_good)

lemma only_put: "good c \<Longrightarrow> view t = (view s)(cell ow pa c := x) \<Longrightarrow> only ow pa s t"
  by (auto simp: changes_only_def)

lemma message_at_frame:
  assumes "entry_cid E e = Inr c" and "frame ow pa s t"
  shows "message_at t ow pa c m = message_at s ow pa c m"
proof -
  obtain p where "cid_value E p = Inr c" "\<And>t. p \<noteq> P_Text t" by (rule entry_cid_payload [OF assms(1)]) blast
  then have "\<forall>f. cell ow pa c \<noteq> slot ow pa f" using slot_not_message by metis
  with assms(2) have "view t (cell ow pa c) = view s (cell ow pa c)" by (simp add: same_but_indexes_def)
  then show ?thesis by (rule message_at_cong)
qed

lemma message_at_other:
  assumes "entry_cid E e = Inr c" and "entry_cid E e' = Inr c'" and "c' \<noteq> c"
    and "view t = (view s)(cell ow pa c := x)"
  shows "message_at t ow pa c' m = message_at s ow pa c' m"
proof -
  have "good c" "good c'" using assms(1,2) entry_cid_payload cid_good by metis+
  then have "cell ow pa c' \<noteq> cell ow pa c" using cell_cid assms(3) by metis
  with assms(4) show ?thesis by (intro message_at_cong) simp
qed

lemma the_index_message:
  assumes "entry_cid E e = Inr c" and "view t = (view s)(cell ow pa c := x)"
  shows "the_index t ow' pa' f = the_index s ow' pa' f"
proof -
  obtain p where "cid_value E p = Inr c" "\<And>t. p \<noteq> P_Text t" by (rule entry_cid_payload [OF assms(1)]) blast
  then have "slot ow' pa' f \<noteq> cell ow pa c" using slot_not_message by metis
  with assms(2) show ?thesis by (intro the_index_cong) simp
qed

lemma indexed_message:
  assumes "entry_cid E e = Inr c" and "view t = (view s)(cell ow pa c := x)"
  shows "indexed t ow' pa' live = indexed s ow' pa' live"
  using the_index_message [OF assms] by (simp add: indexed_as_def)

text \<open>The part that \<open>message_put\<close> and \<open>event_append\<close> share: replace the block, then index the entry.\<close>

lemma replace_block:
  assumes cid: "entry_cid E e = Inr c"
    and del: "bs_delete E ow pa c s = (Inr (), x)" and enc: "dag_encode E (B_Entry e) = Inr d"
    and put: "bs_put E ow pa c d x = (Inr (), y)"
  shows "view y = (view s)(cell ow pa c \<mapsto> d)" and "dag_decode_entry E d = Inr (ser_entry e)"
proof -
  have g: "good c" by (rule entry_cid_good [OF cid])
  show "view y = (view s)(cell ow pa c \<mapsto> d)"
    using delete [OF g, of ow pa s] block_store_axioms block_store.put [OF block_store_axioms g, of ow pa d x] del put by auto
  show "dag_decode_entry E d = Inr (ser_entry e)" by (rule decode_entry [OF enc])
qed

lemma stored_insert:
  assumes st: "stored s ow pa msgs" and cid: "entry_cid E e = Inr c" and cid': "entry_cid E e' = Inr c"
    and y: "view y = (view s)(cell ow pa c \<mapsto> d)" and dec: "dag_decode_entry E d = Inr (ser_entry e)"
    and same: "ser_entry e' = ser_entry e" and wf: "wf_fields (e_indexes e')"
    and ins: "index_insert E ow pa e' y = (Inr (), t)"
  shows "stored t ow pa (msgs(c \<mapsto> e'))" and "only ow pa s t"
proof -
  have clean: "clean_cid c" using cid entry_cid_payload cid_clean by metis
  have "indexed y ow pa (map_option e_indexes \<circ> msgs)"
    using st indexed_message [OF cid y] by (simp add: stores_def)
  from index_insert_refines [OF this cid' clean wf ins]
  have ix: "indexed t ow pa ((map_option e_indexes \<circ> msgs)(c \<mapsto> e_indexes e'))" and fr: "frame ow pa y t" by blast+
  have "(map_option e_indexes \<circ> msgs)(c \<mapsto> e_indexes e') = map_option e_indexes \<circ> msgs(c \<mapsto> e')" by auto
  with ix have ix': "indexed t ow pa (map_option e_indexes \<circ> msgs(c \<mapsto> e'))" by (simp only:)
  have "message_at t ow pa c' ((msgs(c \<mapsto> e')) c')" if c': "entry_cid E x = Inr c'" for x c'
  proof (cases "c' = c")
    case True
    have "message_at y ow pa c (Some e')" using y dec same cid' by (simp add: block_holds_def)
    with True show ?thesis using message_at_frame [OF cid fr] by simp
  next
    case False
    have "message_at s ow pa c' (msgs c')" by (rule stored_at [OF st c'])
    with False show ?thesis using message_at_frame [OF c' fr] message_at_other [OF cid c' False y] by simp
  qed
  with ix' st cid' show "stored t ow pa (msgs(c \<mapsto> e'))" by (simp add: stores_def)
  have "good c" by (rule entry_cid_good [OF cid])
  then show "only ow pa s t" using only_put [OF _ y] frame_only [OF fr] only_trans by blast
qed

theorem message_put_refines:
  assumes st: "stored s ow MESSAGE_PARTITION msgs" and cid: "entry_cid E e = Inr c"
    and wf: "wf_fields (e_indexes e)" and run: "message_put E ow e s = (Inr (), t)"
  shows "stored t ow MESSAGE_PARTITION (msgs(c \<mapsto> e)) \<and> only ow MESSAGE_PARTITION s t"
proof -
  from run cid obtain x d y where del: "bs_delete E ow MESSAGE_PARTITION c s = (Inr (), x)"
    and enc: "dag_encode E (B_Entry e) = Inr d" and put: "bs_put E ow MESSAGE_PARTITION c d x = (Inr (), y)"
    and ins: "index_insert E ow MESSAGE_PARTITION e y = (Inr (), t)"
    by (auto simp: message_put_def monad_simps block_encode_Inr)
  note block = replace_block [OF cid del enc put]
  show ?thesis using stored_insert [OF st cid cid block refl wf ins] by blast
qed

lemma stored_delete:
  assumes st: "stored s ow pa msgs" and cid: "entry_cid E e = Inr c"
    and ix: "index_delete E ow pa c s = (Inr (), x)" and del: "bs_delete E ow pa c x = (Inr (), t)"
  shows "stored t ow pa (msgs(c := None))" and "only ow pa s t"
proof -
  have clean: "clean_cid c" and g: "good c" using cid entry_cid_payload cid_clean cid_good by metis+
  have t: "view t = (view x)(cell ow pa c := None)" using delete [OF g, of ow pa x] del by auto
  from st have "indexed s ow pa (map_option e_indexes \<circ> msgs)" by (simp add: stores_def)
  from index_delete_refines [OF this clean ix]
  have "indexed x ow pa ((map_option e_indexes \<circ> msgs)(c := None))" and fr: "frame ow pa s x" by blast+
  moreover have "(map_option e_indexes \<circ> msgs)(c := None) = map_option e_indexes \<circ> msgs(c := None)" by auto
  ultimately have ix': "indexed t ow pa (map_option e_indexes \<circ> msgs(c := None))"
    using indexed_message [OF cid t] by (simp only:)
  have "message_at t ow pa c' ((msgs(c := None)) c')" if c': "entry_cid E y = Inr c'" for y c'
  proof (cases "c' = c")
    case True
    then show ?thesis using t by (simp add: block_holds_def)
  next
    case False
    have "message_at s ow pa c' (msgs c')" by (rule stored_at [OF st c'])
    with False show ?thesis using message_at_frame [OF c' fr] message_at_other [OF cid c' False t] by simp
  qed
  with ix' st show "stored t ow pa (msgs(c := None))" by (simp add: stores_def)
  show "only ow pa s t" using frame_only [OF fr] only_put [OF g t] by (rule only_trans)
qed

theorem message_delete_refines:
  assumes "stored s ow MESSAGE_PARTITION msgs" and "entry_cid E e = Inr c" and "message_delete E ow c s = (Inr (), t)"
  shows "stored t ow MESSAGE_PARTITION (msgs(c := None)) \<and> only ow MESSAGE_PARTITION s t"
  using assms stored_delete by (auto simp: message_delete_def monad_simps)

theorem message_get_stored:
  assumes st: "stored s ow MESSAGE_PARTITION msgs" and cid: "entry_cid E e = Inr c"
  shows "message_get E ow c s = (Inr (map_option ser_entry (msgs c)), s)"
proof -
  have g: "good c" by (rule entry_cid_good [OF cid])
  have "message_at s ow MESSAGE_PARTITION c (msgs c)" by (rule stored_at [OF st cid])
  then show ?thesis
    using g by (cases "msgs c") (auto simp: message_get_def block_holds_def sbind_def lift_def sret_def)
qed

lemma ulid_run: "(case ulid_new E s of (u, t) \<Rightarrow> (Inr u, t)) = (Inr w, z) \<longleftrightarrow> ulid_new E s = (w, z)"
  by (cases "ulid_new E s") auto

text \<open>The event log adds a watermark to the index fields; the block is that of the entry.\<close>

theorem event_append_refines:
  assumes st: "stored s ow EVENTLOG_PARTITION msgs" and cid: "entry_cid E e = Inr c"
    and wf: "wf_fields (e_indexes e)" and run: "event_append E ow e s = (Inr (), t)"
    and ulid: "\<And>s. view (snd (ulid_new E s)) = view s"
  shows "\<exists>w. stored t ow EVENTLOG_PARTITION (msgs(c \<mapsto> e\<lparr>e_indexes := hm_insert ''watermark'' w (e_indexes e)\<rparr>))"
    and "only ow EVENTLOG_PARTITION s t"
proof -
  from run cid obtain x d y w z where del: "bs_delete E ow EVENTLOG_PARTITION c s = (Inr (), x)"
    and enc: "dag_encode E (B_Entry e) = Inr d" and put: "bs_put E ow EVENTLOG_PARTITION c d x = (Inr (), y)"
    and z: "ulid_new E y = (w, z)"
    and ins: "index_insert E ow EVENTLOG_PARTITION (e\<lparr>e_indexes := hm_insert ''watermark'' w (e_indexes e)\<rparr>) z = (Inr (), t)"
    by (auto simp: event_append_def monad_simps block_encode_Inr ulid_run)
  let ?e = "e\<lparr>e_indexes := hm_insert ''watermark'' w (e_indexes e)\<rparr>"
  note block = replace_block [OF cid del enc put]
  have "view z = (view s)(cell ow EVENTLOG_PARTITION c \<mapsto> d)" using ulid [of y] z block(1) by simp
  moreover have "entry_cid E ?e = Inr c" using cid by (simp add: entry_cid_def)
  moreover have "ser_entry ?e = ser_entry e" by (simp add: ser_entry_def)
  moreover have "wf_fields (e_indexes ?e)"
    using wf by (simp add: wf_fields_insert)
  ultimately have "stored t ow EVENTLOG_PARTITION (msgs(c \<mapsto> ?e))" and *: "only ow EVENTLOG_PARTITION s t"
    using stored_insert [OF st cid _ _ block(2) _ _ ins] by blast+
  then show "\<exists>w. stored t ow EVENTLOG_PARTITION (msgs(c \<mapsto> e\<lparr>e_indexes := hm_insert ''watermark'' w (e_indexes e)\<rparr>))"
    by blast
  show "only ow EVENTLOG_PARTITION s t" by (rule *)
qed

theorem event_delete_refines:
  assumes "stored s ow EVENTLOG_PARTITION msgs" and "entry_cid E e = Inr c" and "event_delete E ow c s = (Inr (), t)"
  shows "stored t ow EVENTLOG_PARTITION (msgs(c := None)) \<and> only ow EVENTLOG_PARTITION s t"
  using assms stored_delete by (auto simp: event_delete_def monad_simps)

text \<open>What happens in one partition leaves the others as they were.\<close>

lemma only_other:
  assumes "only ow pa s t" and "ow \<noteq> ow' \<or> pa \<noteq> pa'" and "good c"
  shows "view t (cell ow' pa' c) = view s (cell ow' pa' c)"
proof -
  have "cell ow' pa' c \<noteq> cell ow pa c'" if "good c'" for c'
    using cell_owner [OF assms(3) that] assms(2) by metis
  with assms(1) show ?thesis by (simp add: changes_only_def)
qed

lemma stored_other: "only ow pa s t \<Longrightarrow> ow \<noteq> ow' \<or> pa \<noteq> pa' \<Longrightarrow> stored s ow' pa' msgs \<Longrightarrow> stored t ow' pa' msgs"
  using only_other stored_same by metis

end

section \<open>Queries of messages\<close>

lemma load_all:
  assumes "\<And>it. it \<in> set items \<Longrightarrow> load_entry E ow pa it s = (Inr (f (ii_message_cid it)), s)"
  shows "smapm items (load_entry E ow pa) s = (Inr (map f (map ii_message_cid items)), s)"
  using assms
proof (induction items)
  case (Cons it items)
  then show ?case by (simp add: sbind_def sret_def)
qed (simp add: sret_def)

definition selected :: "('s, 'b) env \<Rightarrow> query \<Rightarrow> (string \<rightharpoonup> entry) \<Rightarrow> string set" where
  "selected E q msgs = {c. \<exists>e. msgs c = Some e \<and> selects E q c (e_indexes e)}"

text \<open>The order of a query's results: by the sort field, then by CID.\<close>

definition in_order :: "query \<Rightarrow> (string \<rightharpoonup> entry) \<Rightarrow> string list \<Rightarrow> bool" where
  "in_order q msgs cs \<longleftrightarrow> sorted_wrt (if sort_is_ascending (q_sort q) then (<) else (>))
     (map (\<lambda>c. sort_of (sort_str (q_sort q)) (item_of c (e_indexes (the (msgs c))))) cs)"

context index_store
begin

lemma load_stored:
  assumes st: "stored s ow pa msgs" and c: "msgs (ii_message_cid it) = Some e"
  shows "load_entry E ow pa it s = (Inr (ser_entry e), s)"
proof -
  have cid: "entry_cid E e = Inr (ii_message_cid it)" using st c by (simp add: stores_def)
  have g: "good (ii_message_cid it)" by (rule entry_cid_good [OF cid])
  have "message_at s ow pa (ii_message_cid it) (Some e)" using stored_at [OF st cid] c by simp
  then show ?thesis using g by (auto simp: load_entry_def block_holds_def sbind_def lift_def)
qed

theorem message_query_exact:
  assumes st: "stored s ow MESSAGE_PARTITION msgs" and q: "query_is_concise q" "q_pagination q = None"
    and fields: "\<forall>ms\<in>set (q_match_sets q). \<forall>f v. mst_index ms = Some (f, v) \<longrightarrow> f \<noteq> ''message_cid''"
    and ans: "answerable E (map_option e_indexes \<circ> msgs) q"
  shows "\<exists>cs. message_query E ow q s = (Inr (map (\<lambda>c. ser_entry (the (msgs c))) cs, None), s) \<and>
     distinct cs \<and> set cs = selected E q msgs \<and> in_order q msgs cs"
proof -
  have "indexed s ow MESSAGE_PARTITION (map_option e_indexes \<circ> msgs)" using st by (simp add: stores_def)
  from query_concise_exact [OF this ans fields] q(2) obtain items
    where run: "query_concise E ow MESSAGE_PARTITION q s = (Inr items, s)"
      and set: "set items = {item_of c fs | c fs. (map_option e_indexes \<circ> msgs) c = Some fs \<and> selects E q c fs}"
      and dist: "distinct (map ii_message_cid items)"
      and sorted: "sorted_wrt (if sort_is_ascending (q_sort q) then (<) else (>)) (map (sort_of (sort_str (q_sort q))) items)"
    by (auto simp: paginate_def)
  let ?cs = "map ii_message_cid items"
  have it: "it = item_of (ii_message_cid it) (e_indexes (the (msgs (ii_message_cid it)))) \<and> msgs (ii_message_cid it) \<noteq> None"
    if "it \<in> set items" for it using that by (auto simp: set)
  have "load_entry E ow MESSAGE_PARTITION it s = (Inr (ser_entry (the (msgs (ii_message_cid it)))), s)"
    if "it \<in> set items" for it using it [OF that] load_stored [OF st] by auto
  from load_all [OF this] have "message_query E ow q s = (Inr (map (\<lambda>c. ser_entry (the (msgs c))) ?cs, None), s)"
    using q run by (simp add: message_query_def index_query_def pop_cursor_def sbind_run lift_def sret_def sbind_def)
  moreover have "set ?cs = selected E q msgs" by (force simp: selected_def set)
  moreover have eq: "map (sort_of (sort_str (q_sort q))) items =
      map (\<lambda>c. sort_of (sort_str (q_sort q)) (item_of c (e_indexes (the (msgs c))))) ?cs"
    using it by simp
  moreover have "in_order q msgs ?cs" unfolding in_order_def eq [symmetric] by (rule sorted)
  ultimately show ?thesis using dist by (intro exI [of _ ?cs]) simp
qed

end

end
