(* ===== verification/Protocols.thy ===== *)
theory Protocols
  imports Message_Store
begin

text \<open>
  Protocol definitions (\<open>src/src/protocols.rs\<close> and the definition half of
  \<open>src/src/protocols/configure.rs\<close>), with the URI utilities they use (\<open>uri\<close> of \<open>src/src/utils.rs\<close>):
  the built-in permissions protocol, the lookup of a definition and of the rule set at a protocol
  path, and the validation of a definition's structure.
\<close>

section \<open>URIs\<close>

definition strip_slash :: "string \<Rightarrow> string" where
  "strip_slash s = (if s \<noteq> [] \<and> last s = CHR ''/'' then butlast s else s)"

definition trim_end_slashes :: "string \<Rightarrow> string" where
  "trim_end_slashes s = rev (dropWhile (\<lambda>c. c = CHR ''/'') (rev s))"

definition uri_clean :: "('s, 'b) env \<Rightarrow> string \<Rightarrow> string result" where
  "uri_clean E uri =
     rbind (map_err (internal ''http'') (uri_parse E (strip_slash uri))) (\<lambda>parsed.
     let scheme = (case uri_scheme parsed of None \<Rightarrow> ''http://'' | Some s \<Rightarrow> s @ ''://'') in
     rbind (some_or (uri_authority parsed)
       (BadRequest (''protocol URI '' @ uri @ '' must have an authority''))) (\<lambda>authority.
     Inr (scheme @ authority @ trim_end_slashes (uri_path parsed))))"

definition uri_validate :: "('s, 'b) env \<Rightarrow> string \<Rightarrow> unit result" where
  "uri_validate E uri =
     (case uri_parse E uri of Inl e \<Rightarrow> Inl (Err (BadRequest (''invalid URL: '' @ uri))) | Inr p \<Rightarrow> Inr ())"

section \<open>The permissions protocol\<close>

definition PROTOCOL_URI :: string where
  "PROTOCOL_URI = ''https://vercre.website/dwn/permissions''"

definition REQUEST_PATH :: string where
  "REQUEST_PATH = ''request''"

definition GRANT_PATH :: string where
  "GRANT_PATH = ''grant''"

definition REVOCATION_PATH :: string where
  "REVOCATION_PATH = ''grant/revocation''"

definition default_size :: size_range where
  "default_size = \<lparr>size_min = None, size_max = Some 10000\<rparr>"

definition default_rule_set :: "action_rule list \<Rightarrow> (string \<times> rule_set) list \<Rightarrow> rule_set" where
  "default_rule_set acts st = RuleSet None (Some acts) None (Some default_size) None st"

definition DEFINITION :: definition_t where
  "DEFINITION =
     (let t = \<lparr>pt_schema = None, pt_data_formats = Some [''application/json'']\<rparr> in
      \<lparr>def_protocol = PROTOCOL_URI, def_published = True,
       def_types = [(''grant'', t), (''request'', t), (''revocation'', t)],
       def_structure =
         [(''grant'', default_rule_set
             [\<lparr>ar_who = Some Recipient, ar_role = None, ar_of = Some ''grant'', ar_can = [A_Read, A_Query]\<rparr>]
             [(''revocation'', default_rule_set
                [\<lparr>ar_who = Some Anyone, ar_role = None, ar_of = None, ar_can = [A_Read]\<rparr>] [])]),
          (''request'', default_rule_set
             [\<lparr>ar_who = Some Anyone, ar_role = None, ar_of = None, ar_can = [A_Create]\<rparr>] [])]\<rparr>)"

section \<open>Looking up definitions\<close>

definition fetch_config :: "('s, 'b) env \<Rightarrow> string \<Rightarrow> string option \<Rightarrow> ('s, configure list option) io" where
  "fetch_config E ow protocol =
     sbind (MessageStore_query E ow (protocols_query_build protocol None)) (\<lambda>(messages, _).
     if messages = [] then sret None
     else sbind (lift (rmapm messages configure_try_from)) (\<lambda>entries. sret (Some entries)))"

definition protocol_definition :: "('s, 'b) env \<Rightarrow> string \<Rightarrow> string \<Rightarrow> ('s, definition_t) io" where
  "protocol_definition E ow protocol_uri =
     sbind (lift (uri_clean E protocol_uri)) (\<lambda>uri.
     if uri = PROTOCOL_URI then sret DEFINITION
     else sbind (fetch_config E ow (Some uri)) (\<lambda>protocols.
       case protocols of
         None \<Rightarrow> sfail (Err (Forbidden ''unable to find protocol definition''))
       | Some ps \<Rightarrow>
           (case ps of
              [] \<Rightarrow> sfail (Err (Forbidden ''unable to find protocol definition''))
            | p # _ \<Rightarrow> sret (cd_definition (cfg_descriptor p)))))"

text \<open>The rule set at a protocol path \<open>a/b/c\<close>: one segment per level of nesting.\<close>

function rule_set_at :: "string \<Rightarrow> (string \<times> rule_set) list \<Rightarrow> rule_set option" where
  "rule_set_at path st =
     (case split_once (CHR ''/'') path of
        None \<Rightarrow> map_of st path
      | Some (type_name, rest) \<Rightarrow>
          (case map_of st type_name of
             None \<Rightarrow> None
           | Some rs \<Rightarrow> rule_set_at rest (rs_structure rs)))"
  by pat_completeness auto
termination
  by (relation "measure (\<lambda>(path, st). length path)") (auto dest: split_once_length)

declare rule_set_at.simps [simp del]

section \<open>Validating a definition\<close>

definition extend_path :: "string \<Rightarrow> string \<Rightarrow> string" where
  "extend_path path name = (if path = [] then name else path @ ''/'' @ name)"

text \<open>The paths of the role records: nesting is limited to ten levels, and a role's own children are not searched.\<close>

fun role_paths :: "string \<Rightarrow> (string \<times> rule_set) list \<Rightarrow> string list \<Rightarrow> string list result"
  and role_paths_in :: "string \<Rightarrow> (string \<times> rule_set) list \<Rightarrow> string list \<Rightarrow> string list result"
where
  "role_paths path st roles =
     (if length (split_on (CHR ''/'') path) > 10
      then Inl (Err (BadRequest ''Entry nesting depth exceeded 10 levels.''))
      else role_paths_in path st roles)"
| "role_paths_in path [] roles = Inr roles"
| "role_paths_in path ((name, RuleSet en ac ro si ta sub) # st) roles =
     (let p = extend_path path name in
      rbind (if ro \<noteq> None then Inr (roles @ [p]) else role_paths p sub roles) (\<lambda>roles.
      role_paths_in path st roles))"

definition read_like :: "action list \<Rightarrow> action list" where
  "read_like can = filter (\<lambda>a. a \<in> set can) [A_Read, A_Query, A_Subscribe]"

text \<open>Single quotes around a word of an error message.\<close>

definition quoted :: "string \<Rightarrow> string" where
  "quoted s = [CHR 0x27] @ s @ [CHR 0x27]"

text \<open>
  One action rule, against the roles of the definition and the rules that follow it. The \<open>Debug\<close>
  rendering of a rule, which some of the source's messages include, is left out of their text.
\<close>

definition validate_action :: "string list \<Rightarrow> action_rule \<Rightarrow> action_rule list \<Rightarrow> unit result" where
  "validate_action roles a others =
     rbind (case ar_role a of
        None \<Rightarrow> Inr ()
      | Some role \<Rightarrow>
          rbind (rguard (role \<in> set roles) (BadRequest (''missing role '' @ role @ '' in action''))) (\<lambda>_.
          rguard (read_like (ar_can a) = [] \<or> length (read_like (ar_can a)) = 3)
            (BadRequest (''role '' @ role @ '' is missing read-like actions'')))) (\<lambda>_.
     rbind (rguard (\<not> (ar_who a = Some Anyone \<and> ar_of a \<noteq> None))
       (BadRequest ''`of` must not be set when `who` is \"anyone\"'')) (\<lambda>_.
     rbind (if ar_who a = Some Recipient \<and> ar_of a = None
        then rguard (list_ex (\<lambda>ra. ra \<in> set (ar_can a)) [A_CoUpdate, A_CoDelete, A_CoPrune])
          (BadRequest ''recipient action must contain only co-update, co-delete, and co-prune'')
        else Inr ()) (\<lambda>_.
     rbind (rguard (\<not> (ar_who a = Some Author \<and> ar_of a = None))
       (BadRequest (''`of` must be set when `who` is set to '' @ quoted ''author''))) (\<lambda>_.
     rbind (rguard (\<not> (A_Update \<in> set (ar_can a) \<and> A_Create \<notin> set (ar_can a)))
       (BadRequest (''action rule contains '' @ quoted ''update'' @ '' but no '' @ quoted ''create''))) (\<lambda>_.
     rbind (rguard (\<not> (A_Delete \<in> set (ar_can a) \<and> A_Create \<notin> set (ar_can a)))
       (BadRequest (''action rule contains '' @ quoted ''delete'' @ '' but no '' @ quoted ''create''))) (\<lambda>_.
     rfor others (\<lambda>other.
       if ar_who a \<noteq> None
       then rguard (\<not> (ar_who a = ar_who other \<and> ar_of a = ar_of other))
         (BadRequest ''an actor may only have one rule within a rule set'')
       else rguard (ar_role a \<noteq> ar_role other)
         (BadRequest ''more than one action rule per role not allowed within a rule set''))))))))"

fun validate_actions :: "string list \<Rightarrow> action_rule list \<Rightarrow> unit result" where
  "validate_actions roles [] = Inr ()"
| "validate_actions roles (a # others) =
     rbind (validate_action roles a others) (\<lambda>_. validate_actions roles others)"

text \<open>\<open>size.max.is_some() && size.min > size.max\<close>, where an absent minimum is the least value.\<close>

definition valid_size :: "size_range \<Rightarrow> bool" where
  "valid_size s = (case size_max s of None \<Rightarrow> True | Some mx \<Rightarrow>
     (case size_min s of None \<Rightarrow> True | Some mn \<Rightarrow> \<not> mn > mx))"

fun validate_rule_set :: "('s, 'b) env \<Rightarrow> rule_set \<Rightarrow> string \<Rightarrow> string list \<Rightarrow> string list \<Rightarrow> unit result"
  and validate_nested :: "('s, 'b) env \<Rightarrow> (string \<times> rule_set) list \<Rightarrow> string \<Rightarrow> string list \<Rightarrow> string list \<Rightarrow> unit result"
where
  "validate_rule_set E (RuleSet en ac ro si ta sub) path types roles =
     rbind (case si of None \<Rightarrow> Inr () | Some s \<Rightarrow> rguard (valid_size s) (BadRequest ''invalid size range'')) (\<lambda>_.
     rbind (case ta of None \<Rightarrow> Inr () | Some t \<Rightarrow>
        rfor (map fst (tr_undefined t)) (\<lambda>tag.
          case schema_tag_key E tag of None \<Rightarrow> Inr () | Some e \<Rightarrow> Inl (Err e))) (\<lambda>_.
     rbind (validate_actions roles (case ac of None \<Rightarrow> [] | Some as \<Rightarrow> as)) (\<lambda>_.
     validate_nested E sub path types roles)))"
| "validate_nested E [] path types roles = Inr ()"
| "validate_nested E ((name, rs) # st) path types roles =
     rbind (rguard (name \<in> set types)
       (BadRequest (''rule set '' @ name @ '' is not declared as an allowed type''))) (\<lambda>_.
     rbind (validate_rule_set E rs (extend_path path name) types roles) (\<lambda>_.
     validate_nested E st path types roles))"

definition validate_structure :: "('s, 'b) env \<Rightarrow> definition_t \<Rightarrow> unit result" where
  "validate_structure E d =
     rbind (role_paths [] (def_structure d) []) (\<lambda>roles.
     rfor (map snd (def_structure d)) (\<lambda>rs.
       validate_rule_set E rs [] (map fst (def_types d)) roles))"

end
