(* ===== verification/Grants.thy ===== *)
theory Grants
  imports Protocols
begin

text \<open>
  Permission grants (\<open>src/src/grants.rs\<close>) and their verification (\<open>src/src/grants/verify.rs\<close>). A grant
  is a stored \<open>RecordsWrite\<close> of the permissions protocol; it permits a message when the grantee, the
  grantor, the interface, the method, the time and the scope agree and it has not been revoked.
\<close>

section \<open>Scopes\<close>

primrec scope_interface :: "scope \<Rightarrow> interface" where
  "scope_interface (Scope_Records m p l) = I_Records"
| "scope_interface (Scope_Messages m p) = I_Messages"
| "scope_interface (Scope_Protocols m p) = I_Protocols"

primrec scope_method :: "scope \<Rightarrow> dwn_method" where
  "scope_method (Scope_Records m p l) = m"
| "scope_method (Scope_Messages m p) = m"
| "scope_method (Scope_Protocols m p) = m"

primrec scope_protocol :: "scope \<Rightarrow> string option" where
  "scope_protocol (Scope_Records m p l) = Some p"
| "scope_protocol (Scope_Messages m p) = p"
| "scope_protocol (Scope_Protocols m p) = p"

section \<open>Fetching grants\<close>

text \<open>The query most lookups use: the latest write of a record.\<close>

definition by_record_id :: "string \<Rightarrow> query" where
  "by_record_id rid =
     records_query_build (add_filter (records_filter_new\<lparr>rf_record_id := Some rid\<rparr>) records_query_builder_new)"

definition fetch_grant :: "('s, 'b) env \<Rightarrow> string \<Rightarrow> string \<Rightarrow> ('s, grant) io" where
  "fetch_grant E ow grant_id =
     sbind (MessageStore_query E ow (by_record_id grant_id)) (\<lambda>(entries, _).
     case entries of
       [] \<Rightarrow> sfail (Err (Forbidden ''no grant found''))
     | e # _ \<Rightarrow>
         lift (rbind (some_or (as_write e) (Forbidden ''not a valid grant'')) (\<lambda>w.
         rbind (some_or (w_encoded_data w) (Forbidden ''missing grant data'')) (\<lambda>enc.
         rbind (map_err (internal ''base64ct'') (b64_decode E enc)) (\<lambda>bs.
         rbind (map_err (internal ''serde_json'') (json_grant_data E bs)) (\<lambda>g.
         rbind (auth_signer E (w_authorization w)) (\<lambda>grantor.
         Inr \<lparr>g_id = w_record_id w, g_grantor = grantor,
              g_grantee = (case wd_recipient (w_descriptor w) of None \<Rightarrow> [] | Some r \<Rightarrow> r),
              g_date_granted = wd_date_created (w_descriptor w), g_data = g\<rparr>)))))))"

definition fetch_scope :: "('s, 'b) env \<Rightarrow> string \<Rightarrow> write_msg \<Rightarrow> ('s, scope) io" where
  "fetch_scope E ow w =
     (let d = w_descriptor w in
      sbind (lift (rguard (wd_protocol d = Some PROTOCOL_URI)
        (Forbidden ''unexpected protocol for permission record''))) (\<lambda>_.
      sbind (lift (some_or (wd_protocol_path d) (Forbidden ''missing `protocol_path`''))) (\<lambda>path.
      sbind (lift (some_or (w_encoded_data w) (Forbidden ''missing grant data''))) (\<lambda>encoded.
      sbind (lift (map_err (internal ''base64ct'') (b64_decode E encoded))) (\<lambda>bs.
      if path = REQUEST_PATH then
        lift (rbind (map_err (internal ''serde_json'') (json_request_data E bs)) (\<lambda>r. Inr (req_scope r)))
      else if path = GRANT_PATH then
        lift (rbind (map_err (internal ''serde_json'') (json_grant_data E bs)) (\<lambda>g. Inr (gd_scope g)))
      else if path = REVOCATION_PATH then
        sbind (lift (some_or (wd_parent_id d) (Forbidden ''missing parent ID for revocation record''))) (\<lambda>parent.
        sbind (fetch_grant E ow parent) (\<lambda>g. sret (gd_scope (g_data g))))
      else sfail (Err (Forbidden ''invalid `protocol_path`'')))))))"

text \<open>\<open>DelegatedGrant::to_grant\<close>.\<close>

definition to_grant :: "('s, 'b) env \<Rightarrow> delegated_grant \<Rightarrow> grant result" where
  "to_grant E dg =
     rbind (map_err (internal ''base64ct'') (b64_decode E (dg_encoded_data dg))) (\<lambda>bs.
     rbind (map_err (\<lambda>e. BadRequest (''issue deserializing grant: '' @ e)) (json_grant_data E bs)) (\<lambda>g.
     rbind (auth_signer E (dg_authorization dg)) (\<lambda>grantor.
     Inr \<lparr>g_id = dg_record_id dg, g_grantor = grantor,
          g_grantee = (case wd_recipient (dg_descriptor dg) of None \<Rightarrow> [] | Some r \<Rightarrow> r),
          g_date_granted = wd_date_created (dg_descriptor dg), g_data = g\<rparr>)))"

text \<open>\<open>Grant::try_from\<close> of a write: the data of the grant is read from the text as it is, without decoding it.\<close>

definition grant_try_from :: "('s, 'b) env \<Rightarrow> write_msg \<Rightarrow> grant result" where
  "grant_try_from E w =
     (let permission_grant = (case w_encoded_data w of None \<Rightarrow> [] | Some enc \<Rightarrow> enc) in
      rbind (map_err (\<lambda>e. BadRequest (''issue deserializing grant: '' @ e)) (json_grant_data E permission_grant)) (\<lambda>g.
      Inr \<lparr>g_id = w_record_id w, g_grantor = unwrap_or_default (auth_signer E (w_authorization w)),
           g_grantee = (case wd_recipient (w_descriptor w) of None \<Rightarrow> [] | Some r \<Rightarrow> r),
           g_date_granted = wd_date_created (w_descriptor w), g_data = g\<rparr>))"

section \<open>Verification\<close>

text \<open>The revocations of a grant, oldest first.\<close>

definition revocations_of :: "string \<Rightarrow> query" where
  "revocations_of gid =
     records_query_build (add_filter
       (records_filter_new\<lparr>rf_parent_id := Some gid, rf_protocol_path := Some REVOCATION_PATH\<rparr>)
       records_query_builder_new)"

definition is_current :: "('s, 'b) env \<Rightarrow> grant \<Rightarrow> string \<Rightarrow> datetime \<Rightarrow> ('s, unit) io" where
  "is_current E g grantor timestamp =
     sbind (lift (rguard (\<not> timestamp < g_date_granted g) (Forbidden ''grant is not yet active''))) (\<lambda>_.
     sbind (lift (rguard (\<not> timestamp \<ge> gd_date_expires (g_data g)) (Forbidden ''grant has expired''))) (\<lambda>_.
     sbind (MessageStore_query E grantor (revocations_of (g_id g))) (\<lambda>(entries, _).
     case entries of
       [] \<Rightarrow> sret ()
     | oldest # _ \<Rightarrow>
         lift (rguard (\<not> base_timestamp (entry_descriptor oldest) < timestamp)
           (Forbidden ''grant has been revoked'')))))"

definition grant_verify :: "('s, 'b) env \<Rightarrow> grant \<Rightarrow> string \<Rightarrow> string \<Rightarrow> descriptor \<Rightarrow> ('s, unit) io" where
  "grant_verify E g grantor grantee d =
     sbind (lift (rguard (grantee = g_grantee g) (Forbidden ''grant not granted to grantee''))) (\<lambda>_.
     sbind (lift (rguard (grantor = g_grantor g) (Forbidden ''grant not granted by grantor''))) (\<lambda>_.
     sbind (lift (rguard (base_interface d = scope_interface (gd_scope (g_data g)))
       (Forbidden ''interface is not within grant scope''))) (\<lambda>_.
     sbind (lift (rguard (base_method d = scope_method (gd_scope (g_data g)))
       (Forbidden ''method is not within grant scope''))) (\<lambda>_.
     is_current E g grantor (base_timestamp d)))))"

definition verify_scope :: "grant \<Rightarrow> write_msg \<Rightarrow> unit result" where
  "verify_scope g w =
     (case gd_scope (g_data g) of
        Scope_Records m protocol limited_to \<Rightarrow>
          rbind (rguard (Some protocol = wd_protocol (w_descriptor w))
            (Forbidden ''scope protocol does not match write protocol'')) (\<lambda>_.
          case limited_to of
            Some (Scope_ContextId ctx) \<Rightarrow>
              rbind (some_or (w_context_id w) (Forbidden ''missing `context_id`'')) (\<lambda>wctx.
              rguard (starts_with wctx ctx) (Forbidden ''record not part of grant context''))
          | Some (Scope_ProtocolPath path) \<Rightarrow>
              rguard (Some path = wd_protocol_path (w_descriptor w))
                (Forbidden ''grant and record protocol paths do not match'')
          | None \<Rightarrow> Inr ())
      | _ \<Rightarrow> Inl (Err (Forbidden ''invalid scope: `Records` scope must have protocol set'')))"

abbreviation published :: "write_msg \<Rightarrow> bool" where
  "published w \<equiv> wd_published (w_descriptor w) = Some True"

definition verify_conditions :: "grant \<Rightarrow> write_msg \<Rightarrow> unit result" where
  "verify_conditions g w =
     (case gd_conditions (g_data g) of
        None \<Rightarrow> Inr ()
      | Some c \<Rightarrow>
          (case cond_publication c of
             Some Required \<Rightarrow> rguard (published w) (Forbidden ''grant requires message to be published'')
           | Some Prohibited \<Rightarrow> rguard (\<not> published w) (Forbidden ''grant prohibits publishing message'')
           | None \<Rightarrow> Inr ()))"

definition grant_permit_write :: "('s, 'b) env \<Rightarrow> grant \<Rightarrow> string \<Rightarrow> string \<Rightarrow> write_msg \<Rightarrow> ('s, unit) io" where
  "grant_permit_write E g grantor grantee w =
     sbind (grant_verify E g grantor grantee (wd_base (w_descriptor w))) (\<lambda>_.
     sbind (lift (verify_scope g w)) (\<lambda>_.
     lift (verify_conditions g w)))"

definition grant_permit_read :: "('s, 'b) env \<Rightarrow> grant \<Rightarrow> string \<Rightarrow> string \<Rightarrow> read \<Rightarrow> write_msg \<Rightarrow> ('s, unit) io" where
  "grant_permit_read E g grantor grantee r w =
     sbind (grant_verify E g grantor grantee (rd_base (rd_descriptor r))) (\<lambda>_.
     lift (verify_scope g w))"

text \<open>The protocol test that queries, subscriptions and deletes share; no scope protocol permits any.\<close>

definition same_protocol :: "grant \<Rightarrow> string option \<Rightarrow> string \<Rightarrow> unit result" where
  "same_protocol g protocol msg =
     (if scope_protocol (gd_scope (g_data g)) = None then Inr ()
      else rguard (protocol = scope_protocol (gd_scope (g_data g))) (Forbidden msg))"

definition grant_permit_query :: "('s, 'b) env \<Rightarrow> grant \<Rightarrow> string \<Rightarrow> string \<Rightarrow> records_query \<Rightarrow> ('s, unit) io" where
  "grant_permit_query E g grantor grantee q =
     sbind (grant_verify E g grantor grantee (qd_base (rq_descriptor q))) (\<lambda>_.
     lift (same_protocol g (rf_protocol (qd_filter (rq_descriptor q)))
       ''grant and query protocols do not match''))"

definition grant_permit_subscribe :: "('s, 'b) env \<Rightarrow> grant \<Rightarrow> string \<Rightarrow> string \<Rightarrow> records_subscribe \<Rightarrow> ('s, unit) io" where
  "grant_permit_subscribe E g grantor grantee q =
     sbind (grant_verify E g grantor grantee (sd_base (rs_descriptor q))) (\<lambda>_.
     lift (same_protocol g (rf_protocol (sd_filter (rs_descriptor q)))
       ''grant protocol does not match query protocol''))"

definition grant_permit_delete :: "('s, 'b) env \<Rightarrow> grant \<Rightarrow> string \<Rightarrow> string \<Rightarrow> delete \<Rightarrow> write_msg \<Rightarrow> ('s, unit) io" where
  "grant_permit_delete E g grantor grantee d w =
     sbind (grant_verify E g grantor grantee (del_base (del_descriptor d))) (\<lambda>_.
     lift (same_protocol g (wd_protocol (w_descriptor w))
       ''grant protocol does not match delete protocol''))"

end
