(* ===== verification/Record_Base.thy ===== *)
theory Record_Base
  imports Grants
begin

text \<open>
  What the records handlers share (\<open>src/src/records/write.rs\<close>): the deterministic id of a record,
  the test for an initial write, and the entries already stored for a record.
\<close>

definition entry_id :: "('s, 'b) env \<Rightarrow> write_msg \<Rightarrow> string \<Rightarrow> string result" where
  "entry_id E w author = from_value E (P_EntryId (ser_write_descriptor (w_descriptor w)) author)"

definition is_initial :: "('s, 'b) env \<Rightarrow> write_msg \<Rightarrow> bool result" where
  "is_initial E w =
     rbind (auth_author E (w_authorization w)) (\<lambda>author.
     rbind (entry_id E w author) (\<lambda>eid. Inr (eid = w_record_id w)))"

text \<open>Both writes and deletes, archived ones included, from the earliest to the latest.\<close>

definition existing_query :: "string \<Rightarrow> query" where
  "existing_query rid =
     records_query_build
       ((add_filter (records_filter_new\<lparr>rf_record_id := Some rid\<rparr>) records_query_builder_new)
         \<lparr>rqb_include_archived := True, rqb_method := None\<rparr>)"

definition existing_entries :: "('s, 'b) env \<Rightarrow> string \<Rightarrow> string \<Rightarrow> ('s, entry list) io" where
  "existing_entries E ow rid =
     sbind (MessageStore_query E ow (existing_query rid)) (\<lambda>(entries, _). sret entries)"

definition initial_write :: "('s, 'b) env \<Rightarrow> string \<Rightarrow> string \<Rightarrow> ('s, write_msg option) io" where
  "initial_write E ow rid =
     sbind (existing_entries E ow rid) (\<lambda>entries.
     case entries of
       [] \<Rightarrow> sret None
     | e # _ \<Rightarrow>
         lift (rbind (write_try_from e) (\<lambda>w.
         rbind (is_initial E w) (\<lambda>b.
         rbind (rguard b (BadRequest ''initial write is not earliest message'')) (\<lambda>_.
         Inr (Some w))))))"

definition earliest_and_latest :: "entry list \<Rightarrow> entry option \<times> entry option" where
  "earliest_and_latest es = (case es of [] \<Rightarrow> (None, None) | e # _ \<Rightarrow> (Some e, Some (last es)))"

end
