(* ===== verification/Authorizer.thy ===== *)
theory Authorizer
  imports Record_Base
begin

text \<open>
  Protocol-based authorization (\<open>src/src/records/protocol.rs\<close>): a message is permitted when the role
  it invokes exists and one of the action rules at its protocol path allows its author to act.
\<close>

datatype record_msg = R_Write write_msg | R_Read read | R_Query records_query
  | R_Subscribe records_subscribe | R_Delete delete

record authorizer =
  az_protocol :: string
  az_context_id :: "string option"
  az_initial_write :: "write_msg option"

definition authorizer_new :: "string \<Rightarrow> authorizer" where
  "authorizer_new p = \<lparr>az_protocol = p, az_context_id = None, az_initial_write = None\<rparr>"

primrec record_authorization :: "record_msg \<Rightarrow> authorization option" where
  "record_authorization (R_Write w) = Some (w_authorization w)"
| "record_authorization (R_Read r) = rd_authorization r"
| "record_authorization (R_Query q) = rq_authorization q"
| "record_authorization (R_Subscribe s) = rs_authorization s"
| "record_authorization (R_Delete d) = Some (del_authorization d)"

definition record_protocol :: "record_msg \<Rightarrow> string result" where
  "record_protocol r =
     (case r of
        R_Write w \<Rightarrow> some_or (wd_protocol (w_descriptor w)) (Forbidden ''missing protocol'')
      | R_Read x \<Rightarrow> some_or (rf_protocol (rd_filter (rd_descriptor x))) (Forbidden ''missing protocol'')
      | R_Query q \<Rightarrow> some_or (rf_protocol (qd_filter (rq_descriptor q))) (Forbidden ''missing protocol'')
      | R_Subscribe s \<Rightarrow> some_or (rf_protocol (sd_filter (rs_descriptor s))) (Forbidden ''missing protocol'')
      | R_Delete d \<Rightarrow> Inl (Panic ''delete's protocol is provided by initial write record''))"

definition record_rule_set :: "('s, 'b) env \<Rightarrow> string \<Rightarrow> record_msg \<Rightarrow> ('s, rule_set) io" where
  "record_rule_set E ow r =
     sbind (lift (case r of
        R_Write w \<Rightarrow> Inr (wd_protocol_path (w_descriptor w))
      | R_Query q \<Rightarrow> Inr (rf_protocol_path (qd_filter (rq_descriptor q)))
      | R_Subscribe s \<Rightarrow> Inr (rf_protocol_path (sd_filter (rs_descriptor s)))
      | _ \<Rightarrow> Inl (Panic ''protocol is provided by initial write record''))) (\<lambda>path.
     sbind (lift (some_or path (Forbidden ''missing protocol''))) (\<lambda>path.
     sbind (lift (record_protocol r)) (\<lambda>protocol.
     sbind (protocol_definition E ow protocol) (\<lambda>d.
     lift (some_or (rule_set_at path (def_structure d)) (Forbidden ''invalid protocol path''))))))"

section \<open>Roles\<close>

text \<open>The role record a message must have: its recipient is the author, in the parent context.\<close>

definition role_filter :: "authorizer \<Rightarrow> string \<Rightarrow> string \<Rightarrow> records_filter result" where
  "role_filter az protocol_role author =
     (let f = add_recipient author (records_filter_new
            \<lparr>rf_protocol := Some (az_protocol az), rf_protocol_path := Some protocol_role\<rparr>) in
      if length (split_on (CHR ''/'') protocol_role) - 1 > 0 then
        rbind (some_or (az_context_id az) (Forbidden ''unable verify role without a `context_id`'')) (\<lambda>ctx.
        Inr (case rsplit_once (CHR ''/'') ctx of
               Some (parent, _) \<Rightarrow> f\<lparr>rf_context_id := Some parent\<rparr>
             | None \<Rightarrow> f\<lparr>rf_context_id := Some ctx\<rparr>))
      else Inr f)"

definition permit_role :: "('s, 'b) env \<Rightarrow> authorizer \<Rightarrow> string \<Rightarrow> record_msg \<Rightarrow> ('s, unit) io" where
  "permit_role E az ow r =
     sbind (lift (some_or (record_authorization r) (Forbidden ''missing authorization''))) (\<lambda>authzn.
     sbind (lift (auth_author E authzn)) (\<lambda>author.
     sbind (lift (auth_payload E authzn)) (\<lambda>payload.
     case jp_protocol_role payload of
       None \<Rightarrow> sret ()
     | Some protocol_role \<Rightarrow>
         sbind (protocol_definition E ow (az_protocol az)) (\<lambda>d.
         sbind (lift (some_or (rule_set_at protocol_role (def_structure d))
           (Forbidden ''no rule set defined for invoked role''))) (\<lambda>rs.
         sbind (lift (rguard (rs_role rs = Some True)
           (Forbidden ''protocol path does not match role record type''))) (\<lambda>_.
         sbind (lift (role_filter az protocol_role author)) (\<lambda>f.
         sbind (MessageStore_query E ow (records_query_build (add_filter f records_query_builder_new))) (\<lambda>(entries, _).
         lift (rguard (entries \<noteq> []) (Forbidden ''unable to find record for role'')))))))))) "

section \<open>Ancestors\<close>

text \<open>
  The walk from a record to its root, collecting initial writes; the chain is returned root first.
  The source walks until a record has no parent, the model for at most \<open>n\<close> records.
\<close>

fun ancestor_walk :: "('s, 'b) env \<Rightarrow> nat \<Rightarrow> string \<Rightarrow> string option \<Rightarrow> write_msg list \<Rightarrow> ('s, write_msg list) io" where
  "ancestor_walk E n ow None acc = sret (rev acc)"
| "ancestor_walk E 0 ow (Some rid) acc = sfail OutOfFuel"
| "ancestor_walk E (Suc n) ow (Some rid) acc =
     sbind (initial_write E ow rid) (\<lambda>found.
     sbind (lift (some_or found (Forbidden ''no parent record found''))) (\<lambda>w.
     ancestor_walk E n ow (wd_parent_id (w_descriptor w)) (acc @ [w])))"

definition ancestor_chain :: "('s, 'b) env \<Rightarrow> string \<Rightarrow> string \<Rightarrow> ('s, write_msg list) io" where
  "ancestor_chain E ow rid = ancestor_walk E (walk_fuel E) ow (Some rid) []"

section \<open>Actions\<close>

definition permitted_actions :: "('s, 'b) env \<Rightarrow> string \<Rightarrow> record_msg \<Rightarrow> ('s, action list) io" where
  "permitted_actions E ow r =
     (case r of
        R_Write w \<Rightarrow>
          sbind (lift (is_initial E w)) (\<lambda>init.
          if init then sret [A_Create]
          else sbind (initial_write E ow (w_record_id w)) (\<lambda>found.
            case found of
              None \<Rightarrow> sret []
            | Some i \<Rightarrow>
                sbind (lift (auth_author E (w_authorization w))) (\<lambda>a.
                sbind (lift (auth_author E (w_authorization i))) (\<lambda>b.
                if a = b then sret [A_CoUpdate, A_Update] else sret [A_CoUpdate]))))
      | R_Read x \<Rightarrow> sret [A_Read]
      | R_Query q \<Rightarrow> sret [A_Query]
      | R_Subscribe s \<Rightarrow> sret [A_Subscribe]
      | R_Delete d \<Rightarrow>
          sbind (initial_write E ow (del_record_id (del_descriptor d))) (\<lambda>found.
          case found of
            None \<Rightarrow> sret []
          | Some i \<Rightarrow>
              sbind (lift (auth_author E (del_authorization d))) (\<lambda>a.
              sbind (lift (auth_author E (w_authorization i))) (\<lambda>b.
              sret ((if del_prune (del_descriptor d)
                     then A_CoPrune # (if a = b then [A_Prune] else []) else [])
                    @ [A_CoDelete] @ (if a = b then [A_Delete] else []))))))"

definition permit_actor :: "('s, 'b) env \<Rightarrow> string \<Rightarrow> action_rule \<Rightarrow> write_msg list \<Rightarrow> bool result" where
  "permit_actor E author rule chain =
     (case find (\<lambda>w. wd_protocol_path (w_descriptor w) = ar_of rule) chain of
        None \<Rightarrow> Inr False
      | Some ancestor \<Rightarrow>
          if ar_who rule = Some Recipient then Inr (Some author = wd_recipient (w_descriptor ancestor))
          else rbind (auth_author E (w_authorization ancestor)) (\<lambda>a. Inr (author = a)))"

text \<open>The loop over the action rules: the first rule that allows the message ends it.\<close>

fun check_rules :: "('s, 'b) env \<Rightarrow> record_msg \<Rightarrow> string \<Rightarrow> string option \<Rightarrow> action list \<Rightarrow>
    write_msg list \<Rightarrow> action_rule list \<Rightarrow> unit result" where
  "check_rules E r author role acts chain [] = Inl (Err (Forbidden ''action not permitted''))"
| "check_rules E r author role acts chain (rule # rules) =
     (if \<not> list_ex (\<lambda>a. a \<in> set acts) (ar_can rule) then check_rules E r author role acts chain rules
      else if ar_who rule = Some Anyone then Inr ()
      else if role \<noteq> None then
        (if ar_role rule = role then Inr () else check_rules E r author role acts chain rules)
      else if ar_who rule = Some Recipient \<and> ar_of rule = None then
        rbind (case r of
            R_Write w \<Rightarrow> Inr w
          | _ \<Rightarrow> (if chain = [] then Inl (Panic ''attempt to subtract with overflow'') else Inr (last chain))) (\<lambda>m.
        if wd_recipient (w_descriptor m) = Some author then Inr ()
        else check_rules E r author role acts chain rules)
      else rbind (permit_actor E author rule chain) (\<lambda>b.
        if b then Inr () else check_rules E r author role acts chain rules))"

definition permit_action :: "('s, 'b) env \<Rightarrow> authorizer \<Rightarrow> string \<Rightarrow> record_msg \<Rightarrow> ('s, unit) io" where
  "permit_action E az ow r =
     sbind (case az_initial_write az of
        Some w \<Rightarrow> record_rule_set E ow (R_Write w)
      | None \<Rightarrow> record_rule_set E ow r) (\<lambda>rs.
     sbind (case r of
        R_Write w \<Rightarrow>
          sbind (lift (is_initial E w)) (\<lambda>init.
          if \<not> init then ancestor_chain E ow (w_record_id w)
          else (case wd_parent_id (w_descriptor w) of
              Some parent \<Rightarrow> ancestor_chain E ow parent
            | None \<Rightarrow> sret []))
      | R_Delete d \<Rightarrow> ancestor_chain E ow (del_record_id (del_descriptor d))
      | _ \<Rightarrow> sret []) (\<lambda>chain.
     sbind (lift (some_or (record_authorization r) (Forbidden ''missing authorization''))) (\<lambda>authzn.
     sbind (lift (auth_author E authzn)) (\<lambda>author.
     sbind (lift (auth_payload E authzn)) (\<lambda>payload.
     sbind (permitted_actions E ow r) (\<lambda>acts.
     sbind (lift (some_or (rs_actions rs) (Forbidden ''no rule defined for action''))) (\<lambda>rules.
     lift (check_rules E r author (jp_protocol_role payload) acts chain rules))))))))"

text \<open>\<open>permit_write\<close>, \<open>permit_read\<close>, \<open>permit_query\<close>, \<open>permit_subscribe\<close> and \<open>permit_delete\<close> are the same two checks.\<close>

definition permit :: "('s, 'b) env \<Rightarrow> authorizer \<Rightarrow> string \<Rightarrow> record_msg \<Rightarrow> ('s, unit) io" where
  "permit E az ow r = sbind (permit_role E az ow r) (\<lambda>_. permit_action E az ow r)"

end
