(* ===== verification/Record_Integrity.thy ===== *)
theory Record_Integrity
  imports Authorizer
begin

text \<open>
  The integrity of a \<open>RecordsWrite\<close> under its protocol (\<open>src/src/records/integrity.rs\<close>): the record's
  place in the protocol's structure, its type, role, size and tags, and the extra rules for the
  records of the permissions protocol.
\<close>

text \<open>\<open>protocol_path.split('/').next_back()\<close>.\<close>

definition type_name :: "string \<Rightarrow> string" where
  "type_name path = last (split_on (CHR ''/'') path)"

definition verify_type :: "write_msg \<Rightarrow> (string \<times> protocol_type) list \<Rightarrow> unit result" where
  "verify_type w types =
     (let d = w_descriptor w in
      rbind (some_or (wd_protocol_path d) (Forbidden ''missing protocol path'')) (\<lambda>path.
      rbind (some_or (map_of types (type_name path)) (Forbidden ''record not allowed in protocol'')) (\<lambda>t.
      rbind (rguard (\<not> (pt_schema t \<noteq> None \<and> pt_schema t \<noteq> wd_schema d)) (Forbidden ''invalid schema'')) (\<lambda>_.
      case pt_data_formats t of
        None \<Rightarrow> Inr ()
      | Some fs \<Rightarrow> rguard (wd_data_format d \<in> set fs) (Forbidden ''invalid data format'')))))"

definition tag_get :: "string \<Rightarrow> (string \<times> tag) list \<Rightarrow> tag option" where
  "tag_get k ts = map_of ts k"

definition verify_grant_scope :: "write_msg \<Rightarrow> scope \<Rightarrow> unit result" where
  "verify_grant_scope w sc =
     (case scope_protocol sc of
        None \<Rightarrow> Inr ()
      | Some protocol \<Rightarrow>
          rbind (some_or (wd_tags (w_descriptor w)) (Forbidden ''grants require a `tags` property'')) (\<lambda>tags.
          rbind (some_or (tag_get ''protocol'' tags) (Forbidden ''grant tags must contain a \"protocol\" tag'')) (\<lambda>t.
          rguard (tag_as_str t = Some protocol) (Forbidden ''grant scope protocol does not match protocol''))))"

definition verify_schema :: "('s, 'b) env \<Rightarrow> write_msg \<Rightarrow> bytes \<Rightarrow> unit result" where
  "verify_schema E w data =
     rbind (some_or (wd_protocol_path (w_descriptor w)) (Forbidden ''missing protocol path'')) (\<lambda>path.
     if path = REQUEST_PATH then
       rbind (map_err (internal ''serde_json'') (json_request_data E data)) (\<lambda>r.
       rbind (validate_value (js_lib E) ''PermissionRequestData'' (PD_Request r)) (\<lambda>_.
       verify_grant_scope w (req_scope r)))
     else if path = GRANT_PATH then
       rbind (map_err (internal ''serde_json'') (json_grant_data E data)) (\<lambda>g.
       rbind (validate_value (js_lib E) ''PermissionGrantData'' (PD_Grant g)) (\<lambda>_.
       verify_grant_scope w (gd_scope g)))
     else if path = REVOCATION_PATH then
       rbind (map_err (internal ''serde_json'') (json_revocation_data E data)) (\<lambda>_.
       validate_value (js_lib E) ''PermissionRevocationData'' (PD_Revocation data))
     else Inl (Err (Forbidden (''unexpected permission record: '' @ path))))"

text \<open>
  Slicing a string, \<open>s[..n]\<close>, panics unless \<open>n\<close> is on a character boundary within the string: the end,
  or a byte that does not continue a UTF-8 sequence.
\<close>

definition str_prefix :: "string \<Rightarrow> nat \<Rightarrow> string result" where
  "str_prefix s n =
     (if n = length s \<or> n = 0 \<or>
         (n < length s \<and> \<not> (128 \<le> (of_char (s ! n) :: nat) \<and> (of_char (s ! n) :: nat) < 192))
      then Inr (take n s) else Inl (Panic ''byte index is out of bounds or not a char boundary''))"

definition parent_query :: "string \<Rightarrow> string \<Rightarrow> query" where
  "parent_query parent_id protocol =
     records_query_build (add_filter
       (records_filter_new\<lparr>rf_record_id := Some parent_id, rf_protocol := Some protocol\<rparr>)
       records_query_builder_new)"

definition verify_protocol_path :: "('s, 'b) env \<Rightarrow> string \<Rightarrow> write_msg \<Rightarrow> ('s, unit) io" where
  "verify_protocol_path E ow w =
     (let d = w_descriptor w in
      sbind (lift (some_or (wd_protocol_path d) (Forbidden ''missing protocol path''))) (\<lambda>path.
      case wd_parent_id d of
        None \<Rightarrow> lift (rguard (path = type_name path) (Forbidden ''invalid protocol path for parentless record''))
      | Some parent_id \<Rightarrow>
          sbind (lift (some_or (wd_protocol d) (Forbidden ''missing protocol''))) (\<lambda>protocol.
          sbind (MessageStore_query E ow (parent_query parent_id protocol)) (\<lambda>(entries, _).
          case entries of
            [] \<Rightarrow> sfail (Err (Forbidden ''unable to find parent record''))
          | e # _ \<Rightarrow>
              lift (rbind (some_or (as_write e) (Forbidden ''expected parent to be a `RecordsWrite` message'')) (\<lambda>parent.
              rbind (some_or (wd_protocol_path (w_descriptor parent)) (Forbidden ''missing protocol path'')) (\<lambda>parent_path.
              rbind (rguard (parent_path @ ''/'' @ type_name path = path) (Forbidden ''invalid `protocol_path`'')) (\<lambda>_.
              rbind (some_or (w_context_id parent) (Forbidden ''missing parent `context_id`'')) (\<lambda>parent_context.
              rbind (some_or (w_context_id w) (Forbidden ''missing `context_id`'')) (\<lambda>context.
              rbind (str_prefix context (length parent_context)) (\<lambda>prefix.
              rguard (prefix = parent_context) (Forbidden ''incorrect parent `context_id`''))))))))))))"

definition role_record_query :: "write_msg \<Rightarrow> string \<Rightarrow> string \<Rightarrow> string \<Rightarrow> query" where
  "role_record_query w recipient protocol path =
     (let f = add_recipient recipient
            (records_filter_new\<lparr>rf_protocol := Some protocol, rf_protocol_path := Some path\<rparr>);
          parent_context = (case w_context_id w of None \<Rightarrow> None
            | Some c \<Rightarrow> map_option fst (rsplit_once (CHR ''/'') c));
          f = (case parent_context of None \<Rightarrow> f | Some c \<Rightarrow> f\<lparr>rf_context_id := Some c\<rparr>) in
      records_query_build (add_filter f records_query_builder_new))"

definition verify_role_record :: "('s, 'b) env \<Rightarrow> string \<Rightarrow> write_msg \<Rightarrow> ('s, unit) io" where
  "verify_role_record E ow w =
     (let d = w_descriptor w in
      sbind (lift (some_or (wd_recipient d) (BadRequest ''role record is missing recipient''))) (\<lambda>recipient.
      sbind (lift (some_or (wd_protocol d) (BadRequest ''missing protocol''))) (\<lambda>protocol.
      sbind (lift (some_or (wd_protocol_path d) (BadRequest ''missing protocol_path''))) (\<lambda>path.
      sbind (MessageStore_query E ow (role_record_query w recipient protocol path)) (\<lambda>(entries, _).
      lift (rfor entries (\<lambda>e.
        rbind (some_or (as_write e) (BadRequest ''expected `RecordsWrite` message'')) (\<lambda>x.
        rguard (w_record_id x = w_record_id w) (BadRequest ''recipient already has this role record'')))))))))"

definition verify_size_limit :: "write_msg \<Rightarrow> rule_set \<Rightarrow> unit result" where
  "verify_size_limit w rs =
     (let n = wd_data_size (w_descriptor w) in
      case rs_size rs of
        None \<Rightarrow> Inr ()
      | Some r \<Rightarrow>
          rbind (case size_min r of None \<Rightarrow> Inr ()
            | Some a \<Rightarrow> rguard (\<not> n < a) (Forbidden ''data size is less than allowed'')) (\<lambda>_.
          case size_max r of None \<Rightarrow> Inr ()
          | Some b \<Rightarrow> rguard (\<not> n > b) (Forbidden ''data size is greater than allowed'')))"

definition verify_tags :: "('s, 'b) env \<Rightarrow> write_msg \<Rightarrow> rule_set \<Rightarrow> unit result" where
  "verify_tags E w rs =
     (case rs_tags rs of
        None \<Rightarrow> Inr ()
      | Some t \<Rightarrow> rguard (schema_tags E t (wd_tags (w_descriptor w))) (Forbidden ''tags do not match schema''))"

definition verify_revoke :: "('s, 'b) env \<Rightarrow> string \<Rightarrow> write_msg \<Rightarrow> ('s, unit) io" where
  "verify_revoke E ow w =
     (let d = w_descriptor w in
      if wd_protocol d = Some PROTOCOL_URI \<and> wd_protocol_path d = Some REVOCATION_PATH then
        sbind (lift (some_or (wd_parent_id d) (Forbidden ''missing `parent_id`''))) (\<lambda>parent_id.
        sbind (fetch_grant E ow parent_id) (\<lambda>g.
        case wd_tags d of
          None \<Rightarrow> sret ()
        | Some tags \<Rightarrow>
            let revoke_protocol = (case tag_get ''protocol'' tags of None \<Rightarrow> []
                  | Some t \<Rightarrow> (case tag_as_str t of None \<Rightarrow> [] | Some s \<Rightarrow> s)) in
            sbind (lift (some_or (scope_protocol (gd_scope (g_data g))) (Forbidden ''missing protocol in grant scope''))) (\<lambda>protocol.
            lift (rguard (protocol = revoke_protocol)
              (Forbidden (''revocation protocol '' @ revoke_protocol
                @ '' does not match grant protocol '' @ protocol))))))
      else sret ())"

text \<open>\<open>Write::verify\<close>.\<close>

definition write_verify :: "('s, 'b) env \<Rightarrow> string \<Rightarrow> write_msg \<Rightarrow> ('s, unit) io" where
  "write_verify E ow w =
     (let d = w_descriptor w in
      sbind (lift (some_or (wd_protocol d) (Forbidden ''missing protocol''))) (\<lambda>protocol.
      sbind (protocol_definition E ow protocol) (\<lambda>def.
      sbind (lift (some_or (wd_protocol_path d) (Forbidden ''missing protocol''))) (\<lambda>path.
      sbind (lift (some_or (rule_set_at path (def_structure def)) (Forbidden ''invalid protocol path''))) (\<lambda>rs.
      sbind (verify_protocol_path E ow w) (\<lambda>_.
      sbind (lift (verify_type w (def_types def))) (\<lambda>_.
      sbind (if rs_role rs \<noteq> None then verify_role_record E ow w else sret ()) (\<lambda>_.
      sbind (lift (verify_size_limit w rs)) (\<lambda>_.
      sbind (lift (verify_tags E w rs)) (\<lambda>_.
      verify_revoke E ow w))))))))))"

end
