(* ===== verification/Record_Write.thy ===== *)
theory Record_Write
  imports Record_Integrity
begin

text \<open>
  The handler of \<open>RecordsWrite\<close> (\<open>src/src/records/write.rs\<close>). A write is authorized, its integrity is
  checked, it is compared with the entries already stored for the record, its data is stored or taken
  over, and then the message replaces the previous version: the initial write is archived, later
  versions are deleted.
\<close>

section \<open>Authorization\<close>

definition decode_signature_payload :: "('s, 'b) env \<Rightarrow> (string \<Rightarrow> error) \<Rightarrow> (string \<Rightarrow> error) \<Rightarrow> authorization \<Rightarrow> signature_payload result" where
  "decode_signature_payload E f g a =
     rbind (map_err f (b64_decode E (jws_payload (signature a)))) (\<lambda>decoded.
     map_err g (json_signature_payload E decoded))"

definition write_authorize :: "('s, 'b) env \<Rightarrow> string \<Rightarrow> write_msg \<Rightarrow> ('s, unit) io" where
  "write_authorize E ow w =
     (let a = w_authorization w in
      sbind (lift (auth_owner E a)) (\<lambda>record_owner.
      sbind (lift (rguard (\<not> (record_owner \<noteq> None \<and> record_owner \<noteq> Some ow))
        (Forbidden ''record owner is not web node owner''))) (\<lambda>_.
      sbind (lift (auth_author E a)) (\<lambda>author.
      sbind (case author_delegated_grant a of
          None \<Rightarrow> sret ()
        | Some dg \<Rightarrow>
            sbind (lift (auth_signer E a)) (\<lambda>signer.
            sbind (lift (to_grant E dg)) (\<lambda>g.
            grant_permit_write E g author signer w))) (\<lambda>_.
      sbind (case owner_delegated_grant a of
          None \<Rightarrow> sret ()
        | Some dg \<Rightarrow>
            sbind (lift (some_or record_owner (Forbidden ''owner is required to authorize owner delegate''))) (\<lambda>ro.
            sbind (lift (auth_owner_signer E a)) (\<lambda>signer.
            sbind (lift (to_grant E dg)) (\<lambda>g.
            grant_permit_write E g ro signer w)))) (\<lambda>_.
      if record_owner \<noteq> None then sret ()
      else if author = ow then sret ()
      else
        sbind (lift (decode_signature_payload E (internal ''base64ct'') (internal ''serde_json'') a)) (\<lambda>payload.
        case jp_permission_grant_id (sp_base payload) of
          Some gid \<Rightarrow> sbind (fetch_grant E ow gid) (\<lambda>g. grant_permit_write E g ow author w)
        | None \<Rightarrow>
            (case wd_protocol (w_descriptor w) of
               Some protocol \<Rightarrow>
                 permit E ((authorizer_new protocol)\<lparr>az_context_id := w_context_id w\<rparr>) ow (R_Write w)
             | None \<Rightarrow> sfail (Err (Forbidden ''message failed authorization'')))))))))) "

section \<open>Integrity\<close>

definition verify_initial :: "('s, 'b) env \<Rightarrow> write_msg \<Rightarrow> unit result" where
  "verify_initial E w =
     (let d = w_descriptor w in
      rbind (is_initial E w) (\<lambda>init.
      if init then
        rbind (rguard (base_timestamp (wd_base d) = wd_date_created d)
          (BadRequest ''`message_timestamp` and `date_created` do not match'')) (\<lambda>_.
        if wd_protocol d \<noteq> None \<and> wd_parent_id d = None then
          rbind (auth_author E (w_authorization w)) (\<lambda>author.
          rbind (entry_id E w author) (\<lambda>context_id.
          rguard (w_context_id w = Some context_id) (BadRequest ''invalid context ID'')))
        else Inr ())
      else Inr ()))"

definition verify_signed :: "('s, 'b) env \<Rightarrow> write_msg \<Rightarrow> unit result" where
  "verify_signed E w =
     rbind (decode_signature_payload E (\<lambda>e. BadRequest (''issue decoding header: '' @ e))
       (\<lambda>e. BadRequest (''issue deserializing header: '' @ e)) (w_authorization w)) (\<lambda>payload.
     rbind (rguard (w_record_id w = sp_record_id payload)
       (BadRequest ''message and authorization record IDs do not match'')) (\<lambda>_.
     rbind (rguard (w_context_id w = sp_context_id payload)
       (BadRequest ''message and authorization context IDs do not match'')) (\<lambda>_.
     rbind (case sp_attestation_cid payload of
         None \<Rightarrow> Inr ()
       | Some c \<Rightarrow> rbind (from_value E (P_Attestation (w_attestation w))) (\<lambda>expected.
           rguard (c = expected) (BadRequest ''message and authorization attestation CIDs do not match''))) (\<lambda>_.
     case sp_encryption_cid payload of
       None \<Rightarrow> Inr ()
     | Some c \<Rightarrow> rbind (from_value E (P_Encryption (w_encryption w))) (\<lambda>expected.
         rguard (c = expected) (BadRequest ''message and authorization `encryptionCid`s do not match''))))))"

definition verify_integrity :: "('s, 'b) env \<Rightarrow> string \<Rightarrow> write_msg \<Rightarrow> ('s, unit) io" where
  "verify_integrity E ow w =
     sbind (lift (verify_initial E w)) (\<lambda>_.
     sbind (if wd_protocol (w_descriptor w) \<noteq> None then write_verify E ow w else sret ()) (\<lambda>_.
     lift (verify_signed E w)))"

definition verify_immutable :: "('s, 'b) env \<Rightarrow> write_msg \<Rightarrow> write_msg \<Rightarrow> unit result" where
  "verify_immutable E w other =
     (let a = w_descriptor w; b = w_descriptor other in
      rguard (\<not> (base_interface (wd_base a) \<noteq> base_interface (wd_base b)
          \<or> base_method (wd_base a) \<noteq> base_method (wd_base b)
          \<or> wd_protocol a \<noteq> wd_protocol b
          \<or> wd_protocol_path a \<noteq> wd_protocol_path b
          \<or> wd_recipient a \<noteq> wd_recipient b
          \<or> wd_schema a \<noteq> wd_schema b
          \<or> wd_parent_id a \<noteq> wd_parent_id b
          \<or> fmt_micros E (wd_date_created a) \<noteq> fmt_micros E (wd_date_created b)))
        (BadRequest ''immutable properties do not match''))"

section \<open>Data\<close>

definition check_data :: "write_msg \<Rightarrow> string \<Rightarrow> usize \<Rightarrow> unit result" where
  "check_data w data_cid data_size =
     rbind (rguard (wd_data_cid (w_descriptor w) = data_cid)
       (BadRequest ''actual data CID does not match message `data_cid`'')) (\<lambda>_.
     rguard (wd_data_size (w_descriptor w) = data_size)
       (BadRequest ''actual data size does not match message `data_size`''))"

text \<open>Data up to the threshold is kept in the message, larger data goes to the data store.\<close>

definition update_data :: "('s, 'b) env \<Rightarrow> string \<Rightarrow> bytes \<Rightarrow> write_msg \<Rightarrow> ('s, write_msg) io" where
  "update_data E ow stream w =
     (let d = w_descriptor w in
      if wd_data_size d \<le> MAX_ENCODED_SIZE then
        sbind (from_reader E stream) (\<lambda>(data_cid, data_size).
        sbind (lift (check_data w data_cid data_size)) (\<lambda>_.
        let w' = w\<lparr>w_encoded_data := Some (b64_encode E stream)\<rparr> in
        sbind (lift (if wd_protocol d = Some PROTOCOL_URI then verify_schema E w' stream else Inr ())) (\<lambda>_.
        sret w')))
      else
        sbind (DataStore_put E ow (w_record_id w) (wd_data_cid d) stream) (\<lambda>(data_cid, data_size).
        sbind (lift (check_data w data_cid data_size)) (\<lambda>_.
        sret w)))"

definition clone_data :: "('s, 'b) env \<Rightarrow> string \<Rightarrow> entry \<Rightarrow> write_msg \<Rightarrow> ('s, write_msg) io" where
  "clone_data E ow existing w =
     sbind (lift (write_try_from existing)) (\<lambda>latest.
     let d = w_descriptor w; l = w_descriptor latest in
     sbind (lift (rguard (wd_data_cid l = wd_data_cid d)
       (BadRequest ''data CID does not match descriptor `data_cid`''))) (\<lambda>_.
     sbind (lift (rguard (wd_data_size l = wd_data_size d)
       (BadRequest ''data size does not match descriptor `data_size`''))) (\<lambda>_.
     if wd_data_size l > MAX_ENCODED_SIZE then
       sbind (DataStore_get E ow (w_record_id w) (wd_data_cid d)) (\<lambda>found.
       sbind (lift (rguard (found \<noteq> None) (BadRequest ''referenced data does not exist''))) (\<lambda>_.
       sret w))
     else
       sbind (lift (rguard (w_encoded_data latest \<noteq> None) (BadRequest ''referenced data does not exist''))) (\<lambda>_.
       sret (w\<lparr>w_encoded_data := w_encoded_data latest\<rparr>)))))"

section \<open>Revocation\<close>

definition delete_authorized :: "('s, 'b) env \<Rightarrow> string \<Rightarrow> entry \<Rightarrow> ('s, unit) io" where
  "delete_authorized E ow e =
     sbind (lift (entry_cid E e)) (\<lambda>message_cid.
     sbind (MessageStore_delete E ow message_cid) (\<lambda>_.
     EventLog_delete E ow message_cid))"

definition revoke_grants :: "('s, 'b) env \<Rightarrow> string \<Rightarrow> write_msg \<Rightarrow> ('s, unit) io" where
  "revoke_grants E ow w =
     (let d = w_descriptor w in
      sbind (lift (some_or (wd_parent_id d) (BadRequest ''missing `parent_id`''))) (\<lambda>grant_id.
      sbind (fetch_grant E ow grant_id) (\<lambda>g.
      sbind (lift (case wd_tags d of
          None \<Rightarrow> Inr ()
        | Some tags \<Rightarrow>
            (case tag_get ''protocol'' tags of
               None \<Rightarrow> Inr ()
             | Some t \<Rightarrow> rguard (tag_as_str t = scope_protocol (gd_scope (g_data g)))
                 (BadRequest ''revocation protocol does not match grant protocol'')))) (\<lambda>_.
      sbind (MessageStore_query E ow (granted_query_build (Some grant_id)
        (Some (date_range_gt (base_timestamp (wd_base d)) date_range_new)))) (\<lambda>(entries, _).
      sfor entries (delete_authorized E ow))))))"

section \<open>The handler\<close>

text \<open>The checks of a write against the entries already stored for the record.\<close>

definition check_earliest :: "('s, 'b) env \<Rightarrow> write_msg \<Rightarrow> bool \<Rightarrow> entry option \<Rightarrow> unit result" where
  "check_earliest E w init initial_entry =
     rbind (rguard (\<not> (initial_entry = None \<and> \<not> init)) (BadRequest ''initial write not found'')) (\<lambda>_.
     case initial_entry of
       None \<Rightarrow> Inr ()
     | Some e \<Rightarrow>
         rbind (write_try_from e) (\<lambda>earliest.
         rbind (is_initial E earliest) (\<lambda>b.
         rbind (rguard b (BadRequest ''initial write is not the earliest message'')) (\<lambda>_.
         verify_immutable E w earliest))))"

definition check_latest :: "('s, 'b) env \<Rightarrow> write_msg \<Rightarrow> entry option \<Rightarrow> unit result" where
  "check_latest E w latest_entry =
     (case latest_entry of
        None \<Rightarrow> Inr ()
      | Some e \<Rightarrow>
          let write_ts = timestamp_micros (base_timestamp (wd_base (w_descriptor w)));
              latest_ts = timestamp_micros (base_timestamp (entry_descriptor e)) in
          rbind (rguard (\<not> write_ts < latest_ts) (Conflict ''a more recent update exists'')) (\<lambda>_.
          rbind (if write_ts = latest_ts then
                   rbind (write_cid E w) (\<lambda>a. rbind (entry_cid E e) (\<lambda>b.
                   rguard (\<not> a \<le> b) (Conflict ''an update with a larger CID already exists'')))
                 else Inr ()) (\<lambda>_.
          rguard (base_method (entry_descriptor e) \<noteq> M_Delete) (BadRequest ''record has been deleted''))))"

definition process_data :: "('s, 'b) env \<Rightarrow> string \<Rightarrow> bool \<Rightarrow> entry option \<Rightarrow> write_msg \<Rightarrow> ('s, write_msg) io" where
  "process_data E ow init latest_entry w =
     (case w_data_stream w of
        Some data \<Rightarrow> update_data E ow data w
      | None \<Rightarrow>
          if \<not> init then
            sbind (lift (some_or latest_entry (BadRequest ''latest existing record not found''))) (\<lambda>e.
            clone_data E ow e w)
          else sret w)"

text \<open>202 for a write that can be queried, 204 for an initial write without data.\<close>

definition write_code :: "bool \<Rightarrow> write_msg \<Rightarrow> nat" where
  "write_code init w = (if w_data_stream w \<noteq> None \<or> \<not> init then 202 else 204)"

definition save_write :: "('s, 'b) env \<Rightarrow> string \<Rightarrow> nat \<Rightarrow> write_msg \<Rightarrow> ('s, unit) io" where
  "save_write E ow code w =
     (let e = add_index ''initial'' (bool_str (code = 204)) (entry_from_write E w) in
      sbind (MessageStore_put E ow e) (\<lambda>_.
      sbind (EventLog_append E ow e) (\<lambda>_.
      EventStream_emit E ow e)))"

definition archive_initial :: "('s, 'b) env \<Rightarrow> string \<Rightarrow> write_msg \<Rightarrow> entry option \<Rightarrow> ('s, unit) io" where
  "archive_initial E ow w initial_entry =
     (case initial_entry of
        None \<Rightarrow> sret ()
      | Some ie \<Rightarrow>
          sbind (lift (write_try_from ie)) (\<lambda>initial.
          let e = add_index ''initial'' (bool_str True) (entry_from_write E initial) in
          sbind (MessageStore_put E ow e) (\<lambda>_.
          sbind (EventLog_append E ow e) (\<lambda>_.
          if wd_data_cid (w_descriptor initial) \<noteq> [] \<and> w_data_stream w \<noteq> None
          then DataStore_delete E ow (w_record_id initial) (wd_data_cid (w_descriptor initial))
          else sret ()))))"

definition delete_previous :: "('s, 'b) env \<Rightarrow> string \<Rightarrow> entry \<Rightarrow> ('s, unit) io" where
  "delete_previous E ow e =
     sbind (lift (write_try_from e)) (\<lambda>w.
     sbind (lift (write_cid E w)) (\<lambda>cid.
     sbind (MessageStore_delete E ow cid) (\<lambda>_.
     sbind (DataStore_delete E ow (w_record_id w) (wd_data_cid (w_descriptor w))) (\<lambda>_.
     EventLog_delete E ow cid))))"

definition is_revocation :: "write_msg \<Rightarrow> bool" where
  "is_revocation w \<longleftrightarrow> wd_protocol (w_descriptor w) = Some PROTOCOL_URI
     \<and> wd_protocol_path (w_descriptor w) = Some REVOCATION_PATH"

definition write_handle :: "('s, 'b) env \<Rightarrow> string \<Rightarrow> write_msg \<Rightarrow> ('s, unit reply) io" where
  "write_handle E ow w =
     sbind (write_authorize E ow w) (\<lambda>_.
     sbind (verify_integrity E ow w) (\<lambda>_.
     sbind (lift (is_initial E w)) (\<lambda>init.
     sbind (existing_entries E ow (w_record_id w)) (\<lambda>existing.
     let (initial_entry, latest_entry) = earliest_and_latest existing in
     sbind (lift (check_earliest E w init initial_entry)) (\<lambda>_.
     sbind (lift (check_latest E w latest_entry)) (\<lambda>_.
     sbind (process_data E ow init latest_entry w) (\<lambda>w.
     let code = write_code init w in
     sbind (save_write E ow code w) (\<lambda>_.
     sbind (archive_initial E ow w initial_entry) (\<lambda>_.
     sbind (sfor (tl existing) (delete_previous E ow)) (\<lambda>_.
     sbind (if is_revocation w then revoke_grants E ow w else sret ()) (\<lambda>_.
     sret (reply_with code None))))))))))))"

end
