(* ===== verification/Record_Delete.thy ===== *)
theory Record_Delete
  imports Record_Write
begin

text \<open>
  The handler of \<open>RecordsDelete\<close> (\<open>src/src/records/delete.rs\<close>) and the task runner it goes through
  (\<open>src/src/tasks.rs\<close>). A delete is stored as a message of its own; the initial write stays, archived,
  the other versions and the data are removed.
\<close>

section \<open>Authorization\<close>

definition delete_authorize :: "('s, 'b) env \<Rightarrow> string \<Rightarrow> write_msg \<Rightarrow> delete \<Rightarrow> ('s, unit) io" where
  "delete_authorize E ow w d =
     (let a = del_authorization d in
      sbind (lift (auth_author E a)) (\<lambda>author.
      sbind (case author_delegated_grant a of
          None \<Rightarrow> sret ()
        | Some dg \<Rightarrow>
            sbind (lift (to_grant E dg)) (\<lambda>g.
            sbind (lift (auth_signer E a)) (\<lambda>signer.
            grant_permit_delete E g author signer d w))) (\<lambda>_.
      if author = ow then sret ()
      else
        (case wd_protocol (w_descriptor w) of
           Some protocol \<Rightarrow>
             permit E ((authorizer_new protocol)\<lparr>az_context_id := w_context_id w, az_initial_write := Some w\<rparr>)
               ow (R_Delete d)
         | None \<Rightarrow> sfail (Err (Forbidden ''delete request failed authorization''))))))"

section \<open>Deleting\<close>

text \<open>\<open>map_err\<close> on a call of a provider method, whose error displays the store's error.\<close>

definition provider_err :: "(string \<Rightarrow> error) \<Rightarrow> ('s, 'a) io \<Rightarrow> ('s, 'a) io" where
  "provider_err f m s =
     (case m s of
        (Inl (Err e), t) \<Rightarrow> (Inl (Err (f (error_display e))), t)
      | r \<Rightarrow> r)"

definition delete_data :: "('s, 'b) env \<Rightarrow> string \<Rightarrow> entry \<Rightarrow> entry \<Rightarrow> ('s, unit) io" where
  "delete_data E ow existing latest =
     sbind (lift (some_or (as_write existing) (BadRequest ''unexpected message type''))) (\<lambda>w.
     if (case as_write latest of None \<Rightarrow> False
         | Some l \<Rightarrow> wd_data_cid (w_descriptor w) = wd_data_cid (w_descriptor l))
     then sret ()
     else provider_err (\<lambda>e. BadRequest (''failed to delete data: '' @ e))
       (data_delete E ow (w_record_id w) (wd_data_cid (w_descriptor w))))"

text \<open>One entry of \<open>delete_earlier\<close>'s loop: the initial write is archived, any other write removed.\<close>

definition delete_one :: "('s, 'b) env \<Rightarrow> string \<Rightarrow> entry \<Rightarrow> entry \<Rightarrow> ('s, unit) io" where
  "delete_one E ow latest e =
     (if base_timestamp (entry_descriptor e) < base_timestamp (entry_descriptor latest) then
        sbind (delete_data E ow e latest) (\<lambda>_.
        sbind (lift (write_try_from e)) (\<lambda>w.
        sbind (lift (is_initial E w)) (\<lambda>init.
        if init then
          MessageStore_put E ow (add_index ''initial'' (bool_str True) (entry_from_write E w))
        else
          sbind (lift (entry_cid E e)) (\<lambda>cid.
          sbind (MessageStore_delete E ow cid) (\<lambda>_.
          EventLog_delete E ow cid)))))
      else sret ())"

definition delete_earlier :: "('s, 'b) env \<Rightarrow> string \<Rightarrow> entry \<Rightarrow> entry list \<Rightarrow> ('s, unit) io" where
  "delete_earlier E ow latest existing = sfor existing (delete_one E ow latest)"

definition purge :: "('s, 'b) env \<Rightarrow> string \<Rightarrow> entry list \<Rightarrow> ('s, unit) io" where
  "purge E ow records =
     (let writes = sort_key (\<lambda>e. base_timestamp (entry_descriptor e))
            (filter (\<lambda>e. base_method (entry_descriptor e) = M_Write) records) in
      if writes = [] then sret ()
      else
        sbind (lift (some_or (as_write (last writes)) (BadRequest ''latest record is not a `RecordsWrite`''))) (\<lambda>w.
        sbind (DataStore_delete E ow (w_record_id w) (wd_data_cid (w_descriptor w))) (\<lambda>_.
        sfor records (\<lambda>e.
          sbind (lift (entry_cid E e)) (\<lambda>cid.
          sbind (EventLog_delete E ow cid) (\<lambda>_.
          MessageStore_delete E ow cid))))))"

text \<open>
  The grouping of the children by record id. \<open>get_mut(..).unwrap_or(&mut Vec::new()).push(..)\<close> extends
  the group of an id that is already in the map; for any other id it extends a temporary vector.
\<close>

definition child_record_id :: "entry \<Rightarrow> string result" where
  "child_record_id e =
     (case as_write e of
        Some w \<Rightarrow> Inr (w_record_id w)
      | None \<Rightarrow> rbind (some_or (as_delete e) (BadRequest ''unexpected message type'')) (\<lambda>d.
          Inr (del_record_id (del_descriptor d))))"

fun group_children :: "entry list \<Rightarrow> (string \<times> entry list) list \<Rightarrow> (string \<times> entry list) list result" where
  "group_children [] m = Inr m"
| "group_children (e # es) m =
     rbind (child_record_id e) (\<lambda>rid.
     group_children es (case map_of m rid of None \<Rightarrow> m | Some g \<Rightarrow> hm_insert rid (g @ [e]) m))"

definition children_query :: "string \<Rightarrow> query" where
  "children_query rid =
     records_query_build (add_filter (records_filter_new\<lparr>rf_parent_id := Some rid\<rparr>) records_query_builder_new)"

text \<open>The recursion over the descendants, bounded in the model by the number of generations \<open>n\<close>.\<close>

fun delete_children :: "('s, 'b) env \<Rightarrow> nat \<Rightarrow> string \<Rightarrow> string \<Rightarrow> ('s, unit) io" where
  "delete_children E 0 ow rid = sfail OutOfFuel"
| "delete_children E (Suc n) ow rid =
     sbind (MessageStore_query E ow (children_query rid)) (\<lambda>(children, _).
     if children = [] then sret ()
     else
       sbind (lift (group_children children [])) (\<lambda>groups.
       sfor groups (\<lambda>(child, entries).
         sbind (delete_children E n ow child) (\<lambda>_.
         purge E ow entries))))"

fun add_indexes :: "(string \<times> string) list \<Rightarrow> entry \<Rightarrow> entry" where
  "add_indexes [] e = e"
| "add_indexes ((k, v) # kvs) e = add_indexes kvs (add_index k v e)"

text \<open>\<open>delete\<close>, the task.\<close>

definition delete_task :: "('s, 'b) env \<Rightarrow> string \<Rightarrow> delete \<Rightarrow> ('s, unit) io" where
  "delete_task E ow d =
     (let rid = del_record_id (del_descriptor d) in
      sbind (MessageStore_query E ow (existing_query rid)) (\<lambda>(entries, _).
      if entries = [] then sfail (Err (NotFound ''no matching records found''))
      else if length entries > 2 then sfail (Err (BadRequest ''multiple messages exist''))
      else
        sbind (lift (rguard (\<not> base_timestamp (del_base (del_descriptor d))
              < base_timestamp (entry_descriptor (last entries)))
          (Conflict ''newer record already exists''))) (\<lambda>_.
        sbind (lift (write_try_from (hd entries))) (\<lambda>w.
        sbind (lift (is_initial E w)) (\<lambda>init.
        sbind (lift (rguard init (BadRequest ''initial write is not earliest message''))) (\<lambda>_.
        let e = add_indexes (write_indexes E w) (entry_from_delete E d) in
        sbind (MessageStore_put E ow e) (\<lambda>_.
        sbind (EventLog_append E ow e) (\<lambda>_.
        sbind (EventStream_emit E ow e) (\<lambda>_.
        sbind (if del_prune (del_descriptor d) then delete_children E (walk_fuel E) ow rid else sret ()) (\<lambda>_.
        delete_earlier E ow (entry_from_delete E d) entries))))))))))"

section \<open>Tasks\<close>

definition EXTEND_SECS :: int where
  "EXTEND_SECS = 30"

primrec task_cid :: "('s, 'b) env \<Rightarrow> task_type \<Rightarrow> string result" where
  "task_cid E (RecordsDelete d) = delete_cid E d"

primrec task_run :: "('s, 'b) env \<Rightarrow> string \<Rightarrow> task_type \<Rightarrow> ('s, unit) io" where
  "task_run E ow (RecordsDelete d) = delete_task E ow d"

text \<open>The task's deadline, in whole seconds, as a \<open>u64\<close>.\<close>

definition task_deadline :: "('s, 'b) env \<Rightarrow> ('s, 64 word) io" where
  "task_deadline E s =
     (let secs = (utc_now E s + EXTEND_SECS * 2 * 1000000000) div 1000000000 in
      if secs < 0 then (Inl (Err (BadRequest
        ''issue converting timeout: out of range integral type conversion attempted'')), s)
      else (Inr (of_int secs), s))"

text \<open>
  \<open>tasks::run\<close>, for a task that finishes before the first extension of its timeout, thirty seconds
  after it started: the arm of \<open>select!\<close> that runs the task drops its result, error or not.
\<close>

definition tasks_run :: "('s, 'b) env \<Rightarrow> string \<Rightarrow> task_type \<Rightarrow> ('s, unit) io" where
  "tasks_run E ow task =
     sbind (task_deadline E) (\<lambda>timeout.
     sbind (lift (task_cid E task)) (\<lambda>tid.
     sbind (via_provider (task_register ow
       \<lparr>task_id = tid, task_type = task, task_timeout = timeout, task_retry_count = 0\<rparr> timeout)) (\<lambda>_.
     (\<lambda>s. case task_run E ow task s of
            (Inl (Err e), t) \<Rightarrow> (Inr (), t)
          | r \<Rightarrow> r))))"

section \<open>The handler\<close>

definition delete_query :: "string \<Rightarrow> query" where
  "delete_query rid =
     records_query_build ((add_filter (records_filter_new\<lparr>rf_record_id := Some rid\<rparr>)
       records_query_builder_new)\<lparr>rqb_method := None\<rparr>)"

definition check_not_deleted :: "delete \<Rightarrow> entry \<Rightarrow> unit result" where
  "check_not_deleted d latest =
     (if base_method (entry_descriptor latest) = M_Delete then
        rbind (rguard (del_prune (del_descriptor d)) (NotFound ''cannot delete a `RecordsDelete` record'')) (\<lambda>_.
        rbind (delete_try_from latest) (\<lambda>existing.
        rguard (\<not> del_prune (del_descriptor existing)) (NotFound ''attempting to prune an already pruned record'')))
      else Inr ())"

definition delete_handle :: "('s, 'b) env \<Rightarrow> string \<Rightarrow> delete \<Rightarrow> ('s, unit reply) io" where
  "delete_handle E ow d =
     sbind (MessageStore_query E ow (delete_query (del_record_id (del_descriptor d)))) (\<lambda>(entries, _).
     case entries of
       [] \<Rightarrow> sfail (Err (NotFound ''no matching record found''))
     | latest # _ \<Rightarrow>
         sbind (lift (check_not_deleted d latest)) (\<lambda>_.
         sbind (lift (write_try_from latest)) (\<lambda>w.
         sbind (delete_authorize E ow w d) (\<lambda>_.
         sbind (lift (rguard (\<not> timestamp_micros (base_timestamp (del_base (del_descriptor d)))
               < timestamp_micros (base_timestamp (entry_descriptor latest)))
           (Conflict ''newer record version exists''))) (\<lambda>_.
         sbind (tasks_run E ow (RecordsDelete d)) (\<lambda>_.
         sret (reply_with 202 None)))))))"

end
