(* ===== verification/Events.thy ===== *)
theory Events
  imports Store
begin

text \<open>
  Event subscriptions (\<open>src/src/event.rs\<close>): the stream a subscriber polls, and which events it lets through. The
  subscription is the provider's stream of events, filtered.
\<close>

section \<open>The stream\<close>

text \<open>Polling a stream from which \<open>k\<close> events have been taken: the next event, or nothing yet.\<close>

definition stream_poll :: "('s \<Rightarrow> 'a list) \<Rightarrow> nat \<Rightarrow> 's \<Rightarrow> 'a option" where
  "stream_poll str k s = (if k < length (str s) then Some (str s ! k) else None)"

definition stream_filter :: "('a \<Rightarrow> bool) \<Rightarrow> ('s \<Rightarrow> 'a list) \<Rightarrow> 's \<Rightarrow> 'a list" where
  "stream_filter P str s = filter P (str s)"

definition subscriber_new :: "('s \<Rightarrow> entry list) \<Rightarrow> 's subscriber" where
  "subscriber_new str = \<lparr>sub_inner = str\<rparr>"

definition subscriber_default :: "'s subscriber" where
  "subscriber_default = \<lparr>sub_inner = (\<lambda>s. [])\<rparr>"

definition poll_next :: "'s subscriber \<Rightarrow> nat \<Rightarrow> 's \<Rightarrow> entry option" where
  "poll_next sub k s = stream_poll (sub_inner sub) k s"

section \<open>Filters\<close>

definition opt_all :: "'a option \<Rightarrow> ('a \<Rightarrow> bool) \<Rightarrow> bool" where
  "opt_all x P = (case x of None \<Rightarrow> True | Some a \<Rightarrow> P a)"

primrec tag_filter_is_match :: "tag_filter \<Rightarrow> tag \<Rightarrow> bool" where
  "tag_filter_is_match (TF_StartsWith v) t = starts_with (case tag_as_str t of None \<Rightarrow> [] | Some s \<Rightarrow> s) v"
| "tag_filter_is_match (TF_Range r) t = range_contains r (case tag_as_u64 t of None \<Rightarrow> 0 | Some n \<Rightarrow> n)"
| "tag_filter_is_match (TF_Equal v) t = (t = v)"

definition or_empty :: "string option \<Rightarrow> string" where
  "or_empty x = (case x of None \<Rightarrow> [] | Some s \<Rightarrow> s)"

text \<open>The default \<open>DateTime\<close> is the epoch.\<close>

definition or_epoch :: "datetime option \<Rightarrow> datetime" where
  "or_epoch x = (case x of None \<Rightarrow> 0 | Some t \<Rightarrow> t)"

definition records_filter_is_match :: "('s, 'b) env \<Rightarrow> records_filter \<Rightarrow> entry \<Rightarrow> bool" where
  "records_filter_is_match E f ev =
     (case e_message ev of
        E_Write w \<Rightarrow>
          let d = w_descriptor w in
          opt_all (rf_author f) (\<lambda>a. unwrap_or_default (auth_author E (w_authorization w)) \<in> set (to_vec a)) \<and>
          opt_all (rf_attester f) (\<lambda>a. map_of (e_indexes ev) ''attester'' = Some a) \<and>
          opt_all (rf_recipient f) (\<lambda>r. or_empty (wd_recipient d) \<in> set (to_vec r)) \<and>
          opt_all (rf_protocol f) (\<lambda>p. wd_protocol d = Some p) \<and>
          opt_all (rf_protocol_path f) (\<lambda>p. wd_protocol_path d = Some p) \<and>
          opt_all (rf_published f) (\<lambda>b. b = (wd_published d = Some True)) \<and>
          opt_all (rf_context_id f) (\<lambda>c. starts_with (or_empty (w_context_id w)) c) \<and>
          opt_all (rf_schema f) (\<lambda>s. wd_schema d = Some s) \<and>
          opt_all (rf_record_id f) (\<lambda>r. r = w_record_id w) \<and>
          opt_all (rf_parent_id f) (\<lambda>p. wd_parent_id d = Some p) \<and>
          opt_all (rf_tags f) (list_all (\<lambda>(property, tf).
            case wd_tags d of None \<Rightarrow> False
            | Some tags \<Rightarrow> tag_filter_is_match tf
                (case map_of tags property of None \<Rightarrow> Tag_Empty | Some t \<Rightarrow> t))) \<and>
          opt_all (rf_data_format f) (\<lambda>x. x = wd_data_format d) \<and>
          opt_all (rf_data_size f) (\<lambda>r. range_contains r (wd_data_size d)) \<and>
          opt_all (rf_data_cid f) (\<lambda>c. c = wd_data_cid d) \<and>
          opt_all (rf_date_created f) (\<lambda>r. date_range_contains r (wd_date_created d)) \<and>
          opt_all (rf_date_published f) (\<lambda>r. date_range_contains r (or_epoch (wd_date_published d))) \<and>
          opt_all (rf_date_updated f) (\<lambda>r. date_range_contains r (base_timestamp (wd_base d)))
      | _ \<Rightarrow> False)"

definition messages_filter_is_match :: "messages_filter \<Rightarrow> entry \<Rightarrow> bool" where
  "messages_filter_is_match f ev =
     (let d = entry_descriptor ev in
      opt_all (mf_interface f) (\<lambda>i. i = base_interface d) \<and>
      opt_all (mf_method f) (\<lambda>m. m = base_method d) \<and>
      opt_all (mf_protocol f) (\<lambda>p.
        case e_message ev of
          E_Write w \<Rightarrow> wd_protocol (w_descriptor w) = Some p
        | E_Delete x \<Rightarrow> False
        | E_Configure c \<Rightarrow> p = def_protocol (cd_definition (cfg_descriptor c))) \<and>
      opt_all (mf_message_timestamp f) (\<lambda>r. date_range_contains r (base_timestamp d)))"

datatype subscribe_filter = SF_Messages "messages_filter list" | SF_Records records_filter

definition subscribe_filter_default :: subscribe_filter where
  "subscribe_filter_default = SF_Messages []"

primrec subscribe_filter_is_match :: "('s, 'b) env \<Rightarrow> subscribe_filter \<Rightarrow> entry \<Rightarrow> bool" where
  "subscribe_filter_is_match E (SF_Messages fs) ev = list_ex (\<lambda>f. messages_filter_is_match f ev) fs"
| "subscribe_filter_is_match E (SF_Records f) ev =
     (if as_configure ev \<noteq> None then False else records_filter_is_match E f ev)"

definition filtered :: "('s, 'b) env \<Rightarrow> subscribe_filter \<Rightarrow> 's subscriber \<Rightarrow> 's subscriber" where
  "filtered E f sub = sub\<lparr>sub_inner := stream_filter (subscribe_filter_is_match E f) (sub_inner sub)\<rparr>"

abbreviation EventStream_subscribe where "EventStream_subscribe E ow \<equiv> anyhow (es_subscribe E ow)"

end
