(* ===== verification/Record_Access.thy ===== *)
theory Record_Access
  imports Record_Write Events
begin

text \<open>
  Reading records: the handlers of \<open>RecordsRead\<close> (\<open>src/src/records/read.rs\<close>), \<open>RecordsQuery\<close>
  (\<open>src/src/records/query.rs\<close>) and \<open>RecordsSubscribe\<close> (\<open>src/src/records/subscribe.rs\<close>).
\<close>

section \<open>Read\<close>

record read_reply_entry =
  rr_records_write :: "write_msg option"
  rr_records_delete :: "delete option"
  rr_initial_write :: "write_msg option"
  rr_data :: "bytes option"

definition read_authorize :: "('s, 'b) env \<Rightarrow> string \<Rightarrow> write_msg \<Rightarrow> read \<Rightarrow> ('s, unit) io" where
  "read_authorize E ow w r =
     (if wd_published (w_descriptor w) = Some True then sret ()
      else
        sbind (lift (some_or (rd_authorization r) (Forbidden ''read not authorized''))) (\<lambda>a.
        sbind (lift (auth_author E a)) (\<lambda>author.
        if author = ow then sret ()
        else if wd_recipient (w_descriptor w) = Some author then sret ()
        else
          sbind (lift (auth_author E (w_authorization w))) (\<lambda>wa.
          if author = wa then sret ()
          else
            sbind (lift (case author_delegated_grant a of
                None \<Rightarrow> Inr ()
              | Some dg \<Rightarrow> rbind (to_grant E dg) (\<lambda>g. verify_scope g w))) (\<lambda>_.
            sbind (lift (auth_payload E a)) (\<lambda>payload.
            case jp_permission_grant_id payload of
              Some gid \<Rightarrow>
                sbind (fetch_grant E ow gid) (\<lambda>g. grant_permit_read E g ow author r w)
            | None \<Rightarrow>
                (case wd_protocol (w_descriptor w) of
                   Some protocol \<Rightarrow>
                     permit E ((authorizer_new protocol)\<lparr>az_context_id := w_context_id w,
                       az_initial_write := Some w\<rparr>) ow (R_Read r)
                 | None \<Rightarrow> sfail (Err (Forbidden ''read cannot be authorized'')))))))))"

text \<open>\<open>let Ok(x) = ... else\<close>: an error is taken as a value, a panic is not.\<close>

definition try_io :: "('s, 'a) io \<Rightarrow> ('s, 'a option) io" where
  "try_io m s =
     (case m s of
        (Inr a, t) \<Rightarrow> (Inr (Some a), t)
      | (Inl (Err e), t) \<Rightarrow> (Inr None, t)
      | (Inl f, t) \<Rightarrow> (Inl f, t))"

definition read_deleted :: "('s, 'b) env \<Rightarrow> string \<Rightarrow> read \<Rightarrow> entry \<Rightarrow> ('s, read_reply_entry reply) io" where
  "read_deleted E ow r e =
     sbind (lift (some_or (as_delete e) (BadRequest ''expected `RecordsDelete` message''))) (\<lambda>d.
     sbind (try_io (initial_write E ow (del_record_id (del_descriptor d)))) (\<lambda>found.
     case found of
       Some (Some w) \<Rightarrow>
         sbind (read_authorize E ow w r) (\<lambda>_.
         sret (reply_with 404 (Some \<lparr>rr_records_write = None, rr_records_delete = Some d,
           rr_initial_write = Some w, rr_data = None\<rparr>)))
     | _ \<Rightarrow> sfail (Err (BadRequest ''initial write for deleted record not found''))))"

definition read_data :: "('s, 'b) env \<Rightarrow> string \<Rightarrow> write_msg \<Rightarrow> ('s, bytes) io" where
  "read_data E ow w =
     (case w_encoded_data w of
        Some encoded \<Rightarrow> lift (map_err (internal ''base64ct'') (b64_decode E encoded))
      | None \<Rightarrow>
          sbind (DataStore_get E ow (w_record_id w) (wd_data_cid (w_descriptor w))) (\<lambda>found.
          lift (some_or found (NotFound ''data not found''))))"

text \<open>All writes of a record, archived ones included, the earliest first.\<close>

definition all_writes_query :: "string \<Rightarrow> query" where
  "all_writes_query rid =
     records_query_build ((add_filter (records_filter_new\<lparr>rf_record_id := Some rid\<rparr>)
       records_query_builder_new)\<lparr>rqb_include_archived := True\<rparr>)"

definition attach_initial :: "('s, 'b) env \<Rightarrow> string \<Rightarrow> write_msg \<Rightarrow> ('s, write_msg option) io" where
  "attach_initial E ow w =
     sbind (lift (is_initial E w)) (\<lambda>init.
     if init then sret None
     else
       sbind (MessageStore_query E ow (all_writes_query (w_record_id w))) (\<lambda>(entries, _).
       case entries of
         [] \<Rightarrow> sfail (Err (BadRequest ''initial write not found''))
       | e # _ \<Rightarrow>
           sbind (lift (some_or (as_write e) (BadRequest ''expected `RecordsWrite` message''))) (\<lambda>i.
           sret (Some (i\<lparr>w_encoded_data := None\<rparr>)))))"

definition read_live :: "('s, 'b) env \<Rightarrow> string \<Rightarrow> read \<Rightarrow> entry \<Rightarrow> ('s, read_reply_entry reply) io" where
  "read_live E ow r e =
     sbind (lift (write_try_from e)) (\<lambda>w.
     sbind (read_authorize E ow w r) (\<lambda>_.
     sbind (read_data E ow w) (\<lambda>data.
     let w = w\<lparr>w_encoded_data := None\<rparr> in
     sbind (attach_initial E ow w) (\<lambda>initial.
     sret (reply_with 200 (Some \<lparr>rr_records_write = Some w, rr_records_delete = None,
       rr_initial_write = initial, rr_data = Some data\<rparr>))))))"

definition read_handle :: "('s, 'b) env \<Rightarrow> string \<Rightarrow> read \<Rightarrow> ('s, read_reply_entry reply) io" where
  "read_handle E ow r =
     sbind (MessageStore_query E ow (query_from_read r)) (\<lambda>(entries, _).
     case entries of
       [] \<Rightarrow> sfail (Err (NotFound ''no matching record''))
     | e # es \<Rightarrow>
         if es \<noteq> [] then sfail (Err (BadRequest ''multiple messages exist''))
         else if base_method (entry_descriptor e) = M_Delete then read_deleted E ow r e
         else read_live E ow r e)"

section \<open>Query\<close>

record query_reply_entry =
  qe_write :: write_msg
  qe_initial_write :: "write_msg option"

record query_reply =
  qr_entries :: "query_reply_entry list option"
  qr_cursor :: "cursor option"

definition sorts_published :: "sort option \<Rightarrow> bool" where
  "sorts_published s \<longleftrightarrow> s = Some PublishedAsc \<or> s = Some PublishedDesc"

definition query_validate :: "('s, 'b) env \<Rightarrow> records_query \<Rightarrow> unit result" where
  "query_validate E q =
     (let d = rq_descriptor q; f = qd_filter d in
      rbind (case rf_protocol f of None \<Rightarrow> Inr () | Some p \<Rightarrow> uri_validate E p) (\<lambda>_.
      rbind (case rf_schema f of None \<Rightarrow> Inr () | Some s \<Rightarrow> uri_validate E s) (\<lambda>_.
      case rf_published f of
        None \<Rightarrow> Inr ()
      | Some pub \<Rightarrow>
          if pub then Inr ()
          else rguard (\<not> sorts_published (qd_date_sort d))
            (BadRequest ''cannot sort by `date_published` when querying for unpublished records''))))"

definition only_published :: "records_query \<Rightarrow> bool" where
  "only_published q =
     (let d = rq_descriptor q; f = qd_filter d in
      case rf_published f of
        Some pub \<Rightarrow> pub
      | None \<Rightarrow>
          if rf_date_published f \<noteq> None then True
          else if sorts_published (qd_date_sort d) then True
          else if rq_authorization q = None then True
          else False)"

definition query_authorize :: "('s, 'b) env \<Rightarrow> string \<Rightarrow> records_query \<Rightarrow> ('s, unit) io" where
  "query_authorize E ow q =
     (let f = qd_filter (rq_descriptor q) in
      sbind (lift (some_or (rq_authorization q) (Forbidden ''missing authorization''))) (\<lambda>a.
      sbind (case author_delegated_grant a of
          None \<Rightarrow> sret ()
        | Some dg \<Rightarrow>
            sbind (lift (to_grant E dg)) (\<lambda>g.
            sbind (lift (auth_author E a)) (\<lambda>author.
            sbind (lift (auth_signer E a)) (\<lambda>signer.
            grant_permit_query E g author signer q)))) (\<lambda>_.
      sbind (lift (auth_payload E a)) (\<lambda>payload.
      if jp_protocol_role payload \<noteq> None then
        sbind (lift (some_or (rf_protocol f) (BadRequest ''missing protocol''))) (\<lambda>protocol.
        sbind (lift (some_or (rf_protocol_path f) (BadRequest ''missing `protocol_path`''))) (\<lambda>path.
        sbind (lift (rguard (\<not> (CHR ''/'' \<in> set path \<and> rf_context_id f = None)) (BadRequest ''missing `context_id`''))) (\<lambda>_.
        permit E ((authorizer_new protocol)\<lparr>az_context_id := rf_context_id f\<rparr>) ow (R_Query q))))
      else sret ()))))"

definition published_filter :: "bool \<Rightarrow> records_filter \<Rightarrow> records_filter" where
  "published_filter b f = f\<lparr>rf_published := Some b\<rparr>"

text \<open>
  The query of a requester who is not the owner: published records, and the unpublished ones the
  requester wrote, received, or may see through a role.
\<close>

definition non_owner_filters :: "records_filter \<Rightarrow> string \<Rightarrow> bool \<Rightarrow> records_filter list" where
  "non_owner_filters f author role =
     (if rf_published f = None then [published_filter True f] else [])
     @ [published_filter False (add_author author (f\<lparr>rf_author := None\<rparr>)),
        published_filter False (add_recipient author (f\<lparr>rf_recipient := None\<rparr>))]
     @ (if role then [published_filter False f] else [])"

definition into_non_owner :: "('s, 'b) env \<Rightarrow> records_query \<Rightarrow> query result" where
  "into_non_owner E q =
     (let d = rq_descriptor q;
          b = records_query_builder_new;
          b = (case qd_date_sort d of None \<Rightarrow> b | Some s \<Rightarrow> b\<lparr>rqb_sort := s\<rparr>);
          b = (case qd_pagination d of None \<Rightarrow> b | Some p \<Rightarrow> b\<lparr>rqb_pagination := Some p\<rparr>) in
      rbind (some_or (rq_authorization q) (Forbidden ''missing authorization'')) (\<lambda>a.
      rbind (auth_author E a) (\<lambda>author.
      rbind (auth_payload E a) (\<lambda>payload.
      Inr (records_query_build
        (foldl (\<lambda>b f. add_filter f b) b
          (non_owner_filters (qd_filter d) author (jp_protocol_role payload \<noteq> None))))))))"

definition set_published :: "records_query \<Rightarrow> records_query" where
  "set_published q =
     (let d = rq_descriptor q in
      q\<lparr>rq_descriptor := d\<lparr>qd_filter := published_filter True (qd_filter d)\<rparr>\<rparr>)"

definition store_query :: "('s, 'b) env \<Rightarrow> string \<Rightarrow> records_query \<Rightarrow> ('s, query) io" where
  "store_query E ow q =
     (if only_published q then sret (query_from_records_query (set_published q))
      else
        sbind (query_authorize E ow q) (\<lambda>_.
        lift (rbind (some_or (rq_authorization q) (Forbidden ''missing authorization'')) (\<lambda>a.
        rbind (auth_author E a) (\<lambda>author.
        if author = ow then Inr (query_from_records_query q) else into_non_owner E q)))))"

text \<open>\<open>results[0]\<close> panics when the record's writes are gone.\<close>

definition query_entry :: "('s, 'b) env \<Rightarrow> string \<Rightarrow> entry \<Rightarrow> ('s, query_reply_entry) io" where
  "query_entry E ow e =
     sbind (lift (write_try_from e)) (\<lambda>w.
     sbind (lift (is_initial E w)) (\<lambda>init.
     if init then sret \<lparr>qe_write = w, qe_initial_write = None\<rparr>
     else
       sbind (MessageStore_query E ow (all_writes_query (w_record_id w))) (\<lambda>(results, _).
       case results of
         [] \<Rightarrow> sfail (Panic ''index out of bounds'')
       | i # _ \<Rightarrow>
           sbind (lift (write_try_from i)) (\<lambda>initial.
           sret \<lparr>qe_write = w, qe_initial_write = Some (initial\<lparr>w_encoded_data := None\<rparr>)\<rparr>))))"

definition query_handle :: "('s, 'b) env \<Rightarrow> string \<Rightarrow> records_query \<Rightarrow> ('s, query_reply reply) io" where
  "query_handle E ow q =
     sbind (lift (query_validate E q)) (\<lambda>_.
     sbind (store_query E ow q) (\<lambda>sq.
     sbind (MessageStore_query E ow sq) (\<lambda>(records, cur).
     if records = [] then sret (reply_with 200 None)
     else
       sbind (smapm records (query_entry E ow)) (\<lambda>entries.
       sret (reply_with 200 (Some \<lparr>qr_entries = Some entries, qr_cursor = cur\<rparr>))))))"

section \<open>Subscribe\<close>

text \<open>The protocol role is passed to the authorizer where a protocol is expected.\<close>

definition subscribe_authorize :: "('s, 'b) env \<Rightarrow> string \<Rightarrow> records_subscribe \<Rightarrow> ('s, unit) io" where
  "subscribe_authorize E ow q =
     (let f = sd_filter (rs_descriptor q) in
      if rf_published f = Some True then sret ()
      else
        sbind (lift (some_or (rs_authorization q) (Forbidden ''missing authorization''))) (\<lambda>a.
        sbind (lift (auth_author E a)) (\<lambda>author.
        sbind (case author_delegated_grant a of
            None \<Rightarrow> sret ()
          | Some dg \<Rightarrow>
              sbind (lift (to_grant E dg)) (\<lambda>g.
              sbind (lift (auth_signer E a)) (\<lambda>signer.
              grant_permit_subscribe E g author signer q))) (\<lambda>_.
        sbind (lift (auth_payload E a)) (\<lambda>payload.
        case jp_protocol_role payload of
          Some protocol \<Rightarrow>
            permit E ((authorizer_new protocol)\<lparr>az_context_id := rf_context_id f\<rparr>) ow (R_Subscribe q)
        | None \<Rightarrow> sret ())))))"

definition subscribe_filter_for :: "string \<Rightarrow> string \<Rightarrow> records_filter \<Rightarrow> records_filter" where
  "subscribe_filter_for ow author f =
     (if author \<noteq> ow then f\<lparr>rf_author := Some (One author), rf_recipient := Some (One author)\<rparr> else f)"

definition subscribe_handle :: "('s, 'b) env \<Rightarrow> string \<Rightarrow> records_subscribe \<Rightarrow> ('s, 's subscriber reply) io" where
  "subscribe_handle E ow q =
     sbind (subscribe_authorize E ow q) (\<lambda>_.
     sbind (EventStream_subscribe E ow) (\<lambda>subscriber.
     sbind (lift (some_or (rs_authorization q) (Forbidden ''missing authorization''))) (\<lambda>a.
     sbind (lift (auth_author E a)) (\<lambda>author.
     let f = SF_Records (subscribe_filter_for ow author (sd_filter (rs_descriptor q))) in
     sret (reply_with 200 (Some (filtered E f subscriber)))))))"

end
