(* ===== verification/Record_Lookup.thy ===== *)
theory Record_Lookup
  imports Store_Refinement Record_Write Record_Delete Record_Access
begin

text \<open>
  Records in the store: the index fields of stored writes and deletes, and what the handlers' queries by
  record id select.
\<close>

section \<open>Index fields\<close>

lemma map_of_hm_insert [simp]: "map_of (hm_insert k v m) k' = (if k' = k then Some v else map_of m k')"
  by (simp add: update_conv')

lemma map_of_insert_tags: "take 4 k \<noteq> ''tag.'' \<Longrightarrow> map_of (insert_tags ts m) k = map_of m k"
  by (induction ts m rule: insert_tags.induct) auto

lemma wf_insert_tags: "wf_fields m \<Longrightarrow> wf_fields (insert_tags ts m)"
  by (induction ts m rule: insert_tags.induct) (auto simp: wf_fields_insert)

lemma map_of_insert_some [simp]:
  "map_of (insert_some k v m) k' = (if k' = k \<and> v \<noteq> None then v else map_of m k')"
  by (cases v) (auto simp: insert_some_def)

lemma wf_insert_some: "wf_fields m \<Longrightarrow> k \<noteq> ''message_cid'' \<Longrightarrow> wf_fields (insert_some k v m)"
  by (cases v) (simp_all add: insert_some_def wf_fields_insert)

lemmas write_field_simps = write_indexes_def Let_def map_of_insert_tags

lemma write_indexes_fields:
  "map_of (write_indexes E w) ''recordId'' = Some (w_record_id w)"
  "map_of (write_indexes E w) ''interface'' = Some (interface_str (base_interface (wd_base (w_descriptor w))))"
  "map_of (write_indexes E w) ''method'' = Some (method_str (base_method (wd_base (w_descriptor w))))"
  "map_of (write_indexes E w) ''messageTimestamp'' = Some (fmt_micros E (base_timestamp (wd_base (w_descriptor w))))"
  "map_of (write_indexes E w) ''initial'' = None"
  by (simp_all add: write_field_simps)

lemma wf_write_indexes: "wf_fields (write_indexes E w)"
  unfolding write_indexes_def Let_def
  by (intro wf_insert_tags wf_insert_some wf_fields_insert wf_fields_Nil) simp_all

lemma write_entry_fields:
  "e_indexes (add_index ''initial'' v (entry_from_write E w)) = hm_insert ''initial'' v (write_indexes E w)"
  "e_message (add_index ''initial'' v (entry_from_write E w)) = E_Write w"
  by (simp_all add: add_index_def entry_from_write_def write_indexes_fields)

section \<open>Queries by record id\<close>

text \<open>A match set whose indexed value is also a matcher on equality needs no range test of its own.\<close>

lemma in_range_equal:
  assumes "mst_index ms = Some (f, v)" and "match_eq f v \<in> set (mst_inner ms)"
    and "match_all E (mst_inner ms) (item_of c fs) = Inr True"
  shows "in_range ms c fs"
proof -
  from assms(2,3) have "map_of fs f = Some v"
    by (auto simp: match_all_True matcher_is_match_def)
  with assms(1) show ?thesis by (simp add: in_range_Some index_key_above index_key_below)
qed

definition has_field :: "fields \<Rightarrow> string \<Rightarrow> string \<Rightarrow> bool" where
  "has_field fs f v \<longleftrightarrow> map_of fs f = Some v"

lemma selects_equal:
  assumes "q_match_sets q = [ms]" and "mst_index ms = Some (f, v)" and "mst_inner ms = map (\<lambda>(f, v). match_eq f v) eqs"
    and "(f, v) \<in> set eqs"
  shows "selects E q c fs \<longleftrightarrow> list_all (\<lambda>(f, v). has_field fs f v) eqs"
proof -
  have "match_all E (mst_inner ms) (item_of c fs) = Inr True \<longleftrightarrow> list_all (\<lambda>(f, v). has_field fs f v) eqs"
    unfolding match_all_True assms(3) by (fastforce simp: list_all_iff has_field_def matcher_is_match_def)
  moreover have "match_eq f v \<in> set (mst_inner ms)" using assms(3,4) by force
  ultimately show ?thesis
    using in_range_equal [OF assms(2), of E c fs] assms(1) by (auto simp: selects_def)
qed

lemma existing_query_sets:
  "q_match_sets (existing_query rid) =
     [\<lparr>mst_inner = [match_eq ''interface'' ''Records'', match_eq ''recordId'' rid], mst_index = Some (''recordId'', rid)\<rparr>]"
  "q_sort (existing_query rid) = TimestampAsc" "q_pagination (existing_query rid) = None"
  by (simp_all add: existing_query_def records_query_build_def add_filter_def records_query_builder_new_def
      builder_match_set_def match_set_from_def opt_match_def records_filter_new_def filter_is_concise_def
      filter_as_concise_def Let_def)

lemma selects_existing:
  "selects E (existing_query rid) c fs \<longleftrightarrow> has_field fs ''interface'' ''Records'' \<and> has_field fs ''recordId'' rid"
  using selects_equal [OF existing_query_sets(1) [of rid],
      where f = "''recordId''" and v = rid and eqs = "[(''interface'', ''Records''), (''recordId'', rid)]"] by simp

text \<open>The read of one record by its id.\<close>

definition read_by_id :: "read \<Rightarrow> string \<Rightarrow> bool" where
  "read_by_id r rid \<longleftrightarrow> rd_filter (rd_descriptor r) = records_filter_new\<lparr>rf_record_id := Some rid\<rparr>"

lemma read_query_sets:
  assumes "read_by_id r rid"
  shows "q_match_sets (query_from_read r) =
     [\<lparr>mst_inner = [match_eq ''interface'' ''Records'', match_eq ''recordId'' rid, match_eq ''initial'' ''false''],
       mst_index = Some (''recordId'', rid)\<rparr>]"
    and "q_sort (query_from_read r) = TimestampAsc" and "q_pagination (query_from_read r) = None"
  using assms by (simp_all add: read_by_id_def query_from_read_def match_set_from_def opt_match_def
      records_filter_new_def filter_is_concise_def filter_as_concise_def Let_def bool_str_def)

lemma selects_read:
  assumes "read_by_id r rid"
  shows "selects E (query_from_read r) c fs \<longleftrightarrow>
    has_field fs ''interface'' ''Records'' \<and> has_field fs ''recordId'' rid \<and> has_field fs ''initial'' ''false''"
  using selects_equal [OF read_query_sets(1) [OF assms],
      where f = "''recordId''" and v = rid
        and eqs = "[(''interface'', ''Records''), (''recordId'', rid), (''initial'', ''false'')]"] by simp

section \<open>Answers\<close>

text \<open>
  The sort keys of a store tell its messages apart when its timestamps have one length, as
  \<open>to_rfc3339_opts(Micros, true)\<close> gives them for the years 0 to 9999.
\<close>

definition timestamped :: "nat \<Rightarrow> (string \<rightharpoonup> entry) \<Rightarrow> bool" where
  "timestamped n msgs \<longleftrightarrow> (\<forall>c e. msgs c = Some e \<longrightarrow>
     (\<exists>v. map_of (e_indexes e) ''messageTimestamp'' = Some v \<and> length v = n))"

lemma timestamped_answerable:
  assumes "timestamped n msgs" and "sort_str (q_sort q) = ''messageTimestamp''"
    and "\<forall>ms\<in>set (q_match_sets q). list_all total_matcher (mst_inner ms)"
  shows "answerable E (map_option e_indexes \<circ> msgs) q"
proof -
  let ?U = "items_of (map_option e_indexes \<circ> msgs)"
  from assms(1) have n: "\<And>c e. msgs c = Some e \<Longrightarrow>
      \<exists>v. map_of (e_indexes e) ''messageTimestamp'' = Some v \<and> length v = n"
    unfolding timestamped_def by blast
  have it: "\<exists>v. map_of (ii_fields it) ''messageTimestamp'' = Some v \<and> length v = n" if "it \<in> ?U" for it
    using that n by (auto simp: items_of_def)
  have "x = y" if "x \<in> ?U" "y \<in> ?U" "sort_of ''messageTimestamp'' x = sort_of ''messageTimestamp'' y" for x y
  proof -
    note xy = that
    obtain a b where "map_of (ii_fields x) ''messageTimestamp'' = Some a" "length a = n"
      "map_of (ii_fields y) ''messageTimestamp'' = Some b" "length b = n"
      using it [OF xy(1)] it [OF xy(2)] by auto
    with xy(3) have "ii_message_cid x = ii_message_cid y" by (simp add: sort_of_def)
    with items_of_inj that show ?thesis by (meson inj_onD)
  qed
  then have "inj_on (sort_of ''messageTimestamp'') ?U" by (rule inj_onI) auto
  moreover have "map_of (ii_fields it) ''messageTimestamp'' \<noteq> None" if "it \<in> ?U" for it
    using it [OF that] by auto
  moreover have "\<exists>b. match_all E (mst_inner ms) it = Inr b" if "ms \<in> set (q_match_sets q)" for ms it
    using that assms(3) by (intro match_all_total) blast
  ultimately show ?thesis unfolding answerable_def assms(2) by blast
qed

context index_store
begin

lemma query_by_field:
  assumes st: "stored s ow MESSAGE_PARTITION msgs" and ts: "timestamped n msgs"
    and q: "q_match_sets q = [ms]" "mst_index ms = Some (f, v)" "f \<noteq> ''message_cid''" "v \<noteq> []"
      "list_all total_matcher (mst_inner ms)" "sort_str (q_sort q) = ''messageTimestamp''" "q_pagination q = None"
  shows "\<exists>cs. message_query E ow q s = (Inr (map (\<lambda>c. ser_entry (the (msgs c))) cs, None), s) \<and>
     distinct cs \<and> set cs = selected E q msgs \<and> in_order q msgs cs"
  using q by (intro message_query_exact [OF st]) (auto simp: query_is_concise_def timestamped_answerable [OF ts])

end

end
