(* ===== verification/Full_Scan.thy ===== *)
theory Full_Scan
  imports Record_Lookup
begin

text \<open>
  Queries that scan a whole index (\<open>query_full\<close> of \<open>src/src/store/index.rs\<close>) with one match set and no pages: they
  return each message the match set accepts once. The lookups of protocols and of messages under a grant are
  such queries.
\<close>

lemma full_items_single:
  assumes "\<And>it. it \<in> set rest \<Longrightarrow> \<exists>b. match_all E (mst_inner ms) it = Inr b" and "distinct (map ii_message_cid rest)"
    and "set (map ii_message_cid rest) \<inter> set matches = {}"
  shows "full_items E [ms] None rest (items, matches) =
    Inr (items @ filter (\<lambda>it. match_all E (mst_inner ms) it = Inr True) rest)"
  using assms
proof (induction rest arbitrary: items matches)
  case (Cons it rest)
  obtain b where b: "match_all E (mst_inner ms) it = Inr b" using Cons.prems(1) [of it] by auto
  have "full_items E [ms] None rest (x, m) = Inr (x @ filter (\<lambda>it. match_all E (mst_inner ms) it = Inr True) rest)"
    if "set m \<subseteq> insert (ii_message_cid it) (set matches)" for x m
  proof (rule Cons.IH)
    show "\<exists>b. match_all E (mst_inner ms) y = Inr b" if "y \<in> set rest" for y using Cons.prems(1) [of y] that by simp
    show "distinct (map ii_message_cid rest)" using Cons.prems(2) by simp
    have "insert (ii_message_cid it) (set matches) \<inter> set (map ii_message_cid rest) = {}" using Cons.prems(2,3) by auto
    then show "set (map ii_message_cid rest) \<inter> set m = {}" using that by blast
  qed
  with b Cons.prems(3) show ?case by (cases b) auto
qed simp

lemma rows_distinct:
  assumes "bt_ok items" and "set items = rows live f"
  shows "distinct (map (ii_message_cid \<circ> snd) items)"
proof -
  have "inj_on (ii_message_cid \<circ> snd) (set items)"
    unfolding assms(2) by (auto simp: inj_on_def rows_def)
  moreover have "distinct items" using assms(1) by (auto simp: bt_ok_def strict_sorted_iff distinct_map)
  ultimately show ?thesis by (simp add: distinct_map)
qed

context index_store
begin

lemma query_full_exact:
  assumes st: "stored s ow MESSAGE_PARTITION msgs" and ts: "timestamped n msgs"
    and q: "q_match_sets q = [ms]" "\<not> query_is_concise q" "sort_str (q_sort q) = ''messageTimestamp''" "q_pagination q = None"
    and total: "list_all total_matcher (mst_inner ms)"
  shows "\<exists>cs. message_query E ow q s = (Inr (map (\<lambda>c. ser_entry (the (msgs c))) cs, None), s) \<and> distinct cs \<and>
    set cs = {c. \<exists>e. msgs c = Some e \<and> match_all E (mst_inner ms) (item_of c (e_indexes e)) = Inr True}"
proof -
  let ?live = "map_option e_indexes \<circ> msgs" and ?f = "''messageTimestamp''"
  let ?ok = "\<lambda>it. match_all E (mst_inner ms) it = Inr True"
  have "indexed s ow MESSAGE_PARTITION ?live" using st by (simp add: stores_def)
  from indexed_field [OF this, of ?f] obtain ix where ix: "the_index s ow MESSAGE_PARTITION ?f = Some ix" "field_ok ?live ?f ix" by blast
  then have rows: "bt_ok (ix_items ix)" "set (ix_items ix) = rows ?live ?f" by (simp_all add: field_ok_def)
  let ?items = "filter ?ok (map snd (ix_items ix))"
  have "full_items E [ms] None (map snd (ix_items ix)) ([], []) = Inr ([] @ ?items)"
    using match_all_total [OF total] rows_distinct [OF rows] by (intro full_items_single) simp_all
  then have run: "index_query E ow MESSAGE_PARTITION q s = (Inr ?items, s)"
    using q indexes_get_run [OF ix(1)] by (simp add: index_query_def query_full_def Let_def sbind_run lower_bound_def lift_def)
  have all: "snd ` set (ix_items ix) = {item_of c (e_indexes e) | c e. msgs c = Some e}"
    using ts by (force simp: rows rows_def timestamped_def)
  have "load_entry E ow MESSAGE_PARTITION it s = (Inr (ser_entry (the (msgs (ii_message_cid it)))), s)" if "it \<in> set ?items" for it
  proof -
    have "it \<in> snd ` set (ix_items ix)" using that by auto
    then obtain e where "msgs (ii_message_cid it) = Some e" unfolding all by auto
    then show ?thesis using load_stored [OF st] by auto
  qed
  then have "smapm ?items (load_entry E ow MESSAGE_PARTITION) s =
      (Inr (map (\<lambda>c. ser_entry (the (msgs c))) (map ii_message_cid ?items)), s)" by (rule load_all)
  then have "message_query E ow q s = (Inr (map (\<lambda>c. ser_entry (the (msgs c))) (map ii_message_cid ?items), None), s)"
    using q(4) run by (simp add: message_query_def pop_cursor_def sbind_run lift_def sret_def sbind_def)
  moreover have "distinct (map ii_message_cid ?items)"
    using rows_distinct [OF rows] by (simp add: distinct_map_filter flip: map_map)
  moreover have "set (map ii_message_cid ?items) = {c. \<exists>e. msgs c = Some e \<and> ?ok (item_of c (e_indexes e))}"
  proof -
    have "set ?items = {it \<in> {item_of c (e_indexes e) | c e. msgs c = Some e}. ?ok it}" unfolding all [symmetric] by auto
    moreover have "ii_message_cid ` {it \<in> {item_of c (e_indexes e) | c e. msgs c = Some e}. P it} =
        {c. \<exists>e. msgs c = Some e \<and> P (item_of c (e_indexes e))}" for P by force
    ultimately show ?thesis unfolding set_map by (simp only:)
  qed
  ultimately show ?thesis by blast
qed

end

end
