(* ===== verification/Hd_Key.thy ===== *)
theory Hd_Key
  imports Env
begin

text \<open>
  Hierarchical deterministic keys (\<open>src/src/hd_key.rs\<close>) and the keys a protocol definition publishes
  for its paths (\<open>Definition::with_encryption\<close> of \<open>src/src/protocols/configure.rs\<close>). The lemmas show
  that derivation along a path composes, so that a key derived from an ancestor key is the key
  derived from the root.
\<close>

definition PUBLIC_KEY_LENGTH :: nat where
  "PUBLIC_KEY_LENGTH = 32"

primrec scheme_str :: "derivation_scheme \<Rightarrow> string" where
  "scheme_str DataFormats = ''dataFormats''"
| "scheme_str ProtocolContext = ''protocolContext''"
| "scheme_str ProtocolPath = ''protocolPath''"
| "scheme_str Schemas = ''schemas''"

definition scheme_from_str :: "string \<Rightarrow> derivation_scheme result" where
  "scheme_from_str s =
     (if s = ''dataFormats'' then Inr DataFormats
      else if s = ''protocolContext'' then Inr ProtocolContext
      else if s = ''protocolPath'' then Inr ProtocolPath
      else if s = ''schemas'' then Inr Schemas
      else Inl (Err (BadRequest ''invalid derivation scheme'')))"

datatype derivation_path = Full "string list" | Relative "string list"

text \<open>One HKDF expansion per segment of the path.\<close>

fun derive_key :: "('s, 'b) env \<Rightarrow> bytes \<Rightarrow> string list \<Rightarrow> bytes result" where
  "derive_key E key [] = Inr key"
| "derive_key E key (segment # path) =
     rbind (rguard (segment \<noteq> []) (BadRequest ''invalid key derivation path'')) (\<lambda>_.
     rbind (map_err (\<lambda>e. internal ''anyhow'' (''issue expanding hkdf key: '' @ e)) (hkdf_expand E key segment)) (\<lambda>okm.
     derive_key E okm path))"

text \<open>The loop over the ancestor's segments; indexing past the end of the descendant path panics.\<close>

fun match_segments :: "string list \<Rightarrow> string list \<Rightarrow> string list result" where
  "match_segments [] path = Inr path"
| "match_segments (a # as) [] = Inl (Panic ''index out of bounds'')"
| "match_segments (a # as) (b # bs) =
     (if a \<noteq> b then Inl (Err (BadRequest ''ancestor and descendant key derivation segments do not match''))
      else match_segments as bs)"

definition ancestor_path :: "derived_private_jwk \<Rightarrow> string list" where
  "ancestor_path k = (case dj_derivation_path k of None \<Rightarrow> [] | Some p \<Rightarrow> p)"

definition derive_jwk :: "('s, 'b) env \<Rightarrow> derived_private_jwk \<Rightarrow> derivation_path \<Rightarrow> derived_private_jwk result" where
  "derive_jwk E ancestor path =
     rbind (case path of
         Full p \<Rightarrow> match_segments (ancestor_path ancestor) p
       | Relative p \<Rightarrow> Inr p) (\<lambda>sub_path.
     rbind (map_err (internal ''base64ct'') (b64_decode E (pk_d (dj_derived_private_key ancestor)))) (\<lambda>secret.
     rbind (rguard (length secret = PUBLIC_KEY_LENGTH) (BadRequest ''invalid secret key'')) (\<lambda>_.
     rbind (derive_key E secret sub_path) (\<lambda>derived.
     Inr \<lparr>dj_root_key_id = dj_root_key_id ancestor,
          dj_derivation_scheme = dj_derivation_scheme ancestor,
          dj_derivation_path = Some (ancestor_path ancestor @ sub_path),
          dj_derived_private_key =
            \<lparr>pk_public_key = \<lparr>jwk_crv = ''Ed25519'', jwk_x = b64_encode E (x25519_public E derived), jwk_y = None\<rparr>,
             pk_d = b64_encode E derived\<rparr>\<rparr>))))"

section \<open>Keys of a protocol's paths\<close>

text \<open>Every rule set gets the public key derived for its path.\<close>

fun add_encryption :: "('s, 'b) env \<Rightarrow> (string \<times> rule_set) list \<Rightarrow> derived_private_jwk \<Rightarrow> (string \<times> rule_set) list result" where
  "add_encryption E [] parent = Inr []"
| "add_encryption E ((key, RuleSet en ac ro si ta sub) # st) parent =
     rbind (derive_jwk E parent (Relative [key])) (\<lambda>derived.
     rbind (add_encryption E sub derived) (\<lambda>sub'.
     rbind (add_encryption E st parent) (\<lambda>st'.
     Inr ((key, RuleSet (Some \<lparr>pe_root_key_id = dj_root_key_id parent,
         pe_public_key_jwk = pk_public_key (dj_derived_private_key derived)\<rparr>) ac ro si ta sub') # st'))))"

definition root_key :: "string \<Rightarrow> private_key_jwk \<Rightarrow> derived_private_jwk" where
  "root_key root_key_id jwk =
     \<lparr>dj_root_key_id = root_key_id, dj_derivation_scheme = ProtocolPath, dj_derivation_path = None,
      dj_derived_private_key = jwk\<rparr>"

definition with_encryption :: "('s, 'b) env \<Rightarrow> string \<Rightarrow> private_key_jwk \<Rightarrow> definition_t \<Rightarrow> definition_t result" where
  "with_encryption E root_key_id jwk d =
     rbind (derive_jwk E (root_key root_key_id jwk)
       (Relative [scheme_str ProtocolPath, def_protocol d])) (\<lambda>derived.
     rbind (add_encryption E (def_structure d) derived) (\<lambda>st.
     Inr (d\<lparr>def_structure := st\<rparr>)))"

section \<open>Derivation composes\<close>

lemma derive_key_append:
  "derive_key E key (p @ q) = rbind (derive_key E key p) (\<lambda>k. derive_key E k q)"
proof (induction p arbitrary: key)
  case (Cons s p)
  then show ?case
    by (cases "s = []"; cases "hkdf_expand E key s") simp_all
qed simp

lemma match_segments_append [simp]: "match_segments p (p @ q) = Inr q"
  by (induction p) simp_all

lemma match_segments_Inr: "match_segments p r = Inr q \<longleftrightarrow> r = p @ q"
  by (induction p r rule: match_segments.induct) auto

lemma derive_jwk_root: "derive_jwk E (root_key rid jwk) (Full p) = derive_jwk E (root_key rid jwk) (Relative p)"
  by (simp add: derive_jwk_def ancestor_path_def root_key_def)

text \<open>What the node relies on of HKDF and base64url: the key length, and that encoding loses nothing.\<close>

locale key_codec =
  fixes E :: "('s, 'b) env"
  assumes b64: "b64_decode E (b64_encode E bs) = Inr bs"
    and okm: "hkdf_expand E key info = Inr okm \<Longrightarrow> length okm = PUBLIC_KEY_LENGTH"
begin

lemma derive_key_length:
  "derive_key E key p = Inr k \<Longrightarrow> length key = PUBLIC_KEY_LENGTH \<Longrightarrow> length k = PUBLIC_KEY_LENGTH"
proof (induction p arbitrary: key)
  case (Cons s p)
  then show ?case
    by (auto simp: monad_simps dest: okm)
qed simp

text \<open>A derived key carries its path and its secret.\<close>

lemma derive_jwk_Inr:
  assumes "derive_jwk E a (Relative p) = Inr k"
  shows "\<exists>secret derived. b64_decode E (pk_d (dj_derived_private_key a)) = Inr secret \<and>
     length secret = PUBLIC_KEY_LENGTH \<and> derive_key E secret p = Inr derived \<and>
     b64_decode E (pk_d (dj_derived_private_key k)) = Inr derived \<and> length derived = PUBLIC_KEY_LENGTH \<and>
     ancestor_path k = ancestor_path a @ p \<and> dj_root_key_id k = dj_root_key_id a \<and>
     dj_derivation_scheme k = dj_derivation_scheme a"
  using assms derive_key_length
  by (auto simp: derive_jwk_def monad_simps b64 ancestor_path_def)

theorem derive_jwk_compose:
  assumes "derive_jwk E a (Relative p) = Inr k"
  shows "derive_jwk E k (Relative q) = derive_jwk E a (Relative (p @ q))"
proof -
  from derive_jwk_Inr [OF assms] obtain secret derived
    where a: "b64_decode E (pk_d (dj_derived_private_key a)) = Inr secret" "length secret = PUBLIC_KEY_LENGTH"
      "derive_key E secret p = Inr derived"
      and k: "b64_decode E (pk_d (dj_derived_private_key k)) = Inr derived" "length derived = PUBLIC_KEY_LENGTH"
      "ancestor_path k = ancestor_path a @ p" "dj_root_key_id k = dj_root_key_id a"
      "dj_derivation_scheme k = dj_derivation_scheme a"
    by blast
  show ?thesis
    using a k by (simp add: derive_jwk_def derive_key_append)
qed

text \<open>The full path from a derived key gives what the full path from its ancestor gives.\<close>

theorem derive_jwk_full:
  assumes "derive_jwk E a (Relative p) = Inr k"
  shows "derive_jwk E k (Full (ancestor_path a @ p @ q)) = derive_jwk E a (Full (ancestor_path a @ p @ q))"
proof -
  have "derive_jwk E k (Full (ancestor_path a @ p @ q)) = derive_jwk E k (Relative q)"
  proof -
    from derive_jwk_Inr [OF assms] have "ancestor_path k = ancestor_path a @ p" by blast
    then have "match_segments (ancestor_path k) (ancestor_path a @ p @ q) = Inr q"
      using match_segments_append [of "ancestor_path a @ p" q] by simp
    then show ?thesis by (simp add: derive_jwk_def)
  qed
  also have "\<dots> = derive_jwk E a (Relative (p @ q))"
    by (rule derive_jwk_compose [OF assms])
  also have "\<dots> = derive_jwk E a (Full (ancestor_path a @ p @ q))"
    by (simp add: derive_jwk_def)
  finally show ?thesis .
qed

end

end
