(* ===== verification/Providers.thy ===== *)
theory Providers
  imports Store_Refinement Hd_Key
begin

text \<open>
  Providers that satisfy the contracts. The test node's provider (\<open>src/crates/test-node/src/provider\<close>)
  keeps every block in one \<open>Blockstore\<close> of a library, under the block's CID alone; the library's map is a
  parameter, with what the provider relies on as a locale. A reference provider keeps owners and
  partitions apart; with concrete functions in the place of the libraries it satisfies every contract of
  the development, and the concrete examples run on it.
\<close>

section \<open>The test node's provider\<close>

text \<open>The \<open>Blockstore\<close> trait of the library: \<open>put_keyed\<close>, \<open>get\<close> and \<open>remove\<close> by CID.\<close>

record ('s, 'b) blockstore =
  put_keyed :: "string \<Rightarrow> 'b \<Rightarrow> 's \<Rightarrow> (string + unit) \<times> 's"
  get_keyed :: "string \<Rightarrow> 's \<Rightarrow> (string + 'b option) \<times> 's"
  remove_keyed :: "string \<Rightarrow> 's \<Rightarrow> (string + unit) \<times> 's"

definition test_node :: "('s, 'b) blockstore \<Rightarrow> ('s, 'b) env \<Rightarrow> ('s, 'b) env" where
  "test_node B E = E
     \<lparr>bs_put := (\<lambda>ow pa cid block s. case cid_parse E cid of Inl e \<Rightarrow> (Inl e, s) | Inr c \<Rightarrow> put_keyed B c block s),
      bs_get := (\<lambda>ow pa cid s. case cid_parse E cid of Inl e \<Rightarrow> (Inl e, s) | Inr c \<Rightarrow> get_keyed B c s),
      bs_delete := (\<lambda>ow pa cid s. case cid_parse E cid of Inl e \<Rightarrow> (Inl e, s) | Inr c \<Rightarrow> remove_keyed B c s)\<rparr>"

locale memory_blockstore =
  fixes B :: "('s, 'b) blockstore" and E :: "('s, 'b) env" and view :: "'s \<Rightarrow> string \<Rightarrow> 'b option"
  assumes get_keyed: "get_keyed B c s = (Inr (view s c), s)"
    and put_keyed: "\<exists>t. put_keyed B c d s = (Inr (), t) \<and> view t = (view s)(c \<mapsto> d)"
    and remove_keyed: "\<exists>t. remove_keyed B c s = (Inr (), t) \<and> view t = (view s)(c := None)"

text \<open>The blocks of all owners and partitions share one cell per CID.\<close>

sublocale memory_blockstore \<subseteq> block_store "test_node B E" "\<lambda>ow pa c. c" "\<lambda>c. cid_parse E c = Inr c" view
  by unfold_locales (use get_keyed put_keyed remove_keyed in \<open>auto simp: test_node_def\<close>)

section \<open>A reference provider\<close>

record demo =
  dm_blocks :: "string \<times> string \<times> string \<Rightarrow> block option"
  dm_events :: "(string \<times> entry) list"
  dm_ticks :: nat

definition demo_empty :: demo where
  "demo_empty = \<lparr>dm_blocks = (\<lambda>_. None), dm_events = [], dm_ticks = 0\<rparr>"

text \<open>Text without separators: two letters for every byte.\<close>

definition letters :: "char \<Rightarrow> string" where
  "letters c = [char_of (97 + of_char c div 16 :: nat), char_of (97 + of_char c mod 16 :: nat)]"

definition spell :: "string \<Rightarrow> string" where
  "spell s = concat (map letters s)"

fun demo_ipld_cid :: "ipld \<Rightarrow> string" where
  "demo_ipld_cid (Ipld_Bytes b) = ''b'' @ spell b"
| "demo_ipld_cid (Ipld_Map [(k, Ipld_String a), (l, Ipld_String b)]) =
     ''m'' @ spell k @ ''.'' @ spell a @ ''.'' @ spell l @ ''.'' @ spell b"
| "demo_ipld_cid (Ipld_List xs) = ''l'' @ decimal (length xs)"
| "demo_ipld_cid _ = ''x''"

fun demo_cid :: "payload \<Rightarrow> string" where
  "demo_cid (P_Text t) = ''t'' @ spell t"
| "demo_cid (P_Ipld v) = demo_ipld_cid v"
| "demo_cid (P_Write w) =
     ''w'' @ spell (w_record_id w) @ ''.'' @ decimal (nat (base_timestamp (wd_base (w_descriptor w))))"
| "demo_cid (P_Delete d) =
     ''d'' @ spell (del_record_id (del_descriptor d)) @ ''.'' @ decimal (nat (base_timestamp (del_base (del_descriptor d))))"
| "demo_cid (P_Configure c) =
     ''c'' @ spell (def_protocol (cd_definition (cfg_descriptor c)))
       @ ''.'' @ decimal (nat (base_timestamp (cd_base (cfg_descriptor c))))"
| "demo_cid (P_EntryId d a) = ''e'' @ spell a @ ''.'' @ decimal (nat (wd_date_created d))
     @ ''.'' @ decimal (nat (base_timestamp (wd_base d)))"
| "demo_cid _ = ''o''"

definition demo_micros :: "datetime \<Rightarrow> string" where
  "demo_micros t = (let d = decimal (nat (timestamp_micros t)) in replicate (20 - length d) (CHR ''0'') @ d)"

definition non_empty :: "string \<Rightarrow> string option" where
  "non_empty s = (if s = [] then None else Some s)"

text \<open>A signature payload is the text \<open>record|context|grant|role\<close>.\<close>

definition demo_payload :: "bytes \<Rightarrow> string + jws_payload" where
  "demo_payload bs =
     (case split_on (CHR ''|'') bs of
        [r, c, g, ro] \<Rightarrow> Inr \<lparr>jp_descriptor_cid = ''o'', jp_permission_grant_id = non_empty g,
          jp_delegated_grant_id = None, jp_protocol_role = non_empty ro\<rparr>
      | _ \<Rightarrow> Inl ''malformed payload'')"

definition demo_signature_payload :: "bytes \<Rightarrow> string + signature_payload" where
  "demo_signature_payload bs =
     (case demo_payload bs of
        Inl e \<Rightarrow> Inl e
      | Inr p \<Rightarrow> Inr \<lparr>sp_base = p, sp_record_id = split_on (CHR ''|'') bs ! 0,
          sp_context_id = non_empty (split_on (CHR ''|'') bs ! 1),
          sp_attestation_cid = None, sp_encryption_cid = None\<rparr>)"

text \<open>
  A grant's data is the text \<open>expires|protocol\<close>, a grant to write records of the protocol, or \<open>expires|protocol|\<close>, a grant
  to subscribe to its messages.
\<close>

definition demo_grant_data :: "bytes \<Rightarrow> string + grant_data" where
  "demo_grant_data bs =
     (case split_on (CHR ''|'') bs of
        [e, p] \<Rightarrow> Inr \<lparr>gd_description = None, gd_request_id = None, gd_date_expires = int (digits_value 0 e),
          gd_delegated = None, gd_scope = Scope_Records M_Write p None, gd_conditions = None\<rparr>
      | [e, p, _] \<Rightarrow> Inr \<lparr>gd_description = None, gd_request_id = None, gd_date_expires = int (digits_value 0 e),
          gd_delegated = None, gd_scope = Scope_Messages M_Subscribe (Some p), gd_conditions = None\<rparr>
      | _ \<Rightarrow> Inl ''malformed grant'')"

definition demo_uri :: "string \<Rightarrow> string + uri_parts" where
  "demo_uri s =
     (if starts_with s ''https://'' then
        let r = drop 8 s in
        Inr \<lparr>uri_scheme = Some ''https'', uri_authority = Some (takeWhile (\<lambda>c. c \<noteq> CHR ''/'') r),
          uri_path = dropWhile (\<lambda>c. c \<noteq> CHR ''/'') r\<rparr>
      else Inl ''invalid uri'')"

definition demo_hkdf :: "bytes \<Rightarrow> bytes \<Rightarrow> string + bytes" where
  "demo_hkdf key info = Inr (take PUBLIC_KEY_LENGTH (info @ key @ replicate PUBLIC_KEY_LENGTH (CHR ''0'')))"

definition demo_encode :: "block \<Rightarrow> string + block" where
  "demo_encode b = Inr (case b of B_Entry e \<Rightarrow> B_Entry (ser_entry e) | _ \<Rightarrow> b)"

text \<open>The events of an owner so far, as serialization leaves them, and the stream of those to come.\<close>

definition demo_heard :: "string \<Rightarrow> demo \<Rightarrow> entry list" where
  "demo_heard ow s = map (ser_entry \<circ> snd) (filter (\<lambda>p. fst p = ow) (dm_events s))"

definition demo_env :: "(demo, block) env" where
  "demo_env =
     \<lparr>bs_put = (\<lambda>ow pa c d s. (Inr (), s\<lparr>dm_blocks := (dm_blocks s)((ow, pa, c) \<mapsto> d)\<rparr>)),
      bs_get = (\<lambda>ow pa c s. (Inr (dm_blocks s (ow, pa, c)), s)),
      bs_delete = (\<lambda>ow pa c s. (Inr (), s\<lparr>dm_blocks := (dm_blocks s)((ow, pa, c) := None)\<rparr>)),
      es_emit = (\<lambda>ow e s. (Inr (), s\<lparr>dm_events := dm_events s @ [(ow, e)]\<rparr>)),
      es_subscribe = (\<lambda>ow s. (Inr \<lparr>sub_inner = (\<lambda>t. drop (length (demo_heard ow s)) (demo_heard ow t))\<rparr>, s)),
      dag_encode = demo_encode,
      dag_size = (\<lambda>b. 0),
      dag_decode_entry = (\<lambda>b. case b of B_Entry e \<Rightarrow> Inr e | _ \<Rightarrow> Inl ''not an entry''),
      dag_decode_index = (\<lambda>b. case b of B_Index i \<Rightarrow> Inr i | _ \<Rightarrow> Inl ''not an index''),
      dag_decode_ipld = (\<lambda>b. case b of B_Ipld v \<Rightarrow> Inr v | _ \<Rightarrow> Inl ''not a value''),
      cid_value = (\<lambda>p. Inr (demo_cid p)),
      cid_parse = Inr,
      b64_encode = (\<lambda>bs. bs),
      b64_decode = Inr,
      json_jws_payload = demo_payload,
      json_signature_payload = demo_signature_payload,
      json_grant_data = demo_grant_data,
      json_request_data = (\<lambda>bs. Inl ''not a request''),
      json_revocation_data = (\<lambda>bs. Inr ()),
      js_lib = plain_lib,
      schema_tags = (\<lambda>r ts. True),
      schema_tag_key = (\<lambda>k. None),
      jws_did = (\<lambda>j. Inr (jws_rest j)),
      jws_verify = (\<lambda>j. if jws_rest j = [] then Inl ''unsigned'' else Inr ()),
      fmt_micros = demo_micros,
      parse_rfc3339 = (\<lambda>s. if list_all is_digit s then Inr (int (digits_value 0 s) * 1000) else Inl ''not a date''),
      utc_now = (\<lambda>s. int (dm_ticks s)),
      ulid_new = (\<lambda>s. (pad10 (decimal (dm_ticks s)), s\<lparr>dm_ticks := Suc (dm_ticks s)\<rparr>)),
      uri_parse = demo_uri,
      hkdf_expand = demo_hkdf,
      x25519_public = (\<lambda>k. rev k),
      cek_generate = (\<lambda>s. (replicate 32 (CHR ''k''), s)),
      json_protected = (\<lambda>a. Inr ''header''),
      jwe_content = (\<lambda>a data key aad s. (Inr (''iv'', ''tag'', data), s)),
      jwe_public_key = Inr,
      jwe_wrap = (\<lambda>a cek kid pk s. (Inr \<lparr>kw_alg = a, kw_epk = \<lparr>jwk_crv = ''Ed25519'', jwk_x = ''epk'', jwk_y = None\<rparr>,
        kw_iv = None, kw_tag = None, kw_encrypted_key = cek\<rparr>, s)),
      jwe_decrypt = (\<lambda>j d. Inr (jwe_ciphertext j)),
      overflow_checks = True,
      walk_fuel = 10\<rparr>"

section \<open>It satisfies the contracts\<close>

definition unletters :: "char \<Rightarrow> char \<Rightarrow> char" where
  "unletters a b = char_of ((of_char a - 97) * 16 + (of_char b - 97) :: nat)"

fun unspell :: "string \<Rightarrow> string" where
  "unspell (a # b # s) = unletters a b # unspell s"
| "unspell s = []"

lemma nibbles: "(of_char c :: nat) div 16 < 16" "(of_char c :: nat) mod 16 < 16"
  using nat_of_char_less_256 [of c] by (simp_all add: less_mult_imp_div_less)

lemma unletters_letters: "unletters (char_of (97 + of_char c div 16 :: nat)) (char_of (97 + of_char c mod 16 :: nat)) = c"
proof -
  have "97 + (of_char c :: nat) div 16 < 256" "97 + (of_char c :: nat) mod 16 < 256"
    using nibbles [of c] by linarith+
  then show ?thesis
    by (simp add: unletters_def)
qed

lemma unspell_spell: "unspell (spell s) = s"
  by (induction s) (simp_all add: spell_def letters_def unletters_letters)

lemma spell_inj [simp]: "spell s = spell t \<longleftrightarrow> s = t"
  by (metis unspell_spell)

lemma spell_chars: "c \<in> set (spell s) \<Longrightarrow> 97 \<le> (of_char c :: nat) \<and> (of_char c :: nat) < 113"
proof -
  assume "c \<in> set (spell s)"
  then obtain x where "c \<in> set (letters x)" by (auto simp: spell_def)
  moreover have "97 + (of_char x :: nat) div 16 < 113" "97 + (of_char x :: nat) mod 16 < 113"
    using nibbles [of x] by linarith+
  ultimately show ?thesis by (auto simp: letters_def)
qed

lemma spell_clean [simp]: "sep_byte \<notin> set (spell s)" "CHR ''.'' \<notin> set (spell s)"
  using spell_chars by (fastforce simp: sep_byte_def)+

lemma decimal_clean [simp]: "sep_byte \<notin> set (decimal n)"
proof
  assume "sep_byte \<in> set (decimal n)"
  then have "is_digit sep_byte" using decimal_digits [of n] by (simp add: list_all_iff)
  then show False by (simp add: is_digit_def sep_byte_def)
qed

lemma demo_ipld_cid_clean: "sep_byte \<notin> set (demo_ipld_cid v)"
  by (cases v rule: demo_ipld_cid.cases) (auto simp: sep_byte_def [symmetric], simp_all add: sep_byte_def)

lemma demo_cid_clean: "clean_cid (demo_cid p)"
  using demo_ipld_cid_clean
  by (cases p) (auto simp: clean_cid_def sep_byte_def [symmetric], simp_all add: sep_byte_def)

lemma demo_ipld_cid_hd: "hd (demo_ipld_cid v) \<in> {CHR ''b'', CHR ''m'', CHR ''l'', CHR ''x''} \<and> demo_ipld_cid v \<noteq> []"
  by (cases v rule: demo_ipld_cid.cases) auto

lemma demo_cid_text: "hd (demo_cid p) = CHR ''t'' \<Longrightarrow> \<exists>t. p = P_Text t"
proof (cases p)
  case (P_Ipld v)
  assume "hd (demo_cid p) = CHR ''t''"
  with P_Ipld demo_ipld_cid_hd [of v] show ?thesis by auto
qed auto

lemma demo_text_unique:
  assumes "demo_cid (P_Text t) = demo_cid p"
  shows "p = P_Text t"
proof -
  from assms have "hd (demo_cid p) = CHR ''t''" by (metis append_Cons demo_cid.simps(1) list.sel(1))
  then obtain u where "p = P_Text u" using demo_cid_text by blast
  with assms show ?thesis by simp
qed

lemma dotted_inj: "spell a @ CHR ''.'' # x = spell b @ CHR ''.'' # y \<longleftrightarrow> a = b \<and> x = y"
proof
  assume "spell a @ CHR ''.'' # x = spell b @ CHR ''.'' # y"
  then have "split_once (CHR ''.'') (spell a @ CHR ''.'' # x) = split_once (CHR ''.'') (spell b @ CHR ''.'' # y)" by simp
  then show "a = b \<and> x = y" by simp
qed simp

lemma demo_leaf_unique: "addressed v \<Longrightarrow> demo_ipld_cid v = demo_cid p \<Longrightarrow> p = P_Ipld v"
  by (cases v rule: addressed.cases; cases p; simp)
    (auto simp: dotted_inj elim!: demo_ipld_cid.elims [OF sym])

abbreviation demo_cell :: "string \<Rightarrow> string \<Rightarrow> string \<Rightarrow> string \<times> string \<times> string" where
  "demo_cell ow pa c \<equiv> (ow, pa, c)"

abbreviation demo_good :: "string \<Rightarrow> bool" where
  "demo_good c \<equiv> True"

interpretation demo: index_store demo_env demo_cell demo_good dm_blocks
proof unfold_locales
  show "dag_encode demo_env (B_Entry e) = Inr d \<Longrightarrow> dag_decode_entry demo_env d = Inr (ser_entry e)" for e d
    by (auto simp: demo_env_def demo_encode_def)
  show "dag_encode demo_env (B_Index i) = Inr d \<Longrightarrow> dag_decode_index demo_env d = Inr i" for i d
    by (auto simp: demo_env_def demo_encode_def)
  show "dag_encode demo_env (B_Ipld v) = Inr d \<Longrightarrow> dag_decode_ipld demo_env d = Inr v" for v d
    by (auto simp: demo_env_def demo_encode_def)
  show "cid_value demo_env p = Inr c \<Longrightarrow> clean_cid c" for p c
    using demo_cid_clean by (auto simp: demo_env_def)
  show "cid_value demo_env (P_Text t) = Inr c \<Longrightarrow> cid_value demo_env p = Inr c \<Longrightarrow> p = P_Text t" for t c p
    using demo_text_unique [of t p] by (simp add: demo_env_def)
qed (auto simp: demo_env_def)

interpretation demo_data: data_store demo_env demo_cell demo_good dm_blocks
proof unfold_locales
  show "cid_value demo_env p = Inr c \<Longrightarrow> True \<and> cid_parse demo_env c = Inr c" for p c
    by (simp add: demo_env_def)
  show "addressed v \<Longrightarrow> cid_value demo_env (P_Ipld v) = Inr c \<Longrightarrow> cid_value demo_env p = Inr c \<Longrightarrow> p = P_Ipld v" for v c p
    using demo_leaf_unique [of v p] by (simp add: demo_env_def)
qed

interpretation demo_keys: key_codec demo_env
  by unfold_locales (auto simp: demo_env_def demo_hkdf_def PUBLIC_KEY_LENGTH_def)

text \<open>The blockstore of the test node as a map in memory.\<close>

definition memory :: "(string \<Rightarrow> block option, block) blockstore" where
  "memory = \<lparr>put_keyed = (\<lambda>c d s. (Inr (), s(c \<mapsto> d))), get_keyed = (\<lambda>c s. (Inr (s c), s)),
     remove_keyed = (\<lambda>c s. (Inr (), s(c := None)))\<rparr>"

interpretation memory: memory_blockstore memory E "\<lambda>s. s" for E
  by unfold_locales (simp_all add: memory_def)

end
