(* ===== verification/Protocol_Handlers.thy ===== *)
theory Protocol_Handlers
  imports Grants
begin

text \<open>
  The handlers of \<open>ProtocolsConfigure\<close> (\<open>src/src/protocols/configure.rs\<close>) and \<open>ProtocolsQuery\<close>
  (\<open>src/src/protocols/query.rs\<close>).
\<close>

section \<open>Configure\<close>

definition configure_authorize :: "('s, 'b) env \<Rightarrow> string \<Rightarrow> configure \<Rightarrow> ('s, unit) io" where
  "configure_authorize E ow c =
     (let a = cfg_authorization c in
      sbind (lift (auth_author E a)) (\<lambda>author.
      if author = ow then sret ()
      else
        sbind (lift (auth_payload E a)) (\<lambda>payload.
        sbind (lift (some_or (jp_permission_grant_id payload) (Forbidden ''author has no grant''))) (\<lambda>gid.
        sbind (fetch_grant E ow gid) (\<lambda>g.
        sbind (grant_verify E g ow author (cd_base (cfg_descriptor c))) (\<lambda>_.
        lift (case scope_protocol (gd_scope (g_data g)) of
            None \<Rightarrow> Inr ()
          | Some protocol \<Rightarrow> rguard (protocol = def_protocol (cd_definition (cfg_descriptor c)))
              (Forbidden ''message and grant protocols do not match''))))))))"

definition configure_validate :: "('s, 'b) env \<Rightarrow> configure \<Rightarrow> unit result" where
  "configure_validate E c =
     (let d = cd_definition (cfg_descriptor c) in
      rbind (uri_validate E (def_protocol d)) (\<lambda>_.
      rbind (rfor (map snd (def_types d)) (\<lambda>t.
        case pt_schema t of None \<Rightarrow> Inr () | Some s \<Rightarrow> uri_validate E s)) (\<lambda>_.
      validate_structure E d)))"

text \<open>\<open>Iterator::max_by\<close> on the timestamp: the last of the greatest.\<close>

fun latest_configure :: "configure list \<Rightarrow> configure option" where
  "latest_configure [] = None"
| "latest_configure (c # cs) =
     (case latest_configure cs of
        None \<Rightarrow> Some c
      | Some m \<Rightarrow> if base_timestamp (cd_base (cfg_descriptor m)) < base_timestamp (cd_base (cfg_descriptor c))
          then Some c else Some m)"

definition check_newest :: "('s, 'b) env \<Rightarrow> configure \<Rightarrow> configure list \<Rightarrow> unit result" where
  "check_newest E c existing =
     rbind (some_or (latest_configure existing) (BadRequest ''no matching protocol entries found'')) (\<lambda>latest.
     let configure_ts = timestamp_micros (base_timestamp (cd_base (cfg_descriptor c)));
         latest_ts = timestamp_micros (base_timestamp (cd_base (cfg_descriptor latest))) in
     rbind (rguard (\<not> latest_ts > configure_ts) (Conflict ''message is not the latest'')) (\<lambda>_.
     if latest_ts = configure_ts then
       rbind (configure_cid E latest) (\<lambda>a. rbind (configure_cid E c) (\<lambda>b.
       rguard (\<not> a > b) (Conflict ''message CID is smaller than existing entry'')))
     else Inr ()))"

definition remove_configure :: "('s, 'b) env \<Rightarrow> string \<Rightarrow> configure \<Rightarrow> ('s, unit) io" where
  "remove_configure E ow e =
     sbind (lift (configure_cid E e)) (\<lambda>cid.
     sbind (MessageStore_delete E ow cid) (\<lambda>_.
     EventLog_delete E ow cid))"

definition replace_existing :: "('s, 'b) env \<Rightarrow> string \<Rightarrow> configure \<Rightarrow> configure list option \<Rightarrow> ('s, unit) io" where
  "replace_existing E ow c results =
     (case results of
        None \<Rightarrow> sret ()
      | Some existing \<Rightarrow>
          sbind (lift (check_newest E c existing)) (\<lambda>_.
          sfor existing (remove_configure E ow)))"

definition save_configure :: "('s, 'b) env \<Rightarrow> string \<Rightarrow> configure \<Rightarrow> ('s, unit) io" where
  "save_configure E ow c =
     (let e = entry_from_configure E c in
      sbind (MessageStore_put E ow e) (\<lambda>_.
      sbind (EventLog_append E ow e) (\<lambda>_.
      EventStream_emit E ow e)))"

definition configure_handle :: "('s, 'b) env \<Rightarrow> string \<Rightarrow> configure \<Rightarrow> ('s, configure reply) io" where
  "configure_handle E ow c =
     sbind (configure_authorize E ow c) (\<lambda>_.
     sbind (lift (configure_validate E c)) (\<lambda>_.
     sbind (fetch_config E ow (Some (def_protocol (cd_definition (cfg_descriptor c))))) (\<lambda>results.
     sbind (replace_existing E ow c results) (\<lambda>_.
     sbind (save_configure E ow c) (\<lambda>_.
     sret (reply_with 202 (Some c)))))))"

section \<open>Query\<close>

datatype access = Published | Unpublished

record protocols_query_reply =
  pr_entries :: "configure list option"
  pr_cursor :: "cursor option"

definition protocols_query_authorize :: "('s, 'b) env \<Rightarrow> string \<Rightarrow> protocols_query \<Rightarrow> ('s, access) io" where
  "protocols_query_authorize E ow q =
     (case pq_authorization q of
        None \<Rightarrow> sret Published
      | Some a \<Rightarrow>
          sbind (lift (auth_author E a)) (\<lambda>author.
          if author = ow then sret Unpublished
          else
            sbind (lift (auth_payload E a)) (\<lambda>payload.
            case jp_permission_grant_id payload of
              None \<Rightarrow> sret Published
            | Some gid \<Rightarrow>
                sbind (fetch_grant E ow gid) (\<lambda>g.
                sbind (lift (auth_signer E a)) (\<lambda>signer.
                sbind (grant_verify E g ow signer (pq_base q)) (\<lambda>_.
                sret (case scope_protocol (gd_scope (g_data g)) of
                    None \<Rightarrow> Unpublished
                  | Some protocol \<Rightarrow>
                      (case pq_filter q of
                         None \<Rightarrow> Published
                       | Some f \<Rightarrow> if protocol \<noteq> f then Published else Unpublished))))))))"

definition protocols_query_handle :: "('s, 'b) env \<Rightarrow> string \<Rightarrow> protocols_query \<Rightarrow> ('s, protocols_query_reply reply) io" where
  "protocols_query_handle E ow q =
     sbind (lift (case pq_filter q of None \<Rightarrow> Inr () | Some p \<Rightarrow> uri_validate E p)) (\<lambda>_.
     sbind (protocols_query_authorize E ow q) (\<lambda>acc.
     sbind (MessageStore_query E ow (protocols_query_build (pq_filter q)
       (if acc = Published then Some True else None))) (\<lambda>(records, cur).
     sbind (lift (rmapm records configure_try_from)) (\<lambda>entries.
     sret \<lparr>reply_status = \<lparr>status_code = 200, status_detail = Some ''OK''\<rparr>,
       reply_body = Some \<lparr>pr_entries = Some entries, pr_cursor = cur\<rparr>\<rparr>))))"

end
