(* ===== verification/Message_Handlers.thy ===== *)
theory Message_Handlers
  imports Record_Base Events
begin

text \<open>
  The handlers of \<open>MessagesQuery\<close>, \<open>MessagesRead\<close> and \<open>MessagesSubscribe\<close> (\<open>src/src/messages\<close>): access
  to any stored message, for the owner and for the holders of a grant.
\<close>

text \<open>\<open>Query::authorize\<close> and \<open>Subscribe::authorize\<close> differ in the text of one error.\<close>

definition filters_authorize :: "('s, 'b) env \<Rightarrow> string \<Rightarrow> authorization \<Rightarrow> descriptor \<Rightarrow> messages_filter list \<Rightarrow> string \<Rightarrow> ('s, unit) io" where
  "filters_authorize E ow a d filters missing =
     sbind (lift (auth_author E a)) (\<lambda>author.
     if author = ow then sret ()
     else
       sbind (lift (auth_payload E a)) (\<lambda>payload.
       sbind (lift (some_or (jp_permission_grant_id payload) (Forbidden missing))) (\<lambda>gid.
       sbind (fetch_grant E ow gid) (\<lambda>g.
       sbind (lift (auth_signer E a)) (\<lambda>signer.
       sbind (grant_verify E g ow signer d) (\<lambda>_.
       let protocol = scope_protocol (gd_scope (g_data g)) in
       if protocol = None then sret ()
       else lift (rfor filters (\<lambda>f.
         rguard (mf_protocol f = protocol) (Forbidden ''filter and grant protocols do not match'')))))))))"

section \<open>Query\<close>

record messages_query_reply =
  mqr_entries :: "string list option"
  mqr_cursor :: "cursor option"

definition messages_query_handle :: "('s, 'b) env \<Rightarrow> string \<Rightarrow> messages_query \<Rightarrow> ('s, messages_query_reply reply) io" where
  "messages_query_handle E ow q =
     sbind (filters_authorize E ow (mq_authorization q) (mq_base q) (mq_filters q) ''author has no grant'') (\<lambda>_.
     sbind (EventLog_query E ow (query_from_messages_query q)) (\<lambda>(events, cur).
     let cids = map (\<lambda>e. unwrap_or_default (entry_cid E e)) events in
     sret (reply_with 200 (Some \<lparr>mqr_entries = (if cids = [] then None else Some cids), mqr_cursor = cur\<rparr>))))"

section \<open>Read\<close>

record messages_read_reply =
  mrr_message_cid :: string
  mrr_message :: entry_type
  mrr_data :: "bytes option"

text \<open>The protocol of a message against the protocol of a grant's scope.\<close>

definition messages_verify_scope :: "('s, 'b) env \<Rightarrow> string \<Rightarrow> entry \<Rightarrow> scope \<Rightarrow> ('s, unit) io" where
  "messages_verify_scope E ow requested sc =
     (let failed = sfail (Err (Forbidden ''message failed scope authorization'')) in
      case scope_protocol sc of
        None \<Rightarrow> sret ()
      | Some protocol \<Rightarrow>
          if base_interface (entry_descriptor requested) = I_Protocols then
            (case as_configure requested of
               None \<Rightarrow> failed
             | Some c \<Rightarrow> if def_protocol (cd_definition (cfg_descriptor c)) = protocol then sret () else failed)
          else if base_interface (entry_descriptor requested) = I_Records then
            sbind (case e_message requested of
                E_Write w \<Rightarrow> sret w
              | E_Delete d \<Rightarrow>
                  sbind (initial_write E ow (del_record_id (del_descriptor d))) (\<lambda>found.
                  lift (some_or found (Forbidden ''message failed scope authorization'')))
              | E_Configure c \<Rightarrow> sfail (Err (Forbidden ''message failed scope authorization''))) (\<lambda>w.
            if wd_protocol (w_descriptor w) = Some protocol then sret ()
            else if wd_protocol (w_descriptor w) = Some PROTOCOL_URI then
              sbind (fetch_scope E ow w) (\<lambda>ps.
              if scope_protocol ps = Some protocol then sret () else failed)
            else failed)
          else failed)"

definition messages_read_authorize :: "('s, 'b) env \<Rightarrow> string \<Rightarrow> entry \<Rightarrow> messages_read \<Rightarrow> ('s, unit) io" where
  "messages_read_authorize E ow e r =
     (let a = mr_authorization r in
      sbind (lift (auth_author E a)) (\<lambda>author.
      if author = ow then sret ()
      else
        sbind (lift (auth_payload E a)) (\<lambda>payload.
        sbind (lift (some_or (jp_permission_grant_id payload) (Forbidden ''missing grant ID''))) (\<lambda>gid.
        sbind (fetch_grant E ow gid) (\<lambda>g.
        sbind (grant_verify E g ow author (mr_base r)) (\<lambda>_.
        messages_verify_scope E ow e (gd_scope (g_data g))))))))"

text \<open>The data of a write, taken out of the message when it is encoded there.\<close>

definition message_data :: "('s, 'b) env \<Rightarrow> string \<Rightarrow> entry_type \<Rightarrow> ('s, entry_type \<times> bytes option) io" where
  "message_data E ow m =
     (case m of
        E_Write w \<Rightarrow>
          (case w_encoded_data w of
             Some encoded \<Rightarrow>
               sbind (lift (map_err (internal ''base64ct'') (b64_decode E encoded))) (\<lambda>bs.
               sret (E_Write (w\<lparr>w_encoded_data := None\<rparr>), Some bs))
           | None \<Rightarrow>
               sbind (DataStore_get E ow (w_record_id w) (wd_data_cid (w_descriptor w))) (\<lambda>found.
               sret (m, found)))
      | _ \<Rightarrow> sret (m, None))"

definition messages_read_handle :: "('s, 'b) env \<Rightarrow> string \<Rightarrow> messages_read \<Rightarrow> ('s, messages_read_reply reply) io" where
  "messages_read_handle E ow r =
     sbind (lift (map_err (\<lambda>e. BadRequest (''invalid CID: '' @ e)) (cid_parse E (mr_message_cid r)))) (\<lambda>cid.
     sbind (MessageStore_get E ow cid) (\<lambda>found.
     sbind (lift (some_or found (NotFound ''message not found''))) (\<lambda>e.
     sbind (messages_read_authorize E ow e r) (\<lambda>_.
     sbind (message_data E ow (e_message e)) (\<lambda>(message, data).
     sret (reply_with 200 (Some \<lparr>mrr_message_cid = mr_message_cid r, mrr_message = message, mrr_data = data\<rparr>)))))))"

section \<open>Subscribe\<close>

definition messages_subscribe_authorize :: "('s, 'b) env \<Rightarrow> string \<Rightarrow> messages_subscribe \<Rightarrow> ('s, unit) io" where
  "messages_subscribe_authorize E ow q =
     filters_authorize E ow (ms_authorization q) (ms_base q) (ms_filters q) ''missing permission grant''"

definition messages_subscribe_handle :: "('s, 'b) env \<Rightarrow> string \<Rightarrow> messages_subscribe \<Rightarrow> ('s, 's subscriber reply) io" where
  "messages_subscribe_handle E ow q =
     sbind (messages_subscribe_authorize E ow q) (\<lambda>_.
     sbind (EventStream_subscribe E ow) (\<lambda>subscriber.
     sret (reply_with 200 (Some
       (if ms_filters q = [] then subscriber else filtered E (SF_Messages (ms_filters q)) subscriber)))))"

end
