(* ===== verification/Read_Only.thy ===== *)
theory Read_Only
  imports Record_Lookup Protocol_Handlers Message_Handlers
begin

text \<open>
  The operations that only read: authorization, integrity checks and the handlers of reads, queries and
  subscriptions leave the provider's state as they found it, whatever they return.
\<close>

lemma reads_only_Let [reads_only_intros]: "(\<And>x. reads_only (f x)) \<Longrightarrow> reads_only (let x = a in f x)"
  by simp

lemma reads_only_case_record_msg [reads_only_intros]:
  "(\<And>x. reads_only (f1 x)) \<Longrightarrow> (\<And>x. reads_only (f2 x)) \<Longrightarrow> (\<And>x. reads_only (f3 x)) \<Longrightarrow> (\<And>x. reads_only (f4 x)) \<Longrightarrow>
   (\<And>x. reads_only (f5 x)) \<Longrightarrow> reads_only (case r of R_Write x \<Rightarrow> f1 x | R_Read x \<Rightarrow> f2 x | R_Query x \<Rightarrow> f3 x
     | R_Subscribe x \<Rightarrow> f4 x | R_Delete x \<Rightarrow> f5 x)"
  by (cases r) auto

lemma reads_only_case_entry_type [reads_only_intros]:
  "(\<And>x. reads_only (f1 x)) \<Longrightarrow> (\<And>x. reads_only (f2 x)) \<Longrightarrow> (\<And>x. reads_only (f3 x)) \<Longrightarrow>
   reads_only (case m of E_Write x \<Rightarrow> f1 x | E_Delete x \<Rightarrow> f2 x | E_Configure x \<Rightarrow> f3 x)"
  by (cases m) auto

lemma reads_only_case_ipld [reads_only_intros]:
  "(\<And>x. reads_only (f1 x)) \<Longrightarrow> (\<And>x. reads_only (f2 x)) \<Longrightarrow> (\<And>x. reads_only (f3 x)) \<Longrightarrow> (\<And>x. reads_only (f4 x)) \<Longrightarrow>
   (\<And>x. reads_only (f5 x)) \<Longrightarrow> reads_only f6 \<Longrightarrow>
   reads_only (case v of Ipld_Bytes x \<Rightarrow> f1 x | Ipld_Link x \<Rightarrow> f2 x | Ipld_List x \<Rightarrow> f3 x | Ipld_String x \<Rightarrow> f4 x
     | Ipld_Map x \<Rightarrow> f5 x | Ipld_Other \<Rightarrow> f6)"
  by (cases v) auto

lemma reads_only_try_io [reads_only_intros]: "reads_only m \<Longrightarrow> reads_only (try_io m)"
  by (auto simp: reads_only_def try_io_def split: prod.splits sum.splits failure.splits) (metis snd_conv)+

text \<open>The contract: reading a block and subscribing to events change nothing.\<close>

locale pure_reads =
  fixes E :: "('s, 'b) env"
  assumes get_pure: "snd (bs_get E ow pa c s) = s"
    and subscribe_pure: "snd (es_subscribe E ow s) = s"
begin

lemma get_intro [reads_only_intros]: "reads_only (with_err f (bs_get E ow pa c))"
  using get_pure by (intro reads_only_intros)

lemma subscribe_intro [reads_only_intros]: "reads_only (with_err f (es_subscribe E ow))"
  using subscribe_pure by (intro reads_only_intros)

lemma indexes_get_ro [reads_only_intros]: "reads_only (indexes_get E ow pa f)"
  unfolding indexes_get_def by (intro reads_only_intros)

lemma concise_sets_ro [reads_only_intros]: "reads_only (concise_sets E ow pa sf mss r)"
  by (induction mss arbitrary: r) (auto intro!: reads_only_intros split: option.splits)

lemma index_query_ro [reads_only_intros]: "reads_only (index_query E ow pa q)"
  unfolding index_query_def query_concise_def query_full_def by (intro reads_only_intros)

lemma load_entry_ro [reads_only_intros]: "reads_only (load_entry E ow pa it)"
  unfolding load_entry_def by (intro reads_only_intros)

lemma message_query_ro [reads_only_intros]: "reads_only (message_query E ow q)"
  unfolding message_query_def by (intro reads_only_intros)

lemma event_query_ro [reads_only_intros]: "reads_only (event_query E ow q)"
  unfolding event_query_def by (intro reads_only_intros)

lemma message_get_ro [reads_only_intros]: "reads_only (message_get E ow c)"
  unfolding message_get_def by (intro reads_only_intros)

lemma get_chunks_ro [reads_only_intros]: "reads_only (get_chunks E ow ls buf)"
  by (induction ls arbitrary: buf) (auto intro!: reads_only_intros split: ipld.splits)

lemma data_get_ro [reads_only_intros]: "reads_only (data_get E ow r c)"
  unfolding data_get_def by (intro reads_only_intros)

lemma protocol_definition_ro [reads_only_intros]: "reads_only (protocol_definition E ow p)"
  unfolding protocol_definition_def fetch_config_def by (intro reads_only_intros)

lemma fetch_grant_ro [reads_only_intros]: "reads_only (fetch_grant E ow g)"
  unfolding fetch_grant_def by (intro reads_only_intros)

lemma fetch_scope_ro [reads_only_intros]: "reads_only (fetch_scope E ow w)"
  unfolding fetch_scope_def by (intro reads_only_intros)

lemma grant_verify_ro [reads_only_intros]: "reads_only (grant_verify E g a b d)"
  unfolding grant_verify_def is_current_def by (intro reads_only_intros)

lemma grant_permit_ro [reads_only_intros]:
  "reads_only (grant_permit_write E g a b w)" "reads_only (grant_permit_read E g a b r w)"
  "reads_only (grant_permit_query E g a b q)" "reads_only (grant_permit_subscribe E g a b sb)"
  "reads_only (grant_permit_delete E g a b d w)"
  unfolding grant_permit_write_def grant_permit_read_def grant_permit_query_def grant_permit_subscribe_def
    grant_permit_delete_def by (intro reads_only_intros)+

lemma initial_write_ro [reads_only_intros]: "reads_only (initial_write E ow rid)" "reads_only (existing_entries E ow rid)"
  unfolding initial_write_def existing_entries_def by (intro reads_only_intros)+

lemma ancestor_walk_ro [reads_only_intros]: "reads_only (ancestor_walk E n ow rid acc)"
proof (induction n arbitrary: rid acc)
  case 0
  then show ?case by (cases rid) (simp_all add: reads_only_intros)
next
  case (Suc n)
  then show ?case by (cases rid) (auto intro!: reads_only_intros)
qed

lemma permit_ro [reads_only_intros]: "reads_only (permit E az ow r)"
  unfolding permit_def permit_role_def permit_action_def record_rule_set_def permitted_actions_def ancestor_chain_def
  by (intro reads_only_intros)

lemma write_authorize_ro [reads_only_intros]: "reads_only (write_authorize E ow w)"
  unfolding write_authorize_def by (intro reads_only_intros)

lemma write_verify_ro [reads_only_intros]: "reads_only (write_verify E ow w)"
  unfolding write_verify_def verify_protocol_path_def verify_role_record_def verify_revoke_def by (intro reads_only_intros)

lemma verify_integrity_ro [reads_only_intros]: "reads_only (verify_integrity E ow w)"
  unfolding verify_integrity_def by (intro reads_only_intros)

lemma delete_authorize_ro [reads_only_intros]: "reads_only (delete_authorize E ow w d)"
  unfolding delete_authorize_def by (intro reads_only_intros)

lemma read_authorize_ro [reads_only_intros]: "reads_only (read_authorize E ow w r)"
  unfolding read_authorize_def by (intro reads_only_intros)

lemma read_handle_ro: "reads_only (read_handle E ow r)"
  unfolding read_handle_def read_live_def read_deleted_def read_data_def attach_initial_def by (intro reads_only_intros)

lemma query_handle_ro: "reads_only (query_handle E ow q)"
  unfolding query_handle_def store_query_def query_authorize_def query_entry_def by (intro reads_only_intros)

lemma subscribe_handle_ro: "reads_only (subscribe_handle E ow sb)"
  unfolding subscribe_handle_def subscribe_authorize_def by (intro reads_only_intros)

lemma protocols_query_handle_ro: "reads_only (protocols_query_handle E ow pq)"
  unfolding protocols_query_handle_def protocols_query_authorize_def by (intro reads_only_intros)

lemma filters_authorize_ro [reads_only_intros]: "reads_only (filters_authorize E ow a d fs m)"
  unfolding filters_authorize_def by (intro reads_only_intros)

lemma messages_read_handle_ro: "reads_only (messages_read_handle E ow mr)"
  unfolding messages_read_handle_def messages_read_authorize_def messages_verify_scope_def message_data_def Let_def
  by (intro reads_only_intros)

lemma messages_query_handle_ro: "reads_only (messages_query_handle E ow mq)"
  unfolding messages_query_handle_def by (intro reads_only_intros)

lemma configure_authorize_ro [reads_only_intros]: "reads_only (configure_authorize E ow c)"
  unfolding configure_authorize_def by (intro reads_only_intros)

lemma fetch_config_ro [reads_only_intros]: "reads_only (fetch_config E ow p)"
  unfolding fetch_config_def by (intro reads_only_intros)

lemma messages_subscribe_handle_ro: "reads_only (messages_subscribe_handle E ow ms)"
  unfolding messages_subscribe_handle_def messages_subscribe_authorize_def by (intro reads_only_intros)

end

end
