(* ===== verification/End_To_End.thy ===== *)
theory End_To_End
  imports Providers Read_Only
begin

text \<open>
  From handler to handler: what a write puts into the store, and that a read finds it there.
\<close>

section \<open>Serialized writes\<close>

lemma distinct_single: "distinct xs \<Longrightarrow> set xs = {x} \<Longrightarrow> xs = [x]"
  by (cases xs; cases "tl xs") auto

lemma is_initial_ser [simp]: "is_initial E (ser_write w) = is_initial E w"
  by (simp add: is_initial_def entry_id_def ser_write_def)

lemma is_initial_data [simp]: "is_initial E (w\<lparr>w_encoded_data := x\<rparr>) = is_initial E w"
  by (simp add: is_initial_def entry_id_def)

lemma write_cid_data [simp]: "write_cid E (w\<lparr>w_encoded_data := x\<rparr>) = write_cid E w"
  by (simp add: write_cid_def)

lemma ser_write_simps [simp]:
  "w_record_id (ser_write w) = w_record_id w" "w_encoded_data (ser_write w) = w_encoded_data w"
  "base_method (wd_base (w_descriptor (ser_write w))) = base_method (wd_base (w_descriptor w))"
  "wd_published (w_descriptor (ser_write w)) = wd_published (w_descriptor w)"
  by (simp_all add: ser_write_def ser_write_descriptor_def ser_base_def)

lemma ser_write_encoded: "(ser_write w)\<lparr>w_encoded_data := x\<rparr> = ser_write (w\<lparr>w_encoded_data := x\<rparr>)"
  by (simp add: ser_write_def)

section \<open>The handlers over the stores\<close>

text \<open>The contracts of all the parts a handler uses.\<close>

locale node = index_store E cell good view + pure_reads E
  for E :: "('s, 'b) env" and cell :: "string \<Rightarrow> string \<Rightarrow> string \<Rightarrow> 'k"
    and good :: "string \<Rightarrow> bool" and view :: "'s \<Rightarrow> 'k \<Rightarrow> 'b option" +
  assumes emit_view: "view (snd (es_emit E ow e s)) = view s"
    and ulid_view: "view (snd (ulid_new E s)) = view s"
    and b64_back: "b64_decode E (b64_encode E bs) = Inr bs"

text \<open>The entry a new write is stored as.\<close>

definition write_entry :: "('s, 'b) env \<Rightarrow> nat \<Rightarrow> write_msg \<Rightarrow> entry" where
  "write_entry E code w = add_index ''initial'' (bool_str (code = 204)) (entry_from_write E w)"

context node
begin

lemma existing_stored:
  assumes st: "stored s ow MESSAGE_PARTITION msgs" and ts: "timestamped n msgs" and rid: "rid \<noteq> []"
  shows "\<exists>cs. existing_entries E ow rid s = (Inr (map (\<lambda>c. ser_entry (the (msgs c))) cs), s) \<and> distinct cs \<and>
    set cs = selected E (existing_query rid) msgs \<and> in_order (existing_query rid) msgs cs"
proof -
  from query_by_field [OF st ts existing_query_sets(1) [of rid], of "''recordId''" rid] rid existing_query_sets [of rid]
  obtain cs where "message_query E ow (existing_query rid) s = (Inr (map (\<lambda>c. ser_entry (the (msgs c))) cs, None), s)"
    and "distinct cs" "set cs = selected E (existing_query rid) msgs" "in_order (existing_query rid) msgs cs"
    by (auto simp: total_matcher_def)
  then show ?thesis by (auto simp: existing_entries_def sbind_run via_provider_run sret_def)
qed

lemma existing_empty:
  assumes st: "stored s ow MESSAGE_PARTITION msgs" and ts: "timestamped n msgs" and rid: "rid \<noteq> []"
    and fresh: "\<forall>c e. msgs c = Some e \<longrightarrow> \<not> has_field (e_indexes e) ''recordId'' rid"
  shows "existing_entries E ow rid s = (Inr [], s)"
proof -
  have "selected E (existing_query rid) msgs = {}" using fresh by (auto simp: selected_def selects_existing)
  with existing_stored [OF st ts rid] show ?thesis by auto
qed

lemma save_write_stores:
  assumes st: "stored s ow MESSAGE_PARTITION msgs" and ev: "stored s ow EVENTLOG_PARTITION evs"
    and cid: "write_cid E w = Inr c" and run: "save_write E ow code w s = (Inr u, t)"
  shows "stored t ow MESSAGE_PARTITION (msgs(c \<mapsto> write_entry E code w))"
proof -
  let ?e = "write_entry E code w"
  from run obtain x y where put: "message_put E ow ?e s = (Inr (), x)" and app: "event_append E ow ?e x = (Inr (), y)"
    and emit: "es_emit E ow ?e y = (Inr u, t)"
    by (auto simp: save_write_def write_entry_def Let_def monad_simps)
  have e: "e_message ?e = E_Write w" "e_indexes ?e = hm_insert ''initial'' (bool_str (code = 204)) (write_indexes E w)"
    by (simp_all add: write_entry_def write_entry_fields)
  then have cid': "entry_cid E ?e = Inr c" and wf: "wf_fields (e_indexes ?e)"
    using cid by (simp_all add: entry_cid_def wf_fields_insert wf_write_indexes)
  have x: "stored x ow MESSAGE_PARTITION (msgs(c \<mapsto> ?e))" and ox: "only ow MESSAGE_PARTITION s x"
    using message_put_refines [OF st cid' wf put] by blast+
  have "stored x ow EVENTLOG_PARTITION evs"
    using stored_other [OF ox _ ev] by (simp add: MESSAGE_PARTITION_def EVENTLOG_PARTITION_def)
  then have oy: "only ow EVENTLOG_PARTITION x y" by (rule event_append_refines(2) [OF _ cid' wf app ulid_view])
  have y: "stored y ow MESSAGE_PARTITION (msgs(c \<mapsto> ?e))" if "only ow EVENTLOG_PARTITION x y"
    using stored_other [OF that _ x] by (simp add: MESSAGE_PARTITION_def EVENTLOG_PARTITION_def)
  have "view t = view y" using emit emit_view [of ow ?e y] by simp
  then show ?thesis using stored_same [OF _ y] oy by simp
qed

text \<open>Reading a record of which the store holds one live version, with its data in the message.\<close>

lemma read_stored_write:
  assumes st: "stored t ow MESSAGE_PARTITION msgs" and ts: "timestamped n msgs" and rid: "rid \<noteq> []"
    and c: "msgs c = Some (write_entry E 202 w)" and w: "w_record_id w = rid" "w_encoded_data w = Some (b64_encode E data)"
      "base_interface (wd_base (w_descriptor w)) = I_Records" "base_method (wd_base (w_descriptor w)) = M_Write"
      "is_initial E w = Inr True"
    and one: "\<forall>c' e. msgs c' = Some e \<longrightarrow> c' \<noteq> c \<longrightarrow> \<not> has_field (e_indexes e) ''recordId'' rid"
    and r: "read_by_id r rid" "read_authorize E ow (ser_write w) r t = (Inr (), t)"
  shows "read_handle E ow r t = (Inr (reply_with 200 (Some \<lparr>rr_records_write = Some (ser_write (w\<lparr>w_encoded_data := None\<rparr>)),
     rr_records_delete = None, rr_initial_write = None, rr_data = Some data\<rparr>)), t)"
proof -
  let ?q = "query_from_read r" and ?e = "write_entry E 202 w"
  have fields: "e_indexes ?e = hm_insert ''initial'' ''false'' (write_indexes E w)"
    by (simp add: write_entry_def write_entry_fields bool_str_def)
  from query_by_field [OF st ts read_query_sets(1) [OF r(1)], of "''recordId''" rid] rid read_query_sets [OF r(1)]
  obtain cs where run: "message_query E ow ?q t = (Inr (map (\<lambda>c. ser_entry (the (msgs c))) cs, None), t)"
    and cs: "distinct cs" "set cs = selected E ?q msgs"
    by (auto simp: total_matcher_def)
  have "selects E ?q c (e_indexes ?e)"
    using w by (simp add: selects_read [OF r(1)] fields has_field_def write_indexes_fields)
  then have "selected E ?q msgs = {c}"
    using c one by (auto simp: selected_def selects_read [OF r(1)])
  with cs have "cs = [c]" by (intro distinct_single) auto
  with run c have q: "MessageStore_query E ow ?q t = (Inr ([ser_entry ?e], None), t)"
    by (simp add: via_provider_run)
  have e: "as_write (ser_entry ?e) = Some (ser_write w)" "entry_descriptor (ser_entry ?e) = ser_base (wd_base (w_descriptor w))"
    by (simp_all add: ser_entry_def write_entry_def write_entry_fields as_write_def entry_descriptor_def ser_write_def
        ser_write_descriptor_def)
  have "base_method (entry_descriptor (ser_entry ?e)) \<noteq> M_Delete" using w e(2) by (simp add: ser_base_def)
  then show ?thesis
    using q e r(2) w b64_back
    by (simp add: read_handle_def read_live_def sbind_run write_try_from_def read_data_def attach_initial_def Let_def
        sbind_def lift_def sret_def ser_write_encoded)
qed

lemma timestamped_write:
  assumes "timestamped n msgs" and "length (fmt_micros E (base_timestamp (wd_base (w_descriptor w)))) = n"
  shows "timestamped n (msgs(c \<mapsto> write_entry E code w))"
  using assms by (simp add: timestamped_def write_entry_def write_entry_fields write_indexes_fields)

text \<open>What handling the first write of a record, with its data, does to the store.\<close>

lemma write_handle_initial:
  assumes st: "stored s ow MESSAGE_PARTITION msgs" and ev: "stored s ow EVENTLOG_PARTITION evs"
    and ts: "timestamped n msgs" and rid: "w_record_id w \<noteq> []"
    and fresh: "\<forall>c e. msgs c = Some e \<longrightarrow> \<not> has_field (e_indexes e) ''recordId'' (w_record_id w)"
    and w: "w_data_stream w = Some data" "wd_data_size (w_descriptor w) \<le> MAX_ENCODED_SIZE"
      "is_initial E w = Inr True" "write_cid E w = Inr c" "\<not> is_revocation w"
    and run: "write_handle E ow w s = (Inr rep, t)"
  shows "rep = reply_with 202 None \<and>
    stored t ow MESSAGE_PARTITION (msgs(c \<mapsto> write_entry E 202 (w\<lparr>w_encoded_data := Some (b64_encode E data)\<rparr>)))"
proof -
  let ?w = "w\<lparr>w_encoded_data := Some (b64_encode E data)\<rparr>"
  from run obtain x1 x2 where "write_authorize E ow w s = (Inr (), x1)" "verify_integrity E ow w x1 = (Inr (), x2)"
    by (auto simp: write_handle_def sbind_Inr_iff)
  then have pre: "write_authorize E ow w s = (Inr (), s)" "verify_integrity E ow w s = (Inr (), s)"
    using reads_only_state [OF write_authorize_ro] reads_only_state [OF verify_integrity_ro] by metis+
  have none: "existing_entries E ow (w_record_id w) s = (Inr [], s)"
    by (rule existing_empty [OF st ts rid fresh])
  have rest: "sbind (update_data E ow data w) (\<lambda>w'. let code = write_code True w' in
      sbind (save_write E ow code w') (\<lambda>_. sbind (archive_initial E ow w' None) (\<lambda>_. sbind (sfor [] (delete_previous E ow)) (\<lambda>_.
      sbind (if is_revocation w' then revoke_grants E ow w' else sret ()) (\<lambda>_. sret (reply_with code None)))))) s = (Inr rep, t)"
    using run w(1,3) pre none
    by (simp add: write_handle_def sbind_run earliest_and_latest_def check_earliest_def check_latest_def
        process_data_def lift_def)
  have upd: "w' = ?w \<and> y = s" if "update_data E ow data w s = (Inr w', y)" for w' y
    using that w(2) from_reader_state
    by (auto simp: update_data_def sbind_Inr_iff lift_def sret_def Let_def split: prod.splits)
  from rest upd obtain y where "save_write E ow 202 ?w s = (Inr (), y)" "rep = reply_with 202 None" "t = y"
    using w(1,5) by (auto simp: sbind_Inr_iff write_code_def archive_initial_def is_revocation_def sret_def Let_def)
  then show ?thesis
    using save_write_stores [OF st ev, of ?w c 202] w(4) by simp
qed

text \<open>A reader who is the owner, or any reader of a published record, is let in.\<close>

lemma read_authorize_owner:
  assumes "wd_published (w_descriptor w) = Some True \<or> (\<exists>a. rd_authorization r = Some a \<and> auth_author E a = Inr ow)"
  shows "read_authorize E ow w r s = (Inr (), s)"
  using assms by (auto simp: read_authorize_def sret_def sbind_def lift_def)

theorem write_read:
  assumes st: "stored s ow MESSAGE_PARTITION msgs" and ev: "stored s ow EVENTLOG_PARTITION evs"
    and ts: "timestamped n msgs" "length (fmt_micros E (base_timestamp (wd_base (w_descriptor w)))) = n"
    and rid: "w_record_id w \<noteq> []"
    and fresh: "\<forall>c e. msgs c = Some e \<longrightarrow> \<not> has_field (e_indexes e) ''recordId'' (w_record_id w)"
    and w: "w_data_stream w = Some data" "wd_data_size (w_descriptor w) \<le> MAX_ENCODED_SIZE"
      "is_initial E w = Inr True" "write_cid E w = Inr c" "\<not> is_revocation w"
      "base_interface (wd_base (w_descriptor w)) = I_Records" "base_method (wd_base (w_descriptor w)) = M_Write"
    and run: "write_handle E ow w s = (Inr rep, t)"
    and r: "read_by_id r (w_record_id w)"
      "wd_published (w_descriptor w) = Some True \<or> (\<exists>a. rd_authorization r = Some a \<and> auth_author E a = Inr ow)"
  shows "rep = reply_with 202 None \<and>
    read_handle E ow r t = (Inr (reply_with 200 (Some \<lparr>rr_records_write = Some (ser_write (w\<lparr>w_encoded_data := None\<rparr>)),
      rr_records_delete = None, rr_initial_write = None, rr_data = Some data\<rparr>)), t)"
proof -
  let ?w = "w\<lparr>w_encoded_data := Some (b64_encode E data)\<rparr>"
  from write_handle_initial [OF st ev ts(1) rid fresh w(1-5) run]
  have rep: "rep = reply_with 202 None" and t: "stored t ow MESSAGE_PARTITION (msgs(c \<mapsto> write_entry E 202 ?w))" by blast+
  have "timestamped n (msgs(c \<mapsto> write_entry E 202 ?w))" using ts by (intro timestamped_write) simp_all
  moreover have "read_authorize E ow (ser_write ?w) r t = (Inr (), t)"
    using r(2) by (intro read_authorize_owner) simp
  ultimately show ?thesis
    using read_stored_write [OF t _ rid, of n c ?w data r] fresh w r(1) rep by simp
qed

end

interpretation demo_reads: pure_reads demo_env
  by unfold_locales (simp_all add: demo_env_def)

interpretation demo_node: node demo_env demo_cell demo_good dm_blocks
  by unfold_locales (simp_all add: demo_env_def)

end
