(* ===== verification/Acceptance.thy ===== *)
theory Acceptance
  imports End_To_End
begin

text \<open>
  When blocks fit (below the limit of \<open>src/src/store/block.rs\<close>) and events are delivered, nothing in the store stands in the way of a write that passes
  its checks: the store operations succeed on every well-formed store, and the handler replies 202.
\<close>

section \<open>The stores accept\<close>

locale roomy_store = index_store +
  assumes fits: "\<exists>d. block_encode E v = Inr d"
begin

lemma indexes_put_total: "\<exists>t. indexes_put E ow pa ix s = (Inr (), t)"
proof -
  obtain c where c: "cid_value E (P_Text (ow @ ''-'' @ ix_field ix)) = Inr c" using text_cid by meson
  obtain d where d: "block_encode E (B_Index ix) = Inr d" using fits by blast
  from delete [OF cid_good [OF c], of ow pa s] obtain x where x: "bs_delete E ow pa c s = (Inr (), x)" by blast
  from put [OF cid_good [OF c], of ow pa d x] obtain t where "bs_put E ow pa c d x = (Inr (), t)" by blast
  with c d x show ?thesis
    by (auto simp: indexes_put_def index_cid_def from_value_def sbind_run)
qed

lemma update_loop_total:
  assumes "distinct (map fst fs)" and "\<And>f. f \<in> fst ` set fs \<Longrightarrow> \<exists>ix. the_index s ow pa f = Some ix \<and> ix_field ix = f"
    and field: "\<And>v ix. ix_field (g v ix) = ix_field ix"
  shows "\<exists>t. sfor fs (rewrite_index ow pa g) s = (Inr (), t)"
  using assms(1,2)
proof (induction fs arbitrary: s)
  case (Cons p fs)
  obtain f0 v0 where p: "p = (f0, v0)" by (cases p)
  from Cons.prems(2) [of f0] p obtain ix0 where ix0: "the_index s ow pa f0 = Some ix0" "ix_field ix0 = f0" by auto
  obtain x where x: "rewrite_index ow pa g (f0, v0) s = (Inr (), x)"
    using indexes_put_total [of ow pa "g v0 ix0" s] indexes_get_run [OF ix0(1)] by (auto simp: sbind_run)
  have "ix_field (g v0 ix0) = f0" using field ix0(2) by simp
  note step = update_one [OF x [unfolded prod.case] ix0(1) this]
  have "\<exists>ix. the_index x ow pa f = Some ix \<and> ix_field ix = f" if "f \<in> fst ` set fs" for f
    using that Cons.prems(1) p Cons.prems(2) [of f] step by (cases "f = f0") auto
  with Cons.IH [of x] Cons.prems(1) obtain t where "sfor fs (rewrite_index ow pa g) x = (Inr (), t)" by auto
  with x p show ?case by (auto simp: sbind_run)
qed (simp add: sret_def)

lemma index_delete_total:
  assumes ix: "indexed s ow pa live"
  shows "\<exists>t. index_delete E ow pa c s = (Inr (), t)"
proof -
  from indexed_field [OF ix, of "''message_cid''"] obtain mc
    where mc: "the_index s ow pa ''message_cid'' = Some mc" "field_ok live ''message_cid'' mc" by blast
  show ?thesis
  proof (cases "map_of (ix_items mc) c")
    case None
    then show ?thesis using indexes_get_run [OF mc(1)] by (simp add: index_delete_def sbind_run sret_def)
  next
    case (Some it)
    then have "wf_fields (ii_fields it)" using mc(2) by (auto simp: field_ok_def dest: map_of_SomeD)
    then have "\<exists>t. sfor (ii_fields it) (rewrite_index ow pa (\<lambda>v. index_remove v c)) s = (Inr (), t)"
      using indexed_field [OF ix] by (intro update_loop_total) (auto simp: wf_fields_def index_remove_def)
    with Some show ?thesis using indexes_get_run [OF mc(1)] by (simp add: index_delete_def sbind_run)
  qed
qed

lemma index_insert_total:
  assumes ix: "indexed s ow pa live" and cid: "entry_cid E e = Inr c" and wf: "wf_fields (e_indexes e)"
  shows "\<exists>t. index_insert E ow pa e s = (Inr (), t)"
proof -
  let ?fs = "e_indexes e" and ?mc = "''message_cid''"
  have clean: "clean_cid c" using cid entry_cid_payload cid_clean by metis
  obtain x where del: "index_delete E ow pa c s = (Inr (), x)" using index_delete_total [OF ix] by blast
  have x: "indexed x ow pa (live(c := None))" using index_delete_refines [OF ix clean del] by blast
  let ?g = "\<lambda>v. index_insert_item v (item_of c ?fs)"
  have fx: "\<exists>ix. the_index x ow pa f = Some ix \<and> ix_field ix = f" for f
    using indexed_field [OF x, of f] by blast
  have dist: "distinct (map fst ?fs)" using wf by (simp add: wf_fields_def)
  have keep: "ix_field (?g v ix) = ix_field ix" for v ix by (simp add: index_insert_item_def)
  have "\<exists>t. sfor ?fs (rewrite_index ow pa ?g) x = (Inr (), t)"
    using fx keep by (intro update_loop_total [OF dist]) auto
  then obtain y where loop: "sfor ?fs (rewrite_index ow pa ?g) x = (Inr (), y)" by blast
  have "the_index y ow pa f = (case map_of ?fs f of None \<Rightarrow> the_index x ow pa f
      | Some v \<Rightarrow> map_option (?g v) (the_index x ow pa f))" for f
    using update_loop [OF loop] wf indexed_field [OF x] by (auto simp: wf_fields_def index_insert_item_def)
  then obtain mc where "the_index y ow pa ?mc = Some mc"
    using indexed_field [OF x, of ?mc] wf_fields_no_cid [OF wf] by auto
  then have "indexes_get E ow pa ?mc y = (Inr mc, y)" by (rule indexes_get_run)
  with indexes_put_total [of ow pa "mc\<lparr>ix_items := bt_insert c (item_of c ?fs) (ix_items mc)\<rparr>" y] cid del loop
  show ?thesis by (auto simp: index_insert_def sbind_run lift_def Let_def sbind_def)
qed

lemma replace_total:
  assumes "entry_cid E e = Inr c"
  obtains x d y where "bs_delete E ow pa c s = (Inr (), x)" and "block_encode E (B_Entry e) = Inr d"
    and "bs_put E ow pa c d x = (Inr (), y)"
proof -
  note g = entry_cid_good [OF assms]
  obtain d where d: "block_encode E (B_Entry e) = Inr d" using fits by blast
  from delete [OF g, of ow pa s] obtain x where x: "bs_delete E ow pa c s = (Inr (), x)" by blast
  from put [OF g, of ow pa d x] obtain y where "bs_put E ow pa c d x = (Inr (), y)" by blast
  with x d show thesis by (rule that)
qed

lemma message_put_total:
  assumes st: "stored s ow MESSAGE_PARTITION msgs" and cid: "entry_cid E e = Inr c" and wf: "wf_fields (e_indexes e)"
  shows "\<exists>t. message_put E ow e s = (Inr (), t)"
proof -
  obtain x d y where r: "bs_delete E ow MESSAGE_PARTITION c s = (Inr (), x)" "block_encode E (B_Entry e) = Inr d"
    "bs_put E ow MESSAGE_PARTITION c d x = (Inr (), y)" by (rule replace_total [OF cid])
  have "view y = (view s)(cell ow MESSAGE_PARTITION c \<mapsto> d)"
    using replace_block(1) [OF cid r(1) _ r(3)] r(2) by (simp add: block_encode_Inr)
  then have "indexed y ow MESSAGE_PARTITION (map_option e_indexes \<circ> msgs)"
    using st indexed_message [OF cid] by (simp add: stores_def)
  from index_insert_total [OF this cid wf] show ?thesis
    using r cid by (auto simp: message_put_def sbind_run lift_def)
qed

lemma message_delete_total:
  assumes st: "stored s ow MESSAGE_PARTITION msgs" and cid: "entry_cid E e = Inr c"
  shows "\<exists>t. message_delete E ow c s = (Inr (), t)"
proof -
  have "indexed s ow MESSAGE_PARTITION (map_option e_indexes \<circ> msgs)" using st by (simp add: stores_def)
  from index_delete_total [OF this] obtain x where x: "index_delete E ow MESSAGE_PARTITION c s = (Inr (), x)" by blast
  from delete [OF entry_cid_good [OF cid], of ow MESSAGE_PARTITION x]
  obtain t where "bs_delete E ow MESSAGE_PARTITION c x = (Inr (), t)" by blast
  with x show ?thesis by (auto simp: message_delete_def sbind_run)
qed

end

locale open_node = node E cell good view + roomy_store E cell good view
  for E :: "('s, 'b) env" and cell :: "string \<Rightarrow> string \<Rightarrow> string \<Rightarrow> 'k"
    and good :: "string \<Rightarrow> bool" and view :: "'s \<Rightarrow> 'k \<Rightarrow> 'b option" +
  assumes emits: "\<exists>t. es_emit E ow e s = (Inr (), t)"
begin

lemma event_append_total:
  assumes st: "stored s ow EVENTLOG_PARTITION msgs" and cid: "entry_cid E e = Inr c" and wf: "wf_fields (e_indexes e)"
  shows "\<exists>t. event_append E ow e s = (Inr (), t)"
proof -
  obtain x d y where r: "bs_delete E ow EVENTLOG_PARTITION c s = (Inr (), x)" "block_encode E (B_Entry e) = Inr d"
    "bs_put E ow EVENTLOG_PARTITION c d x = (Inr (), y)" by (rule replace_total [OF cid])
  obtain w z where z: "ulid_new E y = (w, z)" by (cases "ulid_new E y")
  let ?e = "e\<lparr>e_indexes := hm_insert ''watermark'' w (e_indexes e)\<rparr>"
  have "view z = (view s)(cell ow EVENTLOG_PARTITION c \<mapsto> d)"
    using replace_block(1) [OF cid r(1) _ r(3)] r(2) ulid_view [of y] z by (simp add: block_encode_Inr)
  then have "indexed z ow EVENTLOG_PARTITION (map_option e_indexes \<circ> msgs)"
    using st indexed_message [OF cid] by (simp add: stores_def)
  moreover have "entry_cid E ?e = Inr c" using cid by (simp add: entry_cid_def)
  ultimately have "\<exists>t. index_insert E ow EVENTLOG_PARTITION ?e z = (Inr (), t)"
    using wf by (intro index_insert_total) (simp_all add: wf_fields_insert)
  then show ?thesis
    using r cid z by (auto simp: event_append_def sbind_run lift_def sbind_def with_err_def)
qed

section \<open>The handlers accept\<close>

lemma save_write_total:
  assumes st: "stored s ow MESSAGE_PARTITION msgs" and ev: "stored s ow EVENTLOG_PARTITION evs"
    and cid: "write_cid E w = Inr c"
  shows "\<exists>t. save_write E ow code w s = (Inr (), t)"
proof -
  let ?e = "write_entry E code w"
  have cid': "entry_cid E ?e = Inr c" and wf: "wf_fields (e_indexes ?e)"
    using cid by (simp_all add: write_entry_def write_entry_fields entry_cid_def wf_fields_insert wf_write_indexes)
  obtain x where put: "message_put E ow ?e s = (Inr (), x)" using message_put_total [OF st cid' wf] by blast
  have "stored x ow EVENTLOG_PARTITION evs"
    using message_put_refines [OF st cid' wf put] ev
    by (auto intro: stored_other simp: MESSAGE_PARTITION_def EVENTLOG_PARTITION_def)
  then obtain y where app: "event_append E ow ?e x = (Inr (), y)" using event_append_total cid' wf by blast
  obtain t where "es_emit E ow ?e y = (Inr (), t)" using emits by blast
  with put app show ?thesis
    by (auto simp: save_write_def write_entry_def Let_def sbind_run via_provider_run)
qed

text \<open>The first write of a record that is authorized and whose data is as described is accepted.\<close>

lemma write_handle_total:
  assumes st: "stored s ow MESSAGE_PARTITION msgs" and ev: "stored s ow EVENTLOG_PARTITION evs"
    and ts: "timestamped n msgs" and rid: "w_record_id w \<noteq> []"
    and fresh: "\<forall>c e. msgs c = Some e \<longrightarrow> \<not> has_field (e_indexes e) ''recordId'' (w_record_id w)"
    and w: "w_data_stream w = Some data" "wd_data_size (w_descriptor w) \<le> MAX_ENCODED_SIZE"
      "is_initial E w = Inr True" "write_cid E w = Inr c" "\<not> is_revocation w"
    and ok: "fst (write_authorize E ow w s) = Inr ()" "fst (verify_integrity E ow w s) = Inr ()"
      "fst (update_data E ow data w s) = Inr (w\<lparr>w_encoded_data := Some (b64_encode E data)\<rparr>)"
  shows "\<exists>t. write_handle E ow w s = (Inr (reply_with 202 None), t)"
proof -
  let ?w = "w\<lparr>w_encoded_data := Some (b64_encode E data)\<rparr>"
  have pre: "write_authorize E ow w s = (Inr (), s)" "verify_integrity E ow w s = (Inr (), s)"
    using ok(1,2) reads_only_state [OF write_authorize_ro] reads_only_state [OF verify_integrity_ro] prod.collapse
    by metis+
  have none: "existing_entries E ow (w_record_id w) s = (Inr [], s)"
    by (rule existing_empty [OF st ts rid fresh])
  obtain y where y: "update_data E ow data w s = (Inr ?w, y)" using ok(3) by (metis prod.collapse)
  then have upd: "update_data E ow data w s = (Inr ?w, s)"
    using w(2) from_reader_state
    by (auto simp: update_data_def sbind_Inr_iff lift_def sret_def Let_def split: prod.splits)
  have "write_cid E ?w = Inr c" using w(4) by simp
  from save_write_total [OF st ev this] obtain t where "save_write E ow 202 ?w s = (Inr (), t)" by blast
  then show ?thesis
    using w(1,3,5) pre none upd
    by (auto simp: write_handle_def sbind_run earliest_and_latest_def check_earliest_def check_latest_def
        process_data_def lift_def write_code_def archive_initial_def is_revocation_def sret_def Let_def sbind_def)
qed

end

interpretation demo_roomy: roomy_store demo_env demo_cell demo_good dm_blocks
proof unfold_locales
  show "\<exists>d. block_encode demo_env v = Inr d" for v
    by (cases v) (simp_all add: demo_env_def demo_encode_def block_encode_def)
qed

interpretation demo_open: open_node demo_env demo_cell demo_good dm_blocks
  by unfold_locales (simp add: demo_env_def)

end
