(* ===== verification/Paging.thy ===== *)
theory Paging
  imports Store_Refinement
begin

text \<open>
  Pages of a query (\<open>paginate\<close> of \<open>src/src/store/index.rs\<close> with the cursor handling of
  \<open>src/src/store/message.rs\<close>): the page and the cursor that a limit and a cursor give, and that the pages
  follow each other.
\<close>

text \<open>A page of the ordered results and the cursor of the next page, as \<open>message_query\<close> computes them.\<close>

definition page_of :: "('s, 'b) env \<Rightarrow> query \<Rightarrow> string \<Rightarrow> index_item list \<Rightarrow> (index_item list \<times> cursor option) result" where
  "page_of E q field items = rbind (paginate E (q_pagination q) items) (pop_cursor q field)"

definition cursor_at :: "string \<Rightarrow> index_item \<Rightarrow> cursor" where
  "cursor_at field it = \<lparr>cur_message_cid = ii_message_cid it, cur_value = the (map_of (ii_fields it) field)\<rparr>"

text \<open>The cursor that starts a page at position \<open>i\<close>.\<close>

definition starts_at :: "cursor option \<Rightarrow> index_item list \<Rightarrow> nat \<Rightarrow> bool" where
  "starts_at cur items i \<longleftrightarrow>
     (case cur of None \<Rightarrow> i = 0 | Some c \<Rightarrow> i < length items \<and> ii_message_cid (items ! i) = cur_message_cid c)"

lemma page_start_at:
  assumes "distinct (map ii_message_cid items)" and "length items < 2 ^ 64" and "starts_at (pg_cursor p) items i"
  shows "unat (page_start p items) = i"
  using assms position_distinct [OF assms(1), of i]
  by (auto simp: starts_at_def page_start_def unat_usize split: option.splits)

lemma pop_cursor_page:
  assumes l: "0 < l" "q_pagination q = Some p" "pg_limit p = Some l"
    and len: "length items < 2 ^ 64" "unat l + 1 < 2 ^ 64"
    and fields: "\<forall>it\<in>set items. map_of (ii_fields it) field \<noteq> None"
  shows "pop_cursor q field (take (unat l + 1) (drop i items)) =
    Inr (take (unat l) (drop i items),
      if i + unat l < length items then Some (cursor_at field (items ! (i + unat l))) else None)"
proof (cases "i + unat l < length items")
  case True
  let ?r = "take (unat l + 1) (drop i items)"
  have r: "?r = take (unat l) (drop i items) @ [items ! (i + unat l)]"
    using True by (simp add: take_Suc_conv_app_nth nth_drop add.commute)
  have "length ?r = unat l + 1" using True by simp
  moreover have "unat (of_nat (unat l + 1) :: usize) = unat l + 1" using len(2) by (rule unat_usize)
  ultimately have "l < of_nat (length ?r)" by (simp only: word_less_nat_alt)
  moreover obtain v where "map_of (ii_fields (items ! (i + unat l))) field = Some v"
    using fields True by (metis not_None_eq nth_mem)
  ultimately show ?thesis
    using True l r by (simp add: pop_cursor_def Let_def cursor_at_def del: take_Suc)
next
  case False
  then have "length (take (unat l + 1) (drop i items)) \<le> unat l" by simp
  moreover have "length (take (unat l + 1) (drop i items)) < 2 ^ 64" using len by simp
  ultimately have "\<not> l < of_nat (length (take (unat l + 1) (drop i items)))"
    by (simp add: word_less_nat_alt unat_usize del: length_take)
  moreover have "take (unat l + 1) (drop i items) = take (unat l) (drop i items)"
    using False by simp
  ultimately show ?thesis using False l by (simp add: pop_cursor_def Let_def del: length_take)
qed

lemma page_of_exact:
  assumes "0 < l" "q_pagination q = Some p" "pg_limit p = Some l"
    and "distinct (map ii_message_cid items)" and "\<forall>it\<in>set items. map_of (ii_fields it) field \<noteq> None"
    and "i + unat l + 1 < 2 ^ 64" and "length items < 2 ^ 64" and "starts_at (pg_cursor p) items i"
  shows "page_of E q field items = Inr (take (unat l) (drop i items),
      if i + unat l < length items then Some (cursor_at field (items ! (i + unat l))) else None)"
proof -
  have "unat (page_start p items) = i" using assms(4,7,8) by (rule page_start_at)
  then have "paginate E (Some p) items = Inr (take (unat l + 1) (drop i items))"
    using paginate_page [of p items l E] assms by simp
  then show ?thesis using pop_cursor_page [of l q p items field i] assms by (simp add: page_of_def)
qed

text \<open>The cursor of a page starts the next page where this one ends.\<close>

lemma starts_at_next:
  "i + n < length items \<Longrightarrow> starts_at (Some (cursor_at field (items ! (i + n)))) items (i + n)"
  by (simp add: starts_at_def cursor_at_def)

end
