(* ===== verification/Examples.thy ===== *)
theory Examples
  imports Acceptance Paging
begin

text \<open>
  Concrete messages and stores on the demonstration provider, for the theorems to be applied to: the owner
  \<open>alice\<close>, a first write of a record with its data, and the read of it.
\<close>

lemma demo_parts [simp]:
  "cid_value demo_env p = Inr (demo_cid p)" "cid_parse demo_env c = Inr c" "b64_encode demo_env bs = bs"
  "b64_decode demo_env bs = Inr bs" "fmt_micros demo_env = demo_micros" "jws_did demo_env j = Inr (jws_rest j)"
  "jws_verify demo_env j = (if jws_rest j = [] then Inl ''unsigned'' else Inr ())"
  "json_jws_payload demo_env = demo_payload" "json_signature_payload demo_env = demo_signature_payload"
  "json_grant_data demo_env = demo_grant_data" "uri_parse demo_env = demo_uri" "walk_fuel demo_env = 10"
  "dag_encode demo_env = demo_encode" "dag_size demo_env b = 0" "overflow_checks demo_env"
  "schema_tags demo_env r ts" "schema_tag_key demo_env k = None" "utc_now demo_env s = int (dm_ticks s)"
  by (simp_all add: demo_env_def)

definition alice :: string where
  "alice = ''alice''"

definition hello :: bytes where
  "hello = ''hello''"

definition hello_descriptor :: write_descriptor where
  "hello_descriptor =
     \<lparr>wd_base = \<lparr>base_interface = I_Records, base_method = M_Write, base_timestamp = 5000\<rparr>,
      wd_protocol = None, wd_protocol_path = None, wd_recipient = None, wd_schema = None, wd_tags = None,
      wd_parent_id = None, wd_data_cid = ''l1'', wd_data_size = 5, wd_data_format = ''text'',
      wd_date_created = 5000, wd_published = None, wd_date_published = None\<rparr>"

text \<open>The record ID is the entry ID of the write, which tells the author, and when it was created.\<close>

definition id_by :: "string \<Rightarrow> string" where
  "id_by author = demo_cid (P_EntryId hello_descriptor author)"

definition hello_id :: string where
  "hello_id = id_by alice"

definition write_by :: "string \<Rightarrow> write_descriptor \<Rightarrow> write_msg" where
  "write_by author d =
     \<lparr>w_descriptor = d, w_authorization = Authorization (Jws (id_by author @ ''|||'') author) None None None,
      w_record_id = id_by author, w_context_id = None, w_attestation = None, w_encryption = None,
      w_encoded_data = None, w_data_stream = Some hello\<rparr>"

definition hello_write :: write_msg where
  "hello_write = write_by alice hello_descriptor"

lemmas hello_defs = hello_write_def write_by_def hello_descriptor_def

definition hello_read :: read where
  "hello_read =
     \<lparr>rd_descriptor = \<lparr>rd_base = \<lparr>base_interface = I_Records, base_method = M_Read, base_timestamp = 6000\<rparr>,
        rd_filter = records_filter_new\<lparr>rf_record_id := Some hello_id\<rparr>\<rparr>,
      rd_authorization = Some (Authorization (Jws ''|||'' alice) None None None)\<rparr>"

definition hello_cid :: string where
  "hello_cid = demo_cid (P_Write (ser_write hello_write))"

lemma hello_write_cid: "write_cid demo_env hello_write = Inr hello_cid"
  by (simp add: write_cid_def from_value_def hello_cid_def hello_defs)

text \<open>The entry it is stored as.\<close>

definition hello_saved :: write_msg where
  "hello_saved = hello_write\<lparr>w_encoded_data := Some hello\<rparr>"

definition hello_entry :: entry where
  "hello_entry = write_entry demo_env 202 hello_saved"

lemma hello_entry_facts:
  "entry_cid demo_env hello_entry = Inr hello_cid" "wf_fields (e_indexes hello_entry)"
  "has_field (e_indexes hello_entry) ''recordId'' hello_id" "has_field (e_indexes hello_entry) ''interface'' ''Records''"
  "timestamped 20 [hello_cid \<mapsto> hello_entry]"
  by (simp_all add: hello_entry_def hello_saved_def write_entry_def write_entry_fields entry_cid_def hello_write_cid wf_fields_insert
      wf_write_indexes has_field_def write_indexes_fields timestamped_def)
    (simp_all add: hello_defs hello_id_def demo_micros_def timestamp_micros_def decimal.simps [of 5])

text \<open>An empty store holds no messages.\<close>

lemma empty_stored: "demo.stored demo_empty ow pa Map.empty"
  using demo.indexed_empty [of demo_empty ow pa]
  by (auto simp: stores_def block_holds_def demo_empty_def comp_def)

text \<open>The write is the first of its record, and its payload is well-formed.\<close>

lemma id_by_nonempty: "id_by author \<noteq> []"
  by (simp add: id_by_def)

lemma id_by_bar: "CHR ''|'' \<notin> set (id_by author)"
proof
  assume "CHR ''|'' \<in> set (id_by author)"
  then consider "CHR ''|'' \<in> set (spell author)" | n where "CHR ''|'' \<in> set (decimal n)" by (auto simp: id_by_def)
  then show False
  proof cases
    case 1
    with spell_chars [OF this] show ?thesis by simp
  next
    case 2
    then have "is_digit (CHR ''|'')" using decimal_digits [of n] by (auto simp: list_all_iff)
    then show ?thesis by (simp add: is_digit_def)
  qed
qed

lemma initial_by:
  assumes "wd_date_created d = 5000" and "base_timestamp (wd_base d) = 5000"
  shows "is_initial demo_env (write_by author d) = Inr True"
  using assms by (simp add: is_initial_def entry_id_def from_value_def write_by_def id_by_def auth_author_def
      hello_descriptor_def ser_write_descriptor_def ser_base_def rfc3339_micros_def timestamp_micros_def)

lemma hello_initial: "is_initial demo_env hello_write = Inr True"
  by (simp add: hello_write_def initial_by hello_descriptor_def)

text \<open>The store after the write's entry is put into it.\<close>

lemma hello_stored:
  "\<exists>t. message_put demo_env alice hello_entry demo_empty = (Inr (), t) \<and>
    demo.stored t alice MESSAGE_PARTITION [hello_cid \<mapsto> hello_entry] \<and>
    existing_entries demo_env alice hello_id t = (Inr [ser_entry hello_entry], t) \<and>
    initial_write demo_env alice hello_id t = (Inr (Some (ser_write hello_saved)), t)"
proof -
  let ?m = "[hello_cid \<mapsto> hello_entry]" and ?q = "existing_query hello_id"
  obtain t where put: "message_put demo_env alice hello_entry demo_empty = (Inr (), t)"
    using demo_roomy.message_put_total [OF empty_stored] hello_entry_facts by blast
  have st: "demo.stored t alice MESSAGE_PARTITION ?m"
    using demo.message_put_refines [OF empty_stored hello_entry_facts(1,2) put] by simp
  from index_store.query_by_field [OF demo.index_store_axioms st hello_entry_facts(5) existing_query_sets(1) [of hello_id], of "''recordId''" hello_id]
    existing_query_sets [of hello_id]
  obtain cs where run: "message_query demo_env alice ?q t = (Inr (map (\<lambda>c. ser_entry (the (?m c))) cs, None), t)"
    and cs: "distinct cs" "set cs = selected demo_env ?q ?m"
    by (auto simp: total_matcher_def hello_id_def id_by_nonempty)
  have "selected demo_env ?q ?m = {hello_cid}" using hello_entry_facts(3,4) by (auto simp: selected_def selects_existing)
  with cs have "cs = [hello_cid]" by (intro distinct_single) auto
  with run have ex: "existing_entries demo_env alice hello_id t = (Inr [ser_entry hello_entry], t)"
    by (simp add: existing_entries_def sbind_run via_provider_run sret_def)
  have "as_write (ser_entry hello_entry) = Some (ser_write hello_saved)"
    by (simp add: hello_entry_def write_entry_def write_entry_fields ser_entry_def as_write_def)
  with ex put st hello_initial show ?thesis
    by (simp add: hello_saved_def initial_write_def sbind_run write_try_from_def lift_def)
qed

lemma hello_read_stored:
  "\<exists>t. message_put demo_env alice hello_entry demo_empty = (Inr (), t) \<and>
    read_handle demo_env alice hello_read t = (Inr (reply_with 200 (Some \<lparr>rr_records_write = Some (ser_write hello_write),
      rr_records_delete = None, rr_initial_write = None, rr_data = Some hello\<rparr>)), t)"
proof -
  obtain t where put: "message_put demo_env alice hello_entry demo_empty = (Inr (), t)"
    and st: "demo.stored t alice MESSAGE_PARTITION [hello_cid \<mapsto> hello_entry]" using hello_stored by blast
  have "read_by_id hello_read hello_id" by (simp add: read_by_id_def hello_read_def)
  moreover have "read_authorize demo_env alice (ser_write hello_saved) hello_read t = (Inr (), t)"
    by (rule demo_node.read_authorize_owner) (simp add: hello_read_def auth_author_def)
  moreover have "is_initial demo_env hello_saved = Inr True" by (simp add: hello_saved_def hello_initial)
  ultimately show ?thesis
    using demo_node.read_stored_write [OF st hello_entry_facts(5) , of hello_id hello_cid hello_saved hello hello_read] put
    by (simp add: hello_entry_def hello_saved_def hello_defs hello_id_def id_by_nonempty)
qed

end
