(* ===== verification/Store_Properties.thy ===== *)
theory Store_Properties
  imports Examples
begin

text \<open>
  What the stores promise: record data comes back as it was put, the message store and the event log are
  maps from CIDs to entries, a query returns what it selects in order, and pages follow each other. The
  theorems rest on the contracts of the third-party parts (locales \<open>data_store\<close>, \<open>index_store\<close>), and each is
  applied on the demonstration provider.
\<close>

section \<open>Record data\<close>

text \<open>Blocks of up to a chunk's size, lists of links and the pair of names fit into blocks.\<close>

definition data_fits :: "('s, 'b) env \<Rightarrow> bool" where
  "data_fits E \<longleftrightarrow> (\<forall>b. length b \<le> CHUNK_SIZE \<longrightarrow> (\<exists>x. block_new E (Ipld_Bytes b) = Inr x)) \<and>
     (\<forall>ls. \<exists>x. block_new E (Ipld_List ls) = Inr x) \<and> (\<forall>m. \<exists>x. block_new E (Ipld_Map m) = Inr x)"

context data_store
begin

lemma put_chunks_total:
  assumes "data_fits E"
  shows "\<exists>r t. put_chunks E ow rd ls n s = (Inr r, t)"
proof (induction rd arbitrary: ls n s rule: chunks.induct)
  case (1 rd)
  show ?case
  proof (cases "rd = []")
    case False
    let ?b = "take CHUNK_SIZE rd"
    from assms obtain c d where new: "block_new E (Ipld_Bytes ?b) = Inr (c, d)" by (fastforce simp: data_fits_def)
    then have c: "good c" "cid_parse E c = Inr c" using cid_good by (auto simp: block_new_Inr)
    from put [OF c(1), of ow DATA_PARTITION d s] obtain u where "bs_put E ow DATA_PARTITION c d s = (Inr (), u)" by blast
    moreover obtain r t where "put_chunks E ow (drop (length ?b) rd) (ls @ [Ipld_Link c]) (n + of_nat (length ?b)) u = (Inr r, t)"
      using "1.IH" [OF False, of "ls @ [Ipld_Link c]" "n + of_nat (length ?b)" u] drop_take_length [of CHUNK_SIZE rd]
      by auto
    ultimately show ?thesis
      using False new c(2) by (subst put_chunks.simps) (simp add: Let_def sbind_run del: length_take)
  qed (simp add: sret_def)
qed

lemma data_put_total:
  assumes fits: "data_fits E"
  shows "\<exists>r t. data_put E ow rid dc data s = (Inr r, t)"
proof -
  obtain ls n u where chunked: "put_chunks E ow data [] 0 s = (Inr (ls, n), u)" using put_chunks_total [OF fits] by fastforce
  obtain c d where new: "block_new E (Ipld_List ls) = Inr (c, d)" using fits by (fastforce simp: data_fits_def)
  obtain root where root: "root_cid E rid dc = Inr root" using fits by (fastforce simp: data_fits_def root_cid_Inr)
  from put [OF root_cid_good [OF root], of ow DATA_PARTITION d u]
  obtain t where "bs_put E ow DATA_PARTITION root d u = (Inr (), t)" by blast
  with chunked new root show ?thesis by (simp add: data_put_def sbind_run sret_def)
qed

lemma data_delete_total:
  assumes fits: "data_fits E"
  shows "\<exists>t. data_delete E ow rid dc s = (Inr (), t)"
proof -
  obtain root where root: "root_cid E rid dc = Inr root" using fits by (fastforce simp: data_fits_def root_cid_Inr)
  from delete [OF root_cid_good [OF root], of ow DATA_PARTITION s]
  obtain t where "bs_delete E ow DATA_PARTITION root s = (Inr (), t)" by blast
  with root show ?thesis by (simp add: data_delete_def sbind_run)
qed

end

lemma demo_data_fits: "data_fits demo_env"
  by (simp add: data_fits_def block_new_def block_encode_def demo_env_def demo_encode_def)



text \<open>
  Record data that is deleted is gone: a delete succeeds and a get then finds nothing, whatever the store held.
\<close>

theorem data_delete_removes:
  assumes "data_store E cell good view" and "data_fits E"
  shows "\<exists>t. data_delete E ow rid dc s = (Inr (), t) \<and> data_get E ow rid dc t = (Inr None, t)"
proof -
  from data_store.data_delete_total [OF assms] obtain t where del: "data_delete E ow rid dc s = (Inr (), t)" by fastforce
  with data_store.delete_get [OF assms(1) del] show ?thesis by blast
qed

theorem data_delete_removes_witness:
  "\<exists>t. data_delete demo_env alice hello_id ''l1'' demo_empty = (Inr (), t) \<and>
    data_get demo_env alice hello_id ''l1'' t = (Inr None, t)"
  by (rule data_delete_removes [OF demo_data.data_store_axioms demo_data_fits])

lemma from_reader_as_put:
  assumes "data_put E ow rid dc data s = (Inr (cid, n), t)" and "root_cid E ''record_id'' ''data_cid'' = Inr c"
  shows "from_reader E data s' = (Inr (cid, n), s')"
proof -
  from assms(1) obtain ls d u where "put_chunks E ow data [] 0 s = (Inr (ls, n), u)"
    and root: "block_new E (Ipld_List ls) = Inr (cid, d)"
    by (auto simp: data_put_def monad_simps split: prod.splits)
  from put_chunks_mock [OF this(1)] root assms(2) show ?thesis
    by (simp add: from_reader_def data_put_def sbind_run sret_def)
qed

text \<open>
  C34. The CID and size that \<open>cid::from_reader\<close> computes without storing anything are those that \<open>data::put\<close>
  reports for the same bytes, whatever the owner, the record and the store: what a client signs is what a node computes.
\<close>

theorem from_reader_agrees:
  assumes "data_put E ow rid dc data s = (Inr (cid, n), t)" and "root_cid E ''record_id'' ''data_cid'' = Inr c"
  shows "from_reader E data s' = (Inr (cid, n), s')"
  using assms by (rule from_reader_as_put)

theorem from_reader_agrees_witness:
  "\<exists>cid. from_reader demo_env hello demo_empty = (Inr (cid, 5), demo_empty)"
proof -
  obtain cid n t where put: "data_put demo_env alice hello_id ''l1'' hello demo_empty = (Inr (cid, n), t)"
    using demo_data.data_put_total [OF demo_data_fits] by fastforce
  have "n = 5" using demo_data.put_get(2) [OF put] by (simp add: hello_def)
  moreover obtain c where root: "root_cid demo_env ''record_id'' ''data_cid'' = Inr c"
    using demo_data_fits by (fastforce simp: data_fits_def demo_data.root_cid_Inr)
  ultimately show ?thesis using from_reader_agrees [OF put root, of demo_empty] by blast
qed

section \<open>The message store and the event log\<close>

text \<open>
  C14. Putting a message makes the message store the map it was with the message under its CID: its block and the
  index rows of all its fields are there, rows an earlier version of the entry had are gone, and nothing outside
  the owner's partition changes. The put succeeds whenever blocks fit.
\<close>

theorem message_put_updates:
  assumes "index_store E cell good view" and "stores E cell view s ow MESSAGE_PARTITION msgs"
    and "entry_cid E e = Inr c" and "wf_fields (e_indexes e)"
  shows "(\<forall>t. message_put E ow e s = (Inr (), t) \<longrightarrow>
      stores E cell view t ow MESSAGE_PARTITION (msgs(c \<mapsto> e)) \<and> changes_only cell good view ow MESSAGE_PARTITION s t) \<and>
    ((\<forall>v. \<exists>d. block_encode E v = Inr d) \<longrightarrow> (\<exists>t. message_put E ow e s = (Inr (), t)))"
proof -
  have "roomy_store E cell good view" if "\<forall>v. \<exists>d. block_encode E v = Inr d"
    using that by (intro roomy_store.intro [OF assms(1)] roomy_store_axioms.intro) blast
  then show ?thesis
    using index_store.message_put_refines [OF assms] roomy_store.message_put_total [OF _ assms(2-4)] by blast
qed

lemma demo_put: "\<exists>t. message_put demo_env alice hello_entry demo_empty = (Inr (), t)"
  using demo_roomy.message_put_total [OF empty_stored] hello_entry_facts by blast

theorem message_put_updates_witness:
  "\<exists>t. message_put demo_env alice hello_entry demo_empty = (Inr (), t) \<and>
    stores demo_env demo_cell dm_blocks t alice MESSAGE_PARTITION [hello_cid \<mapsto> hello_entry]"
  using message_put_updates [OF demo.index_store_axioms empty_stored hello_entry_facts(1,2), of alice] demo_put by blast

text \<open>
  A get returns the entry the store holds under the CID, as serialization keeps it, or nothing when there is
  none; it changes nothing.
\<close>

theorem message_get_returns:
  assumes "index_store E cell good view" and "stores E cell view s ow MESSAGE_PARTITION msgs" and "entry_cid E e = Inr c"
  shows "message_get E ow c s = (Inr (map_option ser_entry (msgs c)), s)"
  using assms by (rule index_store.message_get_stored)

theorem message_get_returns_witness:
  "\<exists>t. message_put demo_env alice hello_entry demo_empty = (Inr (), t) \<and>
    message_get demo_env alice hello_cid t = (Inr (Some (ser_entry hello_entry)), t)"
proof -
  obtain t where put: "message_put demo_env alice hello_entry demo_empty = (Inr (), t)" using demo_put by blast
  have "demo.stored t alice MESSAGE_PARTITION [hello_cid \<mapsto> hello_entry]"
    using demo.message_put_refines [OF empty_stored hello_entry_facts(1,2) put] by simp
  from message_get_returns [OF demo.index_store_axioms this hello_entry_facts(1)] put show ?thesis by auto
qed

text \<open>
  Deleting a message takes it out of the map: its block is gone, and so are the index rows of all its fields;
  everything else of the partition stays, and nothing outside it changes. The delete succeeds whenever blocks fit.
\<close>

theorem message_delete_updates:
  assumes "index_store E cell good view" and "stores E cell view s ow MESSAGE_PARTITION msgs" and "entry_cid E e = Inr c"
  shows "(\<forall>t. message_delete E ow c s = (Inr (), t) \<longrightarrow>
      stores E cell view t ow MESSAGE_PARTITION (msgs(c := None)) \<and> changes_only cell good view ow MESSAGE_PARTITION s t) \<and>
    ((\<forall>v. \<exists>d. block_encode E v = Inr d) \<longrightarrow> (\<exists>t. message_delete E ow c s = (Inr (), t)))"
proof -
  have "roomy_store E cell good view" if "\<forall>v. \<exists>d. block_encode E v = Inr d"
    using that by (intro roomy_store.intro [OF assms(1)] roomy_store_axioms.intro) blast
  then show ?thesis
    using index_store.message_delete_refines [OF assms] roomy_store.message_delete_total [OF _ assms(2-3)] by blast
qed

theorem message_delete_updates_witness:
  "\<exists>t. message_delete demo_env alice hello_cid demo_empty = (Inr (), t) \<and>
    stores demo_env demo_cell dm_blocks t alice MESSAGE_PARTITION Map.empty"
  using message_delete_updates [OF demo.index_store_axioms empty_stored hello_entry_facts(1), of alice] demo_roomy.fits
  by (metis fun_upd_idem)

text \<open>
  The event log is such a map too: appending an event stores it with a watermark, a new ULID, among its index
  fields, and changes nothing outside the log of the owner.
\<close>

theorem event_append_updates:
  assumes "index_store E cell good view" and "stores E cell view s ow EVENTLOG_PARTITION evs"
    and "entry_cid E e = Inr c" and "wf_fields (e_indexes e)" and "event_append E ow e s = (Inr (), t)"
    and "\<And>s. view (snd (ulid_new E s)) = view s"
  shows "(\<exists>w. stores E cell view t ow EVENTLOG_PARTITION
      (evs(c \<mapsto> e\<lparr>e_indexes := hm_insert ''watermark'' w (e_indexes e)\<rparr>))) \<and>
    changes_only cell good view ow EVENTLOG_PARTITION s t"
  using index_store.event_append_refines [OF assms] by blast

theorem event_append_updates_witness:
  "\<exists>t w. event_append demo_env alice hello_entry demo_empty = (Inr (), t) \<and>
    stores demo_env demo_cell dm_blocks t alice EVENTLOG_PARTITION
      [hello_cid \<mapsto> hello_entry\<lparr>e_indexes := hm_insert ''watermark'' w (e_indexes hello_entry)\<rparr>]"
proof -
  obtain t where app: "event_append demo_env alice hello_entry demo_empty = (Inr (), t)"
    using demo_open.event_append_total [OF empty_stored] hello_entry_facts by blast
  with event_append_updates [OF demo.index_store_axioms empty_stored hello_entry_facts(1,2) app demo_node.ulid_view]
  show ?thesis by blast
qed



section \<open>Queries\<close>

text \<open>
  C15. A query over indexed fields is answered exactly: on a store that represents a map of messages, it returns each
  selected message once and no other, in the order of the sort field and then of the CIDs, forwards or backwards as
  the query asks, and changes nothing.
\<close>

theorem message_query_answers:
  assumes "index_store E cell good view" and "stores E cell view s ow MESSAGE_PARTITION msgs"
    and "query_is_concise q" and "q_pagination q = None"
    and "\<forall>ms\<in>set (q_match_sets q). \<forall>f v. mst_index ms = Some (f, v) \<longrightarrow> f \<noteq> ''message_cid''"
    and "answerable E (map_option e_indexes \<circ> msgs) q"
  shows "\<exists>cs. message_query E ow q s = (Inr (map (\<lambda>c. ser_entry (the (msgs c))) cs, None), s) \<and>
    distinct cs \<and> set cs = selected E q msgs \<and> in_order q msgs cs"
  using assms by (rule index_store.message_query_exact)

theorem message_query_answers_witness:
  "\<exists>t. message_put demo_env alice hello_entry demo_empty = (Inr (), t) \<and>
    message_query demo_env alice (existing_query hello_id) t = (Inr ([ser_entry hello_entry], None), t)"
proof -
  let ?q = "existing_query hello_id" and ?m = "[hello_cid \<mapsto> hello_entry]"
  obtain t where put: "message_put demo_env alice hello_entry demo_empty = (Inr (), t)" using demo_put by blast
  have st: "demo.stored t alice MESSAGE_PARTITION ?m"
    using demo.message_put_refines [OF empty_stored hello_entry_facts(1,2) put] by simp
  have q: "query_is_concise ?q" "q_pagination ?q = None" "\<forall>ms\<in>set (q_match_sets ?q). \<forall>f v. mst_index ms = Some (f, v) \<longrightarrow> f \<noteq> ''message_cid''"
    by (simp_all add: query_is_concise_def existing_query_sets hello_id_def id_by_nonempty)
  have "answerable demo_env (map_option e_indexes \<circ> ?m) ?q"
    by (rule timestamped_answerable [OF hello_entry_facts(5)]) (simp_all add: existing_query_sets total_matcher_def)
  from message_query_answers [OF demo.index_store_axioms st q this] obtain cs
    where run: "message_query demo_env alice ?q t = (Inr (map (\<lambda>c. ser_entry (the (?m c))) cs, None), t)"
      and cs: "distinct cs" "set cs = selected demo_env ?q ?m" by blast
  have "selected demo_env ?q ?m = {hello_cid}"
    using hello_entry_facts(3,4) by (auto simp: selected_def selects_existing)
  with cs have "cs = [hello_cid]" by (intro distinct_single) auto
  with run put show ?thesis by auto
qed




text \<open>
  A full scan returns only items of the index it scans that one of the query's match sets accepts; but an item
  is returned once for every match set that accepts it, since the loop over the match sets goes on after a match.
\<close>

theorem full_scan_sound:
  "(\<forall>r. full_items E mss limit rest ([], []) = Inr r \<longrightarrow> set r \<subseteq> set rest \<and> (\<forall>it\<in>set r. accepts E mss it)) \<and>
   (\<forall>it r. match_all E (mst_inner ms) it = Inr True \<longrightarrow> full_sets E (replicate n ms) it ([], []) = Inr r \<longrightarrow>
      fst r = replicate n it)"
  using full_items_sound [of E mss limit rest "[]" "[]"] full_sets_Inr [of E "replicate n ms" _ "[]" "[]"]
  by fastforce

theorem full_scan_sound_witness:
  "\<exists>ms. full_sets demo_env [\<lparr>mst_inner = [], mst_index = None\<rparr>, \<lparr>mst_inner = [], mst_index = None\<rparr>] (item_of ''a'' []) ([], [])
    = Inr ([item_of ''a'' [], item_of ''a'' []], ms)"
proof -
  let ?ms = "\<lparr>mst_inner = [], mst_index = None\<rparr> :: match_set" and ?it = "item_of ''a'' []"
  obtain r where r: "full_sets demo_env [?ms, ?ms] ?it ([], []) = Inr r" by simp
  moreover have "match_all demo_env (mst_inner ?ms) ?it = Inr True" by simp
  moreover have two: "replicate 2 ?ms = [?ms, ?ms]" by (simp add: numeral_2_eq_2)
  ultimately have "fst r = replicate 2 ?it"
    using full_scan_sound [THEN conjunct2, of demo_env ?ms 2] unfolding two by blast
  with r show ?thesis by (cases r) (simp add: numeral_2_eq_2)
qed

text \<open>
  C38. Rewriting an index is not atomic: the old block is deleted before the new one is encoded, so an index that
  has outgrown a block is lost. The put fails, and the index then reads as empty.
\<close>

theorem index_lost:
  assumes "index_store E cell good view" and "block_encode E (B_Index ix) = Inl e"
  shows "\<exists>f t. indexes_put E ow pa ix s = (Inl f, t) \<and> indexes_get E ow pa (ix_field ix) t = (Inr (index_new (ix_field ix)), t)"
proof -
  obtain c where c: "cid_value E (P_Text (ow @ ''-'' @ ix_field ix)) = Inr c" "good c"
    using index_store.text_cid [OF assms(1)] index_store.cid_good [OF assms(1)] by meson
  note bs = index_store.axioms(1) [OF assms(1), THEN partitioned_store.axioms(1)]
  from block_store.delete [OF bs c(2), of ow pa s] obtain t
    where "bs_delete E ow pa c s = (Inr (), t)" "view t = (view s)(cell ow pa c := None)" by blast
  with assms(2) c block_store.get [OF bs c(2), of ow pa t] show ?thesis
    by (auto simp: indexes_put_def indexes_get_def index_cid_def from_value_def sbind_def lift_def with_err_def sret_def sfail_def)
qed

text \<open>A provider on which no block fits: the contract of the store does not depend on the size of blocks.\<close>

lemma index_store_sized: "index_store E cell good view \<Longrightarrow> index_store (E\<lparr>dag_size := f\<rparr>) cell good view"
  by (simp add: index_store_def index_store_axioms_def partitioned_store_def partitioned_store_axioms_def
      block_store_def codec_def)

theorem index_lost_witness:
  "\<exists>f t. indexes_put (demo_env\<lparr>dag_size := \<lambda>_. MAX_BLOCK_SIZE + 1\<rparr>) alice ''MESSAGE'' (index_new ''recordId'') demo_empty = (Inl f, t) \<and>
    indexes_get (demo_env\<lparr>dag_size := \<lambda>_. MAX_BLOCK_SIZE + 1\<rparr>) alice ''MESSAGE'' ''recordId'' t = (Inr (index_new ''recordId''), t)"
proof -
  let ?E = "demo_env\<lparr>dag_size := \<lambda>_. MAX_BLOCK_SIZE + 1\<rparr>"
  have "block_encode ?E (B_Index (index_new ''recordId'')) = Inl ''block is too large''"
    by (simp add: block_encode_def demo_encode_def)
  from index_lost [OF index_store_sized [OF demo.index_store_axioms] this] show ?thesis by (simp add: index_new_def)
qed

end
