(* ===== verification/Access_Properties.thy ===== *)
theory Access_Properties
  imports Examples
begin

text \<open>
  Who may do what: the signatures an endpoint checks, what a grant permits and when a revocation ends it, what
  the action rules of a protocol admit, and how the handlers put these together.
\<close>

section \<open>Signatures\<close>

text \<open>
  C9. No handler runs on a message with a signature that does not verify, be it the author's, the owner's or that
  of a delegated grant: the endpoint then replies with an error and the store is as it was. When all signatures
  verify, the endpoint is the handler.
\<close>

theorem endpoint_authenticates:
  "(if \<forall>a. authzn = Some a \<longrightarrow> (\<forall>j\<in>signatures a. jws_verify E j = Inr ())
    then endpoint_handle E authzn handler s = handler s
    else \<exists>m. endpoint_handle E authzn handler s = (Inl (Err (Unauthorized m)), s))"
proof (cases "validate E authzn")
  case (Inl f)
  then obtain a e where "authzn = Some a" "auth_verify E a = Inl e" "f = (case e of Err e \<Rightarrow>
      Err (Unauthorized (''failed to authenticate: '' @ error_display e)) | _ \<Rightarrow> e)"
    by (auto simp: validate_def split: option.splits sum.splits failure.splits)
  moreover from this(2) obtain x where "e = Err x" using auth_verify_not_panic by blast
  moreover have "\<not> (\<forall>a. authzn = Some a \<longrightarrow> (\<forall>j\<in>signatures a. jws_verify E j = Inr ()))"
    using Inl validate_Inr [of E authzn "()"] by auto
  ultimately show ?thesis using Inl by (auto simp: endpoint_handle_def sfail_def)
next
  case (Inr u)
  then show ?thesis using validate_Inr [of E authzn u] by (simp add: endpoint_handle_def)
qed

theorem endpoint_authenticates_witness:
  "\<exists>m. endpoint_handle demo_env (Some (Authorization (Jws ''|||'' '''') None None None)) (sret (1::nat)) demo_empty =
    (Inl (Err (Unauthorized m)), demo_empty)"
  using endpoint_authenticates [of "Some (Authorization (Jws ''|||'' '''') None None None)" demo_env "sret (1::nat)" demo_empty]
  by (simp add: signatures_def)

section \<open>Grants\<close>

definition scope_covers :: "scope \<Rightarrow> write_msg \<Rightarrow> bool" where
  "scope_covers sc w \<longleftrightarrow> (\<exists>m p l. sc = Scope_Records m p l \<and> wd_protocol (w_descriptor w) = Some p \<and>
     (case l of None \<Rightarrow> True
      | Some (Scope_ContextId c) \<Rightarrow> (\<exists>x. w_context_id w = Some x \<and> starts_with x c)
      | Some (Scope_ProtocolPath pp) \<Rightarrow> wd_protocol_path (w_descriptor w) = Some pp))"

definition conditions_met :: "grant \<Rightarrow> write_msg \<Rightarrow> bool" where
  "conditions_met g w \<longleftrightarrow> (\<forall>c p. gd_conditions (g_data g) = Some c \<longrightarrow> cond_publication c = Some p \<longrightarrow>
     (p = Required \<longleftrightarrow> wd_published (w_descriptor w) = Some True))"

text \<open>The grant is between these parties, for this kind of message, and the message is dated in its lifetime.\<close>

definition grant_applies :: "grant \<Rightarrow> string \<Rightarrow> string \<Rightarrow> descriptor \<Rightarrow> bool" where
  "grant_applies g grantor grantee d \<longleftrightarrow> grantor = g_grantor g \<and> grantee = g_grantee g \<and>
     base_interface d = scope_interface (gd_scope (g_data g)) \<and> base_method d = scope_method (gd_scope (g_data g)) \<and>
     g_date_granted g \<le> base_timestamp d \<and> base_timestamp d < gd_date_expires (g_data g)"

text \<open>The stored revocations of a grant.\<close>

definition revokes :: "string \<Rightarrow> entry \<Rightarrow> bool" where
  "revokes gid e \<longleftrightarrow> list_all (\<lambda>(f, v). has_field (e_indexes e) f v)
     [(''method'', ''Write''), (''initial'', ''false''), (''interface'', ''Records''),
      (''protocolPath'', REVOCATION_PATH), (''parentId'', gid)]"

lemma revocations_sets:
  "q_match_sets (revocations_of gid) =
     [\<lparr>mst_inner = map (\<lambda>(f, v). match_eq f v) [(''method'', ''Write''), (''initial'', ''false''), (''interface'', ''Records''),
        (''protocolPath'', REVOCATION_PATH), (''parentId'', gid)], mst_index = Some (''protocolPath'', REVOCATION_PATH)\<rparr>]"
  "q_sort (revocations_of gid) = TimestampAsc" "q_pagination (revocations_of gid) = None"
  by (simp_all add: revocations_of_def records_query_build_def add_filter_def records_query_builder_new_def
      builder_match_set_def match_set_from_def opt_match_def records_filter_new_def filter_is_concise_def
      filter_as_concise_def Let_def bool_str_def)

lemma selects_revocation: "selects E (revocations_of gid) c (e_indexes e) \<longleftrightarrow> revokes gid e"
  unfolding revokes_def by (rule selects_equal [OF revocations_sets(1)]) auto

lemma verify_scope_iff: "verify_scope g w = Inr () \<longleftrightarrow> scope_covers (gd_scope (g_data g)) w"
  by (auto simp: verify_scope_def scope_covers_def monad_simps split: scope.splits option.splits records_scope.splits)

lemma verify_conditions_iff: "verify_conditions g w = Inr () \<longleftrightarrow> conditions_met g w"
  by (auto simp: verify_conditions_def conditions_met_def monad_simps split: option.splits publication.splits)

context index_store
begin

text \<open>The revocations the store holds are the ones the check finds.\<close>

lemma revocations_found:
  assumes st: "stored s grantor MESSAGE_PARTITION msgs" and ts: "timestamped n msgs"
  shows "\<exists>cs. MessageStore_query E grantor (revocations_of gid) s = (Inr (map (\<lambda>c. ser_entry (the (msgs c))) cs, None), s) \<and>
     set cs = {c. \<exists>e. msgs c = Some e \<and> revokes gid e}"
proof -
  from query_by_field [OF st ts revocations_sets(1) [of gid], of "''protocolPath''" REVOCATION_PATH] revocations_sets(2,3) [of gid]
  obtain cs where "message_query E grantor (revocations_of gid) s = (Inr (map (\<lambda>c. ser_entry (the (msgs c))) cs, None), s)"
    "set cs = selected E (revocations_of gid) msgs"
    by (auto simp: total_matcher_def REVOCATION_PATH_def)
  then show ?thesis by (auto simp: via_provider_run selected_def selects_revocation)
qed

lemma is_current_unrevoked:
  assumes "stored s grantor MESSAGE_PARTITION msgs" and "timestamped n msgs"
    and "\<forall>c e. msgs c = Some e \<longrightarrow> \<not> revokes (g_id g) e"
  shows "is_current E g grantor time s = (Inr (), s) \<longleftrightarrow> g_date_granted g \<le> time \<and> time < gd_date_expires (g_data g)"
proof -
  have "{c. \<exists>e. msgs c = Some e \<and> revokes (g_id g) e} = {}" using assms(3) by auto
  with revocations_found [OF assms(1,2), of "g_id g"]
  have "MessageStore_query E grantor (revocations_of (g_id g)) s = (Inr ([], None), s)" by auto
  then show ?thesis
    by (auto simp: is_current_def rguard_def sfail_def lift_def sret_def sbind_def)
qed

lemma is_current_revoked:
  assumes "stored s grantor MESSAGE_PARTITION msgs" and "timestamped n msgs"
    and "msgs c = Some e" and "revokes (g_id g) e"
    and "\<forall>c e. msgs c = Some e \<longrightarrow> revokes (g_id g) e \<longrightarrow> base_timestamp (entry_descriptor (ser_entry e)) < time"
  shows "\<exists>m. is_current E g grantor time s = (Inl (Err (Forbidden m)), s)"
proof -
  from revocations_found [OF assms(1,2), of "g_id g"] obtain cs
    where run: "MessageStore_query E grantor (revocations_of (g_id g)) s = (Inr (map (\<lambda>c. ser_entry (the (msgs c))) cs, None), s)"
      and cs: "set cs = {c. \<exists>e. msgs c = Some e \<and> revokes (g_id g) e}" by blast
  from cs assms(3,4) have "cs \<noteq> []" by force
  then obtain c' cs' where c': "cs = c' # cs'" by (cases cs) auto
  with cs have "c' \<in> {c. \<exists>e. msgs c = Some e \<and> revokes (g_id g) e}" by auto
  with assms(5) have "base_timestamp (entry_descriptor (ser_entry (the (msgs c')))) < time" by auto
  with run c' show ?thesis
    by (auto simp: is_current_def rguard_def sfail_def lift_def sret_def sbind_def)
qed

end

text \<open>
  C28. A grant permits a write exactly when it is between these parties and for records writes, the message is dated
  from the day of the grant to before it expires, the record is of the scope's protocol and within the context or at the path
  the scope is limited to, and it is published or not as the grant's conditions ask, provided the grantor's store
  holds no revocation of it.
\<close>

theorem grant_permits_write:
  assumes "index_store E cell good view" and "stores E cell view s grantor MESSAGE_PARTITION msgs" and "timestamped n msgs"
    and "\<forall>c e. msgs c = Some e \<longrightarrow> \<not> revokes (g_id g) e"
  shows "grant_permit_write E g grantor grantee w s = (Inr (), s) \<longleftrightarrow>
    grant_applies g grantor grantee (wd_base (w_descriptor w)) \<and> scope_covers (gd_scope (g_data g)) w \<and> conditions_met g w"
proof -
  note current = index_store.is_current_unrevoked [OF assms(1-4)]
  note scope = verify_scope_iff [of g w] and conditions = verify_conditions_iff [of g w]
  show ?thesis
    by (auto simp: grant_permit_write_def grant_verify_def grant_applies_def sbind_Inr_iff lift_eq_iff rguard_Inr_iff
        current scope conditions)
qed

definition hello_grant :: grant where
  "hello_grant = \<lparr>g_id = ''grant'', g_grantor = alice, g_grantee = ''bob'', g_date_granted = 1000,
     g_data = \<lparr>gd_description = None, gd_request_id = None, gd_date_expires = 9000, gd_delegated = None,
       gd_scope = Scope_Records M_Write ''https://chat'' None, gd_conditions = None\<rparr>\<rparr>"

definition chat_write :: write_msg where
  "chat_write = hello_write\<lparr>w_descriptor := (w_descriptor hello_write)\<lparr>wd_protocol := Some ''https://chat''\<rparr>\<rparr>"

theorem grant_permits_write_witness:
  "grant_permit_write demo_env hello_grant alice ''bob'' chat_write demo_empty = (Inr (), demo_empty)"
proof -
  have "timestamped 20 Map.empty" by (simp add: timestamped_def)
  from grant_permits_write [OF demo.index_store_axioms empty_stored this, of hello_grant alice "''bob''" chat_write]
  show ?thesis
    by (simp add: grant_applies_def scope_covers_def conditions_met_def hello_grant_def chat_write_def hello_defs)
qed

text \<open>
  C29. A revocation ends a grant: once the grantor's store holds a revocation, no message dated after the stored
  revocations of the grant passes, whatever the grant allows.
\<close>

theorem revoked_grant_refused:
  assumes "index_store E cell good view" and "stores E cell view s grantor MESSAGE_PARTITION msgs" and "timestamped n msgs"
    and "msgs c = Some e" and "revokes (g_id g) e"
    and "\<forall>c e. msgs c = Some e \<longrightarrow> revokes (g_id g) e \<longrightarrow> base_timestamp (entry_descriptor (ser_entry e)) < base_timestamp d"
  shows "\<exists>m. grant_verify E g grantor grantee d s = (Inl (Err (Forbidden m)), s)"
  using index_store.is_current_revoked [OF assms]
  by (auto simp: grant_verify_def rguard_def sfail_def lift_def sret_def sbind_def)

text \<open>A revocation of the grant, stored for \<open>alice\<close>.\<close>

definition revocation_entry :: entry where
  "revocation_entry = write_entry demo_env 202 (hello_write\<lparr>w_descriptor := (w_descriptor hello_write)
     \<lparr>wd_protocol_path := Some REVOCATION_PATH, wd_parent_id := Some ''grant''\<rparr>\<rparr>)"

lemma revocation_fields:
  "map_of (write_indexes E w) ''protocolPath'' = wd_protocol_path (w_descriptor w)"
  "map_of (write_indexes E w) ''parentId'' = wd_parent_id (w_descriptor w)"
  by (simp_all add: write_field_simps)

lemma revocation_facts:
  "entry_cid demo_env revocation_entry = Inr hello_cid" "wf_fields (e_indexes revocation_entry)"
  "timestamped 20 [hello_cid \<mapsto> revocation_entry]" "revokes ''grant'' revocation_entry"
  "base_timestamp (entry_descriptor (ser_entry revocation_entry)) = 5000"
  by (simp_all add: revocation_entry_def write_entry_def write_entry_fields entry_cid_def wf_fields_insert
      wf_write_indexes has_field_def write_indexes_fields timestamped_def revokes_def revocation_fields write_cid_def
      from_value_def hello_cid_def ser_entry_def entry_descriptor_def bool_str_def)
    (simp_all add: hello_defs demo_micros_def timestamp_micros_def decimal.simps [of 5] ser_write_def
      ser_write_descriptor_def ser_base_def rfc3339_micros_def)

theorem revoked_grant_refused_witness:
  "\<exists>t m. message_put demo_env alice revocation_entry demo_empty = (Inr (), t) \<and>
    grant_verify demo_env hello_grant alice ''bob'' \<lparr>base_interface = I_Records, base_method = M_Write, base_timestamp = 6000\<rparr> t =
      (Inl (Err (Forbidden m)), t)"
proof -
  obtain t where put: "message_put demo_env alice revocation_entry demo_empty = (Inr (), t)"
    using demo_roomy.message_put_total [OF empty_stored revocation_facts(1,2)] by blast
  have st: "demo.stored t alice MESSAGE_PARTITION [hello_cid \<mapsto> revocation_entry]"
    using demo.message_put_refines [OF empty_stored revocation_facts(1,2) put] by simp
  have "g_id hello_grant = ''grant''" by (simp add: hello_grant_def)
  with revoked_grant_refused [OF demo.index_store_axioms st revocation_facts(3), of hello_cid revocation_entry hello_grant
      "\<lparr>base_interface = I_Records, base_method = M_Write, base_timestamp = 6000\<rparr>" "''bob''"] revocation_facts(4,5) put
  show ?thesis by auto
qed

section \<open>Protocol rules\<close>

text \<open>The ways an action rule admits the author of a message.\<close>

definition rule_admits :: "('s, 'b) env \<Rightarrow> record_msg \<Rightarrow> string \<Rightarrow> string option \<Rightarrow> write_msg list \<Rightarrow> action_rule \<Rightarrow> bool" where
  "rule_admits E r author role chain rule \<longleftrightarrow>
     ar_who rule = Some Anyone \<or>
     role \<noteq> None \<and> ar_role rule = role \<or>
     role = None \<and> ar_who rule = Some Recipient \<and> ar_of rule = None \<and>
       wd_recipient (w_descriptor (case r of R_Write w \<Rightarrow> w | _ \<Rightarrow> last chain)) = Some author \<or>
     role = None \<and> (\<exists>w\<in>set chain. wd_protocol_path (w_descriptor w) = ar_of rule \<and>
       (if ar_who rule = Some Recipient then wd_recipient (w_descriptor w) = Some author
        else auth_author E (w_authorization w) = Inr author))"

lemma permit_actor_True:
  "permit_actor E author rule chain = Inr True \<Longrightarrow> \<exists>w\<in>set chain. wd_protocol_path (w_descriptor w) = ar_of rule \<and>
     (if ar_who rule = Some Recipient then wd_recipient (w_descriptor w) = Some author
      else auth_author E (w_authorization w) = Inr author)"
  by (auto simp: permit_actor_def monad_simps find_Some_iff split: option.splits if_splits)

lemma check_rules_sound:
  "check_rules E r author role acts chain rules = Inr () \<Longrightarrow>
    \<exists>rule\<in>set rules. set (ar_can rule) \<inter> set acts \<noteq> {} \<and> rule_admits E r author role chain rule"
proof (induction rules)
  case (Cons rule rules)
  show ?case
  proof (cases "rule_admits E r author role chain rule \<and> set (ar_can rule) \<inter> set acts \<noteq> {}")
    case False
    have "check_rules E r author role acts chain rules = Inr ()"
      using Cons.prems False
      by (auto simp: rule_admits_def monad_simps list_ex_iff disjoint_iff split: if_splits record_msg.splits
          dest: permit_actor_True)
    with Cons.IH show ?thesis by auto
  qed auto
qed simp

section \<open>Ancestors\<close>

text \<open>The records from one record up to its root.\<close>

fun lineage :: "('s, 'b) env \<Rightarrow> string \<Rightarrow> 's \<Rightarrow> string option \<Rightarrow> write_msg list \<Rightarrow> bool" where
  "lineage E ow s None ws \<longleftrightarrow> ws = []"
| "lineage E ow s (Some rid) [] \<longleftrightarrow> False"
| "lineage E ow s (Some rid) (w # ws) \<longleftrightarrow>
     initial_write E ow rid s = (Inr (Some w), s) \<and> lineage E ow s (wd_parent_id (w_descriptor w)) ws"

lemma lineage_Some: "lineage E ow s (Some r) ws \<longleftrightarrow> (\<exists>w ws'. ws = w # ws' \<and> initial_write E ow r s = (Inr (Some w), s) \<and>
    lineage E ow s (wd_parent_id (w_descriptor w)) ws')"
  by (cases ws) auto

lemma sbind_ro: "reads_only m \<Longrightarrow> sbind m k s = (Inr b, t) \<longleftrightarrow> (\<exists>a. m s = (Inr a, s) \<and> k a s = (Inr b, t))"
  by (auto simp: sbind_Inr_iff dest: reads_only_state)

context pure_reads
begin

lemma ancestor_walk_lineage:
  "ancestor_walk E n ow rid acc s = (Inr chain, s) \<longleftrightarrow>
    (\<exists>ws. chain = rev (acc @ ws) \<and> length ws \<le> n \<and> lineage E ow s rid ws)"
proof (induction n arbitrary: rid acc)
  case 0
  show ?case by (cases rid) (auto simp: sret_def sfail_def)
next
  case (Suc n)
  show ?case
  proof (cases rid)
    case (Some r)
    have "ancestor_walk E (Suc n) ow (Some r) acc s = (Inr chain, s) \<longleftrightarrow> (\<exists>w. initial_write E ow r s = (Inr (Some w), s) \<and>
        ancestor_walk E n ow (wd_parent_id (w_descriptor w)) (acc @ [w]) s = (Inr chain, s))"
      by (simp add: sbind_ro initial_write_ro reads_only_lift lift_eq_iff some_or_Inr_iff) blast
    also have "\<dots> \<longleftrightarrow> (\<exists>w ws. initial_write E ow r s = (Inr (Some w), s) \<and> chain = rev (acc @ w # ws) \<and>
        length (w # ws) \<le> Suc n \<and> lineage E ow s (wd_parent_id (w_descriptor w)) ws)"
      by (simp add: Suc.IH)
    also have "\<dots> \<longleftrightarrow> (\<exists>ws. chain = rev (acc @ ws) \<and> length ws \<le> Suc n \<and> lineage E ow s (Some r) ws)"
      unfolding lineage_Some by blast
    finally show ?thesis using Some by simp
  qed (auto simp: sret_def)
qed

end

text \<open>
  C30. The chain of ancestors is the lineage of the record: the walk returns a chain exactly when the records, from the
  given one up to one without a parent, are all there, and the chain lists their initial writes, the root first. Fuel
  for as many records as the lineage has is enough, and more of it changes nothing.
\<close>

theorem ancestor_walk_exact:
  assumes "pure_reads E"
  shows "ancestor_walk E n ow (Some rid) [] s = (Inr chain, s) \<longleftrightarrow>
    length chain \<le> n \<and> lineage E ow s (Some rid) (rev chain)"
  using pure_reads.ancestor_walk_lineage [OF assms, of n ow "Some rid" "[]" s chain]
  by (metis append_Nil length_rev rev_rev_ident)

theorem ancestor_walk_exact_witness:
  "\<exists>t. message_put demo_env alice hello_entry demo_empty = (Inr (), t) \<and>
    ancestor_walk demo_env 1 alice (Some hello_id) [] t = (Inr [ser_write hello_saved], t)"
proof -
  obtain t where t: "message_put demo_env alice hello_entry demo_empty = (Inr (), t)"
    "initial_write demo_env alice hello_id t = (Inr (Some (ser_write hello_saved)), t)" using hello_stored by blast
  have "wd_parent_id (w_descriptor (ser_write hello_saved)) = None"
    by (simp add: hello_saved_def hello_defs ser_write_def ser_write_descriptor_def)
  with t(2) have "lineage demo_env alice t (Some hello_id) (rev [ser_write hello_saved])" by simp
  with ancestor_walk_exact [OF demo_reads.pure_reads_axioms, of 1 alice hello_id t "[ser_write hello_saved]"] t(1)
  show ?thesis by auto
qed

section \<open>What the authorizer permits\<close>

text \<open>The chain of ancestors against which the rules are checked.\<close>

definition chain_of :: "('s, 'b) env \<Rightarrow> string \<Rightarrow> 's \<Rightarrow> record_msg \<Rightarrow> write_msg list \<Rightarrow> bool" where
  "chain_of E ow s r chain \<longleftrightarrow>
     (case r of
        R_Write w \<Rightarrow> lineage E ow s (if is_initial E w = Inr True then wd_parent_id (w_descriptor w) else Some (w_record_id w)) (rev chain)
      | R_Delete d \<Rightarrow> lineage E ow s (Some (del_record_id (del_descriptor d))) (rev chain)
      | _ \<Rightarrow> chain = [])"

text \<open>A role of the protocol that a record in the store gives to the author.\<close>

definition has_role :: "('s, 'b) env \<Rightarrow> authorizer \<Rightarrow> string \<Rightarrow> 's \<Rightarrow> string \<Rightarrow> string \<Rightarrow> bool" where
  "has_role E az ow s author role \<longleftrightarrow>
     (\<exists>d rs f e es cur. protocol_definition E ow (az_protocol az) s = (Inr d, s) \<and>
        rule_set_at role (def_structure d) = Some rs \<and> rs_role rs = Some True \<and> role_filter az role author = Inr f \<and>
        MessageStore_query E ow (records_query_build (add_filter f records_query_builder_new)) s = (Inr (e # es, cur), s))"

context pure_reads
begin

lemma record_rule_set_ro [reads_only_intros]: "reads_only (record_rule_set E ow r)"
  unfolding record_rule_set_def by (intro reads_only_intros)

lemma permitted_actions_ro [reads_only_intros]: "reads_only (permitted_actions E ow r)"
  unfolding permitted_actions_def by (intro reads_only_intros)

lemma ancestor_chain_ro [reads_only_intros]: "reads_only (ancestor_chain E ow rid)"
  unfolding ancestor_chain_def by (intro reads_only_intros)

lemmas parts_ro = reads_only_lift reads_only_sret message_query_ro protocol_definition_ro initial_write_ro record_rule_set_ro
  permitted_actions_ro ancestor_chain_ro

lemma ancestor_chain_lineage: "ancestor_chain E ow rid s = (Inr chain, s) \<Longrightarrow> lineage E ow s (Some rid) (rev chain)"
  using ancestor_walk_lineage [of "walk_fuel E" ow "Some rid" "[]" s chain] by (auto simp: ancestor_chain_def)

lemma permit_role_ro [reads_only_intros]: "reads_only (permit_role E az ow r)"
  unfolding permit_role_def by (intro reads_only_intros)

lemma permit_role_sound:
  assumes "permit_role E az ow r s = (Inr (), t)" and "record_authorization r = Some a" and "auth_author E a = Inr author"
    and "auth_payload E a = Inr payload" and "jp_protocol_role payload = Some role"
  shows "has_role E az ow s author role"
proof -
  note m = reads_only_via_provider [OF message_query_ro]
  from assms obtain d rs f es cur where "protocol_definition E ow (az_protocol az) s = (Inr d, s)"
    "rule_set_at role (def_structure d) = Some rs" "rs_role rs = Some True" "role_filter az role author = Inr f"
    "MessageStore_query E ow (records_query_build (add_filter f records_query_builder_new)) s = (Inr (es, cur), s)" "es \<noteq> []"
    by (auto simp: permit_role_def sbind_ro parts_ro m lift_eq_iff some_or_Inr_iff rguard_Inr_iff)
  then show ?thesis by (cases es) (auto simp: has_role_def)
qed

lemma permit_action_sound:
  assumes "permit_action E az ow r s = (Inr (), t)"
  obtains a author payload rs rules acts chain rule where "record_authorization r = Some a" "auth_author E a = Inr author"
    "auth_payload E a = Inr payload" "record_rule_set E ow (case az_initial_write az of None \<Rightarrow> r | Some w \<Rightarrow> R_Write w) s = (Inr rs, s)"
    "rs_actions rs = Some rules" "rule \<in> set rules" "permitted_actions E ow r s = (Inr acts, s)" "chain_of E ow s r chain"
    "set (ar_can rule) \<inter> set acts \<noteq> {}" "rule_admits E r author (jp_protocol_role payload) chain rule"
proof -
  let ?rule_set = "record_rule_set E ow (case az_initial_write az of None \<Rightarrow> r | Some w \<Rightarrow> R_Write w)"
  let ?chain = "case r of R_Write w \<Rightarrow> sbind (lift (is_initial E w)) (\<lambda>init. if \<not> init then ancestor_chain E ow (w_record_id w)
      else (case wd_parent_id (w_descriptor w) of Some parent \<Rightarrow> ancestor_chain E ow parent | None \<Rightarrow> sret []))
    | R_Delete d \<Rightarrow> ancestor_chain E ow (del_record_id (del_descriptor d)) | _ \<Rightarrow> sret []"
  have eq: "(case az_initial_write az of Some w \<Rightarrow> record_rule_set E ow (R_Write w) | None \<Rightarrow> record_rule_set E ow r) = ?rule_set"
    by (simp split: option.splits)
  have ro: "reads_only ?chain" by (intro reads_only_intros)
  from assms obtain rs chain a author payload acts rules
    where *: "?rule_set s = (Inr rs, s)" "?chain s = (Inr chain, s)" "record_authorization r = Some a"
      "auth_author E a = Inr author" "auth_payload E a = Inr payload" "permitted_actions E ow r s = (Inr acts, s)"
      "rs_actions rs = Some rules" "check_rules E r author (jp_protocol_role payload) acts chain rules = Inr ()"
    unfolding permit_action_def eq by (auto simp: sbind_ro parts_ro ro lift_eq_iff some_or_Inr_iff)
  have "chain_of E ow s r chain"
    using *(2) ancestor_chain_lineage
    by (auto simp: chain_of_def sbind_ro reads_only_lift lift_eq_iff sret_def split: record_msg.splits if_splits option.splits)
  with * check_rules_sound [OF *(8)] that show thesis by blast
qed

end

text \<open>
  C10. What the authorizer permits a rule of the protocol admits: the protocol is installed and has a rule set at the
  record's path, one of its action rules is about an action this message takes (an update of somebody else's record is a
  \<open>co-update\<close>, and so on), and that rule admits anyone, the role the author invokes, the recipient, or the
  author or recipient of an ancestor. A role that is invoked is a role of the protocol, and the store has a record
  that gives it to the author. Nothing is changed by the check.
\<close>

theorem permit_sound:
  assumes "pure_reads E" and "permit E az ow r s = (Inr (), t)"
  shows "t = s \<and> (\<exists>a author payload rs rules acts chain rule. record_authorization r = Some a \<and> auth_author E a = Inr author \<and>
    auth_payload E a = Inr payload \<and>
    record_rule_set E ow (case az_initial_write az of None \<Rightarrow> r | Some w \<Rightarrow> R_Write w) s = (Inr rs, s) \<and>
    rs_actions rs = Some rules \<and> rule \<in> set rules \<and> permitted_actions E ow r s = (Inr acts, s) \<and> chain_of E ow s r chain \<and>
    set (ar_can rule) \<inter> set acts \<noteq> {} \<and> rule_admits E r author (jp_protocol_role payload) chain rule \<and>
    (\<forall>role. jp_protocol_role payload = Some role \<longrightarrow> has_role E az ow s author role))"
proof -
  have t: "t = s" using pure_reads.permit_ro [OF assms(1)] assms(2) by (rule reads_only_state)
  from assms(2) obtain u where "permit_role E az ow r s = (Inr (), u)" "permit_action E az ow r u = (Inr (), t)"
    by (auto simp: permit_def sbind_Inr_iff)
  moreover from this(1) pure_reads.permit_role_ro [OF assms(1)] have "u = s" by (metis reads_only_state)
  ultimately have role: "permit_role E az ow r s = (Inr (), s)" and act: "permit_action E az ow r s = (Inr (), t)" by simp_all
  show ?thesis
    using pure_reads.permit_action_sound [OF assms(1) act] pure_reads.permit_role_sound [OF assms(1) role] t by metis
qed

text \<open>A request for a permission, which anyone may make.\<close>

definition request_write :: write_msg where
  "request_write = write_by ''bob'' (hello_descriptor\<lparr>wd_protocol := Some PROTOCOL_URI, wd_protocol_path := Some ''request''\<rparr>)"

lemma payload_by: "auth_payload demo_env (w_authorization (write_by author d)) = Inr
    \<lparr>jp_descriptor_cid = ''o'', jp_permission_grant_id = None, jp_delegated_grant_id = None, jp_protocol_role = None\<rparr>"
  using split_on_append [OF id_by_bar, of author "''||''"]
  by (simp add: auth_payload_def write_by_def demo_payload_def non_empty_def)

lemma uri_clean_permissions: "uri_clean demo_env PROTOCOL_URI = Inr PROTOCOL_URI"
  by code_simp

lemma request_rule_set: "rule_set_at ''request'' (def_structure DEFINITION) =
    Some (default_rule_set [\<lparr>ar_who = Some Anyone, ar_role = None, ar_of = None, ar_can = [A_Create]\<rparr>] [])"
  by (simp add: rule_set_at.simps [of "''request''"] DEFINITION_def Let_def)

lemma request_permitted: "permit demo_env (authorizer_new PROTOCOL_URI) alice (R_Write request_write) s = (Inr (), s)"
proof -
  have init: "is_initial demo_env request_write = Inr True" by (simp add: request_write_def initial_by hello_descriptor_def)
  have au: "auth_author demo_env (w_authorization request_write) = Inr ''bob''" by (simp add: request_write_def write_by_def auth_author_def)
  have "wd_protocol (w_descriptor request_write) = Some PROTOCOL_URI" "wd_protocol_path (w_descriptor request_write) = Some ''request''"
    "wd_parent_id (w_descriptor request_write) = None"
    by (simp_all add: request_write_def hello_defs)
  then show ?thesis
    using init au payload_by [of "''bob''" "hello_descriptor\<lparr>wd_protocol := Some PROTOCOL_URI, wd_protocol_path := Some ''request''\<rparr>"]
    by (simp add: permit_def permit_role_def permit_action_def request_write_def [symmetric] record_rule_set_def record_protocol_def
        protocol_definition_def uri_clean_permissions request_rule_set default_rule_set_def authorizer_new_def
        permitted_actions_def sret_def lift_def sbind_def)
qed

theorem permit_sound_witness:
  "\<exists>author payload rs rules rule. auth_author demo_env (w_authorization request_write) = Inr author \<and>
    auth_payload demo_env (w_authorization request_write) = Inr payload \<and>
    record_rule_set demo_env alice (R_Write request_write) demo_empty = (Inr rs, demo_empty) \<and>
    rs_actions rs = Some rules \<and> rule \<in> set rules \<and>
    (\<exists>chain. rule_admits demo_env (R_Write request_write) author (jp_protocol_role payload) chain rule)"
proof -
  show ?thesis
    using permit_sound [OF demo_reads.pure_reads_axioms request_permitted [of demo_empty]] by (auto simp: authorizer_new_def)
qed

end
