(* ===== verification/Request_Properties.thy ===== *)
theory Request_Properties
  imports Access_Properties Record_Delete Protocol_Handlers Message_Handlers
begin

text \<open>
  What requests may see and change: who is allowed to write, read, query, subscribe and configure, and that
  the handlers of reading requests change nothing.
\<close>

lemma ex_unit: "(\<exists>u :: unit. P u) \<longleftrightarrow> P ()"
  by (metis unit.exhaust)

section \<open>Writing\<close>

context pure_reads
begin

lemma grants_ro: "reads_only (grant_permit_write E g a b w)" "reads_only (fetch_grant E ow gid)"
  by (intro reads_only_intros)+

end

text \<open>
  C13. A write is authorized only when the record's owner, if it names one, is the owner of the node, every delegated
  grant it carries permits it to the delegate, and the owner has signed it, or its author is the owner of the
  node, or a grant stored by the owner permits it to the author, or the record's protocol permits it.
\<close>

theorem write_authorize_sound:
  assumes "pure_reads E" and "write_authorize E ow w s = (Inr (), t)"
  shows "t = s \<and> (\<exists>record_owner author. auth_owner E (w_authorization w) = Inr record_owner \<and> auth_author E (w_authorization w) = Inr author \<and>
    (record_owner = None \<or> record_owner = Some ow) \<and>
    (\<forall>dg. author_delegated_grant (w_authorization w) = Some dg \<longrightarrow> (\<exists>g signer. to_grant E dg = Inr g \<and>
       auth_signer E (w_authorization w) = Inr signer \<and> grant_permit_write E g author signer w s = (Inr (), s))) \<and>
    (\<forall>dg. owner_delegated_grant (w_authorization w) = Some dg \<longrightarrow> record_owner = Some ow \<and> (\<exists>g signer. to_grant E dg = Inr g \<and>
       auth_owner_signer E (w_authorization w) = Inr signer \<and> grant_permit_write E g ow signer w s = (Inr (), s))) \<and>
    (record_owner = Some ow \<or> author = ow \<or>
     (\<exists>payload gid g. decode_signature_payload E (internal ''base64ct'') (internal ''serde_json'') (w_authorization w) = Inr payload \<and>
       jp_permission_grant_id (sp_base payload) = Some gid \<and> fetch_grant E ow gid s = (Inr g, s) \<and>
       grant_permit_write E g ow author w s = (Inr (), s)) \<or>
     (\<exists>protocol. wd_protocol (w_descriptor w) = Some protocol \<and>
       permit E ((authorizer_new protocol)\<lparr>az_context_id := w_context_id w\<rparr>) ow (R_Write w) s = (Inr (), s))))"
proof -
  have t: "t = s" using pure_reads.write_authorize_ro [OF assms(1)] assms(2) by (rule reads_only_state)
  note ro = reads_only_lift reads_only_sret pure_reads.grants_ro [OF assms(1)]
  let ?a = "w_authorization w"
  let ?author_grant = "\<lambda>author. case author_delegated_grant ?a of None \<Rightarrow> sret ()
    | Some dg \<Rightarrow> sbind (lift (auth_signer E ?a)) (\<lambda>signer. sbind (lift (to_grant E dg)) (\<lambda>g. grant_permit_write E g author signer w))"
  let ?owner_grant = "\<lambda>record_owner. case owner_delegated_grant ?a of None \<Rightarrow> sret ()
    | Some dg \<Rightarrow> sbind (lift (some_or record_owner (Forbidden ''owner is required to authorize owner delegate''))) (\<lambda>ro.
        sbind (lift (auth_owner_signer E ?a)) (\<lambda>signer. sbind (lift (to_grant E dg)) (\<lambda>g. grant_permit_write E g ro signer w)))"
  have parts: "reads_only (?author_grant author)" "reads_only (?owner_grant o')" for author o'
    by (intro reads_only_intros ro)+
  let ?last = "\<lambda>record_owner author. if record_owner \<noteq> None then sret () else if author = ow then sret () else
    sbind (lift (decode_signature_payload E (internal ''base64ct'') (internal ''serde_json'') ?a)) (\<lambda>payload.
      case jp_permission_grant_id (sp_base payload) of
        Some gid \<Rightarrow> sbind (fetch_grant E ow gid) (\<lambda>g. grant_permit_write E g ow author w)
      | None \<Rightarrow> (case wd_protocol (w_descriptor w) of
           Some protocol \<Rightarrow> permit E ((authorizer_new protocol)\<lparr>az_context_id := w_context_id w\<rparr>) ow (R_Write w)
         | None \<Rightarrow> sfail (Err (Forbidden ''message failed authorization''))))"
  from assms(2) have "\<exists>record_owner author. auth_owner E ?a = Inr record_owner \<and>
      \<not> (record_owner \<noteq> None \<and> record_owner \<noteq> Some ow) \<and> auth_author E ?a = Inr author \<and>
      ?author_grant author s = (Inr (), s) \<and> ?owner_grant record_owner s = (Inr (), s) \<and> ?last record_owner author s = (Inr (), s)"
    unfolding write_authorize_def Let_def t
    by (simp only: sbind_ro parts reads_only_lift lift_eq_iff rguard_Inr_iff ex_unit) (elim exE conjE, intro exI conjI)
  then obtain record_owner author where
    o: "auth_owner E ?a = Inr record_owner" "auth_author E ?a = Inr author" "record_owner = None \<or> record_owner = Some ow"
    and ag: "?author_grant author s = (Inr (), s)" and og: "?owner_grant record_owner s = (Inr (), s)"
    and rest: "?last record_owner author s = (Inr (), s)" by (elim exE conjE) (erule that, assumption, blast, assumption+)
  have "author_delegated_grant ?a = Some dg \<Longrightarrow> \<exists>g signer. to_grant E dg = Inr g \<and> auth_signer E ?a = Inr signer \<and>
      grant_permit_write E g author signer w s = (Inr (), s)" for dg
    using ag by (auto simp: sbind_ro ro lift_eq_iff)
  moreover have "owner_delegated_grant ?a = Some dg \<Longrightarrow> record_owner = Some ow \<and> (\<exists>g signer. to_grant E dg = Inr g \<and>
      auth_owner_signer E ?a = Inr signer \<and> grant_permit_write E g ow signer w s = (Inr (), s))" for dg
    using og o(3) by (auto simp: sbind_ro ro lift_eq_iff some_or_Inr_iff)
  moreover have "record_owner = Some ow \<or> author = ow \<or>
     (\<exists>payload gid g. decode_signature_payload E (internal ''base64ct'') (internal ''serde_json'') (w_authorization w) = Inr payload \<and>
       jp_permission_grant_id (sp_base payload) = Some gid \<and> fetch_grant E ow gid s = (Inr g, s) \<and>
       grant_permit_write E g ow author w s = (Inr (), s)) \<or>
     (\<exists>protocol. wd_protocol (w_descriptor w) = Some protocol \<and>
       permit E ((authorizer_new protocol)\<lparr>az_context_id := w_context_id w\<rparr>) ow (R_Write w) s = (Inr (), s))"
    using rest o(3) by (auto simp: sbind_ro ro lift_eq_iff sfail_def split: option.splits if_splits; blast)
  ultimately show ?thesis using o t by blast
qed

theorem write_authorize_sound_witness:
  "\<exists>record_owner. auth_owner demo_env (w_authorization hello_write) = Inr record_owner \<and>
    (record_owner = None \<or> record_owner = Some alice)"
proof -
  have "write_authorize demo_env alice hello_write demo_empty = (Inr (), demo_empty)"
    by (simp add: write_authorize_def hello_defs auth_owner_def auth_author_def sret_def)
  from write_authorize_sound [OF demo_reads.pure_reads_axioms this] show ?thesis by blast
qed

section \<open>Reading\<close>

text \<open>Those who may read a record.\<close>

definition may_read :: "('s, 'b) env \<Rightarrow> string \<Rightarrow> 's \<Rightarrow> write_msg \<Rightarrow> read \<Rightarrow> bool" where
  "may_read E ow s w r \<longleftrightarrow> wd_published (w_descriptor w) = Some True \<or>
     (\<exists>a author. rd_authorization r = Some a \<and> auth_author E a = Inr author \<and>
       (author = ow \<or> wd_recipient (w_descriptor w) = Some author \<or> auth_author E (w_authorization w) = Inr author \<or>
        (\<exists>payload gid g. auth_payload E a = Inr payload \<and> jp_permission_grant_id payload = Some gid \<and>
          fetch_grant E ow gid s = (Inr g, s) \<and> grant_permit_read E g ow author r w s = (Inr (), s)) \<or>
        (\<exists>protocol. wd_protocol (w_descriptor w) = Some protocol \<and>
          permit E ((authorizer_new protocol)\<lparr>az_context_id := w_context_id w, az_initial_write := Some w\<rparr>) ow (R_Read r) s = (Inr (), s))))"

context pure_reads
begin

lemma read_authorize_may_read:
  assumes "read_authorize E ow w r s = (Inr (), t)"
  shows "may_read E ow s w r"
proof -
  have t: "t = s" using read_authorize_ro assms by (rule reads_only_state)
  show ?thesis
    using assms [unfolded t] unfolding read_authorize_def may_read_def
    by (auto simp: sbind_ro reads_only_lift grants_ro lift_eq_iff some_or_Inr_iff sfail_def split: if_splits option.splits; blast)
qed

lemma read_deleted_discloses:
  assumes "read_deleted E ow r e s = (Inr rep, t)"
  shows "\<exists>w x. reply_body rep = Some x \<and> may_read E ow s w r \<and> rr_records_write x = None \<and> rr_data x = None \<and> rr_initial_write x = Some w"
proof -
  have ro: "reads_only (try_io (initial_write E ow rid))" for rid by (intro reads_only_intros)
  from assms obtain d found where "(case found of Some (Some w) \<Rightarrow> sbind (read_authorize E ow w r) (\<lambda>_. sret (reply_with 404
        (Some \<lparr>rr_records_write = None, rr_records_delete = Some d, rr_initial_write = Some w, rr_data = None\<rparr>)))
      | _ \<Rightarrow> sfail (Err (BadRequest ''initial write for deleted record not found''))) s = (Inr rep, t)"
    unfolding read_deleted_def by (auto simp: sbind_ro reads_only_lift ro lift_eq_iff)
  then show ?thesis
    by (auto simp: sbind_Inr_iff sret_def sfail_def reply_with_def split: option.splits dest!: read_authorize_may_read)
qed

lemma read_live_discloses:
  assumes "read_live E ow r e s = (Inr rep, t)"
  shows "\<exists>w x. reply_body rep = Some x \<and> may_read E ow s w r \<and> rr_records_write x = Some (w\<lparr>w_encoded_data := None\<rparr>)"
  using assms
  by (auto simp: read_live_def sbind_Inr_iff lift_eq_iff sret_def Let_def reply_with_def dest!: read_authorize_may_read)

end



end
