(* ===== verification/Record_Update.thy ===== *)
theory Record_Update
  imports Acceptance Access_Properties
begin

text \<open>
  Updates of a record: which writes the stored versions admit, and what the second half of the write handler makes
  of the message store: the earliest message is archived, the others are replaced by the new one.
\<close>

section \<open>Admissible versions\<close>

text \<open>
  The version order of a record: by timestamp in microseconds, then by CID; nothing supersedes a delete. The properties
  an update may not change are those of the initial write.
\<close>

definition supersedes :: "('s, 'b) env \<Rightarrow> write_msg \<Rightarrow> entry \<Rightarrow> bool" where
  "supersedes E w e \<longleftrightarrow>
     (let a = timestamp_micros (base_timestamp (wd_base (w_descriptor w)));
          b = timestamp_micros (base_timestamp (entry_descriptor e)) in
      b < a \<or> a = b \<and> (\<exists>c d. write_cid E w = Inr c \<and> entry_cid E e = Inr d \<and> d < c)) \<and>
     base_method (entry_descriptor e) \<noteq> M_Delete"

definition same_record :: "('s, 'b) env \<Rightarrow> write_msg \<Rightarrow> entry \<Rightarrow> bool" where
  "same_record E w e \<longleftrightarrow>
     (\<exists>i. write_try_from e = Inr i \<and> is_initial E i = Inr True \<and>
       (let a = w_descriptor w; b = w_descriptor i in
        base_interface (wd_base a) = base_interface (wd_base b) \<and> base_method (wd_base a) = base_method (wd_base b) \<and>
        wd_protocol a = wd_protocol b \<and> wd_protocol_path a = wd_protocol_path b \<and> wd_recipient a = wd_recipient b \<and>
        wd_schema a = wd_schema b \<and> wd_parent_id a = wd_parent_id b \<and>
        fmt_micros E (wd_date_created a) = fmt_micros E (wd_date_created b)))"

definition acceptable :: "('s, 'b) env \<Rightarrow> write_msg \<Rightarrow> entry list \<Rightarrow> bool" where
  "acceptable E w es \<longleftrightarrow>
     (case es of [] \<Rightarrow> is_initial E w = Inr True | e # _ \<Rightarrow> same_record E w e \<and> supersedes E w (last es))"

lemma check_latest_iff: "check_latest E w (Some e) = Inr () \<longleftrightarrow> supersedes E w e"
  by (auto simp: check_latest_def supersedes_def Let_def monad_simps not_less not_le)

lemma check_earliest_iff: "check_earliest E w init (Some e) = Inr () \<longleftrightarrow> same_record E w e"
  by (auto simp: check_earliest_def same_record_def verify_immutable_def Let_def monad_simps)

text \<open>The identity of a message is that of its serialized form.\<close>

lemma write_cid_ser [simp]: "write_cid E (ser_write w) = write_cid E w"
  by (simp add: write_cid_def ser_write_encoded)

lemma entry_cid_ser [simp]: "entry_cid E (ser_entry e) = entry_cid E e"
  by (cases "e_message e") (simp_all add: entry_cid_def ser_entry_def delete_cid_def configure_cid_def)

text \<open>The handler's two halves: the checks, and what is stored once they pass.\<close>

definition write_checks :: "('s, 'b) env \<Rightarrow> string \<Rightarrow> write_msg \<Rightarrow> ('s, bool \<times> entry list) io" where
  "write_checks E ow w =
     sbind (write_authorize E ow w) (\<lambda>_.
     sbind (verify_integrity E ow w) (\<lambda>_.
     sbind (lift (is_initial E w)) (\<lambda>init.
     sbind (existing_entries E ow (w_record_id w)) (\<lambda>existing.
     sbind (lift (check_earliest E w init (fst (earliest_and_latest existing)))) (\<lambda>_.
     sbind (lift (check_latest E w (snd (earliest_and_latest existing)))) (\<lambda>_.
     sret (init, existing)))))))"

definition write_stores :: "('s, 'b) env \<Rightarrow> string \<Rightarrow> write_msg \<Rightarrow> bool \<Rightarrow> entry list \<Rightarrow> ('s, unit reply) io" where
  "write_stores E ow w init existing =
     sbind (process_data E ow init (snd (earliest_and_latest existing)) w) (\<lambda>w.
     sbind (save_write E ow (write_code init w) w) (\<lambda>_.
     sbind (archive_initial E ow w (fst (earliest_and_latest existing))) (\<lambda>_.
     sbind (sfor (tl existing) (delete_previous E ow)) (\<lambda>_.
     sbind (if is_revocation w then revoke_grants E ow w else sret ()) (\<lambda>_.
     sret (reply_with (write_code init w) None))))))"

lemma write_handle_halves:
  "write_handle E ow w = sbind (write_checks E ow w) (\<lambda>(init, existing). write_stores E ow w init existing)"
  by (simp add: write_handle_def write_checks_def write_stores_def sbind_assoc Let_def split_beta sbind_sret)

lemma write_checks_acceptable:
  assumes "write_checks E ow w s = (Inr (init, es), t)"
  shows "acceptable E w es" and "is_initial E w = Inr init"
  using assms by (cases es; auto simp: write_checks_def acceptable_def earliest_and_latest_def monad_simps check_earliest_iff
      check_latest_iff; simp add: check_earliest_def check_latest_def monad_simps)+

context pure_reads
begin

lemma write_checks_ro: "reads_only (write_checks E ow w)"
  unfolding write_checks_def by (intro reads_only_intros)

lemma write_checks_existing:
  assumes "write_checks E ow w s = (Inr (init, es), t)"
  shows "existing_entries E ow (w_record_id w) s = (Inr es, s)"
  using assms by (auto simp: write_checks_def sbind_ro write_authorize_ro verify_integrity_ro initial_write_ro reads_only_lift
      lift_eq_iff sret_eq_iff)

end

section \<open>One owner's partitions\<close>

text \<open>The entries of messages, in the message store and in the event log, whatever the events are.\<close>

lemma partitions_differ:
  "MESSAGE_PARTITION \<noteq> EVENTLOG_PARTITION" "DATA_PARTITION \<noteq> MESSAGE_PARTITION" "DATA_PARTITION \<noteq> EVENTLOG_PARTITION"
  "EVENTLOG_PARTITION \<noteq> MESSAGE_PARTITION"
  by (simp_all add: MESSAGE_PARTITION_def EVENTLOG_PARTITION_def DATA_PARTITION_def)

definition record_cids :: "(string \<rightharpoonup> entry) \<Rightarrow> string \<Rightarrow> string set" where
  "record_cids msgs rid = {c. \<exists>e. msgs c = Some e \<and> has_field (e_indexes e) ''interface'' ''Records'' \<and>
     has_field (e_indexes e) ''recordId'' rid}"

context node
begin

definition records :: "'s \<Rightarrow> string \<Rightarrow> (string \<rightharpoonup> entry) \<Rightarrow> bool" where
  "records s ow msgs \<longleftrightarrow> stored s ow MESSAGE_PARTITION msgs \<and> (\<exists>evs. stored s ow EVENTLOG_PARTITION evs)"

lemma records_data: "records s ow msgs \<Longrightarrow> only ow DATA_PARTITION s t \<Longrightarrow> records t ow msgs"
  unfolding records_def using partitions_differ by (blast intro: stored_other)

lemma records_view: "records s ow msgs \<Longrightarrow> view t = view s \<Longrightarrow> records t ow msgs"
  unfolding records_def by (metis stored_same)

text \<open>An operation that changes the data of an owner only, whatever it returns.\<close>

definition only_data :: "string \<Rightarrow> ('s, 'a) io \<Rightarrow> bool" where
  "only_data ow m \<longleftrightarrow> (\<forall>s. only ow DATA_PARTITION s (snd (m s)))"

lemma only_data_pure: "reads_only m \<Longrightarrow> only_data ow m"
  by (simp add: only_data_def reads_only_def)

lemma only_data_sbind: "only_data ow m \<Longrightarrow> (\<And>a. only_data ow (k a)) \<Longrightarrow> only_data ow (sbind m k)"
  by (auto simp: only_data_def sbind_def split: prod.splits sum.splits) (metis only_trans snd_conv)+

lemma only_data_sbind_lift: "(\<And>a. r = Inr a \<Longrightarrow> only_data ow (k a)) \<Longrightarrow> only_data ow (sbind (lift r) k)"
  by (cases r) (simp_all add: only_data_pure reads_only_intros)

lemma only_data_put: "good c \<Longrightarrow> only_data ow (with_err f (bs_put E ow DATA_PARTITION c d))"
  unfolding only_data_def using put by (metis only_put snd_conv snd_with_err)

lemma only_data_delete: "good c \<Longrightarrow> only_data ow (with_err f (bs_delete E ow DATA_PARTITION c))"
  unfolding only_data_def using delete by (metis only_put snd_conv snd_with_err)

lemma root_good: "root_cid E rid dc = Inr root \<Longrightarrow> good root"
  using cid_good by (auto simp: root_cid_def monad_simps block_new_Inr)

lemma put_chunks_data: "only_data ow (put_chunks E ow rd ls n)"
proof (induction rd arbitrary: ls n rule: chunks.induct)
  case (1 rd)
  show ?case
  proof (cases "rd = []")
    case True
    then show ?thesis by (simp add: put_chunks.simps [of _ _ "[]"] only_data_pure reads_only_intros)
  next
    case False
    have step: "only_data ow (put_chunks E ow (drop (length (take CHUNK_SIZE rd)) rd) ls' n')" for ls' n'
      unfolding drop_take_length by (rule "1.IH" [OF False])
    have "good c" if "block_new E v = Inr (c, d)" for v c d using that cid_good by (auto simp: block_new_Inr)
    then show ?thesis
      using False unfolding put_chunks.simps [of E ow rd] Let_def
      by (auto intro!: only_data_sbind_lift only_data_sbind [OF only_data_put] step simp del: length_take)
  qed
qed

lemma data_put_data: "only_data ow (data_put E ow rid dc stream)"
  unfolding data_put_def
  by (auto intro!: only_data_sbind_lift only_data_sbind [OF put_chunks_data] only_data_sbind [OF only_data_put]
      only_data_pure [OF reads_only_sret] root_good)

lemma data_delete_data: "only_data ow (data_delete E ow rid dc)"
  unfolding data_delete_def by (intro only_data_sbind_lift only_data_delete root_good)

lemma only_data_run: "only_data ow m \<Longrightarrow> m s = (r, t) \<Longrightarrow> only ow DATA_PARTITION s t"
  by (metis only_data_def snd_conv)

lemmas data_delete_only = only_data_run [OF data_delete_data]

lemmas data_put_only = only_data_run [OF data_put_data]

lemma records_append:
  assumes st: "records s ow msgs" and cid: "entry_cid E e = Inr c" and wf: "wf_fields (e_indexes e)"
    and put: "message_put E ow e s = (Inr (), x)" and app: "event_append E ow e x = (Inr (), t)"
  shows "records t ow (msgs(c \<mapsto> e))"
proof -
  obtain evs where st': "stored s ow MESSAGE_PARTITION msgs" "stored s ow EVENTLOG_PARTITION evs"
    using st by (auto simp: records_def)
  have x: "stored x ow MESSAGE_PARTITION (msgs(c \<mapsto> e))" "stored x ow EVENTLOG_PARTITION evs"
    using message_put_refines [OF st'(1) cid wf put] stored_other st'(2) partitions_differ by blast+
  note ev = event_append_refines [OF x(2) cid wf app ulid_view]
  have "stored t ow MESSAGE_PARTITION (msgs(c \<mapsto> e))" using stored_other [OF ev(2) _ x(1)] partitions_differ by auto
  with ev(1) show ?thesis by (auto simp: records_def)
qed

lemma records_remove:
  assumes st: "records s ow msgs" and cid: "entry_cid E e = Inr c"
    and del: "message_delete E ow c s = (Inr (), x)" "only ow DATA_PARTITION x y" "event_delete E ow c y = (Inr (), t)"
  shows "records t ow (msgs(c := None))"
proof -
  obtain evs where st': "stored s ow MESSAGE_PARTITION msgs" "stored s ow EVENTLOG_PARTITION evs"
    using st by (auto simp: records_def)
  have "records x ow (msgs(c := None))"
    using message_delete_refines [OF st'(1) cid del(1)] stored_other st'(2) partitions_differ unfolding records_def by blast
  from records_data [OF this del(2)] obtain evs'
    where y: "stored y ow MESSAGE_PARTITION (msgs(c := None))" "stored y ow EVENTLOG_PARTITION evs'"
    by (auto simp: records_def)
  note ev = event_delete_refines [OF y(2) cid del(3)]
  have "stored t ow MESSAGE_PARTITION (msgs(c := None))" using ev partitions_differ by (blast intro: stored_other [OF _ _ y(1)])
  with ev show ?thesis unfolding records_def by blast
qed

text \<open>Processing the data changes the data partition only, and of the message only the encoded data.\<close>

lemma update_data_only:
  assumes "update_data E ow stream w s = (Inr w', t)"
  shows "only ow DATA_PARTITION s t" and "w' = w\<lparr>w_encoded_data := w_encoded_data w'\<rparr>"
  using assms by (auto simp: update_data_def Let_def monad_simps split: if_splits dest!: data_put_only from_reader_state)

lemma process_data_only:
  assumes "process_data E ow init latest w s = (Inr w', t)"
  shows "only ow DATA_PARTITION s t \<and> w' = w\<lparr>w_encoded_data := w_encoded_data w'\<rparr>"
proof (cases "w_data_stream w")
  case None
  then have "reads_only (process_data E ow init latest w)"
    unfolding process_data_def clone_data_def by (auto intro!: reads_only_intros)
  then have t: "t = s" using assms by (rule reads_only_state)
  from None assms have "w' = w\<lparr>w_encoded_data := w_encoded_data w'\<rparr>"
    by (auto simp: process_data_def clone_data_def Let_def monad_simps split: if_splits)
  with t show ?thesis by simp
next
  case (Some data)
  with assms update_data_only show ?thesis by (fastforce simp: process_data_def)
qed

lemma write_entry_facts:
  assumes "write_cid E w = Inr c"
  shows "entry_cid E (write_entry E code w) = Inr c" and "wf_fields (e_indexes (write_entry E code w))"
  using assms by (simp_all add: write_entry_def write_entry_fields entry_cid_def wf_fields_insert wf_write_indexes)

lemma save_write_records:
  assumes st: "records s ow msgs" and cid: "write_cid E w = Inr c" and run: "save_write E ow code w s = (Inr u, t)"
  shows "records t ow (msgs(c \<mapsto> write_entry E code w))"
proof -
  let ?e = "write_entry E code w"
  from run obtain x y where put: "message_put E ow ?e s = (Inr (), x)" and app: "event_append E ow ?e x = (Inr (), y)"
    and emit: "es_emit E ow ?e y = (Inr u, t)"
    by (auto simp: save_write_def write_entry_def Let_def monad_simps)
  have "view t = view y" using emit emit_view [of ow ?e y] by simp
  with records_append [OF st write_entry_facts [OF cid] put app] show ?thesis by (rule records_view)
qed

lemma archive_initial_records:
  assumes st: "records s ow msgs" and e: "e_message e = E_Write i" and cid: "entry_cid E e = Inr c"
    and run: "archive_initial E ow w (Some (ser_entry e)) s = (Inr (), t)"
  shows "records t ow (msgs(c \<mapsto> write_entry E 204 (ser_write i)))"
proof -
  let ?e = "write_entry E 204 (ser_write i)"
  have i: "write_try_from (ser_entry e) = Inr (ser_write i)" by (simp add: write_try_from_def as_write_def ser_entry_def e)
  from run obtain x y where put: "message_put E ow ?e s = (Inr (), x)" and app: "event_append E ow ?e x = (Inr (), y)"
    and "y = t \<or> data_delete E ow (w_record_id (ser_write i)) (wd_data_cid (w_descriptor (ser_write i))) y = (Inr (), t)"
    by (auto simp: archive_initial_def i write_entry_def Let_def monad_simps split: if_splits)
  then have "only ow DATA_PARTITION y t" using data_delete_only by auto
  moreover have "write_cid E (ser_write i) = Inr c" using cid e by (simp add: entry_cid_def)
  ultimately show ?thesis using records_append [OF st write_entry_facts put app] records_data by blast
qed

lemma delete_previous_records:
  assumes st: "records s ow msgs" and cid: "entry_cid E e = Inr c" and run: "delete_previous E ow (ser_entry e) s = (Inr (), t)"
  shows "records t ow (msgs(c := None))"
proof -
  from run obtain w c' x y where w: "write_try_from (ser_entry e) = Inr w" "write_cid E w = Inr c'"
    and del: "message_delete E ow c' s = (Inr (), x)" "data_delete E ow (w_record_id w) (wd_data_cid (w_descriptor w)) x = (Inr (), y)"
      "event_delete E ow c' y = (Inr (), t)"
    by (auto simp: delete_previous_def monad_simps)
  have "as_write (ser_entry e) = Some w" using w(1) by (auto simp: write_try_from_def monad_simps split: entry_type.splits)
  then have "entry_cid E (ser_entry e) = Inr c'" using w(2)
    by (auto simp: entry_cid_def as_write_def split: entry_type.splits)
  then have "c' = c" using cid by simp
  with records_remove [OF st cid _ data_delete_only] del show ?thesis by blast
qed

lemma delete_all_records:
  assumes "records s ow msgs" and "\<And>c. c \<in> set cs \<Longrightarrow> entry_cid E (f c) = Inr c"
    and "sfor (map (\<lambda>c. ser_entry (f c)) cs) (delete_previous E ow) s = (Inr (), t)"
  shows "records t ow (msgs |` (- set cs))"
  using assms
proof (induction cs arbitrary: s msgs)
  case (Cons c cs)
  from Cons.prems(3) obtain x where x: "delete_previous E ow (ser_entry (f c)) s = (Inr (), x)"
    and r: "sfor (map (\<lambda>c. ser_entry (f c)) cs) (delete_previous E ow) x = (Inr (), t)"
    by (auto simp: monad_simps)
  have x': "records x ow (msgs(c := None))" using Cons.prems(2) by (intro delete_previous_records [OF Cons.prems(1) _ x]) simp
  have "records t ow ((msgs(c := None)) |` (- set cs))" using Cons.prems(2) by (intro Cons.IH [OF x' _ r]) simp
  moreover have "(msgs(c := None)) |` (- set cs) = msgs |` (- set (c # cs))" by (auto simp: restrict_map_def)
  ultimately show ?case by (simp only:)
qed (simp add: sret_def restrict_map_def)

text \<open>What an accepted update stores, from the messages of the record, earliest first.\<close>

lemma write_stores_records:
  assumes st: "records s ow msgs" and cid: "write_cid E w = Inr c" and rev: "\<not> is_revocation w"
    and cs: "cs \<noteq> []" "\<And>c. c \<in> set cs \<Longrightarrow> entry_cid E (f c) = Inr c"
    and i: "e_message (f (hd cs)) = E_Write i"
    and run: "write_stores E ow w init (map (\<lambda>c. ser_entry (f c)) cs) s = (Inr rep, t)"
  shows "\<exists>d. rep = reply_with (write_code init w) None \<and>
    records t ow (msgs(c \<mapsto> write_entry E (write_code init w) (w\<lparr>w_encoded_data := d\<rparr>),
      hd cs \<mapsto> write_entry E 204 (ser_write i)) |` (- set (tl cs)))"
proof -
  let ?es = "map (\<lambda>c. ser_entry (f c)) cs"
  have first: "fst (earliest_and_latest ?es) = Some (ser_entry (f (hd cs)))"
    using cs(1) by (cases cs) (simp_all add: earliest_and_latest_def)
  from run obtain w' x1 x2 x3 where p: "process_data E ow init (snd (earliest_and_latest ?es)) w s = (Inr w', x1)"
    and sv: "save_write E ow (write_code init w') w' x1 = (Inr (), x2)"
    and ar: "archive_initial E ow w' (fst (earliest_and_latest ?es)) x2 = (Inr (), x3)"
    and del: "\<exists>x4. sfor (tl ?es) (delete_previous E ow) x3 = (Inr (), x4) \<and>
      (if is_revocation w' then revoke_grants E ow w' else sret ()) x4 = (Inr (), t)"
    and rep: "rep = reply_with (write_code init w') None"
    by (auto simp: write_stores_def monad_simps)
  obtain d where w': "w' = w\<lparr>w_encoded_data := d\<rparr>" using process_data_only [OF p] by blast
  then have eqs: "write_code init w' = write_code init w" "write_cid E w' = Inr c" "\<not> is_revocation w'"
    using cid rev by (simp_all add: write_code_def is_revocation_def)
  have "records x1 ow msgs" using records_data [OF st] process_data_only [OF p] by blast
  from save_write_records [OF this eqs(2) sv] have x2: "records x2 ow (msgs(c \<mapsto> write_entry E (write_code init w) w'))"
    by (simp only: eqs)
  have "records x3 ow (msgs(c \<mapsto> write_entry E (write_code init w) w', hd cs \<mapsto> write_entry E 204 (ser_write i)))"
    using cs archive_initial_records [OF x2 i _ ar [unfolded first]] by simp
  moreover have "sfor (map (\<lambda>c. ser_entry (f c)) (tl cs)) (delete_previous E ow) x3 = (Inr (), t)"
    using del eqs(3) by (auto simp: sret_def map_tl)
  ultimately have "records t ow (msgs(c \<mapsto> write_entry E (write_code init w) w', hd cs \<mapsto> write_entry E 204 (ser_write i)) |` (- set (tl cs)))"
    using cs by (intro delete_all_records [where f = f]) (auto dest: list.set_sel(2))
  with rep eqs(1) w' show ?thesis by auto
qed

text \<open>The messages of a record, and what an accepted update makes of them.\<close>

lemma write_handle_update:
  assumes st: "records s ow msgs" and ts: "timestamped n msgs" and rid: "w_record_id w \<noteq> []"
    and ne: "record_cids msgs (w_record_id w) \<noteq> {}" and new: "write_cid E w = Inr c" "msgs c = None"
    and rev: "\<not> is_revocation w" and run: "write_handle E ow w s = (Inr rep, t)"
  shows "\<exists>c0 e0 i d init. c0 \<in> record_cids msgs (w_record_id w) \<and> msgs c0 = Some e0 \<and> e_message e0 = E_Write i \<and>
    is_initial E i = Inr True \<and> is_initial E w = Inr init \<and> rep = reply_with (write_code init w) None \<and>
    records t ow ((msgs |` (- record_cids msgs (w_record_id w)))
      (c0 \<mapsto> write_entry E 204 (ser_write i), c \<mapsto> write_entry E (write_code init w) (w\<lparr>w_encoded_data := d\<rparr>)))"
proof -
  let ?R = "record_cids msgs (w_record_id w)"
  have msgs: "stored s ow MESSAGE_PARTITION msgs" using st by (simp add: records_def)
  from existing_stored [OF msgs ts rid] obtain cs
    where es: "existing_entries E ow (w_record_id w) s = (Inr (map (\<lambda>c. ser_entry (the (msgs c))) cs), s)"
      and cs: "distinct cs" "set cs = ?R"
    by (auto simp: record_cids_def selected_def selects_existing)
  have c: "\<And>c. c \<in> set cs \<Longrightarrow> entry_cid E (the (msgs c)) = Inr c"
    using msgs cs(2) by (auto simp: stores_def record_cids_def)
  obtain c0 cs' where c0: "cs = c0 # cs'" using ne cs(2) by (cases cs) auto
  from run obtain init es' x where chk: "write_checks E ow w s = (Inr (init, es'), x)" and sto: "write_stores E ow w init es' x = (Inr rep, t)"
    by (auto simp: write_handle_halves sbind_Inr_iff)
  have x: "x = s" using write_checks_ro chk by (rule reads_only_state)
  have es': "es' = map (\<lambda>c. ser_entry (the (msgs c))) cs" using write_checks_existing [OF chk] es by simp
  from write_checks_acceptable(1) [OF chk] obtain i' where "write_try_from (ser_entry (the (msgs c0))) = Inr i'" "is_initial E i' = Inr True"
    by (auto simp: es' c0 acceptable_def same_record_def)
  then obtain i where i: "e_message (the (msgs c0)) = E_Write i" "is_initial E i = Inr True"
    by (cases "e_message (the (msgs c0))") (auto simp: write_try_from_def as_write_def ser_entry_def monad_simps)
  have hd: "cs \<noteq> []" "e_message (the (msgs (hd cs))) = E_Write i" "hd cs = c0" "tl cs = cs'" using c0 i by simp_all
  from write_stores_records [where f = "\<lambda>c. the (msgs c)", OF st new(1) rev hd(1) c hd(2) sto [unfolded x es']]
  obtain d where rep: "rep = reply_with (write_code init w) None"
    and t: "records t ow (msgs(c \<mapsto> write_entry E (write_code init w) (w\<lparr>w_encoded_data := d\<rparr>), c0 \<mapsto> write_entry E 204 (ser_write i)) |` (- set cs'))"
    unfolding hd by blast
  have in0: "c0 \<in> ?R" "set cs' = ?R - {c0}" using cs c0 by auto
  then obtain e0 where e0: "msgs c0 = Some e0" by (auto simp: record_cids_def)
  have "c \<notin> ?R" using new(2) by (simp add: record_cids_def)
  with in0 have "msgs(c \<mapsto> a, c0 \<mapsto> b) |` (- set cs') = (msgs |` (- ?R))(c0 \<mapsto> b, c \<mapsto> a)" for a b
    by (auto simp: restrict_map_def fun_eq_iff)
  note this [of "write_entry E (write_code init w) (w\<lparr>w_encoded_data := d\<rparr>)" "write_entry E 204 (ser_write i)"]
  with t have "records t ow ((msgs |` (- ?R))(c0 \<mapsto> write_entry E 204 (ser_write i),
      c \<mapsto> write_entry E (write_code init w) (w\<lparr>w_encoded_data := d\<rparr>)))" by (simp only:)
  moreover have "e_message e0 = E_Write i" using i(1) e0 by simp
  ultimately show ?thesis using in0(1) e0 i(2) rep write_checks_acceptable(2) [OF chk] by blast
qed

end

section \<open>Updates are accepted\<close>

context open_node
begin

lemma event_delete_total:
  assumes st: "stored s ow EVENTLOG_PARTITION evs" and cid: "entry_cid E e = Inr c"
  shows "\<exists>t. event_delete E ow c s = (Inr (), t)"
proof -
  have "indexed s ow EVENTLOG_PARTITION (map_option e_indexes \<circ> evs)" using st by (simp add: stores_def)
  from index_delete_total [OF this] obtain x where x: "index_delete E ow EVENTLOG_PARTITION c s = (Inr (), x)" by blast
  from delete [OF entry_cid_good [OF cid], of ow EVENTLOG_PARTITION x]
  obtain t where "bs_delete E ow EVENTLOG_PARTITION c x = (Inr (), t)" by blast
  with x show ?thesis by (auto simp: event_delete_def sbind_run)
qed

lemma records_append_total:
  assumes st: "records s ow msgs" and cid: "entry_cid E e = Inr c" and wf: "wf_fields (e_indexes e)"
  shows "\<exists>x t. message_put E ow e s = (Inr (), x) \<and> event_append E ow e x = (Inr (), t)"
proof -
  obtain evs where st': "stored s ow MESSAGE_PARTITION msgs" "stored s ow EVENTLOG_PARTITION evs"
    using st by (auto simp: records_def)
  obtain x where put: "message_put E ow e s = (Inr (), x)" using message_put_total [OF st'(1) cid wf] by blast
  have "stored x ow EVENTLOG_PARTITION evs"
    using message_put_refines [OF st'(1) cid wf put] st'(2) partitions_differ by (blast intro: stored_other)
  with put event_append_total [OF _ cid wf] show ?thesis by blast
qed

lemma data_delete_total:
  assumes "root_cid E rid dc = Inr root"
  shows "\<exists>t. data_delete E ow rid dc s = (Inr (), t)"
proof -
  have "good root" using assms cid_good by (auto simp: root_cid_def monad_simps block_new_Inr)
  from delete [OF this, of ow DATA_PARTITION s] obtain t where "bs_delete E ow DATA_PARTITION root s = (Inr (), t)" by blast
  with assms show ?thesis by (auto simp: data_delete_def sbind_def lift_def)
qed

lemma archive_initial_total:
  assumes st: "records s ow msgs" and e: "e_message e = E_Write i" and cid: "entry_cid E e = Inr c"
    and roots: "\<And>rid dc. \<exists>root. root_cid E rid dc = Inr root"
  shows "\<exists>t. archive_initial E ow w (Some (ser_entry e)) s = (Inr (), t)"
proof -
  let ?e = "write_entry E 204 (ser_write i)"
  have i: "write_try_from (ser_entry e) = Inr (ser_write i)" by (simp add: write_try_from_def as_write_def ser_entry_def e)
  have "write_cid E (ser_write i) = Inr c" using cid e by (simp add: entry_cid_def)
  from records_append_total [OF st write_entry_facts [OF this]] obtain x y
    where "message_put E ow ?e s = (Inr (), x)" "event_append E ow ?e x = (Inr (), y)" by blast
  moreover obtain t where "data_delete E ow (w_record_id (ser_write i)) (wd_data_cid (w_descriptor (ser_write i))) y = (Inr (), t)"
    using data_delete_total roots by metis
  ultimately show ?thesis
    by (auto simp: archive_initial_def i sbind_run via_provider_run sret_def sbind_def lift_def write_entry_def Let_def)
qed

lemma delete_previous_total:
  assumes st: "records s ow msgs" and e: "e_message e = E_Write v" and cid: "entry_cid E e = Inr c"
    and roots: "\<And>rid dc. \<exists>root. root_cid E rid dc = Inr root"
  shows "\<exists>t. delete_previous E ow (ser_entry e) s = (Inr (), t)"
proof -
  have v: "write_try_from (ser_entry e) = Inr (ser_write v)" by (simp add: write_try_from_def as_write_def ser_entry_def e)
  have c: "write_cid E (ser_write v) = Inr c" using cid e by (simp add: entry_cid_def)
  obtain evs where st': "stored s ow MESSAGE_PARTITION msgs" "stored s ow EVENTLOG_PARTITION evs"
    using st by (auto simp: records_def)
  obtain x where x: "message_delete E ow c s = (Inr (), x)" using message_delete_total [OF st'(1) cid] by blast
  obtain y where y: "data_delete E ow (w_record_id (ser_write v)) (wd_data_cid (w_descriptor (ser_write v))) x = (Inr (), y)"
    using data_delete_total roots by metis
  have "stored x ow EVENTLOG_PARTITION evs"
    using message_delete_refines [OF st'(1) cid x] st'(2) partitions_differ by (blast intro: stored_other)
  then have "stored y ow EVENTLOG_PARTITION evs"
    using data_delete_only [OF y] partitions_differ by (blast intro: stored_other)
  with event_delete_total [OF _ cid] obtain t where "event_delete E ow c y = (Inr (), t)" by blast
  with v c x y show ?thesis by (auto simp: delete_previous_def sbind_def lift_def via_provider_def)
qed

lemma delete_all_total:
  assumes "records s ow msgs" and "\<And>c. c \<in> set cs \<Longrightarrow> entry_cid E (f c) = Inr c"
    and "\<And>c. c \<in> set cs \<Longrightarrow> \<exists>v. e_message (f c) = E_Write v" and "\<And>rid dc. \<exists>root. root_cid E rid dc = Inr root"
  shows "\<exists>t. sfor (map (\<lambda>c. ser_entry (f c)) cs) (delete_previous E ow) s = (Inr (), t)"
  using assms(1-3)
proof (induction cs arbitrary: s msgs)
  case (Cons c cs)
  have c: "entry_cid E (f c) = Inr c" using Cons.prems(2) by simp
  obtain x where x: "delete_previous E ow (ser_entry (f c)) s = (Inr (), x)"
    using delete_previous_total [OF Cons.prems(1) _ c assms(4)] Cons.prems(3) [of c] by auto
  have "\<exists>t. sfor (map (\<lambda>c. ser_entry (f c)) cs) (delete_previous E ow) x = (Inr (), t)"
    using Cons.prems(2,3) by (intro Cons.IH [OF delete_previous_records [OF Cons.prems(1) c x]]) simp_all
  with x show ?case by (auto simp: sbind_run)
qed (simp add: sret_def)

lemma write_stores_total:
  assumes st: "records s ow msgs" and cid: "write_cid E w = Inr c" and rev: "\<not> is_revocation w"
    and cs: "cs \<noteq> []" "\<And>c. c \<in> set cs \<Longrightarrow> entry_cid E (f c) = Inr c"
      "\<And>c. c \<in> set cs \<Longrightarrow> \<exists>v. e_message (f c) = E_Write v"
    and roots: "\<And>rid dc. \<exists>root. root_cid E rid dc = Inr root"
    and p: "process_data E ow init (Some (ser_entry (f (last cs)))) w s = (Inr w', x1)"
  shows "\<exists>rep t. write_stores E ow w init (map (\<lambda>c. ser_entry (f c)) cs) s = (Inr rep, t)"
proof -
  let ?es = "map (\<lambda>c. ser_entry (f c)) cs"
  have ends: "earliest_and_latest ?es = (Some (ser_entry (f (hd cs))), Some (ser_entry (f (last cs))))"
    using cs(1) by (cases cs) (simp_all add: earliest_and_latest_def last_map)
  obtain d where w': "w' = w\<lparr>w_encoded_data := d\<rparr>" using process_data_only [OF p] by blast
  then have eqs: "write_cid E w' = Inr c" "\<not> is_revocation w'" using cid rev by (simp_all add: is_revocation_def)
  have x1: "records x1 ow msgs" using records_data [OF st] process_data_only [OF p] by blast
  then obtain x2 where x2: "save_write E ow (write_code init w') w' x1 = (Inr (), x2)"
    using save_write_total [OF _ _ eqs(1)] unfolding records_def by blast
  note r2 = save_write_records [OF x1 eqs(1) x2]
  have h: "hd cs \<in> set cs" using cs(1) by simp
  then obtain i where i: "e_message (f (hd cs)) = E_Write i" using cs(3) by blast
  obtain x3 where x3: "archive_initial E ow w' (Some (ser_entry (f (hd cs)))) x2 = (Inr (), x3)"
    using archive_initial_total [OF r2 i cs(2) [OF h] roots] by blast
  have "\<exists>t. sfor (map (\<lambda>c. ser_entry (f c)) (tl cs)) (delete_previous E ow) x3 = (Inr (), t)"
    using cs by (intro delete_all_total [OF archive_initial_records [OF r2 i cs(2) [OF h] x3] _ _ roots]) (auto dest: list.set_sel(2))
  with p x2 x3 eqs(2) show ?thesis
    by (auto simp: write_stores_def ends sbind_run sret_def map_tl)
qed

lemma write_handle_update_total:
  assumes st: "records s ow msgs" and ts: "timestamped n msgs" and rid: "w_record_id w \<noteq> []"
    and ne: "record_cids msgs (w_record_id w) \<noteq> {}" and writes: "\<And>c. c \<in> record_cids msgs (w_record_id w) \<Longrightarrow> \<exists>v. e_message (the (msgs c)) = E_Write v"
    and cid: "write_cid E w = Inr c" and rev: "\<not> is_revocation w" and roots: "\<And>rid dc. \<exists>root. root_cid E rid dc = Inr root"
    and es: "existing_entries E ow (w_record_id w) s = (Inr es, s)" and acc: "acceptable E w es"
    and ok: "fst (write_authorize E ow w s) = Inr ()" "fst (verify_integrity E ow w s) = Inr ()" "is_initial E w = Inr init"
      "fst (process_data E ow init (Some (last es)) w s) = Inr w'"
  shows "\<exists>rep t. write_handle E ow w s = (Inr rep, t)"
proof -
  let ?R = "record_cids msgs (w_record_id w)"
  have msgs: "stored s ow MESSAGE_PARTITION msgs" using st by (simp add: records_def)
  from existing_stored [OF msgs ts rid] es obtain cs where es': "es = map (\<lambda>c. ser_entry (the (msgs c))) cs" and cs: "set cs = ?R"
    by (auto simp: record_cids_def selected_def selects_existing)
  have ne': "cs \<noteq> []" using ne cs by auto
  have pre: "write_authorize E ow w s = (Inr (), s)" "verify_integrity E ow w s = (Inr (), s)"
    using ok(1,2) reads_only_state [OF write_authorize_ro] reads_only_state [OF verify_integrity_ro] prod.collapse
    by metis+
  have "check_earliest E w init (fst (earliest_and_latest es)) = Inr ()" "check_latest E w (snd (earliest_and_latest es)) = Inr ()"
    using acc ne' unfolding es' by (cases cs; auto simp: acceptable_def earliest_and_latest_def check_earliest_iff check_latest_iff)+
  then have chk: "write_checks E ow w s = (Inr (init, es), s)"
    using pre es ok(3) by (simp add: write_checks_def sbind_run lift_def sret_def)
  have last: "last es = ser_entry (the (msgs (last cs)))" using ne' by (simp add: es' last_map)
  obtain x where p: "process_data E ow init (Some (ser_entry (the (msgs (last cs))))) w s = (Inr w', x)"
    using ok(4) last by (metis prod.collapse)
  have "entry_cid E (the (msgs c)) = Inr c" if "c \<in> set cs" for c
    using msgs that cs by (auto simp: stores_def record_cids_def)
  from write_stores_total [where f = "\<lambda>c. the (msgs c)", OF st cid rev ne' this _ roots p] writes chk show ?thesis
    unfolding es' cs by (auto simp: write_handle_halves sbind_run)
qed

end

end
