(* ===== verification/Write_Properties.thy ===== *)
theory Write_Properties
  imports Store_Properties Request_Properties Record_Update
begin

text \<open>
  What a write does to a record: the data it stores is the data it describes, a write that does not supersede
  the stored version changes nothing, and an update leaves the archived initial write and the new version.
\<close>

section \<open>Data\<close>

lemma put_chunks_size: "put_chunks E ow rd ls n s = (Inr (ls', m), t) \<Longrightarrow> m = n + of_nat (length rd)"
proof (induction rd arbitrary: ls n s rule: chunks.induct)
  case (1 rd)
  show ?case
  proof (cases "rd = []")
    case True
    with "1.prems" show ?thesis by (simp add: put_chunks.simps [of _ _ "[]"] sret_def)
  next
    case False
    from "1.prems" obtain ls2 u where "put_chunks E ow (drop CHUNK_SIZE rd) ls2
        (n + of_nat (length (take CHUNK_SIZE rd))) u = (Inr (ls', m), t)"
      unfolding put_chunks.simps [of E ow rd] by (auto simp: False drop_take_length Let_def monad_simps simp del: length_take)
    from "1.IH" [OF False this] have "m = n + of_nat (length (take CHUNK_SIZE rd) + length (drop CHUNK_SIZE rd))"
      by (simp only: of_nat_add ac_simps)
    then show ?thesis by (simp only: length_append [symmetric] append_take_drop_id)
  qed
qed

lemma from_reader_size: "from_reader E rd s = (Inr (c, n), t) \<Longrightarrow> n = of_nat (length rd)"
  by (auto simp: from_reader_def data_put_def monad_simps dest!: put_chunks_size)


lemma decimal_one: "decimal (Suc 0) = ''1''"
  by code_simp

lemma hello_read_in: "from_reader demo_env hello s = (Inr (''l1'', 5), s)"
  by (simp add: from_reader_def data_put_def put_chunks.simps [of _ _ "''hello''"] put_chunks.simps [of _ _ "[]"] hello_def
      CHUNK_SIZE_def sbind_def lift_def sret_def Let_def block_new_def block_encode_def mock_store_def with_err_def
      root_cid_def demo_encode_def decimal_one)

lemma hello_update: "update_data demo_env alice hello hello_write s = (Inr hello_saved, s)"
  by (simp add: update_data_def hello_read_in sbind_run lift_def check_data_def hello_saved_def sret_def Let_def)
    (simp add: hello_defs MAX_ENCODED_SIZE_def hello_read_in sbind_run sbind_def lift_def)


text \<open>
  Data above the threshold is checked and stored, yet a request that carries encoded data as well is read back with
  that instead, which nothing has checked: encoded data is part neither of the message's CID nor of the data's.
\<close>

theorem encoded_data_unchecked:
  assumes "MAX_ENCODED_SIZE < wd_data_size (w_descriptor w)" and "w_encoded_data w = Some x" and "b64_decode E x = Inr other"
    and "update_data E ow stream w s = (Inr w', t)"
  shows "read_data E ow w' t = (Inr other, t) \<and> write_cid E w' = write_cid E (w\<lparr>w_encoded_data := None\<rparr>)"
proof -
  from assms(1,4) have "w' = w"
    by (auto simp: update_data_def check_data_def Let_def monad_simps not_le [symmetric])
  with assms(2,3) show ?thesis by (simp add: read_data_def lift_def)
qed

text \<open>The data store describes the same bytes by the same CID and size under every record.\<close>

lemma demo_put_any: "\<exists>cid. \<forall>rid dc. \<exists>t. data_put demo_env alice rid dc data demo_empty = (Inr (cid, of_nat (length data)), t)"
proof -
  obtain root where root: "root_cid demo_env ''record_id'' ''data_cid'' = Inr root"
    using demo_data_fits by (fastforce simp: data_fits_def demo_data.root_cid_Inr)
  have "\<exists>cid t. data_put demo_env alice rid dc data demo_empty = (Inr (cid, of_nat (length data)), t) \<and>
      from_reader demo_env data demo_empty = (Inr (cid, of_nat (length data)), demo_empty)" for rid dc
  proof -
    obtain cid n t where put: "data_put demo_env alice rid dc data demo_empty = (Inr (cid, n), t)"
      using demo_data.data_put_total [OF demo_data_fits] by fastforce
    with demo_data.put_get(2) [OF put] from_reader_as_put [OF put root, of demo_empty] show ?thesis by blast
  qed
  then show ?thesis by (metis Pair_inject Inr_inject)
qed

definition large :: bytes where
  "large = replicate 30001 (CHR ''a'')"

definition large_write :: "string \<Rightarrow> write_msg" where
  "large_write cid = (write_by alice (hello_descriptor\<lparr>wd_data_cid := cid, wd_data_size := 30001\<rparr>))
     \<lparr>w_data_stream := Some large, w_encoded_data := Some hello\<rparr>"

theorem encoded_data_unchecked_witness:
  "\<exists>w t. update_data demo_env alice large w demo_empty = (Inr w, t) \<and> read_data demo_env alice w t = (Inr hello, t)"
proof -
  obtain cid where "\<And>rid dc. \<exists>t. data_put demo_env alice rid dc large demo_empty = (Inr (cid, 30001), t)"
    using demo_put_any [of large] by (auto simp: large_def)
  then obtain t where "data_put demo_env alice (w_record_id (large_write cid)) cid large demo_empty = (Inr (cid, 30001), t)"
    by blast
  then have u: "update_data demo_env alice large (large_write cid) demo_empty = (Inr (large_write cid), t)"
    by (simp add: update_data_def large_write_def write_by_def MAX_ENCODED_SIZE_def check_data_def lift_def sret_def sbind_run
        via_provider_run)
  have "read_data demo_env alice (large_write cid) t = (Inr hello, t)"
    using encoded_data_unchecked [OF _ _ _ u, of hello hello] by (simp add: large_write_def write_by_def MAX_ENCODED_SIZE_def)
  with u show ?thesis by blast
qed

section \<open>Versions\<close>

text \<open>
  C11. A write that the stored versions do not admit is refused and the store stays as it was: a first write whose record
  ID is not its entry ID, an update that changes an immutable property of the initial write, one that is not
  later than the latest version, or not of a larger CID at the same time, and any write to a deleted record.
\<close>

theorem unacceptable_write_refused:
  assumes "pure_reads E" and "existing_entries E ow (w_record_id w) s = (Inr es, s)" and "\<not> acceptable E w es"
  shows "\<exists>f. write_handle E ow w s = (Inl f, s)"
proof -
  obtain r t where c: "write_checks E ow w s = (r, t)" by (cases "write_checks E ow w s")
  have t: "t = s" using pure_reads.write_checks_ro [OF assms(1)] c by (rule reads_only_state)
  have "r \<noteq> Inr x" for x
    using pure_reads.write_checks_existing [OF assms(1), of ow w s "fst x" "snd x" t] write_checks_acceptable(1) [of E ow w s "fst x" "snd x" t]
      c assms(2,3) by auto
  then obtain f where "r = Inl f" by (cases r) auto
  with c t show ?thesis by (auto simp: write_handle_halves sbind_run_err)
qed

theorem unacceptable_write_refused_witness:
  "\<exists>t f. existing_entries demo_env alice hello_id t = (Inr [ser_entry hello_entry], t) \<and>
    write_handle demo_env alice hello_write t = (Inl f, t)"
proof -
  obtain t where t: "existing_entries demo_env alice hello_id t = (Inr [ser_entry hello_entry], t)"
    using hello_stored by blast
  have "w_record_id hello_write = hello_id" by (simp add: hello_defs hello_id_def)
  moreover have "entry_descriptor (ser_entry hello_entry) = ser_base (wd_base (w_descriptor hello_write))"
    by (simp add: hello_entry_def write_entry_def write_entry_fields ser_entry_def entry_descriptor_def hello_saved_def
        ser_write_def ser_write_descriptor_def)
  then have "\<not> acceptable demo_env hello_write [ser_entry hello_entry]"
    by (simp add: acceptable_def supersedes_def hello_write_cid hello_entry_facts(1) ser_base_def)
  ultimately show ?thesis
    using unacceptable_write_refused [OF demo_reads.pure_reads_axioms, of alice hello_write t "[ser_entry hello_entry]"] t by metis
qed

text \<open>A second version of the example record, and the store it comes to.\<close>

definition hello_at :: "nat \<Rightarrow> write_msg" where
  "hello_at m = write_by alice (hello_descriptor\<lparr>wd_base := (wd_base hello_descriptor)\<lparr>base_timestamp := int m * 1000\<rparr>\<rparr>)"

definition cid_at :: "nat \<Rightarrow> string" where
  "cid_at m = demo_cid (P_Write (ser_write (hello_at m)))"

abbreviation hello_again :: write_msg where
  "hello_again \<equiv> hello_at 6"

abbreviation again_cid :: string where
  "again_cid \<equiv> cid_at 6"

lemma payload_split: "split_on (CHR ''|'') (id_by author @ ''|||'') = [id_by author, [], [], []]"
  using split_on_append [OF id_by_bar, of author "''||''"] by simp

lemma verify_signed_by: "verify_signed demo_env (write_by author d) = Inr ()"
  using payload_split [of author]
  by (simp add: verify_signed_def decode_signature_payload_def write_by_def demo_signature_payload_def demo_payload_def non_empty_def)

lemma hello_at_facts:
  assumes m: "m \<noteq> 5"
  shows "write_cid demo_env (hello_at m) = Inr (cid_at m)" "cid_at m \<noteq> hello_cid" "is_initial demo_env (hello_at m) = Inr False"
  "write_authorize demo_env alice (hello_at m) s = (Inr (), s)" "verify_integrity demo_env alice (hello_at m) s = (Inr (), s)"
  "fst (process_data demo_env alice init e (hello_at m) s) = Inr ((hello_at m)\<lparr>w_encoded_data := Some hello\<rparr>)"
  "w_record_id (hello_at m) = hello_id" "\<not> is_revocation (hello_at m)"
proof -
  show "write_cid demo_env (hello_at m) = Inr (cid_at m)"
    by (simp add: write_cid_def from_value_def cid_at_def hello_at_def write_by_def)
  show "cid_at m \<noteq> hello_cid" using m
    by (simp add: cid_at_def hello_cid_def hello_at_def hello_defs ser_write_def ser_write_descriptor_def ser_base_def
        rfc3339_micros_def timestamp_micros_def decimal_inj)
  show i: "is_initial demo_env (hello_at m) = Inr False" using m
    by (simp add: is_initial_def entry_id_def from_value_def hello_at_def write_by_def id_by_def auth_author_def
      hello_descriptor_def ser_write_descriptor_def ser_base_def rfc3339_micros_def timestamp_micros_def
      decimal_inj)
  show "write_authorize demo_env alice (hello_at m) s = (Inr (), s)"
    by (simp add: write_authorize_def hello_at_def hello_defs auth_owner_def auth_author_def sret_def)
  have "wd_protocol (w_descriptor (hello_at m)) = None" by (simp add: hello_at_def hello_defs)
  then show "verify_integrity demo_env alice (hello_at m) s = (Inr (), s)"
    using verify_signed_by [of alice "w_descriptor (hello_at m)"] i
    by (simp add: verify_integrity_def verify_initial_def sbind_def lift_def sret_def)
      (simp add: hello_at_def write_by_def)
  show "fst (process_data demo_env alice init e (hello_at m) s) = Inr ((hello_at m)\<lparr>w_encoded_data := Some hello\<rparr>)"
    by (simp add: process_data_def update_data_def hello_at_def hello_defs MAX_ENCODED_SIZE_def hello_read_in sbind_run
        sbind_def lift_def check_data_def sret_def)
  show "w_record_id (hello_at m) = hello_id" "\<not> is_revocation (hello_at m)"
    by (simp_all add: hello_at_def hello_defs hello_id_def is_revocation_def)
qed

lemmas hello_again_facts = hello_at_facts [of 6, simplified]

lemma hello_written:
  "\<exists>t. demo.stored t alice MESSAGE_PARTITION [hello_cid \<mapsto> hello_entry] \<and> demo.stored t alice EVENTLOG_PARTITION Map.empty \<and>
    existing_entries demo_env alice hello_id t = (Inr [ser_entry hello_entry], t)"
proof -
  obtain t where put: "message_put demo_env alice hello_entry demo_empty = (Inr (), t)"
    and t: "demo.stored t alice MESSAGE_PARTITION [hello_cid \<mapsto> hello_entry]"
      "existing_entries demo_env alice hello_id t = (Inr [ser_entry hello_entry], t)" using hello_stored by blast
  have "demo.only alice MESSAGE_PARTITION demo_empty t"
    using demo.message_put_refines [OF empty_stored hello_entry_facts(1,2) put] by blast
  from demo.stored_other [OF this _ empty_stored] have "demo.stored t alice EVENTLOG_PARTITION Map.empty"
    using partitions_differ by blast
  with t show ?thesis by blast
qed

lemma hello_id_nonempty [simp]: "hello_id \<noteq> []"
  by (simp add: hello_id_def id_by_nonempty)

lemma hello_record [simp]: "record_cids [hello_cid \<mapsto> hello_entry] hello_id = {hello_cid}"
  using hello_entry_facts(3,4) by (auto simp: record_cids_def)

lemma hello_entry_write: "e_message hello_entry = E_Write hello_saved"
  by (simp add: hello_entry_def write_entry_def write_entry_fields)

lemma hello_at_acceptable:
  assumes "5 < m"
  shows "acceptable demo_env (hello_at m) [ser_entry hello_entry]"
proof -
  have "entry_descriptor (ser_entry hello_entry) = ser_base (wd_base (w_descriptor hello_write))"
    by (simp add: hello_entry_write ser_entry_def entry_descriptor_def hello_saved_def ser_write_def ser_write_descriptor_def)
  moreover have "write_try_from (ser_entry hello_entry) = Inr (ser_write hello_saved)"
    by (simp add: write_try_from_def as_write_def ser_entry_def hello_entry_write)
  ultimately show ?thesis
    using assms
    by (simp add: acceptable_def same_record_def supersedes_def Let_def hello_saved_def hello_initial)
      (simp add: hello_at_def hello_defs ser_base_def ser_write_def ser_write_descriptor_def timestamp_micros_def rfc3339_micros_def)
qed

lemmas hello_again_acceptable = hello_at_acceptable [of 6, simplified]

lemma demo_roots: "\<exists>root. root_cid demo_env rid dc = Inr root"
  using demo_data_fits by (fastforce simp: data_fits_def demo_data.root_cid_Inr)

text \<open>
  C4. An accepted update of a record leaves two messages of it: the initial write, archived, and the new version; every
  other version is gone, and the messages of other records are as they were.
\<close>

theorem update_replaces:
  assumes "node E cell good view" and "stores E cell view s ow MESSAGE_PARTITION msgs"
    and "stores E cell view s ow EVENTLOG_PARTITION evs" and "timestamped n msgs"
    and "w_record_id w \<noteq> []" and "record_cids msgs (w_record_id w) \<noteq> {}" and "write_cid E w = Inr c" and "msgs c = None"
    and "\<not> is_revocation w" and "write_handle E ow w s = (Inr rep, t)"
  shows "\<exists>c0 e0 i d code. c0 \<in> record_cids msgs (w_record_id w) \<and> msgs c0 = Some e0 \<and> e_message e0 = E_Write i \<and>
    is_initial E i = Inr True \<and> rep = reply_with code None \<and>
    code = (if w_data_stream w = None \<and> is_initial E w = Inr True then 204 else 202) \<and>
    stores E cell view t ow MESSAGE_PARTITION ((msgs |` (- record_cids msgs (w_record_id w)))
      (c0 \<mapsto> write_entry E 204 (ser_write i), c \<mapsto> write_entry E code (w\<lparr>w_encoded_data := d\<rparr>)))"
proof -
  have "node.records E cell view s ow msgs" using assms(2,3) node.records_def [OF assms(1)] by blast
  from node.write_handle_update [OF assms(1) this assms(4-10)]
  obtain c0 e0 i d init where u: "c0 \<in> record_cids msgs (w_record_id w)" "msgs c0 = Some e0" "e_message e0 = E_Write i"
    "is_initial E i = Inr True" "is_initial E w = Inr init" "rep = reply_with (write_code init w) None"
    "node.records E cell view t ow ((msgs |` (- record_cids msgs (w_record_id w)))
      (c0 \<mapsto> write_entry E 204 (ser_write i), c \<mapsto> write_entry E (write_code init w) (w\<lparr>w_encoded_data := d\<rparr>)))"
    by blast
  have "write_code init w = (if w_data_stream w = None \<and> is_initial E w = Inr True then 204 else 202)"
    using u(5) by (cases init) (simp_all add: write_code_def)
  with u show ?thesis unfolding node.records_def [OF assms(1)] by blast
qed

lemma hello_again_runs:
  assumes "demo.stored s alice MESSAGE_PARTITION [hello_cid \<mapsto> hello_entry]" and "demo.stored s alice EVENTLOG_PARTITION Map.empty"
    and "existing_entries demo_env alice hello_id s = (Inr [ser_entry hello_entry], s)"
  shows "\<exists>rep t. write_handle demo_env alice hello_again s = (Inr rep, t)"
proof -
  have "demo_node.records s alice [hello_cid \<mapsto> hello_entry]" using assms(1,2) unfolding demo_node.records_def by blast
  then show ?thesis
    using assms(3) hello_again_facts demo_open.write_handle_update_total [OF _ hello_entry_facts(5), of s alice hello_again again_cid
        "[ser_entry hello_entry]" False "hello_again\<lparr>w_encoded_data := Some hello\<rparr>"]
      hello_again_acceptable demo_roots hello_entry_write by simp
qed

theorem update_replaces_witness:
  "\<exists>s t d. write_handle demo_env alice hello_again s = (Inr (reply_with 202 None), t) \<and>
    demo.stored t alice MESSAGE_PARTITION
      [hello_cid \<mapsto> write_entry demo_env 204 (ser_write hello_saved), again_cid \<mapsto> write_entry demo_env 202 (hello_again\<lparr>w_encoded_data := d\<rparr>)]"
proof -
  obtain s where s: "demo.stored s alice MESSAGE_PARTITION [hello_cid \<mapsto> hello_entry]" "demo.stored s alice EVENTLOG_PARTITION Map.empty"
    "existing_entries demo_env alice hello_id s = (Inr [ser_entry hello_entry], s)" using hello_written by blast
  then obtain rep t where run: "write_handle demo_env alice hello_again s = (Inr rep, t)" using hello_again_runs by blast
  from update_replaces [OF demo_node.node_axioms s(1,2) hello_entry_facts(5) _ _ hello_again_facts(1) _ hello_again_facts(8) run]
  obtain d where "rep = reply_with 202 None" "demo.stored t alice MESSAGE_PARTITION (([hello_cid \<mapsto> hello_entry] |` (- {hello_cid}))
      (hello_cid \<mapsto> write_entry demo_env 204 (ser_write hello_saved), again_cid \<mapsto> write_entry demo_env 202 (hello_again\<lparr>w_encoded_data := d\<rparr>)))"
    using hello_again_facts by (auto simp: hello_entry_write)
  moreover have "[hello_cid \<mapsto> hello_entry] |` (- {hello_cid}) = Map.empty" by (auto simp: restrict_map_def)
  ultimately show ?thesis using run by auto
qed



section \<open>Writing, then reading\<close>


lemma hello_checks:
  "write_authorize demo_env alice hello_write demo_empty = (Inr (), demo_empty)"
  "verify_integrity demo_env alice hello_write demo_empty = (Inr (), demo_empty)"
proof -
  show "write_authorize demo_env alice hello_write demo_empty = (Inr (), demo_empty)"
    by (simp add: write_authorize_def hello_defs auth_owner_def auth_author_def sret_def)
  show "verify_integrity demo_env alice hello_write demo_empty = (Inr (), demo_empty)"
    using verify_signed_by [of alice hello_descriptor]
    by (simp add: verify_integrity_def verify_initial_def hello_initial sbind_def lift_def sret_def) (simp add: hello_defs lift_def)
qed


end
