(* ===== verification/Delete_Properties.thy ===== *)
theory Delete_Properties
  imports Write_Properties
begin

text \<open>
  What a delete does to a record: the delete message takes the place of its versions and the initial write stays
  archived; and what it does not do, namely prune descendants or report an error of its task.
\<close>

section \<open>Descendants\<close>

lemma group_children_none: "group_children es [] = Inr m \<Longrightarrow> m = []"
  by (induction es) (auto simp: monad_simps)

text \<open>The grouping finds no group, so nothing is ever purged, and one level of the recursion is all there is.\<close>

lemma delete_children_query:
  "delete_children E (Suc n) ow rid =
     sbind (MessageStore_query E ow (children_query rid)) (\<lambda>(children, _).
     if children = [] then sret () else sbind (lift (group_children children [])) (\<lambda>_. sret ()))"
proof -
  have "sbind (lift (group_children es [])) (\<lambda>groups. sfor groups k) = sbind (lift (group_children es [])) (\<lambda>_. sret ())"
    for es and k :: "string \<times> entry list \<Rightarrow> ('a, unit) io"
    using group_children_none [of es] by (cases "group_children es []") (auto simp: fun_eq_iff sbind_def lift_def)
  then show ?thesis by (simp cong: if_cong)
qed

context pure_reads
begin

lemma delete_children_ro [reads_only_intros]: "reads_only (delete_children E (Suc n) ow rid)"
  unfolding delete_children_query by (intro reads_only_intros)

end

text \<open>
  C39. A prune removes no descendant: whatever children a record has, deleting them leaves the store as it was, and the
  recursion never goes beyond the first level. The code groups the children in a map to which it never adds a group.
\<close>

theorem prune_keeps_children:
  assumes "pure_reads E" and "0 < n"
  shows "snd (delete_children E n ow rid s) = s \<and> delete_children E n ow rid = delete_children E 1 ow rid"
proof -
  obtain m where n: "n = Suc m" using assms(2) by (cases n) auto
  have "snd (delete_children E n ow rid s) = s"
    using pure_reads.delete_children_ro [OF assms(1)] unfolding n reads_only_def by blast
  then show ?thesis unfolding n One_nat_def delete_children_query by simp
qed

theorem prune_keeps_children_witness: "snd (delete_children demo_env 5 alice hello_id demo_empty) = demo_empty"
  by (rule prune_keeps_children [OF demo_reads.pure_reads_axioms, THEN conjunct1]) simp

section \<open>Tasks\<close>

text \<open>
  The task runner reports success for a task that failed: once the task is registered, its error is dropped, so a
  delete that fails half-way is acknowledged as done.
\<close>

theorem task_error_dropped:
  assumes "task_deadline E s = (Inr timeout, s)" and "task_cid E task = Inr tid" and "task_run E ow task s = (Inl (Err e), t)"
  shows "tasks_run E ow task s = (Inr (), t)"
  using assms by (simp add: tasks_run_def sbind_def lift_def via_provider_def task_register_def sret_def)

definition hello_delete :: delete where
  "hello_delete =
     \<lparr>del_descriptor = \<lparr>del_base = \<lparr>base_interface = I_Records, base_method = M_Delete, base_timestamp = 7000\<rparr>,
        del_record_id = hello_id, del_prune = False\<rparr>,
      del_authorization = Authorization (Jws ''|||'' alice) None None None\<rparr>"

theorem task_error_dropped_witness:
  "delete_task demo_env alice hello_delete demo_empty = (Inl (Err (NotFound ''no matching records found'')), demo_empty) \<and>
    tasks_run demo_env alice (RecordsDelete hello_delete) demo_empty = (Inr (), demo_empty)"
proof -
  have "existing_entries demo_env alice hello_id demo_empty = (Inr [], demo_empty)"
    by (rule demo_node.existing_empty [OF empty_stored]) (auto simp: timestamped_def)
  then have none: "delete_task demo_env alice hello_delete demo_empty = (Inl (Err (NotFound ''no matching records found'')), demo_empty)"
    by (auto simp: delete_task_def existing_entries_def hello_delete_def monad_simps Let_def split: prod.splits)
  have "task_deadline demo_env demo_empty = (Inr 60, demo_empty)"
    by (simp add: task_deadline_def EXTEND_SECS_def demo_empty_def)
  from task_error_dropped [OF this, of "RecordsDelete hello_delete" _ alice] none show ?thesis
    by (simp add: delete_cid_def from_value_def)
qed

section \<open>The deleted record\<close>

text \<open>What becomes of a record's message: an initial write is archived, any other is removed.\<close>

definition archived :: "('s, 'b) env \<Rightarrow> entry \<Rightarrow> entry option" where
  "archived E e =
     (case e_message e of
        E_Write v \<Rightarrow> if is_initial E v = Inr True then Some (write_entry E 204 (ser_write v)) else None
      | _ \<Rightarrow> None)"

text \<open>The entry of a delete carries the index fields of the record's initial write as well.\<close>

definition delete_entry :: "('s, 'b) env \<Rightarrow> write_msg \<Rightarrow> delete \<Rightarrow> entry" where
  "delete_entry E w d = add_indexes (write_indexes E w) (entry_from_delete E d)"

lemma add_indexes_message [simp]: "e_message (add_indexes kvs e) = e_message e"
  by (induction kvs e rule: add_indexes.induct) (simp_all add: add_index_def)

lemma wf_add_indexes:
  "wf_fields (e_indexes e) \<Longrightarrow> ''message_cid'' \<notin> fst ` set kvs \<Longrightarrow> wf_fields (e_indexes (add_indexes kvs e))"
  by (induction kvs e rule: add_indexes.induct) (auto simp: add_index_def wf_fields_insert)

lemma wf_delete_indexes: "wf_fields (delete_indexes E d)"
  unfolding delete_indexes_def Let_def by (intro wf_fields_insert wf_fields_Nil) simp_all

lemma wf_delete_entry: "wf_fields (e_indexes (delete_entry E w d))"
proof -
  have "''message_cid'' \<notin> fst ` set (write_indexes E w)"
    using wf_write_indexes [of E w] by (simp add: wf_fields_def)
  then show ?thesis
    unfolding delete_entry_def by (intro wf_add_indexes) (simp_all add: entry_from_delete_def wf_delete_indexes)
qed

lemma delete_entry_facts:
  assumes "delete_cid E d = Inr c"
  shows "entry_cid E (delete_entry E w d) = Inr c" and "wf_fields (e_indexes (delete_entry E w d))"
  using assms by (simp_all add: entry_cid_def delete_entry_def entry_from_delete_def)
    (use wf_delete_entry in \<open>simp add: delete_entry_def entry_from_delete_def\<close>)

lemma provider_err_Inr_iff: "provider_err f m s = (Inr a, t) \<longleftrightarrow> m s = (Inr a, t)"
  by (auto simp: provider_err_def split: prod.splits sum.splits failure.splits)

lemma ser_entry_timestamp:
  "base_timestamp (entry_descriptor (ser_entry e)) = rfc3339_micros (base_timestamp (entry_descriptor e))"
  by (cases "e_message e") (simp_all add: ser_entry_def entry_descriptor_def ser_write_def ser_write_descriptor_def ser_delete_def
      ser_delete_descriptor_def ser_configure_def ser_base_def)

lemma entry_from_delete_facts:
  "as_write (entry_from_delete E d) = None" "entry_descriptor (entry_from_delete E d) = del_base (del_descriptor d)"
  by (simp_all add: entry_from_delete_def as_write_def entry_descriptor_def)

context node
begin

lemma records_put:
  assumes st: "records s ow msgs" and cid: "entry_cid E e = Inr c" and wf: "wf_fields (e_indexes e)"
    and put: "message_put E ow e s = (Inr (), t)"
  shows "records t ow (msgs(c \<mapsto> e))"
proof -
  obtain evs where st': "stored s ow MESSAGE_PARTITION msgs" "stored s ow EVENTLOG_PARTITION evs"
    using st by (auto simp: records_def)
  note m = message_put_refines [OF st'(1) cid wf put]
  then have "stored t ow EVENTLOG_PARTITION evs" using st'(2) partitions_differ by (blast intro: stored_other)
  with m show ?thesis by (auto simp: records_def)
qed

lemma delete_one_records:
  assumes st: "records s ow msgs" and cid: "entry_cid E e = Inr c" and latest: "as_write latest = None"
    and earlier: "base_timestamp (entry_descriptor (ser_entry e)) < base_timestamp (entry_descriptor latest)"
    and run: "delete_one E ow latest (ser_entry e) s = (Inr (), t)"
  shows "records t ow (msgs(c := archived E e))"
proof -
  from run earlier obtain x where dd: "delete_data E ow (ser_entry e) latest s = (Inr (), x)"
    and rest: "sbind (lift (write_try_from (ser_entry e))) (\<lambda>w. sbind (lift (is_initial E w)) (\<lambda>init.
        if init then MessageStore_put E ow (write_entry E 204 w)
        else sbind (lift (entry_cid E (ser_entry e))) (\<lambda>cid. sbind (MessageStore_delete E ow cid) (\<lambda>_. EventLog_delete E ow cid)))) x = (Inr (), t)"
    by (auto simp: delete_one_def sbind_Inr_iff [of "delete_data E ow (ser_entry e) latest"] write_entry_def cong: if_cong)
  then obtain v where v: "e_message e = E_Write v"
    by (cases "e_message e") (auto simp: delete_data_def as_write_def ser_entry_def monad_simps)
  then have w: "write_try_from (ser_entry e) = Inr (ser_write v)" by (simp add: write_try_from_def as_write_def ser_entry_def)
  have "only ow DATA_PARTITION s x"
    using dd latest by (auto simp: delete_data_def monad_simps provider_err_Inr_iff dest!: data_delete_only)
  with st have x: "records x ow msgs" by (rule records_data)
  have vc: "write_cid E (ser_write v) = Inr c" using cid v by (simp add: entry_cid_def)
  from rest w obtain init where i: "is_initial E v = Inr init" by (auto simp: monad_simps)
  show ?thesis
  proof (cases init)
    case True
    with rest w i have "message_put E ow (write_entry E 204 (ser_write v)) x = (Inr (), t)" by (auto simp: monad_simps)
    from records_put [OF x write_entry_facts [OF vc] this] show ?thesis using v i True by (simp add: archived_def)
  next
    case False
    with rest w i cid obtain y where "message_delete E ow c x = (Inr (), y)" "event_delete E ow c y = (Inr (), t)"
      by (auto simp: monad_simps)
    from records_remove [OF x cid this(1) only_refl this(2)] show ?thesis using v i False by (simp add: archived_def)
  qed
qed

lemma delete_earlier_records:
  assumes "records s ow msgs" and "\<And>c. c \<in> set cs \<Longrightarrow> entry_cid E (f c) = Inr c" and "as_write latest = None"
    and "\<And>c. c \<in> set cs \<Longrightarrow> base_timestamp (entry_descriptor (ser_entry (f c))) < base_timestamp (entry_descriptor latest)"
    and "delete_earlier E ow latest (map (\<lambda>c. ser_entry (f c)) cs) s = (Inr (), t)"
  shows "records t ow (\<lambda>c. if c \<in> set cs then archived E (f c) else msgs c)"
  using assms
proof (induction cs arbitrary: s msgs)
  case (Cons c cs)
  from Cons.prems(5) obtain x where x: "delete_one E ow latest (ser_entry (f c)) s = (Inr (), x)"
    and r: "delete_earlier E ow latest (map (\<lambda>c. ser_entry (f c)) cs) x = (Inr (), t)"
    by (auto simp: delete_earlier_def monad_simps)
  have x': "records x ow (msgs(c := archived E (f c)))"
    using Cons.prems(2,4) by (intro delete_one_records [OF Cons.prems(1) _ Cons.prems(3) _ x]) simp_all
  have "records t ow (\<lambda>c'. if c' \<in> set cs then archived E (f c') else (msgs(c := archived E (f c))) c')"
    using Cons.prems(2-4) by (intro Cons.IH [OF x' _ _ _ r]) simp_all
  moreover have "(\<lambda>c'. if c' \<in> set cs then archived E (f c') else (msgs(c := archived E (f c))) c') =
      (\<lambda>c'. if c' \<in> set (c # cs) then archived E (f c') else msgs c')" by auto
  ultimately show ?case by (simp only:)
qed (simp add: delete_earlier_def sret_def)

text \<open>The task up to its last part: the delete message is stored, then the earlier messages are dealt with.\<close>

lemma delete_task_steps:
  assumes st: "records s ow msgs" and ts: "timestamped n msgs" and rid: "del_record_id (del_descriptor d) \<noteq> []"
    and new: "delete_cid E d = Inr c" and fuel: "0 < walk_fuel E" and run: "delete_task E ow d s = (Inr (), t)"
  shows "\<exists>cs i x. cs \<noteq> [] \<and> distinct cs \<and> set cs = record_cids msgs (del_record_id (del_descriptor d)) \<and>
    e_message (the (msgs (hd cs))) = E_Write i \<and> is_initial E i = Inr True \<and>
    records x ow (msgs(c \<mapsto> delete_entry E (ser_write i) d)) \<and>
    delete_earlier E ow (entry_from_delete E d) (map (\<lambda>c. ser_entry (the (msgs c))) cs) x = (Inr (), t)"
proof -
  let ?rid = "del_record_id (del_descriptor d)"
  have msgs: "stored s ow MESSAGE_PARTITION msgs" using st by (simp add: records_def)
  from existing_stored [OF msgs ts rid] obtain cs
    where "existing_entries E ow ?rid s = (Inr (map (\<lambda>c. ser_entry (the (msgs c))) cs), s)"
      and cs: "distinct cs" "set cs = record_cids msgs ?rid"
    by (auto simp: record_cids_def selected_def selects_existing)
  then obtain cur where q: "MessageStore_query E ow (existing_query ?rid) s = (Inr (map (\<lambda>c. ser_entry (the (msgs c))) cs, cur), s)"
    by (auto simp: existing_entries_def sbind_Inr_iff sret_def)
  from run q obtain i' x1 x2 x3 x4 where ne: "cs \<noteq> []" and i': "write_try_from (ser_entry (the (msgs (hd cs)))) = Inr i'" "is_initial E i' = Inr True"
    and put: "message_put E ow (delete_entry E i' d) s = (Inr (), x1)" and app: "event_append E ow (delete_entry E i' d) x1 = (Inr (), x2)"
    and emit: "es_emit E ow (delete_entry E i' d) x2 = (Inr (), x3)"
    and ch: "(if del_prune (del_descriptor d) then delete_children E (walk_fuel E) ow ?rid else sret ()) x3 = (Inr (), x4)"
    and de: "delete_earlier E ow (entry_from_delete E d) (map (\<lambda>c. ser_entry (the (msgs c))) cs) x4 = (Inr (), t)"
    by (auto simp: delete_task_def sbind_run Let_def delete_entry_def [symmetric] sfail_def sbind_Inr_iff lift_eq_iff rguard_Inr_iff
        hd_map via_provider_Inr_iff with_err_Inr_iff split: if_splits)
  obtain i where i: "e_message (the (msgs (hd cs))) = E_Write i" "i' = ser_write i"
    using i'(1) by (cases "e_message (the (msgs (hd cs)))") (auto simp: write_try_from_def as_write_def ser_entry_def monad_simps)
  have "records x2 ow (msgs(c \<mapsto> delete_entry E i' d))"
    by (rule records_append [OF st delete_entry_facts [OF new] put app])
  moreover have "view x3 = view x2" using emit emit_view [of ow "delete_entry E i' d" x2] by simp
  moreover have "x4 = x3"
    using ch fuel delete_children_ro [of "walk_fuel E - 1" ow ?rid] by (auto simp: sret_def split: if_splits dest: reads_only_state)
  ultimately have "records x4 ow (msgs(c \<mapsto> delete_entry E (ser_write i) d))" using records_view i(2) by blast
  moreover have "is_initial E i = Inr True" using i'(2) i(2) by simp
  ultimately show ?thesis using ne cs i(1) de by blast
qed

lemma delete_task_records:
  assumes st: "records s ow msgs" and ts: "timestamped n msgs" and rid: "del_record_id (del_descriptor d) \<noteq> []"
    and new: "delete_cid E d = Inr c" "msgs c = None" and fuel: "0 < walk_fuel E"
    and earlier: "\<forall>c e. c \<in> record_cids msgs (del_record_id (del_descriptor d)) \<longrightarrow> msgs c = Some e \<longrightarrow>
      rfc3339_micros (base_timestamp (entry_descriptor e)) < base_timestamp (del_base (del_descriptor d))"
    and run: "delete_task E ow d s = (Inr (), t)"
  shows "\<exists>c0 e0 i. c0 \<in> record_cids msgs (del_record_id (del_descriptor d)) \<and> msgs c0 = Some e0 \<and> e_message e0 = E_Write i \<and>
    is_initial E i = Inr True \<and>
    records t ow ((\<lambda>c. if c \<in> record_cids msgs (del_record_id (del_descriptor d)) then archived E (the (msgs c)) else msgs c)
      (c \<mapsto> delete_entry E (ser_write i) d))"
proof -
  let ?R = "record_cids msgs (del_record_id (del_descriptor d))"
  from delete_task_steps [OF st ts rid new(1) fuel run] obtain cs i x
    where ne: "cs \<noteq> []" and cs: "set cs = ?R" and i: "e_message (the (msgs (hd cs))) = E_Write i" "is_initial E i = Inr True"
      and x: "records x ow (msgs(c \<mapsto> delete_entry E (ser_write i) d))"
      and de: "delete_earlier E ow (entry_from_delete E d) (map (\<lambda>c. ser_entry (the (msgs c))) cs) x = (Inr (), t)" by blast
  have stored: "\<exists>e. msgs c' = Some e \<and> entry_cid E e = Inr c'" if "c' \<in> ?R" for c'
    using that st by (auto simp: record_cids_def records_def stores_def)
  have t: "records t ow (\<lambda>c'. if c' \<in> set cs then archived E (the (msgs c')) else (msgs(c \<mapsto> delete_entry E (ser_write i) d)) c')"
    using stored earlier cs
    by (intro delete_earlier_records [OF x _ entry_from_delete_facts(1) _ de]) (fastforce simp: entry_from_delete_facts ser_entry_timestamp)+
  have "c \<notin> ?R" using new(2) by (simp add: record_cids_def)
  then have "(\<lambda>c'. if c' \<in> set cs then archived E (the (msgs c')) else (msgs(c \<mapsto> y)) c') =
      (\<lambda>c. if c \<in> ?R then archived E (the (msgs c)) else msgs c)(c \<mapsto> y)" for y
    using cs by auto
  with t have "records t ow ((\<lambda>c. if c \<in> ?R then archived E (the (msgs c)) else msgs c)(c \<mapsto> delete_entry E (ser_write i) d))"
    by (simp only:)
  moreover have "hd cs \<in> ?R" using ne cs hd_in_set [OF ne] by simp
  ultimately show ?thesis using i stored [of "hd cs"] by auto
qed

end

context open_node
begin

lemma delete_one_total:
  assumes st: "records s ow msgs" and cid: "entry_cid E e = Inr c" and e: "e_message e = E_Write v" "is_initial E v = Inr init"
    and latest: "as_write latest = None" and roots: "\<And>rid dc. \<exists>root. root_cid E rid dc = Inr root"
  shows "\<exists>t. delete_one E ow latest (ser_entry e) s = (Inr (), t)"
proof -
  have w: "write_try_from (ser_entry e) = Inr (ser_write v)" "as_write (ser_entry e) = Some (ser_write v)"
    by (simp_all add: write_try_from_def as_write_def ser_entry_def e)
  obtain x where x: "data_delete E ow (w_record_id (ser_write v)) (wd_data_cid (w_descriptor (ser_write v))) s = (Inr (), x)"
    using data_delete_total roots by metis
  then have dd: "delete_data E ow (ser_entry e) latest s = (Inr (), x)"
    by (simp add: delete_data_def w latest sbind_def lift_def provider_err_def)
  have r: "records x ow msgs" using records_data [OF st data_delete_only [OF x]] .
  have vc: "write_cid E (ser_write v) = Inr c" using cid e by (simp add: entry_cid_def)
  have "\<exists>t. message_put E ow (write_entry E 204 (ser_write v)) x = (Inr (), t)"
    using records_append_total [OF r write_entry_facts [OF vc]] by blast
  moreover have "\<exists>y t. message_delete E ow c x = (Inr (), y) \<and> event_delete E ow c y = (Inr (), t)"
  proof -
    obtain evs where st': "stored x ow MESSAGE_PARTITION msgs" "stored x ow EVENTLOG_PARTITION evs"
      using r by (auto simp: records_def)
    obtain y where y: "message_delete E ow c x = (Inr (), y)" using message_delete_total [OF st'(1) cid] by blast
    have "stored y ow EVENTLOG_PARTITION evs"
      using message_delete_refines [OF st'(1) cid y] st'(2) partitions_differ by (blast intro: stored_other)
    with y event_delete_total [OF _ cid] show ?thesis by blast
  qed
  ultimately show ?thesis
    using dd w e(2) cid
    by (cases init) (auto simp: delete_one_def sbind_def lift_def sret_def via_provider_def write_entry_def)
qed

lemma delete_task_total:
  assumes st: "records s ow msgs" and q: "existing_entries E ow (del_record_id (del_descriptor d)) s = (Inr [ser_entry e], s)"
    and e: "entry_cid E e = Inr c0" "e_message e = E_Write i" "is_initial E i = Inr True" and new: "delete_cid E d = Inr c"
    and later: "\<not> base_timestamp (del_base (del_descriptor d)) < base_timestamp (entry_descriptor (ser_entry e))"
    and prune: "\<not> del_prune (del_descriptor d)" and roots: "\<And>rid dc. \<exists>root. root_cid E rid dc = Inr root"
  shows "\<exists>t. delete_task E ow d s = (Inr (), t)"
proof -
  let ?de = "delete_entry E (ser_write i) d"
  obtain cur where q': "MessageStore_query E ow (existing_query (del_record_id (del_descriptor d))) s = (Inr ([ser_entry e], cur), s)"
    using q by (auto simp: existing_entries_def sbind_Inr_iff sret_def)
  have w: "write_try_from (ser_entry e) = Inr (ser_write i)" by (simp add: write_try_from_def as_write_def ser_entry_def e)
  obtain x y where put: "message_put E ow ?de s = (Inr (), x)" "event_append E ow ?de x = (Inr (), y)"
    using records_append_total [OF st delete_entry_facts [OF new]] by blast
  obtain z where z: "es_emit E ow ?de y = (Inr (), z)" using emits by blast
  have "view z = view y" using z emit_view [of ow ?de y] by simp
  then have "records z ow (msgs(c \<mapsto> ?de))" using records_append [OF st delete_entry_facts [OF new] put] records_view by blast
  from delete_one_total [OF this e _ roots, of "entry_from_delete E d"]
  obtain t where "delete_one E ow (entry_from_delete E d) (ser_entry e) z = (Inr (), t)"
    by (auto simp: entry_from_delete_def as_write_def)
  with q' w e(3) put z later prune show ?thesis
    by (auto simp: delete_task_def sbind_def lift_def delete_entry_def [symmetric] via_provider_def with_err_def sret_def Let_def
        delete_earlier_def)
qed

end

text \<open>
  C23. A delete, when its task succeeds and it is later than the record's versions, leaves of the record the delete message
  and the initial write, archived; the delete message can be found by the index fields of the initial write.
\<close>

theorem delete_replaces:
  assumes "node E cell good view" and "stores E cell view s ow MESSAGE_PARTITION msgs"
    and "stores E cell view s ow EVENTLOG_PARTITION evs" and "timestamped n msgs"
    and "del_record_id (del_descriptor d) \<noteq> []" and "delete_cid E d = Inr c" and "msgs c = None" and "0 < walk_fuel E"
    and "\<forall>c e. c \<in> record_cids msgs (del_record_id (del_descriptor d)) \<longrightarrow> msgs c = Some e \<longrightarrow>
      rfc3339_micros (base_timestamp (entry_descriptor e)) < base_timestamp (del_base (del_descriptor d))"
    and "delete_task E ow d s = (Inr (), t)"
  shows "\<exists>c0 e0 i. c0 \<in> record_cids msgs (del_record_id (del_descriptor d)) \<and> msgs c0 = Some e0 \<and> e_message e0 = E_Write i \<and>
    is_initial E i = Inr True \<and>
    stores E cell view t ow MESSAGE_PARTITION
      ((\<lambda>c. if c \<in> record_cids msgs (del_record_id (del_descriptor d)) then archived E (the (msgs c)) else msgs c)
        (c \<mapsto> delete_entry E (ser_write i) d))"
proof -
  have "node.records E cell view s ow msgs" using assms(2,3) node.records_def [OF assms(1)] by blast
  from node.delete_task_records [OF assms(1) this assms(4-10)] show ?thesis
    unfolding node.records_def [OF assms(1)] by blast
qed

definition bye_cid :: string where
  "bye_cid = demo_cid (P_Delete (ser_delete hello_delete))"

lemma hello_delete_facts:
  "delete_cid demo_env hello_delete = Inr bye_cid" "bye_cid \<noteq> hello_cid" "del_record_id (del_descriptor hello_delete) = hello_id"
  "\<not> del_prune (del_descriptor hello_delete)" "base_timestamp (del_base (del_descriptor hello_delete)) = 7000"
  by (simp_all add: delete_cid_def from_value_def bye_cid_def hello_delete_def hello_cid_def)

lemma hello_entry_time: "base_timestamp (entry_descriptor hello_entry) = 5000"
  by (simp add: entry_descriptor_def hello_entry_write hello_saved_def hello_defs)

theorem delete_replaces_witness:
  "\<exists>s t. delete_task demo_env alice hello_delete s = (Inr (), t) \<and> demo.stored t alice MESSAGE_PARTITION
    [hello_cid \<mapsto> write_entry demo_env 204 (ser_write hello_saved), bye_cid \<mapsto> delete_entry demo_env (ser_write hello_saved) hello_delete]"
proof -
  obtain s where s: "demo.stored s alice MESSAGE_PARTITION [hello_cid \<mapsto> hello_entry]" "demo.stored s alice EVENTLOG_PARTITION Map.empty"
    "existing_entries demo_env alice hello_id s = (Inr [ser_entry hello_entry], s)" using hello_written by blast
  have init: "is_initial demo_env hello_saved = Inr True" by (simp add: hello_saved_def hello_initial)
  have "demo_node.records s alice [hello_cid \<mapsto> hello_entry]" using s unfolding demo_node.records_def by blast
  from demo_open.delete_task_total [OF this _ hello_entry_facts(1) hello_entry_write init hello_delete_facts(1) _ hello_delete_facts(4) demo_roots]
  obtain t where run: "delete_task demo_env alice hello_delete s = (Inr (), t)"
    using s(3) hello_entry_time by (auto simp: hello_delete_facts entry_descriptor_def ser_entry_def hello_entry_write ser_write_def
        ser_write_descriptor_def ser_base_def rfc3339_micros_def timestamp_micros_def)
  have "\<exists>c0 e0 i. c0 \<in> {hello_cid} \<and> [hello_cid \<mapsto> hello_entry] c0 = Some e0 \<and> e_message e0 = E_Write i \<and>
    is_initial demo_env i = Inr True \<and> demo.stored t alice MESSAGE_PARTITION
      ((\<lambda>c. if c \<in> {hello_cid} then archived demo_env (the ([hello_cid \<mapsto> hello_entry] c)) else [hello_cid \<mapsto> hello_entry] c)
        (bye_cid \<mapsto> delete_entry demo_env (ser_write i) hello_delete))"
    using delete_replaces [OF demo_node.node_axioms s(1,2) hello_entry_facts(5) _ hello_delete_facts(1) _ _ _ run]
    by (auto simp: hello_delete_facts hello_entry_time rfc3339_micros_def timestamp_micros_def)
  moreover have "(\<lambda>c. if c \<in> {hello_cid} then archived demo_env (the ([hello_cid \<mapsto> hello_entry] c)) else [hello_cid \<mapsto> hello_entry] c) =
      [hello_cid \<mapsto> write_entry demo_env 204 (ser_write hello_saved)]"
    by (auto simp: archived_def hello_entry_write init)
  ultimately show ?thesis using run hello_entry_write by auto
qed

section \<open>Deleting twice\<close>

text \<open>
  A record that is deleted cannot be deleted again, not even pruned: the handler lets a prune of a deleted record
  pass its check and then fails to take the stored delete message for a write. The store is left as it was.
\<close>

theorem deleted_stays_deleted:
  assumes "MessageStore_query E ow (delete_query (del_record_id (del_descriptor d))) s = (Inr (latest # es, cur), s)"
    and "e_message latest = E_Delete x"
  shows "\<exists>e. delete_handle E ow d s = (Inl (Err e), s)"
proof -
  have "\<exists>e. write_try_from latest = Inl (Err e)" using assms(2) by (auto simp: write_try_from_def as_write_def some_or_def)
  moreover have "check_not_deleted d latest = Inr () \<or> (\<exists>e. check_not_deleted d latest = Inl (Err e))"
    using assms(2) by (auto simp: check_not_deleted_def delete_try_from_def as_delete_def rbind_def rguard_def some_or_def)
  ultimately show ?thesis
    using assms(1) by (auto simp: delete_handle_def sbind_run sbind_def lift_def sfail_def)
qed

lemma delete_query_sets:
  "q_match_sets (delete_query rid) =
     [\<lparr>mst_inner = [match_eq ''initial'' ''false'', match_eq ''interface'' ''Records'', match_eq ''recordId'' rid],
       mst_index = Some (''recordId'', rid)\<rparr>]"
  "q_sort (delete_query rid) = TimestampAsc" "q_pagination (delete_query rid) = None"
  by (simp_all add: delete_query_def records_query_build_def add_filter_def records_query_builder_new_def
      builder_match_set_def match_set_from_def opt_match_def records_filter_new_def filter_is_concise_def
      filter_as_concise_def Let_def bool_str_def)

lemma selects_delete:
  "selects E (delete_query rid) c fs \<longleftrightarrow>
    has_field fs ''initial'' ''false'' \<and> has_field fs ''interface'' ''Records'' \<and> has_field fs ''recordId'' rid"
  using selects_equal [OF delete_query_sets(1) [of rid], where f = "''recordId''" and v = rid
      and eqs = "[(''initial'', ''false''), (''interface'', ''Records''), (''recordId'', rid)]"] by simp

definition bye_entry :: entry where
  "bye_entry = entry_from_delete demo_env hello_delete"

lemma bye_entry_facts:
  "entry_cid demo_env bye_entry = Inr bye_cid" "wf_fields (e_indexes bye_entry)" "timestamped 20 [bye_cid \<mapsto> bye_entry]"
  "has_field (e_indexes bye_entry) ''initial'' ''false''" "has_field (e_indexes bye_entry) ''interface'' ''Records''"
  "has_field (e_indexes bye_entry) ''recordId'' hello_id"
  by (simp_all add: bye_entry_def entry_cid_def entry_from_delete_def hello_delete_facts wf_delete_indexes timestamped_def has_field_def)
    (simp_all add: delete_indexes_def hello_delete_def demo_micros_def timestamp_micros_def decimal.simps [of 7])

theorem deleted_stays_deleted_witness:
  "\<exists>s e. message_put demo_env alice bye_entry demo_empty = (Inr (), s) \<and>
    delete_handle demo_env alice (hello_delete\<lparr>del_descriptor := (del_descriptor hello_delete)\<lparr>del_prune := True\<rparr>\<rparr>) s = (Inl (Err e), s)"
proof -
  let ?m = "[bye_cid \<mapsto> bye_entry]" and ?q = "delete_query hello_id"
  obtain s where put: "message_put demo_env alice bye_entry demo_empty = (Inr (), s)"
    using demo_roomy.message_put_total [OF empty_stored bye_entry_facts(1,2)] by blast
  have st: "demo.stored s alice MESSAGE_PARTITION ?m"
    using demo.message_put_refines [OF empty_stored bye_entry_facts(1,2) put] by simp
  from index_store.query_by_field [OF demo.index_store_axioms st bye_entry_facts(3) delete_query_sets(1) [of hello_id], of "''recordId''" hello_id]
    delete_query_sets [of hello_id]
  obtain cs where run: "message_query demo_env alice ?q s = (Inr (map (\<lambda>c. ser_entry (the (?m c))) cs, None), s)"
    and cs: "distinct cs" "set cs = selected demo_env ?q ?m"
    by (auto simp: total_matcher_def)
  have "selected demo_env ?q ?m = {bye_cid}" using bye_entry_facts by (auto simp: selected_def selects_delete)
  with cs have "cs = [bye_cid]" by (intro distinct_single) auto
  with run have "MessageStore_query demo_env alice ?q s = (Inr ([ser_entry bye_entry], None), s)" by (simp add: via_provider_run)
  moreover have "e_message (ser_entry bye_entry) = E_Delete (ser_delete hello_delete)"
    by (simp add: ser_entry_def bye_entry_def entry_from_delete_def)
  ultimately show ?thesis
    using put deleted_stays_deleted [of demo_env alice "hello_delete\<lparr>del_descriptor := (del_descriptor hello_delete)\<lparr>del_prune := True\<rparr>\<rparr>" s]
    by (auto simp: hello_delete_facts)
qed

end
