(* ===== verification/Protocol_Properties.thy ===== *)
theory Protocol_Properties
  imports Full_Scan Delete_Properties
begin

text \<open>
  Protocol definitions: paths of rule sets compose, a definition that passes validation is sound in what its rules
  refer to, and a configured protocol is the one that is looked up afterwards.
\<close>

section \<open>Paths\<close>

lemma rule_set_at_plain: "CHR ''/'' \<notin> set p \<Longrightarrow> rule_set_at p st = map_of st p"
  by (simp add: rule_set_at.simps [of p] split_once_None [THEN iffD2])

lemma rule_set_at_segment:
  "CHR ''/'' \<notin> set p \<Longrightarrow> rule_set_at (p @ CHR ''/'' # q) st =
    (case map_of st p of None \<Rightarrow> None | Some rs \<Rightarrow> rule_set_at q (rs_structure rs))"
  by (simp add: rule_set_at.simps [of "p @ CHR ''/'' # q"])

text \<open>
  Protocol paths compose: the rule set at \<open>p/q\<close> is the one at \<open>q\<close> in the structure of the rule set at \<open>p\<close>.
\<close>

theorem rule_set_at_compose:
  "rule_set_at (p @ CHR ''/'' # q) st =
    (case rule_set_at p st of None \<Rightarrow> None | Some rs \<Rightarrow> rule_set_at q (rs_structure rs))"
proof (induction p st rule: rule_set_at.induct)
  case (1 p st)
  show ?case
  proof (cases "split_once (CHR ''/'') p")
    case None
    then show ?thesis by (simp add: split_once_None rule_set_at_plain rule_set_at_segment)
  next
    case (Some ab)
    obtain a b where ab: "ab = (a, b)" by (cases ab)
    with split_once_Some [of "CHR ''/''" p a b] Some have p: "p = a @ CHR ''/'' # b" "CHR ''/'' \<notin> set a" by simp_all
    have "rule_set_at (p @ CHR ''/'' # q) st = (case map_of st a of None \<Rightarrow> None
        | Some rs \<Rightarrow> rule_set_at (b @ CHR ''/'' # q) (rs_structure rs))"
      using rule_set_at_segment [OF p(2), of "b @ CHR ''/'' # q" st] by (simp add: p(1))
    then show ?thesis
      using "1.IH" [OF Some ab [symmetric]] rule_set_at_segment [OF p(2), of b st] by (cases "map_of st a") (simp_all add: p(1))
  qed
qed

section \<open>Validation\<close>

text \<open>Names of rule sets are distinct at each level, not empty, and contain no separator.\<close>

fun well_named :: "(string \<times> rule_set) list \<Rightarrow> bool" where
  "well_named [] \<longleftrightarrow> True"
| "well_named ((name, RuleSet en ac ro si ta sub) # st) \<longleftrightarrow>
     name \<noteq> [] \<and> CHR ''/'' \<notin> set name \<and> name \<notin> fst ` set st \<and> well_named sub \<and> well_named st"

text \<open>A role: the path of a rule set that is marked as one.\<close>

definition is_role :: "(string \<times> rule_set) list \<Rightarrow> string \<Rightarrow> bool" where
  "is_role st p \<longleftrightarrow> (\<exists>rs. rule_set_at p st = Some rs \<and> rs_role rs \<noteq> None)"

lemma rule_set_at_Cons:
  assumes "name \<notin> fst ` set st" and "rule_set_at p st = Some rs"
  shows "rule_set_at p ((name, r) # st) = Some rs"
proof -
  have "map_of st name = None" using assms(1) by (simp add: map_of_eq_None_iff)
  with assms(2) show ?thesis
    unfolding rule_set_at.simps [of p] by (auto split: option.splits prod.splits)
qed

lemma is_role_Cons: "name \<notin> fst ` set st \<Longrightarrow> is_role st p \<Longrightarrow> is_role ((name, r) # st) p"
  using rule_set_at_Cons by (auto simp: is_role_def)

lemma is_role_nested:
  "CHR ''/'' \<notin> set name \<Longrightarrow> is_role (rs_structure r) p \<Longrightarrow> is_role ((name, r) # st) (name @ CHR ''/'' # p)"
  by (simp add: is_role_def rule_set_at_segment)

lemma extend_path_assoc: "name \<noteq> [] \<Longrightarrow> extend_path (extend_path path name) p = extend_path path (name @ CHR ''/'' # p)"
  by (simp add: extend_path_def)

lemma role_paths_roles:
  "role_paths path st roles = Inr out \<Longrightarrow> well_named st \<Longrightarrow> r \<in> set out \<Longrightarrow>
     r \<in> set roles \<or> (\<exists>p. r = extend_path path p \<and> is_role st p)"
  "role_paths_in path st roles = Inr out \<Longrightarrow> well_named st \<Longrightarrow> r \<in> set out \<Longrightarrow>
     r \<in> set roles \<or> (\<exists>p. r = extend_path path p \<and> is_role st p)"
proof (induction path st roles and path st roles arbitrary: out and out rule: role_paths_role_paths_in.induct)
  case (1 path st roles)
  then show ?case by (auto split: if_splits)
next
  case (2 path roles)
  then show ?case by simp
next
  case (3 path name en ac ro si ta sub st roles)
  let ?rs = "RuleSet en ac ro si ta sub"
  from "3.prems"(2) have n: "name \<noteq> []" "CHR ''/'' \<notin> set name" "name \<notin> fst ` set st" "well_named sub" "well_named st" by simp_all
  from "3.prems"(1) obtain mid where mid: "(if ro \<noteq> None then Inr (roles @ [extend_path path name])
      else role_paths (extend_path path name) sub roles) = Inr mid" "role_paths_in path st mid = Inr out"
    by (auto simp: monad_simps Let_def)
  from "3.IH"(2) [OF refl mid(2) n(5) "3.prems"(3)] is_role_Cons [OF n(3)]
  consider "r \<in> set mid" | p where "r = extend_path path p" "is_role ((name, ?rs) # st) p" by blast
  then show ?case
  proof cases
    case 1
    show ?thesis
    proof (cases "ro = None")
      case True
      from "3.IH"(1) [OF refl _ _ n(4) 1] mid(1) True
      have "r \<in> set roles \<or> (\<exists>p. r = extend_path (extend_path path name) p \<and> is_role sub p)" by auto
      then show ?thesis using is_role_nested [OF n(2), of ?rs] extend_path_assoc [OF n(1)] by auto
    next
      case False
      then have "is_role ((name, ?rs) # st) name" by (simp add: is_role_def rule_set_at_plain [OF n(2)])
      then show ?thesis using mid(1) False 1 by auto
    qed
  next
    case 2
    then show ?thesis by blast
  qed
qed

lemma validate_nested_all:
  "validate_nested E st path types roles = Inr () \<longleftrightarrow>
     (\<forall>(name, rs)\<in>set st. name \<in> set types \<and> validate_rule_set E rs (extend_path path name) types roles = Inr ())"
  by (induction st) (auto simp: monad_simps)

lemma validate_rule_set_parts:
  "validate_rule_set E rs path types roles = Inr () \<Longrightarrow>
     (\<forall>s. rs_size rs = Some s \<longrightarrow> valid_size s) \<and> (\<forall>as. rs_actions rs = Some as \<longrightarrow> validate_actions roles as = Inr ()) \<and>
     validate_nested E (rs_structure rs) path types roles = Inr ()"
  by (cases rs) (auto simp: monad_simps split: option.splits)

lemma validated_below:
  "(\<And>name rs. (name, rs) \<in> set st \<Longrightarrow> \<exists>path. validate_rule_set E rs path types roles = Inr ()) \<Longrightarrow>
   rule_set_at p st = Some rs \<Longrightarrow> \<exists>path. validate_rule_set E rs path types roles = Inr ()"
proof (induction p st rule: rule_set_at.induct)
  case (1 p st)
  show ?case
  proof (cases "split_once (CHR ''/'') p")
    case None
    then have "map_of st p = Some rs" using "1.prems"(2) by (simp add: rule_set_at.simps [of p])
    then show ?thesis using "1.prems"(1) by (blast dest: map_of_SomeD)
  next
    case (Some ab)
    obtain a b where ab: "ab = (a, b)" by (cases ab)
    from "1.prems"(2) Some ab obtain r where r: "map_of st a = Some r" "rule_set_at b (rs_structure r) = Some rs"
      by (auto simp: rule_set_at.simps [of p] split: option.splits)
    obtain path where "validate_rule_set E r path types roles = Inr ()" using "1.prems"(1) r(1) by (blast dest: map_of_SomeD)
    then have "\<exists>path. validate_rule_set E x path types roles = Inr ()" if "(name, x) \<in> set (rs_structure r)" for name x
      using that validate_rule_set_parts by (fastforce simp: validate_nested_all)
    with "1.IH" [OF Some ab [symmetric] r(1) _ r(2)] show ?thesis by blast
  qed
qed

lemma validate_actions_all:
  "validate_actions roles as = Inr () \<Longrightarrow> a \<in> set as \<Longrightarrow> \<exists>others. validate_action roles a others = Inr ()"
  by (induction as) (auto simp: monad_simps)

lemma rfor_Inr_iff: "rfor xs f = Inr () \<longleftrightarrow> (\<forall>x\<in>set xs. f x = Inr ())"
  by (induction xs) (auto simp: monad_simps)

text \<open>
  C25. In a definition that passes validation, every rule set anywhere in the structure is sound: its size range is not
  empty, a role that an action rule names is the path of a role, rules for anyone name no record, rules for authors name
  one, and who may update or delete may create.
\<close>

theorem validated_definition_sound:
  assumes "validate_structure E d = Inr ()" and "well_named (def_structure d)" and "rule_set_at p (def_structure d) = Some rs"
  shows "(\<forall>s. rs_size rs = Some s \<longrightarrow> valid_size s) \<and>
    (\<forall>as a. rs_actions rs = Some as \<longrightarrow> a \<in> set as \<longrightarrow>
      (\<forall>role. ar_role a = Some role \<longrightarrow> is_role (def_structure d) role) \<and>
      (ar_who a = Some Anyone \<longrightarrow> ar_of a = None) \<and> (ar_who a = Some Author \<longrightarrow> ar_of a \<noteq> None) \<and>
      (A_Update \<in> set (ar_can a) \<or> A_Delete \<in> set (ar_can a) \<longrightarrow> A_Create \<in> set (ar_can a)))"
proof -
  from assms(1) obtain roles where roles: "role_paths [] (def_structure d) [] = Inr roles"
    and top: "\<forall>rs\<in>set (map snd (def_structure d)). validate_rule_set E rs [] (map fst (def_types d)) roles = Inr ()"
    by (auto simp: validate_structure_def monad_simps rfor_Inr_iff)
  have role: "is_role (def_structure d) r" if "r \<in> set roles" for r
    using role_paths_roles(1) [OF roles assms(2) that] by (simp add: extend_path_def)
  obtain path where v: "validate_rule_set E rs path (map fst (def_types d)) roles = Inr ()"
    using validated_below [OF _ assms(3), of E "map fst (def_types d)" roles] top by fastforce
  have act: "(\<forall>role. ar_role a = Some role \<longrightarrow> is_role (def_structure d) role) \<and>
      (ar_who a = Some Anyone \<longrightarrow> ar_of a = None) \<and> (ar_who a = Some Author \<longrightarrow> ar_of a \<noteq> None) \<and>
      (A_Update \<in> set (ar_can a) \<or> A_Delete \<in> set (ar_can a) \<longrightarrow> A_Create \<in> set (ar_can a))"
    if "validate_action roles a others = Inr ()" for a others
    using that role by (auto simp: validate_action_def monad_simps split: option.splits)
  from validate_rule_set_parts [OF v] show ?thesis using act validate_actions_all by blast
qed

text \<open>A protocol with a role and a rule that names it.\<close>

definition chat_rule :: action_rule where
  "chat_rule = \<lparr>ar_who = None, ar_role = Some ''member'', ar_of = None, ar_can = [A_Create, A_Update]\<rparr>"

definition chat_definition :: definition_t where
  "chat_definition =
     \<lparr>def_protocol = ''https://chat'', def_published = True, def_types = [],
      def_structure = [(''member'', RuleSet None None (Some True) None None []),
        (''message'', RuleSet None (Some [chat_rule]) None None None [])]\<rparr>"

theorem validated_definition_sound_witness:
  "validate_structure demo_env chat_definition = Inr () \<and> is_role (def_structure chat_definition) ''member''"
proof -
  let ?rs = "RuleSet None (Some [chat_rule]) None None None []"
  have v: "validate_structure demo_env chat_definition = Inr ()"
    by (simp add: validate_structure_def chat_definition_def chat_rule_def validate_action_def read_like_def rguard_def rbind_def
        extend_path_def Let_def)
  have "well_named (def_structure chat_definition)" "rule_set_at ''message'' (def_structure chat_definition) = Some ?rs"
    by (simp_all add: chat_definition_def rule_set_at_plain)
  from validated_definition_sound [OF v this] v show ?thesis by (simp add: chat_rule_def)
qed

section \<open>Configured protocols\<close>

lemma configure_query_full: "\<not> query_is_concise (protocols_query_build p b)"
  by (simp add: query_is_concise_def protocols_query_build_def)

lemma configure_query_total: "q_match_sets (protocols_query_build p b) = [ms] \<Longrightarrow> list_all total_matcher (mst_inner ms)"
  by (cases p; cases b) (auto simp: protocols_query_build_def total_matcher_def opt_match_def)

text \<open>The configurations of a protocol in a store.\<close>

definition config_cids :: "(string \<rightharpoonup> entry) \<Rightarrow> string \<Rightarrow> string set" where
  "config_cids msgs p = {c. \<exists>e. msgs c = Some e \<and> has_field (e_indexes e) ''interface'' ''Protocols'' \<and>
     has_field (e_indexes e) ''protocol'' p}"

lemma match_configure:
  "match_all E (mst_inner (hd (q_match_sets (protocols_query_build (Some p) None)))) (item_of c fs) = Inr True \<longleftrightarrow>
    has_field fs ''interface'' ''Protocols'' \<and> has_field fs ''protocol'' p"
proof -
  have "mst_inner (hd (q_match_sets (protocols_query_build (Some p) None))) = [match_eq ''interface'' ''Protocols'', match_eq ''protocol'' p]"
    by (simp add: protocols_query_build_def opt_match_def)
  then show ?thesis unfolding match_all_True by (fastforce simp: matcher_is_match_def has_field_def)
qed

lemma configure_fields:
  "map_of (configure_indexes E c) ''interface'' = Some (interface_str (base_interface (cd_base (cfg_descriptor c))))"
  "map_of (configure_indexes E c) ''protocol'' = Some (def_protocol (cd_definition (cfg_descriptor c)))"
  "map_of (configure_indexes E c) ''messageTimestamp'' = Some (fmt_micros E (base_timestamp (cd_base (cfg_descriptor c))))"
  by (simp_all add: configure_indexes_def Let_def)

lemma wf_configure_entry: "wf_fields (e_indexes (entry_from_configure E c))"
  by (simp add: entry_from_configure_def configure_indexes_def Let_def wf_fields_def)

lemma configure_entry_facts:
  assumes "configure_cid E c = Inr cid"
  shows "entry_cid E (entry_from_configure E c) = Inr cid" and "wf_fields (e_indexes (entry_from_configure E c))"
  using assms wf_configure_entry by (simp_all add: entry_cid_def entry_from_configure_def)

context node
begin

lemma fetch_config_stored:
  assumes st: "stored s ow MESSAGE_PARTITION msgs" and ts: "timestamped n msgs"
  shows "\<exists>cs. distinct cs \<and> set cs = config_cids msgs p \<and> fetch_config E ow (Some p) s =
    (if cs = [] then (Inr None, s)
     else (map_sum id Some (rmapm (map (\<lambda>c. ser_entry (the (msgs c))) cs) configure_try_from), s))"
proof -
  let ?q = "protocols_query_build (Some p) None"
  have q: "q_match_sets ?q = [hd (q_match_sets ?q)]" "sort_str (q_sort ?q) = ''messageTimestamp''" "q_pagination ?q = None"
    by (simp_all add: protocols_query_build_def)
  from query_full_exact [OF st ts q(1) configure_query_full q(2,3) configure_query_total [OF q(1)]]
  obtain cs where run: "message_query E ow ?q s = (Inr (map (\<lambda>c. ser_entry (the (msgs c))) cs, None), s)"
    and cs: "distinct cs" "set cs = config_cids msgs p" unfolding match_configure config_cids_def by auto
  have "fetch_config E ow (Some p) s = (if cs = [] then (Inr None, s)
     else (map_sum id Some (rmapm (map (\<lambda>c. ser_entry (the (msgs c))) cs) configure_try_from), s))"
    using run by (auto simp: fetch_config_def sbind_run via_provider_run sret_def sbind_def lift_def split: sum.splits)
  with cs show ?thesis by blast
qed

lemma remove_configures:
  assumes "records s ow msgs" and "\<And>c. c \<in> set cs \<Longrightarrow> \<exists>x. f c = ser_configure x \<and> configure_cid E x = Inr c"
    and "sfor (map f cs) (remove_configure E ow) s = (Inr (), t)"
  shows "records t ow (msgs |` (- set cs))"
  using assms
proof (induction cs arbitrary: s msgs)
  case (Cons c cs)
  obtain x where x: "f c = ser_configure x" "configure_cid E x = Inr c" using Cons.prems(2) [of c] by auto
  then have cid: "configure_cid E (f c) = Inr c" by (simp add: configure_cid_def)
  from Cons.prems(3) obtain z where "remove_configure E ow (f c) s = (Inr (), z)"
    and r: "sfor (map f cs) (remove_configure E ow) z = (Inr (), t)" by (auto simp: monad_simps)
  then obtain y where del: "message_delete E ow c s = (Inr (), y)" "event_delete E ow c y = (Inr (), z)"
    using cid by (auto simp: remove_configure_def monad_simps)
  have "entry_cid E (entry_from_configure E (f c)) = Inr c" by (rule configure_entry_facts(1) [OF cid])
  from records_remove [OF Cons.prems(1) this del(1) only_refl del(2)] have z: "records z ow (msgs(c := None))" .
  have "records t ow ((msgs(c := None)) |` (- set cs))" using Cons.prems(2) by (intro Cons.IH [OF z _ r]) simp
  moreover have "(msgs(c := None)) |` (- set cs) = msgs |` (- set (c # cs))" by (auto simp: restrict_map_def)
  ultimately show ?case by (simp only:)
qed (simp add: sret_def restrict_map_def)

lemma save_configure_records:
  assumes st: "records s ow msgs" and cid: "configure_cid E c = Inr cid" and run: "save_configure E ow c s = (Inr (), t)"
  shows "records t ow (msgs(cid \<mapsto> entry_from_configure E c))"
proof -
  let ?e = "entry_from_configure E c"
  from run obtain x y where put: "message_put E ow ?e s = (Inr (), x)" and app: "event_append E ow ?e x = (Inr (), y)"
    and emit: "es_emit E ow ?e y = (Inr (), t)"
    by (auto simp: save_configure_def Let_def monad_simps)
  have "view t = view y" using emit emit_view [of ow ?e y] by simp
  with records_append [OF st configure_entry_facts [OF cid] put app] show ?thesis by (rule records_view)
qed

lemma loaded_configures:
  assumes "rmapm (map (\<lambda>c. ser_entry (the (msgs c))) cs) configure_try_from = Inr ys"
    and "\<And>c. c \<in> set cs \<Longrightarrow> entry_cid E (the (msgs c)) = Inr c"
  shows "\<exists>f. ys = map f cs \<and> (\<forall>c\<in>set cs. \<exists>x. f c = ser_configure x \<and> configure_cid E x = Inr c)"
proof -
  let ?f = "\<lambda>c. projr (configure_try_from (ser_entry (the (msgs c))))"
  have ys: "ys = map ?f cs \<and> (\<forall>c\<in>set cs. \<exists>y. configure_try_from (ser_entry (the (msgs c))) = Inr y)"
    using assms(1) by (induction cs arbitrary: ys) (auto simp: monad_simps)
  have "\<exists>x. ?f c = ser_configure x \<and> configure_cid E x = Inr c" if "c \<in> set cs" for c
    using ys that assms(2) [OF that]
    by (cases "e_message (the (msgs c))") (auto simp: configure_try_from_def as_configure_def ser_entry_def entry_cid_def some_or_def)
  with ys show ?thesis by blast
qed

lemma configure_handle_records:
  assumes st: "records s ow msgs" and ts: "timestamped n msgs" and cid: "configure_cid E c = Inr cid"
    and run: "configure_handle E ow c s = (Inr rep, t)"
  shows "rep = reply_with 202 (Some c) \<and>
    records t ow ((msgs |` (- config_cids msgs (def_protocol (cd_definition (cfg_descriptor c)))))(cid \<mapsto> entry_from_configure E c))"
proof -
  let ?p = "def_protocol (cd_definition (cfg_descriptor c))"
  have msgs: "stored s ow MESSAGE_PARTITION msgs" using st by (simp add: records_def)
  from run obtain res x where f: "fetch_config E ow (Some ?p) s = (Inr res, s)"
    and r: "replace_existing E ow c res s = (Inr (), x)" and sv: "save_configure E ow c x = (Inr (), t)"
    and rep: "rep = reply_with 202 (Some c)"
    by (auto simp: configure_handle_def sbind_ro configure_authorize_ro fetch_config_ro reads_only_lift)
      (auto simp: sbind_Inr_iff sret_def)
  from fetch_config_stored [OF msgs ts, of ?p] obtain cs where cs: "set cs = config_cids msgs ?p"
    and f': "fetch_config E ow (Some ?p) s = (if cs = [] then (Inr None, s)
      else (map_sum id Some (rmapm (map (\<lambda>c. ser_entry (the (msgs c))) cs) configure_try_from), s))" by blast
  have "records x ow (msgs |` (- set cs))"
  proof (cases "cs = []")
    case True
    with f f' r have "x = s" by (simp add: replace_existing_def sret_def)
    with st True show ?thesis by (simp add: restrict_map_def)
  next
    case False
    with f f' obtain ys where ys: "rmapm (map (\<lambda>c. ser_entry (the (msgs c))) cs) configure_try_from = Inr ys" "res = Some ys"
      by (cases "rmapm (map (\<lambda>c. ser_entry (the (msgs c))) cs) configure_try_from") auto
    have "\<And>c. c \<in> set cs \<Longrightarrow> entry_cid E (the (msgs c)) = Inr c"
      using msgs cs by (auto simp: stores_def config_cids_def)
    from loaded_configures [OF ys(1) this] obtain f where f: "ys = map f cs"
      "\<And>c. c \<in> set cs \<Longrightarrow> \<exists>x. f c = ser_configure x \<and> configure_cid E x = Inr c" by blast
    have "sfor (map f cs) (remove_configure E ow) s = (Inr (), x)"
      using r ys(2) f(1) by (auto simp: replace_existing_def monad_simps)
    from remove_configures [OF st f(2) this] show ?thesis .
  qed
  from save_configure_records [OF this cid sv] rep cs show ?thesis by simp
qed

lemma protocol_definition_stored:
  assumes st: "stored s ow MESSAGE_PARTITION msgs" and ts: "timestamped n msgs" and p: "uri_clean E p = Inr p" "p \<noteq> PROTOCOL_URI"
    and one: "config_cids msgs p = {cid}" "msgs cid = Some (entry_from_configure E c)"
  shows "protocol_definition E ow p s = (Inr (cd_definition (cfg_descriptor c)), s)"
proof -
  from fetch_config_stored [OF st ts, of p] one(1) obtain cs where "distinct cs" "set cs = {cid}"
    and f: "fetch_config E ow (Some p) s = (if cs = [] then (Inr None, s)
      else (map_sum id Some (rmapm (map (\<lambda>c. ser_entry (the (msgs c))) cs) configure_try_from), s))" by metis
  then have "cs = [cid]" by (intro distinct_single)
  with f one(2) have "fetch_config E ow (Some p) s = (Inr (Some [ser_configure c]), s)"
    by (simp add: ser_entry_def entry_from_configure_def configure_try_from_def as_configure_def some_or_def rbind_def)
  with p show ?thesis by (simp add: protocol_definition_def sbind_run sbind_def lift_def sret_def ser_configure_def)
qed

end

text \<open>
  C24. A protocol that is configured is the protocol that is looked up: after the handler accepts a configuration, it is
  the only one of its protocol in the store, whichever versions were there before, and the lookup that authorization
  and integrity checks use returns its definition.
\<close>

theorem configured_protocol_found:
  assumes "node E cell good view" and "stores E cell view s ow MESSAGE_PARTITION msgs"
    and "stores E cell view s ow EVENTLOG_PARTITION evs" and "timestamped n msgs"
    and "length (fmt_micros E (base_timestamp (cd_base (cfg_descriptor c)))) = n"
    and "base_interface (cd_base (cfg_descriptor c)) = I_Protocols" and "configure_cid E c = Inr cid"
    and "uri_clean E (def_protocol (cd_definition (cfg_descriptor c))) = Inr (def_protocol (cd_definition (cfg_descriptor c)))"
    and "def_protocol (cd_definition (cfg_descriptor c)) \<noteq> PROTOCOL_URI" and "configure_handle E ow c s = (Inr rep, t)"
  shows "rep = reply_with 202 (Some c) \<and>
    stores E cell view t ow MESSAGE_PARTITION
      ((msgs |` (- config_cids msgs (def_protocol (cd_definition (cfg_descriptor c)))))(cid \<mapsto> entry_from_configure E c)) \<and>
    protocol_definition E ow (def_protocol (cd_definition (cfg_descriptor c))) t = (Inr (cd_definition (cfg_descriptor c)), t)"
proof -
  let ?p = "def_protocol (cd_definition (cfg_descriptor c))"
  let ?m = "(msgs |` (- config_cids msgs ?p))(cid \<mapsto> entry_from_configure E c)"
  have "node.records E cell view s ow msgs" using assms(2,3) node.records_def [OF assms(1)] by blast
  from node.configure_handle_records [OF assms(1) this assms(4,7,10)] have rep: "rep = reply_with 202 (Some c)"
    and t: "stores E cell view t ow MESSAGE_PARTITION ?m" unfolding node.records_def [OF assms(1)] by blast+
  have e: "map_of (e_indexes (entry_from_configure E c)) f = map_of (configure_indexes E c) f" for f
    by (simp add: entry_from_configure_def)
  have "timestamped n ?m"
    using assms(4,5) by (auto simp: timestamped_def e configure_fields restrict_map_def)
  moreover have "config_cids ?m ?p = {cid}"
    using assms(6) by (auto simp: config_cids_def has_field_def e configure_fields restrict_map_def split: if_splits)
  ultimately show ?thesis
    using node.protocol_definition_stored [OF assms(1) t _ assms(8,9)] rep t by simp
qed

definition chat_configure :: configure where
  "chat_configure =
     \<lparr>cfg_descriptor = \<lparr>cd_base = \<lparr>base_interface = I_Protocols, base_method = M_Configure, base_timestamp = 5000\<rparr>,
        cd_definition = chat_definition\<rparr>,
      cfg_authorization = Authorization (Jws ''|||'' alice) None None None\<rparr>"

lemma chat_configure_accepted: "\<exists>rep t. configure_handle demo_env alice chat_configure demo_empty = (Inr rep, t)"
proof -
  have none: "fetch_config demo_env alice (Some ''https://chat'') demo_empty = (Inr None, demo_empty)"
    using demo_node.fetch_config_stored [OF empty_stored, of 0 "''https://chat''" alice] by (auto simp: timestamped_def config_cids_def)
  obtain cid where cid: "configure_cid demo_env chat_configure = Inr cid" by (simp add: configure_cid_def from_value_def)
  have "demo_node.records demo_empty alice Map.empty" using empty_stored unfolding demo_node.records_def by blast
  from demo_open.records_append_total [OF this configure_entry_facts [OF cid]]
  obtain x y where put: "message_put demo_env alice (entry_from_configure demo_env chat_configure) demo_empty = (Inr (), x)"
    "event_append demo_env alice (entry_from_configure demo_env chat_configure) x = (Inr (), y)" by blast
  obtain t where "es_emit demo_env alice (entry_from_configure demo_env chat_configure) y = (Inr (), t)" using demo_open.emits by blast
  with put have save: "save_configure demo_env alice chat_configure demo_empty = (Inr (), t)"
    by (simp add: save_configure_def Let_def sbind_run via_provider_run with_err_def)
  have "configure_authorize demo_env alice chat_configure demo_empty = (Inr (), demo_empty)"
    by (simp add: configure_authorize_def chat_configure_def auth_author_def sbind_def lift_def sret_def)
  moreover have "validate_structure demo_env chat_definition = Inr ()"
    by (simp add: validate_structure_def chat_definition_def chat_rule_def validate_action_def read_like_def rguard_def rbind_def
        extend_path_def Let_def)
  then have "configure_validate demo_env chat_configure = Inr ()"
    by (simp add: configure_validate_def chat_configure_def) (simp add: chat_definition_def uri_validate_def demo_uri_def starts_with_def)
  moreover have "def_protocol (cd_definition (cfg_descriptor chat_configure)) = ''https://chat''"
    by (simp add: chat_configure_def chat_definition_def)
  ultimately show ?thesis
    using none save by (simp add: configure_handle_def sbind_run sbind_def lift_def replace_existing_def sret_def)
qed

theorem configured_protocol_found_witness:
  "\<exists>t. configure_handle demo_env alice chat_configure demo_empty = (Inr (reply_with 202 (Some chat_configure)), t) \<and>
    protocol_definition demo_env alice ''https://chat'' t = (Inr chat_definition, t)"
proof -
  obtain rep t where run: "configure_handle demo_env alice chat_configure demo_empty = (Inr rep, t)" using chat_configure_accepted by blast
  have c: "cd_definition (cfg_descriptor chat_configure) = chat_definition" "def_protocol chat_definition = ''https://chat''"
    "base_interface (cd_base (cfg_descriptor chat_configure)) = I_Protocols"
    "length (demo_micros (base_timestamp (cd_base (cfg_descriptor chat_configure)))) = 20"
    by (simp_all add: chat_configure_def chat_definition_def demo_micros_def timestamp_micros_def decimal.simps [of 5])
  have "uri_clean demo_env ''https://chat'' = Inr ''https://chat''" "''https://chat'' \<noteq> PROTOCOL_URI" by code_simp+
  moreover obtain cid where "configure_cid demo_env chat_configure = Inr cid" by (simp add: configure_cid_def from_value_def)
  ultimately show ?thesis
    using configured_protocol_found [OF demo_node.node_axioms empty_stored empty_stored, of 20 chat_configure cid alice rep t] run c
    by (simp add: timestamped_def)
qed

end
