(* ===== verification/Query_Properties.thy ===== *)
theory Query_Properties
  imports Protocol_Properties
begin

text \<open>
  What queries and subscriptions may see: the store query a records query is turned into, the events a records
  subscription lets through, and the messages the holder of a grant may list.
\<close>

section \<open>Records queries\<close>

text \<open>What the matchers of a filter demand of an item.\<close>

lemma opt_match_demands:
  assumes "match_all E ms it = Inr True" and "set (opt_match f g (Some x)) \<subseteq> set ms"
  shows "\<exists>v. map_of (ii_fields it) f = Some v \<and> matcher_is_match E \<lparr>m_field = f, m_value = g x\<rparr> v = Inr True"
  using assms by (auto simp: match_all_True opt_match_def)

lemma filter_demands:
  assumes "match_all E ms (item_of c fs) = Inr True" and "set (mst_inner (match_set_from f)) \<subseteq> set ms"
  shows "rf_published f = Some b \<Longrightarrow> has_field fs ''published'' (bool_str b)"
    and "rf_author f = Some (One a) \<Longrightarrow> has_field fs ''author'' a"
    and "rf_recipient f = Some (One a) \<Longrightarrow> has_field fs ''recipient'' a"
    and "rf_protocol f = Some p \<Longrightarrow> has_field fs ''protocol'' p"
    and "rf_protocol_path f = Some p \<Longrightarrow> has_field fs ''protocolPath'' p"
proof -
  have sub: "set (opt_match ''published'' (\<lambda>b. MO_Equal (bool_str b)) (rf_published f)) \<subseteq> set ms"
    "set (opt_match ''author'' (\<lambda>a. MO_OneOf (to_vec a)) (rf_author f)) \<subseteq> set ms"
    "set (opt_match ''recipient'' (\<lambda>a. MO_OneOf (to_vec a)) (rf_recipient f)) \<subseteq> set ms"
    "set (opt_match ''protocol'' MO_Equal (rf_protocol f)) \<subseteq> set ms"
    "set (opt_match ''protocolPath'' MO_Equal (rf_protocol_path f)) \<subseteq> set ms"
    using assms(2) by (simp_all add: match_set_from_def)
  note demand = opt_match_demands [OF assms(1)]
  show "has_field fs ''published'' (bool_str b)" if "rf_published f = Some b"
    using demand [OF sub(1) [unfolded that]] by (auto simp: has_field_def matcher_is_match_def)
  show "has_field fs ''author'' a" if "rf_author f = Some (One a)"
    using demand [OF sub(2) [unfolded that]] by (auto simp: has_field_def matcher_is_match_def)
  show "has_field fs ''recipient'' a" if "rf_recipient f = Some (One a)"
    using demand [OF sub(3) [unfolded that]] by (auto simp: has_field_def matcher_is_match_def)
  show "has_field fs ''protocol'' p" if "rf_protocol f = Some p"
    using demand [OF sub(4) [unfolded that]] by (auto simp: has_field_def matcher_is_match_def)
  show "has_field fs ''protocolPath'' p" if "rf_protocol_path f = Some p"
    using demand [OF sub(5) [unfolded that]] by (auto simp: has_field_def matcher_is_match_def)
qed

text \<open>Whose unpublished records a query may select.\<close>

definition may_list :: "('s, 'b) env \<Rightarrow> string \<Rightarrow> 's \<Rightarrow> records_query \<Rightarrow> fields \<Rightarrow> bool" where
  "may_list E ow s q fs \<longleftrightarrow> has_field fs ''published'' ''true'' \<or>
     (\<exists>a author. rq_authorization q = Some a \<and> auth_author E a = Inr author \<and>
       (author = ow \<or> has_field fs ''author'' author \<or> has_field fs ''recipient'' author \<or>
        (\<exists>payload p path. auth_payload E a = Inr payload \<and> jp_protocol_role payload \<noteq> None \<and>
          rf_protocol (qd_filter (rq_descriptor q)) = Some p \<and> has_field fs ''protocol'' p \<and>
          rf_protocol_path (qd_filter (rq_descriptor q)) = Some path \<and> has_field fs ''protocolPath'' path \<and>
          permit E ((authorizer_new p)\<lparr>az_context_id := rf_context_id (qd_filter (rq_descriptor q))\<rparr>) ow (R_Query q) s = (Inr (), s))))"

lemma build_filters: "foldl (\<lambda>b f. add_filter f b) b fs = b\<lparr>rqb_filters := rqb_filters b @ fs\<rparr>"
  by (induction fs arbitrary: b) (simp_all add: add_filter_def)

lemma into_non_owner_sets:
  assumes "into_non_owner E q = Inr sq" and "ms \<in> set (q_match_sets sq)"
  shows "\<exists>a author payload f. rq_authorization q = Some a \<and> auth_author E a = Inr author \<and> auth_payload E a = Inr payload \<and>
    f \<in> set (non_owner_filters (qd_filter (rq_descriptor q)) author (jp_protocol_role payload \<noteq> None)) \<and>
    set (mst_inner (match_set_from f)) \<subseteq> set (mst_inner ms)"
proof -
  from assms(1) obtain a author payload b where a: "rq_authorization q = Some a" "auth_author E a = Inr author" "auth_payload E a = Inr payload"
    and sq: "sq = records_query_build b"
    and b: "rqb_filters b = non_owner_filters (qd_filter (rq_descriptor q)) author (jp_protocol_role payload \<noteq> None)"
    by (auto simp: into_non_owner_def Let_def monad_simps build_filters records_query_builder_new_def split: option.splits)
  from assms(2) sq obtain f where f: "f \<in> set (rqb_filters b)" "ms = builder_match_set b f" by (auto simp: records_query_build_def)
  have "set (mst_inner (match_set_from f)) \<subseteq> set (mst_inner ms)" unfolding f(2) by (auto simp: builder_match_set_def Let_def)
  with a f(1) show ?thesis unfolding b by blast
qed

context pure_reads
begin

lemma query_authorize_ro [reads_only_intros]: "reads_only (query_authorize E ow q)"
  unfolding query_authorize_def by (intro reads_only_intros)

lemma store_query_ro [reads_only_intros]: "reads_only (store_query E ow q)"
  unfolding store_query_def by (intro reads_only_intros)

lemma query_authorize_role:
  assumes "query_authorize E ow q s = (Inr (), s)" and "rq_authorization q = Some a" and "auth_payload E a = Inr payload"
    and "jp_protocol_role payload \<noteq> None"
  shows "\<exists>p path. rf_protocol (qd_filter (rq_descriptor q)) = Some p \<and> rf_protocol_path (qd_filter (rq_descriptor q)) = Some path \<and>
    permit E ((authorizer_new p)\<lparr>az_context_id := rf_context_id (qd_filter (rq_descriptor q))\<rparr>) ow (R_Query q) s = (Inr (), s)"
proof -
  have ro: "reads_only (case author_delegated_grant a of None \<Rightarrow> sret () | Some dg \<Rightarrow>
      sbind (lift (to_grant E dg)) (\<lambda>g. sbind (lift (auth_author E a)) (\<lambda>author.
      sbind (lift (auth_signer E a)) (\<lambda>signer. grant_permit_query E g author signer q))))"
    by (intro reads_only_intros)
  show ?thesis
    using assms by (auto simp: query_authorize_def sbind_ro reads_only_lift ro lift_eq_iff Let_def some_or_Inr_iff rguard_Inr_iff)
qed

end

text \<open>
  C20. A records query selects an unpublished record only for the owner of the node, for its author, for its recipient, and
  for a requester whose protocol role permits the query, in which case the record is of the protocol and path
  the query names. Everyone else is given a query for published records. Working this out changes nothing.
\<close>

theorem query_confidential:
  assumes "pure_reads E" and "store_query E ow q s = (Inr sq, t)" and "ms \<in> set (q_match_sets sq)"
    and "match_all E (mst_inner ms) (item_of c fs) = Inr True"
  shows "t = s \<and> may_list E ow s q fs"
proof -
  let ?f = "qd_filter (rq_descriptor q)"
  note demands = filter_demands [OF assms(4)]
  have t: "t = s" using pure_reads.store_query_ro [OF assms(1)] assms(2) by (rule reads_only_state)
  have "may_list E ow s q fs"
  proof (cases "only_published q")
    case True
    then have "set (mst_inner (match_set_from (published_filter True ?f))) \<subseteq> set (mst_inner ms)"
      using assms(2,3) by (auto simp: store_query_def sret_def query_from_records_query_def set_published_def Let_def)
    from demands(1) [OF this] show ?thesis by (simp add: may_list_def published_filter_def bool_str_def)
  next
    case False
    with assms(2) [unfolded t] obtain a author where auth: "query_authorize E ow q s = (Inr (), s)" "rq_authorization q = Some a" "auth_author E a = Inr author"
      and sq: "(if author = ow then Inr (query_from_records_query q) else into_non_owner E q) = Inr sq"
      by (auto simp: store_query_def sbind_ro pure_reads.query_authorize_ro [OF assms(1)] lift_eq_iff monad_simps)
    show ?thesis
    proof (cases "author = ow")
      case True
      with auth show ?thesis by (auto simp: may_list_def)
    next
      case other: False
      with sq have "into_non_owner E q = Inr sq" by simp
      from into_non_owner_sets [OF this assms(3)] auth obtain payload f where p: "auth_payload E a = Inr payload"
        and f: "f \<in> set (non_owner_filters ?f author (jp_protocol_role payload \<noteq> None))"
        and sub: "set (mst_inner (match_set_from f)) \<subseteq> set (mst_inner ms)" by auto
      from f consider "f = published_filter True ?f" | "rf_author f = Some (One author)" | "rf_recipient f = Some (One author)"
        | "jp_protocol_role payload \<noteq> None" "f = published_filter False ?f"
        by (auto simp: non_owner_filters_def published_filter_def add_author_def add_recipient_def split: if_splits)
      then show ?thesis
      proof cases
        case 1
        with demands(1) [OF sub] show ?thesis by (simp add: may_list_def published_filter_def bool_str_def)
      next
        case 2
        with demands(2) [OF sub] auth show ?thesis by (auto simp: may_list_def)
      next
        case 3
        with demands(3) [OF sub] auth show ?thesis by (auto simp: may_list_def)
      next
        case 4
        with auth p obtain pr path where r: "rf_protocol ?f = Some pr" "rf_protocol_path ?f = Some path"
          "permit E ((authorizer_new pr)\<lparr>az_context_id := rf_context_id ?f\<rparr>) ow (R_Query q) s = (Inr (), s)"
          using pure_reads.query_authorize_role [OF assms(1) auth(1,2) p] by blast
        with demands(4,5) [OF sub] auth p 4 show ?thesis by (fastforce simp: may_list_def published_filter_def)
      qed
    qed
  qed
  with t show ?thesis by simp
qed

definition bob_query :: records_query where
  "bob_query =
     \<lparr>rq_descriptor = \<lparr>qd_base = \<lparr>base_interface = I_Records, base_method = M_Query, base_timestamp = 6000\<rparr>,
        qd_filter = records_filter_new\<lparr>rf_record_id := Some hello_id\<rparr>, qd_date_sort = None, qd_pagination = None\<rparr>,
      rq_authorization = Some (Authorization (Jws ''|||'' ''bob'') None None None)\<rparr>"

theorem query_confidential_witness:
  "\<exists>sq ms. store_query demo_env alice bob_query demo_empty = (Inr sq, demo_empty) \<and> ms \<in> set (q_match_sets sq) \<and>
    may_list demo_env alice demo_empty bob_query [(''interface'', ''Records''), (''recordId'', hello_id), (''published'', ''false''),
      (''author'', ''bob''), (''method'', ''Write''), (''initial'', ''false'')]"
proof -
  let ?f = "published_filter False (add_author ''bob'' (qd_filter (rq_descriptor bob_query)\<lparr>rf_author := None\<rparr>))"
  let ?fs = "[(''interface'', ''Records''), (''recordId'', hello_id), (''published'', ''false''),
      (''author'', ''bob''), (''method'', ''Write''), (''initial'', ''false'')]"
  let ?ms = "builder_match_set records_query_builder_new ?f"
  have a: "rq_authorization bob_query = Some (Authorization (Jws ''|||'' ''bob'') None None None)" by (simp add: bob_query_def)
  have pl: "auth_payload demo_env (Authorization (Jws ''|||'' ''bob'') None None None) = Inr
      \<lparr>jp_descriptor_cid = ''o'', jp_permission_grant_id = None, jp_delegated_grant_id = None, jp_protocol_role = None\<rparr>"
    by (simp add: auth_payload_def demo_payload_def non_empty_def)
  have "\<not> only_published bob_query"
    by (simp add: only_published_def bob_query_def records_filter_new_def sorts_published_def)
  moreover have "query_authorize demo_env alice bob_query demo_empty = (Inr (), demo_empty)"
    using pl by (simp add: query_authorize_def a sbind_def lift_def sret_def)
  moreover have "\<exists>sq. into_non_owner demo_env bob_query = Inr sq \<and> ?ms \<in> set (q_match_sets sq)"
    using pl by (simp add: into_non_owner_def a auth_author_def build_filters records_query_build_def non_owner_filters_def)
      (simp add: bob_query_def records_query_builder_new_def records_filter_new_def builder_match_set_def)
  ultimately obtain sq where sq: "store_query demo_env alice bob_query demo_empty = (Inr sq, demo_empty)" "?ms \<in> set (q_match_sets sq)"
    using a by (auto simp: store_query_def sbind_run lift_def auth_author_def alice_def)
  have "match_all demo_env (mst_inner ?ms) (item_of [] ?fs) = Inr True"
    by (simp add: builder_match_set_def records_query_builder_new_def match_set_from_def published_filter_def add_author_def
        bob_query_def records_filter_new_def opt_match_def matcher_is_match_def bool_str_def Let_def)
  from query_confidential [OF demo_reads.pure_reads_axioms sq(1,2) this] sq show ?thesis by blast
qed

section \<open>Subscriptions\<close>

text \<open>
  C36. A records subscription of someone who is not the owner lets through only writes that the subscriber both wrote
  and received, and only those its own filter asks for; the owner sees what the filter asks for. The comment in the
  code allows either of the two, as the query handler does.
\<close>

theorem subscribe_confidential:
  assumes "subscribe_handle E ow q s = (Inr rep, t)"
  shows "\<exists>a author sub. rs_authorization q = Some a \<and> auth_author E a = Inr author \<and> reply_body rep = Some sub \<and>
    (\<forall>u. \<forall>e\<in>set (sub_inner sub u). \<exists>w. e_message e = E_Write w \<and>
      (author = ow \<longrightarrow> records_filter_is_match E (sd_filter (rs_descriptor q)) e) \<and>
      (author \<noteq> ow \<longrightarrow> unwrap_or_default (auth_author E (w_authorization w)) = author \<and> or_empty (wd_recipient (w_descriptor w)) = author))"
proof -
  from assms obtain a author sub where a: "rs_authorization q = Some a" "auth_author E a = Inr author"
    and rep: "reply_body rep = Some (filtered E (SF_Records (subscribe_filter_for ow author (sd_filter (rs_descriptor q)))) sub)"
    by (auto simp: subscribe_handle_def monad_simps Let_def reply_with_def)
  have "\<exists>w. e_message e = E_Write w \<and> (author = ow \<longrightarrow> records_filter_is_match E (sd_filter (rs_descriptor q)) e) \<and>
      (author \<noteq> ow \<longrightarrow> unwrap_or_default (auth_author E (w_authorization w)) = author \<and> or_empty (wd_recipient (w_descriptor w)) = author)"
    if "subscribe_filter_is_match E (SF_Records (subscribe_filter_for ow author (sd_filter (rs_descriptor q)))) e" for e
    using that by (cases "e_message e")
      (auto simp: subscribe_filter_for_def records_filter_is_match_def Let_def opt_all_def split: if_splits)
  with a rep show ?thesis by (auto simp: filtered_def stream_filter_def)
qed

definition bob_subscribe :: records_subscribe where
  "bob_subscribe =
     \<lparr>rs_descriptor = \<lparr>sd_base = \<lparr>base_interface = I_Records, base_method = M_Subscribe, base_timestamp = 6000\<rparr>,
        sd_filter = records_filter_new\<rparr>,
      rs_authorization = Some (Authorization (Jws ''|||'' ''bob'') None None None)\<rparr>"

definition busy :: "demo" where
  "busy = demo_empty\<lparr>dm_events := [(alice, hello_entry),
     (alice, entry_from_write demo_env (write_by ''bob'' (hello_descriptor\<lparr>wd_recipient := Some ''bob''\<rparr>)))]\<rparr>"

theorem subscribe_confidential_witness:
  "\<exists>rep sub. subscribe_handle demo_env alice bob_subscribe demo_empty = (Inr rep, demo_empty) \<and> reply_body rep = Some sub \<and>
    (\<forall>e\<in>set (sub_inner sub busy). \<exists>w. e_message e = E_Write w \<and> unwrap_or_default (auth_author demo_env (w_authorization w)) = ''bob'')"
proof -
  have "\<exists>rep. subscribe_handle demo_env alice bob_subscribe demo_empty = (Inr rep, demo_empty)"
    by (simp add: subscribe_handle_def subscribe_authorize_def bob_subscribe_def records_filter_new_def auth_author_def
        auth_payload_def demo_payload_def non_empty_def sbind_def lift_def sret_def with_err_def demo_env_def Let_def)
  then obtain rep where rep: "subscribe_handle demo_env alice bob_subscribe demo_empty = (Inr rep, demo_empty)" by blast
  from subscribe_confidential [OF this] show ?thesis
    using rep by (force simp: bob_subscribe_def auth_author_def alice_def)
qed

section \<open>Messages\<close>

text \<open>A grant stored by \<open>alice\<close> that lets \<open>bob\<close> subscribe to the messages of a protocol.\<close>

lemma by_record_id_sets:
  "q_match_sets (by_record_id rid) =
     [\<lparr>mst_inner = [match_eq ''method'' ''Write'', match_eq ''initial'' ''false'', match_eq ''interface'' ''Records'', match_eq ''recordId'' rid],
       mst_index = Some (''recordId'', rid)\<rparr>]"
  "q_sort (by_record_id rid) = TimestampAsc" "q_pagination (by_record_id rid) = None"
  by (simp_all add: by_record_id_def records_query_build_def add_filter_def records_query_builder_new_def
      builder_match_set_def match_set_from_def opt_match_def records_filter_new_def filter_is_concise_def
      filter_as_concise_def Let_def bool_str_def)

lemma selects_by_record_id:
  "selects E (by_record_id rid) c fs \<longleftrightarrow> has_field fs ''method'' ''Write'' \<and> has_field fs ''initial'' ''false'' \<and>
    has_field fs ''interface'' ''Records'' \<and> has_field fs ''recordId'' rid"
  using selects_equal [OF by_record_id_sets(1) [of rid], where f = "''recordId''" and v = rid
      and eqs = "[(''method'', ''Write''), (''initial'', ''false''), (''interface'', ''Records''), (''recordId'', rid)]"] by simp

definition grant_write :: write_msg where
  "grant_write = (write_by alice (hello_descriptor\<lparr>wd_recipient := Some ''bob''\<rparr>))\<lparr>w_encoded_data := Some ''9000|https://chat|''\<rparr>"

definition grant_entry :: entry where
  "grant_entry = write_entry demo_env 202 grant_write"

definition bob_grant :: grant where
  "bob_grant = \<lparr>g_id = hello_id, g_grantor = alice, g_grantee = ''bob'', g_date_granted = 5000,
     g_data = \<lparr>gd_description = None, gd_request_id = None, gd_date_expires = 9000, gd_delegated = None,
       gd_scope = Scope_Messages M_Subscribe (Some ''https://chat''), gd_conditions = None\<rparr>\<rparr>"

lemma grant_entry_facts:
  "entry_cid demo_env grant_entry = Inr hello_cid" "wf_fields (e_indexes grant_entry)"
  "timestamped 20 [hello_cid \<mapsto> grant_entry]" "\<not> revokes hello_id grant_entry"
  "selects demo_env (by_record_id hello_id) c (e_indexes grant_entry)"
  by (simp_all add: grant_entry_def write_entry_def write_entry_fields entry_cid_def wf_fields_insert selects_by_record_id
      wf_write_indexes has_field_def write_indexes_fields timestamped_def revokes_def revocation_fields write_cid_def
      from_value_def hello_cid_def bool_str_def)
    (simp_all add: grant_write_def hello_defs hello_id_def demo_micros_def timestamp_micros_def decimal.simps [of 5] ser_write_def
      ser_write_descriptor_def ser_base_def rfc3339_micros_def)

lemma grant_stored:
  assumes st: "demo.stored t alice MESSAGE_PARTITION [hello_cid \<mapsto> grant_entry]"
  shows "fetch_grant demo_env alice hello_id t = (Inr bob_grant, t)"
proof -
  let ?m = "[hello_cid \<mapsto> grant_entry]" and ?q = "by_record_id hello_id"
  from index_store.query_by_field [OF demo.index_store_axioms st grant_entry_facts(3) by_record_id_sets(1) [of hello_id], of "''recordId''" hello_id]
    by_record_id_sets [of hello_id]
  obtain cs where run: "message_query demo_env alice ?q t = (Inr (map (\<lambda>c. ser_entry (the (?m c))) cs, None), t)"
    and cs: "distinct cs" "set cs = selected demo_env ?q ?m"
    by (auto simp: total_matcher_def)
  have "selected demo_env ?q ?m = {hello_cid}" using grant_entry_facts(5) by (auto simp: selected_def)
  with cs have "cs = [hello_cid]" by (intro distinct_single) auto
  with run have q: "MessageStore_query demo_env alice ?q t = (Inr ([ser_entry grant_entry], None), t)" by (simp add: via_provider_run)
  have w: "as_write (ser_entry grant_entry) = Some (ser_write grant_write)"
    by (simp add: grant_entry_def write_entry_def write_entry_fields ser_entry_def as_write_def)
  have g: "demo_grant_data ''9000|https://chat|'' = Inr (g_data bob_grant)" by (simp add: bob_grant_def) code_simp
  show "fetch_grant demo_env alice hello_id t = (Inr bob_grant, t)"
    using q w g by (simp add: fetch_grant_def sbind_run lift_def)
      (simp add: grant_write_def hello_defs ser_write_def ser_write_descriptor_def rfc3339_micros_def timestamp_micros_def
        auth_signer_def bob_grant_def hello_id_def)
qed

lemma grant_fetched: "\<exists>t. demo.stored t alice MESSAGE_PARTITION [hello_cid \<mapsto> grant_entry]"
proof -
  obtain t where put: "message_put demo_env alice grant_entry demo_empty = (Inr (), t)"
    using demo_roomy.message_put_total [OF empty_stored grant_entry_facts(1,2)] by blast
  then show ?thesis using demo.message_put_refines [OF empty_stored grant_entry_facts(1,2) put] by auto
qed

definition bob_messages :: messages_subscribe where
  "bob_messages = \<lparr>ms_base = \<lparr>base_interface = I_Messages, base_method = M_Subscribe, base_timestamp = 6000\<rparr>, ms_filters = [],
     ms_authorization = Authorization (Jws (''||'' @ hello_id @ ''|'') ''bob'') None None None\<rparr>"

lemma bob_messages_facts:
  "auth_author demo_env (ms_authorization bob_messages) = Inr ''bob''" "auth_signer demo_env (ms_authorization bob_messages) = Inr ''bob''"
  "auth_payload demo_env (ms_authorization bob_messages) = Inr
    \<lparr>jp_descriptor_cid = ''o'', jp_permission_grant_id = Some hello_id, jp_delegated_grant_id = None, jp_protocol_role = None\<rparr>"
  using split_on_append [OF id_by_bar, of alice "[]"]
  by (simp_all add: bob_messages_def auth_author_def auth_signer_def auth_payload_def demo_payload_def non_empty_def hello_id_def id_by_nonempty)

lemma bob_grant_verified:
  assumes "demo.stored t alice MESSAGE_PARTITION [hello_cid \<mapsto> grant_entry]"
  shows "grant_verify demo_env bob_grant alice ''bob'' (ms_base bob_messages) t = (Inr (), t)"
proof -
  have "\<forall>c e. [hello_cid \<mapsto> grant_entry] c = Some e \<longrightarrow> \<not> revokes (g_id bob_grant) e"
    using grant_entry_facts(4) by (simp add: bob_grant_def)
  from index_store.is_current_unrevoked [OF demo.index_store_axioms assms grant_entry_facts(3) this]
  show ?thesis by (auto simp: grant_verify_def bob_grant_def bob_messages_def sbind_def lift_def rguard_def)
qed



text \<open>
  A grant that is limited to a protocol is not limited by it when a request has no filters: a subscription without
  filters is then given every event of the owner.
\<close>

theorem unfiltered_subscription_sees_all:
  assumes "auth_author E (ms_authorization q) = Inr author" and "author \<noteq> ow"
    and "auth_payload E (ms_authorization q) = Inr payload" and "jp_permission_grant_id payload = Some gid"
    and "fetch_grant E ow gid s = (Inr g, s)" and "scope_protocol (gd_scope (g_data g)) = Some p"
    and "auth_signer E (ms_authorization q) = Inr signer" and "grant_verify E g ow signer (ms_base q) s = (Inr (), s)"
    and "ms_filters q = []" and "es_subscribe E ow s = (Inr sub, s)"
  shows "messages_subscribe_handle E ow q s = (Inr (reply_with 200 (Some sub)), s)"
  using assms by (simp add: messages_subscribe_handle_def messages_subscribe_authorize_def filters_authorize_def sbind_def lift_def sret_def with_err_def Let_def)

theorem unfiltered_subscription_sees_all_witness:
  "\<exists>t sub. messages_subscribe_handle demo_env alice bob_messages t = (Inr (reply_with 200 (Some sub)), t) \<and>
    sub_inner sub (t\<lparr>dm_events := dm_events t @ [(alice, hello_entry)]\<rparr>) = [ser_entry hello_entry]"
proof -
  obtain t where t: "demo.stored t alice MESSAGE_PARTITION [hello_cid \<mapsto> grant_entry]" using grant_fetched by blast
  let ?sub = "\<lparr>sub_inner = (\<lambda>u. drop (length (demo_heard alice t)) (demo_heard alice u))\<rparr>"
  have "fetch_grant demo_env alice hello_id t = (Inr bob_grant, t)" by (rule grant_stored [OF t])
  moreover have "es_subscribe demo_env alice t = (Inr ?sub, t)" by (simp add: demo_env_def)
  moreover have "scope_protocol (gd_scope (g_data bob_grant)) = Some ''https://chat''" by (simp add: bob_grant_def)
  moreover have "ms_filters bob_messages = []" by (simp add: bob_messages_def)
  ultimately have "messages_subscribe_handle demo_env alice bob_messages t = (Inr (reply_with 200 (Some ?sub)), t)"
    using unfiltered_subscription_sees_all [OF bob_messages_facts(1) _ bob_messages_facts(3) _ _ _ bob_messages_facts(2) bob_grant_verified [OF t]]
    by (auto simp: alice_def)
  moreover have "sub_inner ?sub (t\<lparr>dm_events := dm_events t @ [(alice, hello_entry)]\<rparr>) = [ser_entry hello_entry]"
    by (simp add: demo_heard_def)
  ultimately show ?thesis by blast
qed

end
