(* ===== verification/Client.thy ===== *)
theory Client
  imports Record_Write Record_Access
begin

text \<open>
  The client's side of a message: what is signed and how (\<open>AuthorizationBuilder\<close> of \<open>src/src/authorization.rs\<close>, the
  signing methods of \<open>src/src/records/write.rs\<close>), and the filters a request carries (\<open>src/src/records.rs\<close>,
  \<open>src/src/messages.rs\<close>). The signer and the JWS library are the fields of \<open>client\<close>; \<open>'k\<close> is a signer's key.
\<close>

section \<open>What a client calls\<close>

text \<open>A payload handed to \<open>JwsBuilder\<close>; an attestation's payload is one CID.\<close>

datatype jws_content = JC_Jws jws_payload | JC_Signature signature_payload | JC_Attestation string

record ('s, 'k) client =
  sg_verification_method :: "'k \<Rightarrow> 's \<Rightarrow> (string + string) \<times> 's"
  jws_build :: "jws_content \<Rightarrow> 'k \<Rightarrow> 's \<Rightarrow> (string + jws) \<times> 's"
  jws_default :: jws
  uuid_new :: "'s \<Rightarrow> string \<times> 's"
  to_json_grant :: "grant_data \<Rightarrow> string + bytes"
  to_json_request :: "request_data \<Rightarrow> string + bytes"
  to_json_revocation :: "string option \<Rightarrow> string + bytes"

definition now :: "('s, 'b) env \<Rightarrow> ('s, datetime) io" where
  "now E s = (Inr (utc_now E s), s)"

section \<open>What serialization keeps of a request\<close>

definition ser_date_range :: "date_range \<Rightarrow> date_range" where
  "ser_date_range r = \<lparr>dr_lower = map_option rfc3339_micros (dr_lower r), dr_upper = map_option rfc3339_micros (dr_upper r)\<rparr>"

definition ser_records_filter :: "records_filter \<Rightarrow> records_filter" where
  "ser_records_filter f = f\<lparr>rf_date_published := map_option ser_date_range (rf_date_published f),
     rf_date_created := map_option ser_date_range (rf_date_created f),
     rf_date_updated := map_option ser_date_range (rf_date_updated f)\<rparr>"

definition ser_messages_filter :: "messages_filter \<Rightarrow> messages_filter" where
  "ser_messages_filter f = f\<lparr>mf_message_timestamp := map_option ser_date_range (mf_message_timestamp f)\<rparr>"

definition ser_read_descriptor :: "read_descriptor \<Rightarrow> read_descriptor" where
  "ser_read_descriptor d = \<lparr>rd_base = ser_base (rd_base d), rd_filter = ser_records_filter (rd_filter d)\<rparr>"

definition ser_query_descriptor :: "query_descriptor \<Rightarrow> query_descriptor" where
  "ser_query_descriptor d = d\<lparr>qd_base := ser_base (qd_base d), qd_filter := ser_records_filter (qd_filter d)\<rparr>"

definition ser_subscribe_descriptor :: "subscribe_descriptor \<Rightarrow> subscribe_descriptor" where
  "ser_subscribe_descriptor d = \<lparr>sd_base = ser_base (sd_base d), sd_filter = ser_records_filter (sd_filter d)\<rparr>"

definition ser_configure_descriptor :: "configure_descriptor \<Rightarrow> configure_descriptor" where
  "ser_configure_descriptor d = d\<lparr>cd_base := ser_base (cd_base d)\<rparr>"

section \<open>Filters\<close>

definition uri_clean_opt :: "('s, 'b) env \<Rightarrow> string option \<Rightarrow> string option result" where
  "uri_clean_opt E u = (case u of None \<Rightarrow> Inr None | Some x \<Rightarrow> rbind (uri_clean E x) (\<lambda>y. Inr (Some y)))"

definition normalize :: "('s, 'b) env \<Rightarrow> records_filter \<Rightarrow> records_filter result" where
  "normalize E f =
     rbind (uri_clean_opt E (rf_protocol f)) (\<lambda>protocol.
     rbind (uri_clean_opt E (rf_schema f)) (\<lambda>schema.
     Inr (f\<lparr>rf_protocol := protocol, rf_schema := schema\<rparr>)))"

definition filter_attester :: "string \<Rightarrow> records_filter \<Rightarrow> records_filter" where
  "filter_attester x f = f\<lparr>rf_attester := Some x\<rparr>"

definition filter_protocol :: "string \<Rightarrow> records_filter \<Rightarrow> records_filter" where
  "filter_protocol x f = f\<lparr>rf_protocol := Some x\<rparr>"

definition filter_protocol_path :: "string \<Rightarrow> records_filter \<Rightarrow> records_filter" where
  "filter_protocol_path x f = f\<lparr>rf_protocol_path := Some x\<rparr>"

definition filter_schema :: "string \<Rightarrow> records_filter \<Rightarrow> records_filter" where
  "filter_schema x f = f\<lparr>rf_schema := Some x\<rparr>"

definition filter_context_id :: "string \<Rightarrow> records_filter \<Rightarrow> records_filter" where
  "filter_context_id x f = f\<lparr>rf_context_id := Some x\<rparr>"

definition filter_record_id :: "string \<Rightarrow> records_filter \<Rightarrow> records_filter" where
  "filter_record_id x f = f\<lparr>rf_record_id := Some x\<rparr>"

definition filter_parent_id :: "string \<Rightarrow> records_filter \<Rightarrow> records_filter" where
  "filter_parent_id x f = f\<lparr>rf_parent_id := Some x\<rparr>"

text \<open>The tags are a \<open>BTreeMap\<close>.\<close>

definition filter_add_tag :: "string \<Rightarrow> tag_filter \<Rightarrow> records_filter \<Rightarrow> records_filter" where
  "filter_add_tag key value f =
     (case rf_tags f of
        Some existing \<Rightarrow> f\<lparr>rf_tags := Some (bt_insert key value existing)\<rparr>
      | None \<Rightarrow> f\<lparr>rf_tags := Some (bt_insert key value [])\<rparr>)"

definition filter_data_format :: "string \<Rightarrow> records_filter \<Rightarrow> records_filter" where
  "filter_data_format x f = f\<lparr>rf_data_format := Some x\<rparr>"

definition filter_data_size :: "usize value_range \<Rightarrow> records_filter \<Rightarrow> records_filter" where
  "filter_data_size x f = f\<lparr>rf_data_size := Some x\<rparr>"

definition filter_data_cid :: "string \<Rightarrow> records_filter \<Rightarrow> records_filter" where
  "filter_data_cid x f = f\<lparr>rf_data_cid := Some x\<rparr>"

definition filter_date_created :: "date_range \<Rightarrow> records_filter \<Rightarrow> records_filter" where
  "filter_date_created x f = f\<lparr>rf_date_created := Some x\<rparr>"

definition filter_date_published :: "date_range \<Rightarrow> records_filter \<Rightarrow> records_filter" where
  "filter_date_published x f = f\<lparr>rf_date_published := Some x\<rparr>"

definition filter_date_updated :: "date_range \<Rightarrow> records_filter \<Rightarrow> records_filter" where
  "filter_date_updated x f = f\<lparr>rf_date_updated := Some x\<rparr>"

definition messages_filter_new :: messages_filter where
  "messages_filter_new = \<lparr>mf_interface = None, mf_method = None, mf_protocol = None, mf_message_timestamp = None\<rparr>"

definition messages_filter_interface :: "interface \<Rightarrow> messages_filter \<Rightarrow> messages_filter" where
  "messages_filter_interface x f = f\<lparr>mf_interface := Some x\<rparr>"

definition messages_filter_method :: "dwn_method \<Rightarrow> messages_filter \<Rightarrow> messages_filter" where
  "messages_filter_method x f = f\<lparr>mf_method := Some x\<rparr>"

definition messages_filter_protocol :: "string \<Rightarrow> messages_filter \<Rightarrow> messages_filter" where
  "messages_filter_protocol x f = f\<lparr>mf_protocol := Some x\<rparr>"

definition messages_filter_timestamp :: "date_range \<Rightarrow> messages_filter \<Rightarrow> messages_filter" where
  "messages_filter_timestamp x f = f\<lparr>mf_message_timestamp := Some x\<rparr>"

section \<open>The authorization of a request\<close>

record auth_builder =
  ab_descriptor_cid :: "string option"
  ab_delegated_grant :: "delegated_grant option"
  ab_permission_grant_id :: "string option"
  ab_protocol_role :: "string option"

definition auth_builder_new :: auth_builder where
  "auth_builder_new = \<lparr>ab_descriptor_cid = None, ab_delegated_grant = None, ab_permission_grant_id = None, ab_protocol_role = None\<rparr>"

definition auth_descriptor_cid :: "string \<Rightarrow> auth_builder \<Rightarrow> auth_builder" where
  "auth_descriptor_cid x b = b\<lparr>ab_descriptor_cid := Some x\<rparr>"

definition auth_delegated_grant :: "delegated_grant \<Rightarrow> auth_builder \<Rightarrow> auth_builder" where
  "auth_delegated_grant x b = b\<lparr>ab_delegated_grant := Some x\<rparr>"

definition auth_permission_grant_id :: "string \<Rightarrow> auth_builder \<Rightarrow> auth_builder" where
  "auth_permission_grant_id x b = b\<lparr>ab_permission_grant_id := Some x\<rparr>"

definition auth_protocol_role :: "string \<Rightarrow> auth_builder \<Rightarrow> auth_builder" where
  "auth_protocol_role x b = b\<lparr>ab_protocol_role := Some x\<rparr>"

definition grant_cid :: "('s, 'b) env \<Rightarrow> delegated_grant option \<Rightarrow> string option result" where
  "grant_cid E g =
     (case g of None \<Rightarrow> Inr None
      | Some dg \<Rightarrow> rbind (from_value E (P_DelegatedGrant (ser_delegated_grant dg))) (\<lambda>c. Inr (Some c)))"

definition auth_build :: "('s, 'b) env \<Rightarrow> ('s, 'k) client \<Rightarrow> auth_builder \<Rightarrow> 'k \<Rightarrow> ('s, authorization) io" where
  "auth_build E C b signer =
     sbind (lift (some_or (ab_descriptor_cid b) (BadRequest ''descriptor not found''))) (\<lambda>descriptor_cid.
     sbind (lift (grant_cid E (ab_delegated_grant b))) (\<lambda>delegated_grant_id.
     sbind (anyhow (jws_build C (JC_Jws \<lparr>jp_descriptor_cid = descriptor_cid,
         jp_permission_grant_id = ab_permission_grant_id b, jp_delegated_grant_id = delegated_grant_id,
         jp_protocol_role = ab_protocol_role b\<rparr>) signer)) (\<lambda>signature.
     sret (Authorization signature None (ab_delegated_grant b) None))))"

text \<open>
  The builders all end the same way: the optional parts go to an authorization builder, which signs the
  descriptor's CID.
\<close>

definition sign_request :: "('s, 'b) env \<Rightarrow> ('s, 'k) client \<Rightarrow> payload \<Rightarrow> string option \<Rightarrow> string option \<Rightarrow> delegated_grant option
    \<Rightarrow> 'k \<Rightarrow> ('s, authorization) io" where
  "sign_request E C descriptor grant_id role dg signer =
     sbind (lift (from_value E descriptor)) (\<lambda>cid.
     let b = auth_descriptor_cid cid auth_builder_new;
         b = (case grant_id of None \<Rightarrow> b | Some i \<Rightarrow> auth_permission_grant_id i b);
         b = (case role of None \<Rightarrow> b | Some r \<Rightarrow> auth_protocol_role r b);
         b = (case dg of None \<Rightarrow> b | Some g \<Rightarrow> auth_delegated_grant g b) in
     auth_build E C b signer)"

section \<open>Signing a write\<close>

definition jws_payload_default :: jws_payload where
  "jws_payload_default = \<lparr>jp_descriptor_cid = [], jp_permission_grant_id = None, jp_delegated_grant_id = None,
     jp_protocol_role = None\<rparr>"

definition descriptor_cid :: "('s, 'b) env \<Rightarrow> write_msg \<Rightarrow> string result" where
  "descriptor_cid E w = from_value E (P_WriteDescriptor (ser_write_descriptor (w_descriptor w)))"

definition with_signature :: "jws \<Rightarrow> write_msg \<Rightarrow> write_msg" where
  "with_signature j w =
     (case w_authorization w of Authorization _ os ad od \<Rightarrow> w\<lparr>w_authorization := Authorization j os ad od\<rparr>)"

definition sign_as_author :: "('s, 'b) env \<Rightarrow> ('s, 'k) client \<Rightarrow> string option \<Rightarrow> string option \<Rightarrow> 'k \<Rightarrow> write_msg
    \<Rightarrow> ('s, write_msg) io" where
  "sign_as_author E C permission_grant_id protocol_role signer w =
     sbind (lift (grant_cid E (author_delegated_grant (w_authorization w)))) (\<lambda>delegated_grant_id.
     sbind (lift (case w_attestation w of None \<Rightarrow> Inr None
       | Some j \<Rightarrow> rbind (from_value E (P_Attestation (Some j))) (\<lambda>c. Inr (Some c)))) (\<lambda>attestation_cid.
     sbind (lift (case w_encryption w of None \<Rightarrow> Inr None
       | Some e \<Rightarrow> rbind (from_value E (P_Encryption (Some e))) (\<lambda>c. Inr (Some c)))) (\<lambda>encryption_cid.
     sbind (lift (descriptor_cid E w)) (\<lambda>descriptor_cid.
     sbind (anyhow (jws_build C (JC_Signature
       \<lparr>sp_base = \<lparr>jp_descriptor_cid = descriptor_cid, jp_permission_grant_id = permission_grant_id,
          jp_delegated_grant_id = delegated_grant_id, jp_protocol_role = protocol_role\<rparr>,
        sp_record_id = w_record_id w, sp_context_id = w_context_id w, sp_attestation_cid = attestation_cid,
        sp_encryption_cid = encryption_cid\<rparr>) signer)) (\<lambda>j.
     sret (with_signature j w))))))"

definition is_err :: "'a result \<Rightarrow> bool" where
  "is_err r = (case r of Inl _ \<Rightarrow> True | Inr _ \<Rightarrow> False)"

definition sign_as_owner :: "('s, 'b) env \<Rightarrow> ('s, 'k) client \<Rightarrow> 'k \<Rightarrow> write_msg \<Rightarrow> ('s, write_msg) io" where
  "sign_as_owner E C signer w =
     sbind (lift (rguard (\<not> is_err (auth_author E (w_authorization w)))
       (BadRequest ''message signature is required in order to sign as owner''))) (\<lambda>_.
     sbind (lift (descriptor_cid E w)) (\<lambda>descriptor_cid.
     sbind (anyhow (jws_build C (JC_Jws (jws_payload_default\<lparr>jp_descriptor_cid := descriptor_cid\<rparr>)) signer)) (\<lambda>j.
     case w_authorization w of Authorization s os ad od \<Rightarrow>
       sret (w\<lparr>w_authorization := Authorization s (Some j) ad od\<rparr>))))"

definition sign_as_delegate :: "('s, 'b) env \<Rightarrow> ('s, 'k) client \<Rightarrow> delegated_grant \<Rightarrow> 'k \<Rightarrow> write_msg \<Rightarrow> ('s, write_msg) io" where
  "sign_as_delegate E C delegated_grant signer w =
     sbind (lift (rguard (\<not> is_err (auth_author E (w_authorization w)))
       (BadRequest ''signature is required in order to sign as owner delegate''))) (\<lambda>_.
     sbind (lift (from_value E (P_DelegatedGrant (ser_delegated_grant delegated_grant)))) (\<lambda>delegated_grant_id.
     sbind (lift (descriptor_cid E w)) (\<lambda>descriptor_cid.
     sbind (anyhow (jws_build C (JC_Jws (jws_payload_default\<lparr>jp_descriptor_cid := descriptor_cid,
       jp_delegated_grant_id := Some delegated_grant_id\<rparr>)) signer)) (\<lambda>j.
     case w_authorization w of Authorization s os ad od \<Rightarrow>
       sret (w\<lparr>w_authorization := Authorization s (Some j) ad (Some delegated_grant)\<rparr>)))))"

definition with_stream :: "bytes \<Rightarrow> write_msg \<Rightarrow> write_msg" where
  "with_stream data w = w\<lparr>w_data_stream := Some data\<rparr>"

definition delegated_grant_from :: "write_msg \<Rightarrow> delegated_grant" where
  "delegated_grant_from w =
     DelegatedGrant (w_descriptor w) (w_authorization w) (w_record_id w) (w_context_id w)
       (case w_encoded_data w of None \<Rightarrow> [] | Some d \<Rightarrow> d)"

end
