(* ===== verification/Endpoint.thy ===== *)
theory Endpoint
  imports Client Read_Only
begin

text \<open>
  The \<open>Message\<close> trait (\<open>src/src/endpoint.rs\<close>) over the messages that implement it: identifier, descriptor,
  authorization and handler of every kind of message, and the entry point that authenticates a message and routes it
  to its handler.
\<close>

datatype message =
    Msg_Write write_msg
  | Msg_Delete delete
  | Msg_Read read
  | Msg_Query records_query
  | Msg_Subscribe records_subscribe
  | Msg_Configure configure
  | Msg_ProtocolsQuery protocols_query
  | Msg_MessagesQuery messages_query
  | Msg_MessagesRead messages_read
  | Msg_MessagesSubscribe messages_subscribe

text \<open>\<open>Message::Reply\<close>.\<close>

datatype 's any_reply =
    Rep_Write "unit reply"
  | Rep_Delete "unit reply"
  | Rep_Read "read_reply_entry reply"
  | Rep_Query "query_reply reply"
  | Rep_Subscribe "'s subscriber reply"
  | Rep_Configure "configure reply"
  | Rep_ProtocolsQuery "protocols_query_reply reply"
  | Rep_MessagesQuery "messages_query_reply reply"
  | Rep_MessagesRead "messages_read_reply reply"
  | Rep_MessagesSubscribe "'s subscriber reply"

definition ser_optional :: "authorization option \<Rightarrow> authorization option" where
  "ser_optional = map_option ser_authorization"

primrec message_cid :: "('s, 'b) env \<Rightarrow> message \<Rightarrow> string result" where
  "message_cid E (Msg_Write w) = write_cid E w"
| "message_cid E (Msg_Delete d) = delete_cid E d"
| "message_cid E (Msg_Read r) = from_value E (P_Read
     \<lparr>rd_descriptor = ser_read_descriptor (rd_descriptor r), rd_authorization = ser_optional (rd_authorization r)\<rparr>)"
| "message_cid E (Msg_Query q) = from_value E (P_RecordsQuery
     \<lparr>rq_descriptor = ser_query_descriptor (rq_descriptor q), rq_authorization = ser_optional (rq_authorization q)\<rparr>)"
| "message_cid E (Msg_Subscribe q) = from_value E (P_RecordsSubscribe
     \<lparr>rs_descriptor = ser_subscribe_descriptor (rs_descriptor q), rs_authorization = ser_optional (rs_authorization q)\<rparr>)"
| "message_cid E (Msg_Configure c) = configure_cid E c"
| "message_cid E (Msg_ProtocolsQuery q) = from_value E (P_ProtocolsQuery
     (q\<lparr>pq_base := ser_base (pq_base q), pq_authorization := ser_optional (pq_authorization q)\<rparr>))"
| "message_cid E (Msg_MessagesQuery q) = from_value E (P_MessagesQuery
     (q\<lparr>mq_base := ser_base (mq_base q), mq_filters := map ser_messages_filter (mq_filters q),
        mq_authorization := ser_authorization (mq_authorization q)\<rparr>))"
| "message_cid E (Msg_MessagesRead r) = from_value E (P_MessagesRead
     (r\<lparr>mr_base := ser_base (mr_base r), mr_authorization := ser_authorization (mr_authorization r)\<rparr>))"
| "message_cid E (Msg_MessagesSubscribe q) = from_value E (P_MessagesSubscribe
     (q\<lparr>ms_base := ser_base (ms_base q), ms_filters := map ser_messages_filter (ms_filters q),
        ms_authorization := ser_authorization (ms_authorization q)\<rparr>))"

primrec message_descriptor :: "message \<Rightarrow> descriptor" where
  "message_descriptor (Msg_Write w) = wd_base (w_descriptor w)"
| "message_descriptor (Msg_Delete d) = del_base (del_descriptor d)"
| "message_descriptor (Msg_Read r) = rd_base (rd_descriptor r)"
| "message_descriptor (Msg_Query q) = qd_base (rq_descriptor q)"
| "message_descriptor (Msg_Subscribe q) = sd_base (rs_descriptor q)"
| "message_descriptor (Msg_Configure c) = cd_base (cfg_descriptor c)"
| "message_descriptor (Msg_ProtocolsQuery q) = pq_base q"
| "message_descriptor (Msg_MessagesQuery q) = mq_base q"
| "message_descriptor (Msg_MessagesRead r) = mr_base r"
| "message_descriptor (Msg_MessagesSubscribe q) = ms_base q"

primrec message_authorization :: "message \<Rightarrow> authorization option" where
  "message_authorization (Msg_Write w) = Some (w_authorization w)"
| "message_authorization (Msg_Delete d) = Some (del_authorization d)"
| "message_authorization (Msg_Read r) = rd_authorization r"
| "message_authorization (Msg_Query q) = rq_authorization q"
| "message_authorization (Msg_Subscribe q) = rs_authorization q"
| "message_authorization (Msg_Configure c) = Some (cfg_authorization c)"
| "message_authorization (Msg_ProtocolsQuery q) = pq_authorization q"
| "message_authorization (Msg_MessagesQuery q) = Some (mq_authorization q)"
| "message_authorization (Msg_MessagesRead r) = Some (mr_authorization r)"
| "message_authorization (Msg_MessagesSubscribe q) = Some (ms_authorization q)"

definition smap :: "('a \<Rightarrow> 'c) \<Rightarrow> ('s, 'a) io \<Rightarrow> ('s, 'c) io" where
  "smap f m = sbind m (\<lambda>a. sret (f a))"

primrec message_handle :: "('s, 'b) env \<Rightarrow> string \<Rightarrow> message \<Rightarrow> ('s, 's any_reply) io" where
  "message_handle E ow (Msg_Write w) = smap Rep_Write (write_handle E ow w)"
| "message_handle E ow (Msg_Delete d) = smap Rep_Delete (delete_handle E ow d)"
| "message_handle E ow (Msg_Read r) = smap Rep_Read (read_handle E ow r)"
| "message_handle E ow (Msg_Query q) = smap Rep_Query (query_handle E ow q)"
| "message_handle E ow (Msg_Subscribe q) = smap Rep_Subscribe (subscribe_handle E ow q)"
| "message_handle E ow (Msg_Configure c) = smap Rep_Configure (configure_handle E ow c)"
| "message_handle E ow (Msg_ProtocolsQuery q) = smap Rep_ProtocolsQuery (protocols_query_handle E ow q)"
| "message_handle E ow (Msg_MessagesQuery q) = smap Rep_MessagesQuery (messages_query_handle E ow q)"
| "message_handle E ow (Msg_MessagesRead r) = smap Rep_MessagesRead (messages_read_handle E ow r)"
| "message_handle E ow (Msg_MessagesSubscribe q) = smap Rep_MessagesSubscribe (messages_subscribe_handle E ow q)"

text \<open>\<open>endpoint::handle\<close> for any message.\<close>

definition handle :: "('s, 'b) env \<Rightarrow> string \<Rightarrow> message \<Rightarrow> ('s, 's any_reply) io" where
  "handle E ow m = endpoint_handle E (message_authorization m) (message_handle E ow m)"

text \<open>A debug build validates the message against its schema before it authenticates it.\<close>

definition debug_handle :: "message schema_lib \<Rightarrow> ('s, 'b) env \<Rightarrow> string \<Rightarrow> message \<Rightarrow> ('s, 's any_reply) io" where
  "debug_handle L E ow m = sbind (lift (schema_validate L message_descriptor m)) (\<lambda>_. handle E ow m)"

section \<open>Facts\<close>

text \<open>The messages that may change what is stored.\<close>

primrec changes :: "message \<Rightarrow> bool" where
  "changes (Msg_Write w) = True"
| "changes (Msg_Delete d) = True"
| "changes (Msg_Read r) = False"
| "changes (Msg_Query q) = False"
| "changes (Msg_Subscribe q) = False"
| "changes (Msg_Configure c) = True"
| "changes (Msg_ProtocolsQuery q) = False"
| "changes (Msg_MessagesQuery q) = False"
| "changes (Msg_MessagesRead r) = False"
| "changes (Msg_MessagesSubscribe q) = False"

lemma smap_Inr_iff [monad_simps]: "smap f m s = (Inr b, t) \<longleftrightarrow> (\<exists>a. m s = (Inr a, t) \<and> b = f a)"
  by (auto simp: smap_def monad_simps)

lemma smap_run [simp]: "m s = (Inr a, t) \<Longrightarrow> smap f m s = (Inr (f a), t)"
  by (simp add: smap_def sbind_run sret_def)

lemma reads_only_smap: "reads_only m \<Longrightarrow> reads_only (smap f m)"
  unfolding smap_def by (intro reads_only_intros)

context pure_reads
begin

lemma message_handle_ro: "\<not> changes m \<Longrightarrow> reads_only (message_handle E ow m)"
  using read_handle_ro query_handle_ro subscribe_handle_ro protocols_query_handle_ro messages_read_handle_ro
    messages_query_handle_ro messages_subscribe_handle_ro
  by (cases m) (simp_all add: reads_only_smap)

end

lemma handle_rejects: "validate E (message_authorization m) = Inl f \<Longrightarrow> handle E ow m s = (Inl f, s)"
  by (simp add: handle_def endpoint_handle_def sfail_def)

lemma handle_accepts: "validate E (message_authorization m) = Inr () \<Longrightarrow> handle E ow m = message_handle E ow m"
  by (simp add: handle_def endpoint_handle_def)

end
