(* ===== verification/Record_Builders.thy ===== *)
theory Record_Builders
  imports Client
begin

text \<open>
  The builders of records messages (\<open>src/src/interfaces/records.rs\<close>). The type parameters of a builder are those of the
  source: they tell whether it has a filter, a record ID, attesters and a signer, so that only a complete builder can
  be built. A builder's errors are \<open>anyhow\<close> errors.
\<close>

text \<open>\<open>anyhow!\<close> in a function that returns an \<open>anyhow\<close> result.\<close>

definition anyhow_err :: "string \<Rightarrow> failure" where
  "anyhow_err e = Err (internal ''anyhow'' e)"

section \<open>The states of a builder\<close>

datatype unsigned = Unsigned
datatype 'k signed = Signed 'k
datatype unfiltered = Unfiltered
datatype filtered = Filtered records_filter
datatype no_record_id = NoRecordId
datatype with_record_id = RecordId string

section \<open>Delete\<close>

record ('r, 'k) delete_builder =
  db_message_timestamp :: datetime
  db_record_id :: 'r
  db_prune :: "bool option"
  db_permission_grant_id :: "string option"
  db_protocol_role :: "string option"
  db_signer :: 'k

definition delete_builder_new :: "('s, 'b) env \<Rightarrow> ('s, (no_record_id, unsigned) delete_builder) io" where
  "delete_builder_new E =
     sbind (now E) (\<lambda>t.
     sret \<lparr>db_message_timestamp = t, db_record_id = NoRecordId, db_prune = None, db_permission_grant_id = None,
       db_protocol_role = None, db_signer = Unsigned\<rparr>)"

definition delete_builder_record_id :: "string \<Rightarrow> (no_record_id, unsigned) delete_builder \<Rightarrow> (with_record_id, unsigned) delete_builder" where
  "delete_builder_record_id record_id b =
     \<lparr>db_message_timestamp = db_message_timestamp b, db_record_id = RecordId record_id, db_prune = db_prune b,
      db_permission_grant_id = db_permission_grant_id b, db_protocol_role = db_protocol_role b, db_signer = db_signer b\<rparr>"

definition delete_builder_prune :: "bool \<Rightarrow> ('r, unsigned) delete_builder \<Rightarrow> ('r, unsigned) delete_builder" where
  "delete_builder_prune x b = b\<lparr>db_prune := Some x\<rparr>"

definition delete_builder_permission_grant_id :: "string \<Rightarrow> ('r, unsigned) delete_builder \<Rightarrow> ('r, unsigned) delete_builder" where
  "delete_builder_permission_grant_id x b = b\<lparr>db_permission_grant_id := Some x\<rparr>"

definition delete_builder_protocol_role :: "string \<Rightarrow> ('r, unsigned) delete_builder \<Rightarrow> ('r, unsigned) delete_builder" where
  "delete_builder_protocol_role x b = b\<lparr>db_protocol_role := Some x\<rparr>"

definition delete_builder_sign :: "'k \<Rightarrow> (with_record_id, unsigned) delete_builder \<Rightarrow> (with_record_id, 'k signed) delete_builder" where
  "delete_builder_sign signer b =
     \<lparr>db_message_timestamp = db_message_timestamp b, db_record_id = db_record_id b, db_prune = db_prune b,
      db_permission_grant_id = db_permission_grant_id b, db_protocol_role = db_protocol_role b, db_signer = Signed signer\<rparr>"

definition delete_builder_build :: "('s, 'b) env \<Rightarrow> ('s, 'k) client \<Rightarrow> (with_record_id, 'k signed) delete_builder \<Rightarrow> ('s, delete) io" where
  "delete_builder_build E C b =
     (case db_record_id b of RecordId rid \<Rightarrow> case db_signer b of Signed signer \<Rightarrow>
      let d = \<lparr>del_base = \<lparr>base_interface = I_Records, base_method = M_Delete, base_timestamp = db_message_timestamp b\<rparr>,
            del_record_id = rid, del_prune = (case db_prune b of None \<Rightarrow> False | Some x \<Rightarrow> x)\<rparr> in
      sbind (via_provider (sign_request E C (P_DeleteDescriptor (ser_delete_descriptor d))
        (db_permission_grant_id b) (db_protocol_role b) None signer)) (\<lambda>a.
      sret \<lparr>del_descriptor = d, del_authorization = a\<rparr>))"

section \<open>Query\<close>

record ('f, 'k) query_builder =
  qb_message_timestamp :: datetime
  qb_filter :: 'f
  qb_date_sort :: "sort option"
  qb_pagination :: "pagination option"
  qb_protocol_role :: "string option"
  qb_permission_grant_id :: "string option"
  qb_delegated_grant :: "delegated_grant option"
  qb_signer :: 'k

definition query_builder_new :: "('s, 'b) env \<Rightarrow> ('s, (unfiltered, unsigned) query_builder) io" where
  "query_builder_new E =
     sbind (now E) (\<lambda>t.
     sret \<lparr>qb_message_timestamp = t, qb_filter = Unfiltered, qb_date_sort = None, qb_pagination = None,
       qb_protocol_role = None, qb_permission_grant_id = None, qb_delegated_grant = None, qb_signer = Unsigned\<rparr>)"

definition query_builder_filter :: "records_filter \<Rightarrow> (unfiltered, unsigned) query_builder \<Rightarrow> (filtered, unsigned) query_builder" where
  "query_builder_filter f b =
     \<lparr>qb_message_timestamp = qb_message_timestamp b, qb_filter = Filtered f, qb_date_sort = qb_date_sort b,
      qb_pagination = qb_pagination b, qb_protocol_role = qb_protocol_role b,
      qb_permission_grant_id = qb_permission_grant_id b, qb_delegated_grant = qb_delegated_grant b, qb_signer = qb_signer b\<rparr>"

definition query_builder_permission_grant_id :: "string \<Rightarrow> ('f, unsigned) query_builder \<Rightarrow> ('f, unsigned) query_builder" where
  "query_builder_permission_grant_id x b = b\<lparr>qb_permission_grant_id := Some x\<rparr>"

definition query_builder_protocol_role :: "string \<Rightarrow> ('f, unsigned) query_builder \<Rightarrow> ('f, unsigned) query_builder" where
  "query_builder_protocol_role x b = b\<lparr>qb_protocol_role := Some x\<rparr>"

definition query_builder_delegated_grant :: "delegated_grant \<Rightarrow> ('f, unsigned) query_builder \<Rightarrow> ('f, unsigned) query_builder" where
  "query_builder_delegated_grant x b = b\<lparr>qb_delegated_grant := Some x\<rparr>"

definition query_builder_date_sort :: "sort \<Rightarrow> ('f, unsigned) query_builder \<Rightarrow> ('f, unsigned) query_builder" where
  "query_builder_date_sort x b = b\<lparr>qb_date_sort := Some x\<rparr>"

definition query_builder_pagination :: "pagination \<Rightarrow> ('f, unsigned) query_builder \<Rightarrow> ('f, unsigned) query_builder" where
  "query_builder_pagination x b = b\<lparr>qb_pagination := Some x\<rparr>"

definition query_builder_sign :: "'k \<Rightarrow> ('f, unsigned) query_builder \<Rightarrow> ('f, 'k signed) query_builder" where
  "query_builder_sign signer b =
     \<lparr>qb_message_timestamp = qb_message_timestamp b, qb_filter = qb_filter b, qb_date_sort = qb_date_sort b,
      qb_pagination = qb_pagination b, qb_protocol_role = qb_protocol_role b,
      qb_permission_grant_id = qb_permission_grant_id b, qb_delegated_grant = qb_delegated_grant b, qb_signer = Signed signer\<rparr>"

definition query_builder_descriptor :: "('s, 'b) env \<Rightarrow> (filtered, 'k) query_builder \<Rightarrow> query_descriptor result" where
  "query_builder_descriptor E b =
     (case qb_filter b of Filtered f \<Rightarrow>
      rbind (normalize E f) (\<lambda>f.
      Inr \<lparr>qd_base = \<lparr>base_interface = I_Records, base_method = M_Query, base_timestamp = qb_message_timestamp b\<rparr>,
        qd_filter = f, qd_date_sort = qb_date_sort b, qd_pagination = qb_pagination b\<rparr>))"

definition query_builder_build_unsigned :: "('s, 'b) env \<Rightarrow> (filtered, unsigned) query_builder \<Rightarrow> ('s, records_query) io" where
  "query_builder_build_unsigned E b =
     sbind (via_provider (lift (query_builder_descriptor E b))) (\<lambda>d.
     sret \<lparr>rq_descriptor = d, rq_authorization = None\<rparr>)"

definition query_builder_build :: "('s, 'b) env \<Rightarrow> ('s, 'k) client \<Rightarrow> (filtered, 'k signed) query_builder \<Rightarrow> ('s, records_query) io" where
  "query_builder_build E C b =
     (case qb_signer b of Signed signer \<Rightarrow>
      sbind (via_provider (lift (query_builder_descriptor E b))) (\<lambda>d.
      sbind (via_provider (sign_request E C (P_QueryDescriptor (ser_query_descriptor d))
        (qb_permission_grant_id b) (qb_protocol_role b) (qb_delegated_grant b) signer)) (\<lambda>a.
      sret \<lparr>rq_descriptor = d, rq_authorization = Some a\<rparr>)))"

section \<open>Read\<close>

record ('f, 'k) read_builder =
  rb_message_timestamp :: datetime
  rb_filter :: 'f
  rb_permission_grant_id :: "string option"
  rb_protocol_role :: "string option"
  rb_delegated_grant :: "delegated_grant option"
  rb_signer :: 'k

definition read_builder_new :: "('s, 'b) env \<Rightarrow> ('s, (unfiltered, unsigned) read_builder) io" where
  "read_builder_new E =
     sbind (now E) (\<lambda>t.
     sret \<lparr>rb_message_timestamp = t, rb_filter = Unfiltered, rb_permission_grant_id = None, rb_protocol_role = None,
       rb_delegated_grant = None, rb_signer = Unsigned\<rparr>)"

definition read_builder_filter :: "records_filter \<Rightarrow> (unfiltered, unsigned) read_builder \<Rightarrow> (filtered, unsigned) read_builder" where
  "read_builder_filter f b =
     \<lparr>rb_message_timestamp = rb_message_timestamp b, rb_filter = Filtered f,
      rb_permission_grant_id = rb_permission_grant_id b, rb_protocol_role = rb_protocol_role b,
      rb_delegated_grant = rb_delegated_grant b, rb_signer = Unsigned\<rparr>"

definition read_builder_permission_grant_id :: "string \<Rightarrow> ('f, unsigned) read_builder \<Rightarrow> ('f, unsigned) read_builder" where
  "read_builder_permission_grant_id x b = b\<lparr>rb_permission_grant_id := Some x\<rparr>"

definition read_builder_protocol_role :: "string \<Rightarrow> ('f, unsigned) read_builder \<Rightarrow> ('f, unsigned) read_builder" where
  "read_builder_protocol_role x b = b\<lparr>rb_protocol_role := Some x\<rparr>"

definition read_builder_delegated_grant :: "delegated_grant \<Rightarrow> ('f, unsigned) read_builder \<Rightarrow> ('f, unsigned) read_builder" where
  "read_builder_delegated_grant x b = b\<lparr>rb_delegated_grant := Some x\<rparr>"

definition read_builder_sign :: "'k \<Rightarrow> ('f, unsigned) read_builder \<Rightarrow> ('f, 'k signed) read_builder" where
  "read_builder_sign signer b =
     \<lparr>rb_message_timestamp = rb_message_timestamp b, rb_filter = rb_filter b,
      rb_permission_grant_id = rb_permission_grant_id b, rb_protocol_role = rb_protocol_role b,
      rb_delegated_grant = rb_delegated_grant b, rb_signer = Signed signer\<rparr>"

definition read_base :: "datetime \<Rightarrow> descriptor" where
  "read_base t = \<lparr>base_interface = I_Records, base_method = M_Read, base_timestamp = t\<rparr>"

text \<open>An anonymous read keeps the filter as it is given.\<close>

definition read_builder_build_unsigned :: "(filtered, unsigned) read_builder \<Rightarrow> read" where
  "read_builder_build_unsigned b =
     (case rb_filter b of Filtered f \<Rightarrow>
      \<lparr>rd_descriptor = \<lparr>rd_base = read_base (rb_message_timestamp b), rd_filter = f\<rparr>, rd_authorization = None\<rparr>)"

definition read_builder_build :: "('s, 'b) env \<Rightarrow> ('s, 'k) client \<Rightarrow> (filtered, 'k signed) read_builder \<Rightarrow> ('s, read) io" where
  "read_builder_build E C b =
     (case rb_filter b of Filtered f \<Rightarrow> case rb_signer b of Signed signer \<Rightarrow>
      sbind (via_provider (lift (normalize E f))) (\<lambda>f.
      let d = \<lparr>rd_base = read_base (rb_message_timestamp b), rd_filter = f\<rparr> in
      sbind (via_provider (sign_request E C (P_ReadDescriptor (ser_read_descriptor d))
        (rb_permission_grant_id b) (rb_protocol_role b) (rb_delegated_grant b) signer)) (\<lambda>a.
      sret \<lparr>rd_descriptor = d, rd_authorization = Some a\<rparr>)))"

section \<open>Subscribe\<close>

record ('f, 'k) subscribe_builder =
  sb_message_timestamp :: datetime
  sb_filter :: 'f
  sb_permission_grant_id :: "string option"
  sb_protocol_role :: "string option"
  sb_delegated_grant :: "delegated_grant option"
  sb_authorize :: "bool option"
  sb_signer :: 'k

definition subscribe_builder_new :: "('s, 'b) env \<Rightarrow> ('s, (unfiltered, unsigned) subscribe_builder) io" where
  "subscribe_builder_new E =
     sbind (now E) (\<lambda>t.
     sret \<lparr>sb_message_timestamp = t, sb_filter = Unfiltered, sb_permission_grant_id = None, sb_protocol_role = None,
       sb_delegated_grant = None, sb_authorize = None, sb_signer = Unsigned\<rparr>)"

definition subscribe_builder_filter :: "records_filter \<Rightarrow> (unfiltered, unsigned) subscribe_builder
    \<Rightarrow> (filtered, unsigned) subscribe_builder" where
  "subscribe_builder_filter f b =
     \<lparr>sb_message_timestamp = sb_message_timestamp b, sb_filter = Filtered f,
      sb_permission_grant_id = sb_permission_grant_id b, sb_protocol_role = sb_protocol_role b,
      sb_delegated_grant = sb_delegated_grant b, sb_authorize = sb_authorize b, sb_signer = sb_signer b\<rparr>"

definition subscribe_builder_permission_grant_id :: "string \<Rightarrow> ('f, unsigned) subscribe_builder \<Rightarrow> ('f, unsigned) subscribe_builder" where
  "subscribe_builder_permission_grant_id x b = b\<lparr>sb_permission_grant_id := Some x\<rparr>"

definition subscribe_builder_authorize :: "bool \<Rightarrow> ('f, unsigned) subscribe_builder \<Rightarrow> ('f, unsigned) subscribe_builder" where
  "subscribe_builder_authorize x b = b\<lparr>sb_authorize := Some x\<rparr>"

definition subscribe_builder_protocol_role :: "string \<Rightarrow> ('f, unsigned) subscribe_builder \<Rightarrow> ('f, unsigned) subscribe_builder" where
  "subscribe_builder_protocol_role x b = b\<lparr>sb_protocol_role := Some x\<rparr>"

definition subscribe_builder_delegated_grant :: "delegated_grant \<Rightarrow> ('f, unsigned) subscribe_builder \<Rightarrow> ('f, unsigned) subscribe_builder" where
  "subscribe_builder_delegated_grant x b = b\<lparr>sb_delegated_grant := Some x\<rparr>"

definition subscribe_builder_sign :: "'k \<Rightarrow> ('f, unsigned) subscribe_builder \<Rightarrow> ('f, 'k signed) subscribe_builder" where
  "subscribe_builder_sign signer b =
     \<lparr>sb_message_timestamp = sb_message_timestamp b, sb_filter = sb_filter b,
      sb_permission_grant_id = sb_permission_grant_id b, sb_protocol_role = sb_protocol_role b,
      sb_delegated_grant = sb_delegated_grant b, sb_authorize = sb_authorize b, sb_signer = Signed signer\<rparr>"

definition subscribe_builder_build :: "('s, 'b) env \<Rightarrow> ('s, 'k) client \<Rightarrow> (filtered, 'k signed) subscribe_builder
    \<Rightarrow> ('s, records_subscribe) io" where
  "subscribe_builder_build E C b =
     (case sb_filter b of Filtered f \<Rightarrow> case sb_signer b of Signed signer \<Rightarrow>
      sbind (via_provider (lift (normalize E f))) (\<lambda>f.
      let d = \<lparr>sd_base = \<lparr>base_interface = I_Records, base_method = M_Subscribe, base_timestamp = sb_message_timestamp b\<rparr>,
            sd_filter = f\<rparr> in
      sbind (if (case sb_authorize b of None \<Rightarrow> True | Some x \<Rightarrow> x) then
          sbind (via_provider (sign_request E C (P_SubscribeDescriptor (ser_subscribe_descriptor d))
            (sb_permission_grant_id b) (sb_protocol_role b) (sb_delegated_grant b) signer)) (\<lambda>a. sret (Some a))
        else sret None) (\<lambda>a.
      sret \<lparr>rs_descriptor = d, rs_authorization = a\<rparr>)))"

end
