(* ===== verification/Write_Builder.thy ===== *)
theory Write_Builder
  imports Record_Builders
begin

text \<open>
  The builder of writes (\<open>WriteBuilder\<close> of \<open>src/src/interfaces/records.rs\<close>): a write from scratch, or an update made from
  an existing write, whose immutable properties it keeps.
\<close>

record protocol_settings =
  ps_protocol :: string
  ps_protocol_path :: string
  ps_parent_context_id :: "string option"

datatype data = Data_Stream bytes | Data_Bytes bytes | Data_Cid string usize

definition data_from :: "bytes \<Rightarrow> data" where
  "data_from bs = Data_Stream bs"

datatype new_origin = New
datatype existing_origin = Existing
datatype unattested = Unattested
datatype 'k attested = Attested "'k list"

record ('o, 'a, 'k) write_builder =
  wb_message_timestamp :: datetime
  wb_recipient :: "string option"
  wb_protocol :: "protocol_settings option"
  wb_schema :: "string option"
  wb_tags :: "(string \<times> tag) list option"
  wb_record_id :: "string option"
  wb_data :: "data option"
  wb_data_format :: string
  wb_date_created :: datetime
  wb_published :: "bool option"
  wb_date_published :: "datetime option"
  wb_protocol_role :: "string option"
  wb_permission_grant_id :: "string option"
  wb_delegated_grant :: "delegated_grant option"
  wb_existing :: "write_msg option"
  wb_encryption :: "encryption_property option"
  wb_origin :: 'o
  wb_attesters :: 'a
  wb_signer :: 'k

definition write_builder_new :: "('s, 'b) env \<Rightarrow> ('s, (new_origin, unattested, unsigned) write_builder) io" where
  "write_builder_new E =
     sbind (now E) (\<lambda>t.
     sret \<lparr>wb_message_timestamp = t, wb_recipient = None, wb_protocol = None, wb_schema = None, wb_tags = None,
       wb_record_id = None, wb_data = None, wb_data_format = ''application/json'', wb_date_created = t, wb_published = None,
       wb_date_published = None, wb_protocol_role = None, wb_permission_grant_id = None, wb_delegated_grant = None,
       wb_existing = None, wb_encryption = None, wb_origin = New, wb_attesters = Unattested, wb_signer = Unsigned\<rparr>)"

definition write_builder_from :: "('s, 'b) env \<Rightarrow> write_msg \<Rightarrow> ('s, (existing_origin, unattested, unsigned) write_builder) io" where
  "write_builder_from E existing =
     (let existing = existing\<lparr>w_data_stream := None, w_encoded_data := None\<rparr> in
      sbind (now E) (\<lambda>t.
      sret \<lparr>wb_message_timestamp = t, wb_recipient = None, wb_protocol = None, wb_schema = None, wb_tags = None,
        wb_record_id = None, wb_data = None, wb_data_format = wd_data_format (w_descriptor existing),
        wb_date_created = wd_date_created (w_descriptor existing), wb_published = None, wb_date_published = None,
        wb_protocol_role = None, wb_permission_grant_id = None, wb_delegated_grant = None, wb_existing = Some existing,
        wb_encryption = None, wb_origin = Existing, wb_attesters = Unattested, wb_signer = Unsigned\<rparr>))"

section \<open>Properties only a new write can set\<close>

definition write_builder_protocol :: "protocol_settings \<Rightarrow> (new_origin, unattested, unsigned) write_builder
    \<Rightarrow> (new_origin, unattested, unsigned) write_builder" where
  "write_builder_protocol x b = b\<lparr>wb_protocol := Some x\<rparr>"

definition write_builder_schema :: "string \<Rightarrow> (new_origin, unattested, unsigned) write_builder
    \<Rightarrow> (new_origin, unattested, unsigned) write_builder" where
  "write_builder_schema x b = b\<lparr>wb_schema := Some x\<rparr>"

definition write_builder_recipient :: "string \<Rightarrow> (new_origin, unattested, unsigned) write_builder
    \<Rightarrow> (new_origin, unattested, unsigned) write_builder" where
  "write_builder_recipient x b = b\<lparr>wb_recipient := Some x\<rparr>"

section \<open>Properties every write can set\<close>

definition write_builder_data :: "data \<Rightarrow> ('o, unattested, unsigned) write_builder \<Rightarrow> ('o, unattested, unsigned) write_builder" where
  "write_builder_data x b = b\<lparr>wb_data := Some x\<rparr>"

definition write_builder_data_format :: "string \<Rightarrow> ('o, unattested, unsigned) write_builder \<Rightarrow> ('o, unattested, unsigned) write_builder" where
  "write_builder_data_format x b = b\<lparr>wb_data_format := x\<rparr>"

definition write_builder_record_id :: "string \<Rightarrow> ('o, unattested, unsigned) write_builder \<Rightarrow> ('o, unattested, unsigned) write_builder" where
  "write_builder_record_id x b = b\<lparr>wb_record_id := Some x\<rparr>"

definition write_builder_add_tag :: "string \<Rightarrow> tag \<Rightarrow> ('o, unattested, unsigned) write_builder
    \<Rightarrow> ('o, unattested, unsigned) write_builder" where
  "write_builder_add_tag name t b =
     b\<lparr>wb_tags := Some (hm_insert name t (case wb_tags b of None \<Rightarrow> [] | Some ts \<Rightarrow> ts))\<rparr>"

definition write_builder_published :: "bool \<Rightarrow> ('o, unattested, unsigned) write_builder \<Rightarrow> ('o, unattested, unsigned) write_builder" where
  "write_builder_published x b = b\<lparr>wb_published := Some x\<rparr>"

definition write_builder_protocol_role :: "string \<Rightarrow> ('o, unattested, unsigned) write_builder \<Rightarrow> ('o, unattested, unsigned) write_builder" where
  "write_builder_protocol_role x b = b\<lparr>wb_protocol_role := Some x\<rparr>"

definition write_builder_permission_grant_id :: "string \<Rightarrow> ('o, unattested, unsigned) write_builder
    \<Rightarrow> ('o, unattested, unsigned) write_builder" where
  "write_builder_permission_grant_id x b = b\<lparr>wb_permission_grant_id := Some x\<rparr>"

definition write_builder_delegated_grant :: "delegated_grant \<Rightarrow> ('o, unattested, unsigned) write_builder
    \<Rightarrow> ('o, unattested, unsigned) write_builder" where
  "write_builder_delegated_grant x b = b\<lparr>wb_delegated_grant := Some x\<rparr>"

definition write_builder_encryption :: "encryption_property \<Rightarrow> ('o, unattested, unsigned) write_builder
    \<Rightarrow> ('o, unattested, unsigned) write_builder" where
  "write_builder_encryption x b = b\<lparr>wb_encryption := Some x\<rparr>"

definition write_builder_message_timestamp :: "datetime \<Rightarrow> ('o, unattested, unsigned) write_builder
    \<Rightarrow> ('o, unattested, unsigned) write_builder" where
  "write_builder_message_timestamp x b = b\<lparr>wb_message_timestamp := x\<rparr>"

definition write_builder_date_created :: "datetime \<Rightarrow> ('o, unattested, unsigned) write_builder
    \<Rightarrow> ('o, unattested, unsigned) write_builder" where
  "write_builder_date_created x b = b\<lparr>wb_date_created := x\<rparr>"

definition write_builder_date_published :: "datetime \<Rightarrow> ('o, unattested, unsigned) write_builder
    \<Rightarrow> ('o, unattested, unsigned) write_builder" where
  "write_builder_date_published x b = b\<lparr>wb_date_published := Some x\<rparr>"

section \<open>Attesters and signer\<close>

definition write_builder_attest :: "'k list \<Rightarrow> ('o, 'a, unsigned) write_builder \<Rightarrow> ('o, 'k attested, unsigned) write_builder" where
  "write_builder_attest attesters b =
     \<lparr>wb_message_timestamp = wb_message_timestamp b, wb_recipient = wb_recipient b, wb_protocol = wb_protocol b,
      wb_schema = wb_schema b, wb_tags = wb_tags b, wb_record_id = wb_record_id b, wb_data = wb_data b,
      wb_data_format = wb_data_format b, wb_date_created = wb_date_created b, wb_published = wb_published b,
      wb_date_published = wb_date_published b, wb_protocol_role = wb_protocol_role b,
      wb_permission_grant_id = wb_permission_grant_id b, wb_delegated_grant = wb_delegated_grant b,
      wb_existing = wb_existing b, wb_encryption = wb_encryption b, wb_origin = wb_origin b,
      wb_attesters = Attested attesters, wb_signer = wb_signer b\<rparr>"

definition write_builder_sign :: "'k \<Rightarrow> ('o, 'a, unsigned) write_builder \<Rightarrow> ('o, 'a, 'k signed) write_builder" where
  "write_builder_sign signer b =
     \<lparr>wb_message_timestamp = wb_message_timestamp b, wb_recipient = wb_recipient b, wb_protocol = wb_protocol b,
      wb_schema = wb_schema b, wb_tags = wb_tags b, wb_record_id = wb_record_id b, wb_data = wb_data b,
      wb_data_format = wb_data_format b, wb_date_created = wb_date_created b, wb_published = wb_published b,
      wb_date_published = wb_date_published b, wb_protocol_role = wb_protocol_role b,
      wb_permission_grant_id = wb_permission_grant_id b, wb_delegated_grant = wb_delegated_grant b,
      wb_existing = wb_existing b, wb_encryption = wb_encryption b, wb_origin = wb_origin b,
      wb_attesters = wb_attesters b, wb_signer = Signed signer\<rparr>"

section \<open>Building\<close>

text \<open>The write a new builder starts from: the default write with its immutable properties.\<close>

definition default_write :: "('s, 'k) client \<Rightarrow> datetime \<Rightarrow> string option \<Rightarrow> write_msg" where
  "default_write C created recipient =
     \<lparr>w_descriptor = \<lparr>wd_base = \<lparr>base_interface = I_Records, base_method = M_Write, base_timestamp = 0\<rparr>,
        wd_protocol = None, wd_protocol_path = None, wd_recipient = recipient, wd_schema = None, wd_tags = None,
        wd_parent_id = None, wd_data_cid = [], wd_data_size = 0, wd_data_format = [], wd_date_created = created,
        wd_published = None, wd_date_published = None\<rparr>,
      w_authorization = Authorization (jws_default C) None None None, w_record_id = [], w_context_id = None,
      w_attestation = None, w_encryption = None, w_encoded_data = None, w_data_stream = None\<rparr>"

definition set_protocol :: "('s, 'b) env \<Rightarrow> protocol_settings \<Rightarrow> write_descriptor \<Rightarrow> write_descriptor result" where
  "set_protocol E settings d =
     rbind (uri_clean E (ps_protocol settings)) (\<lambda>normalized.
     Inr (d\<lparr>wd_protocol := Some normalized, wd_protocol_path := Some (ps_protocol_path settings),
       wd_parent_id := (case ps_parent_context_id settings of
           None \<Rightarrow> wd_parent_id d
         | Some ctx \<Rightarrow> Some (last (split_on (CHR ''/'') ctx)))\<rparr>))"

definition set_immutable :: "('s, 'b) env \<Rightarrow> ('s, 'k) client \<Rightarrow> ('o, 'a, 'g) write_builder \<Rightarrow> write_msg result" where
  "set_immutable E C b =
     (case wb_existing b of
        Some w \<Rightarrow> Inr w
      | None \<Rightarrow>
          let w = default_write C (wb_date_created b) (wb_recipient b);
              w = (case wb_record_id b of None \<Rightarrow> w | Some rid \<Rightarrow> w\<lparr>w_record_id := rid\<rparr>) in
          rbind (case wb_protocol b of None \<Rightarrow> Inr (w_descriptor w)
            | Some settings \<Rightarrow> set_protocol E settings (w_descriptor w)) (\<lambda>d.
          rbind (case wb_schema b of None \<Rightarrow> Inr d
            | Some s \<Rightarrow> rbind (uri_clean E s) (\<lambda>c. Inr (d\<lparr>wd_schema := Some c\<rparr>))) (\<lambda>d.
          Inr (w\<lparr>w_descriptor := d\<rparr>))))"

definition set_mutable :: "('o, 'a, 'g) write_builder \<Rightarrow> write_descriptor \<Rightarrow> write_descriptor" where
  "set_mutable b d =
     (let d = d\<lparr>wd_base := (wd_base d)\<lparr>base_timestamp := wb_message_timestamp b\<rparr>, wd_data_format := wb_data_format b\<rparr>;
          d = (case wb_tags b of None \<Rightarrow> d | Some tags \<Rightarrow> d\<lparr>wd_tags := Some tags\<rparr>) in
      case wb_published b of
        None \<Rightarrow> d
      | Some pub \<Rightarrow>
          d\<lparr>wd_published := Some pub,
            wd_date_published := (if pub then
                Some (case wb_date_published b of None \<Rightarrow> wb_message_timestamp b | Some t \<Rightarrow> t) else None)\<rparr>)"

text \<open>\<open>from_reader\<close> runs the store's chunking on a mock store and leaves the state as it is.\<close>

definition set_data :: "('s, 'b) env \<Rightarrow> data option \<Rightarrow> write_msg \<Rightarrow> ('s, write_msg) io" where
  "set_data E data w =
     (case data of
        Some (Data_Stream stream) \<Rightarrow>
          sbind (from_reader E stream) (\<lambda>(data_cid, data_size).
          sret (w\<lparr>w_descriptor := (w_descriptor w)\<lparr>wd_data_cid := data_cid, wd_data_size := data_size\<rparr>,
            w_data_stream := Some stream\<rparr>))
      | Some (Data_Bytes bs) \<Rightarrow>
          sbind (lift (from_value E (P_Bytes bs))) (\<lambda>data_cid.
          sret (w\<lparr>w_descriptor := (w_descriptor w)\<lparr>wd_data_cid := data_cid, wd_data_size := of_nat (length bs)\<rparr>\<rparr>))
      | Some (Data_Cid data_cid data_size) \<Rightarrow>
          sret (w\<lparr>w_descriptor := (w_descriptor w)\<lparr>wd_data_cid := data_cid, wd_data_size := data_size\<rparr>\<rparr>)
      | None \<Rightarrow> sret w)"

definition check_scheme :: "('o, 'a, 'g) write_builder \<Rightarrow> encrypted_key \<Rightarrow> unit result" where
  "check_scheme b key =
     (if ek_derivation_scheme key = ProtocolPath \<and> wb_protocol b = None
      then Inl (anyhow_err ''`protocol` must be specified when using `protocols` encryption scheme'')
      else if ek_derivation_scheme key = Schemas \<and> wb_schema b = None
      then Inl (anyhow_err ''`schema` must be specified when using `schema` encryption scheme'')
      else Inr ())"

definition set_encryption :: "('o, 'a, 'g) write_builder \<Rightarrow> write_msg \<Rightarrow> write_msg result" where
  "set_encryption b w =
     (case wb_encryption b of
        None \<Rightarrow> Inr w
      | Some encryption \<Rightarrow>
          rbind (rfor (ep_key_encryption encryption) (check_scheme b)) (\<lambda>_.
          Inr (w\<lparr>w_encryption := Some encryption\<rparr>)))"

text \<open>The record ID is computed when it is not given, and the context ID from the parent's.\<close>

definition set_ids :: "('s, 'b) env \<Rightarrow> ('o, 'a, 'g) write_builder \<Rightarrow> string \<Rightarrow> write_msg \<Rightarrow> write_msg result" where
  "set_ids E b author_did w =
     rbind (if w_record_id w = [] then rbind (entry_id E w author_did) (\<lambda>rid. Inr (w\<lparr>w_record_id := rid\<rparr>))
       else Inr w) (\<lambda>w.
     Inr (case wb_protocol b of
         None \<Rightarrow> w
       | Some settings \<Rightarrow>
           w\<lparr>w_context_id := Some
             (case w_context_id w of
                Some ctx \<Rightarrow> ctx @ ''/'' @ w_record_id w
              | None \<Rightarrow>
                  (case ps_parent_context_id settings of
                     Some ctx \<Rightarrow> ctx @ ''/'' @ w_record_id w
                   | None \<Rightarrow> w_record_id w))\<rparr>))"

definition to_write :: "('s, 'b) env \<Rightarrow> ('s, 'k) client \<Rightarrow> ('o, 'a, 'g) write_builder \<Rightarrow> string \<Rightarrow> ('s, write_msg) io" where
  "to_write E C b author_did =
     sbind (via_provider (lift (set_immutable E C b))) (\<lambda>w.
     sbind (via_provider (set_data E (wb_data b) (w\<lparr>w_descriptor := set_mutable b (w_descriptor w)\<rparr>))) (\<lambda>w.
     sbind (lift (set_encryption b w)) (\<lambda>w.
     via_provider (lift (set_ids E b author_did
       (w\<lparr>w_authorization := Authorization (jws_default C) None (wb_delegated_grant b) None\<rparr>))))))"

definition did_from_kid :: "string \<Rightarrow> string result" where
  "did_from_kid kid =
     (let parts = split_on (CHR ''#'') kid in
      if length parts \<noteq> 2 then Inl (anyhow_err ''Invalid key ID'') else Inr (hd parts))"

definition author_of :: "('s, 'b) env \<Rightarrow> ('s, 'k) client \<Rightarrow> delegated_grant option \<Rightarrow> 'k \<Rightarrow> ('s, string) io" where
  "author_of E C dg signer =
     (case dg of
        Some g \<Rightarrow> lift (map_err (internal ''anyhow'') (jws_did E (signature (dg_authorization g))))
      | None \<Rightarrow> sbind (anyhow (sg_verification_method C signer)) (\<lambda>kid. lift (did_from_kid kid)))"

definition attestation :: "('s, 'b) env \<Rightarrow> ('s, 'k) client \<Rightarrow> 'k list \<Rightarrow> write_descriptor \<Rightarrow> ('s, jws) io" where
  "attestation E C attesters d =
     sbind (via_provider (lift (from_value E (P_WriteDescriptor (ser_write_descriptor d))))) (\<lambda>cid.
     case attesters of
       [] \<Rightarrow> sfail (anyhow_err ''attesters is empty'')
     | attester # _ \<Rightarrow> anyhow (jws_build C (JC_Attestation cid) attester))"

definition write_builder_build :: "('s, 'b) env \<Rightarrow> ('s, 'k) client \<Rightarrow> ('o, unattested, 'k signed) write_builder \<Rightarrow> ('s, write_msg) io" where
  "write_builder_build E C b =
     (case wb_signer b of Signed signer \<Rightarrow>
      sbind (author_of E C (wb_delegated_grant b) signer) (\<lambda>author_did.
      sbind (to_write E C b author_did) (\<lambda>w.
      via_provider (sign_as_author E C (wb_permission_grant_id b) (wb_protocol_role b) signer w))))"

definition write_builder_build_attested :: "('s, 'b) env \<Rightarrow> ('s, 'k) client \<Rightarrow> ('o, 'k attested, 'k signed) write_builder
    \<Rightarrow> ('s, write_msg) io" where
  "write_builder_build_attested E C b =
     (case wb_signer b of Signed signer \<Rightarrow> case wb_attesters b of Attested attesters \<Rightarrow>
      sbind (author_of E C (wb_delegated_grant b) signer) (\<lambda>author_did.
      sbind (to_write E C b author_did) (\<lambda>w.
      sbind (attestation E C attesters (w_descriptor w)) (\<lambda>j.
      via_provider (sign_as_author E C (wb_permission_grant_id b) (wb_protocol_role b) signer
        (w\<lparr>w_attestation := Some j\<rparr>))))))"

end
