(* ===== verification/Request_Builders.thy ===== *)
theory Request_Builders
  imports Write_Builder Protocol_Handlers Message_Handlers
begin

text \<open>
  The builders of permission messages (\<open>src/src/interfaces/grants.rs\<close>), of messages requests
  (\<open>src/src/interfaces/messages.rs\<close>) and of protocols requests (\<open>src/src/interfaces/protocols.rs\<close>). Grants,
  requests and revocations are writes of the permissions protocol, made with the write builder.
\<close>

section \<open>Grants\<close>

datatype unscoped = Unscoped
datatype scoped = Scoped scope
datatype no_grantee = NoGrantee
datatype grantee = Grantee string
datatype no_grant = NoGrant
datatype with_grant = WithGrant write_msg

record ('g, 'c, 'k) grant_builder =
  gb_granted_to :: 'g
  gb_date_expires :: datetime
  gb_request_id :: "string option"
  gb_description :: "string option"
  gb_delegated :: "bool option"
  gb_scope :: 'c
  gb_conditions :: "conditions option"
  gb_signer :: 'k

text \<open>Dates are in nanoseconds.\<close>

definition seconds :: "int \<Rightarrow> int" where
  "seconds n = n * 1000000000"

definition grant_builder_new :: "('s, 'b) env \<Rightarrow> ('s, 'k) client \<Rightarrow> ('s, (no_grantee, unscoped, unsigned) grant_builder) io" where
  "grant_builder_new E C =
     sbind (now E) (\<lambda>t.
     sbind (\<lambda>s. case uuid_new C s of (u, s') \<Rightarrow> (Inr u, s')) (\<lambda>uuid.
     sret \<lparr>gb_granted_to = NoGrantee, gb_date_expires = t + seconds (24 * 60 * 60), gb_request_id = Some uuid,
       gb_description = None, gb_delegated = None, gb_scope = Unscoped, gb_conditions = None, gb_signer = Unsigned\<rparr>))"

definition grant_builder_granted_to :: "string \<Rightarrow> (no_grantee, 'c, unsigned) grant_builder \<Rightarrow> (grantee, 'c, unsigned) grant_builder" where
  "grant_builder_granted_to x b =
     \<lparr>gb_granted_to = Grantee x, gb_date_expires = gb_date_expires b, gb_request_id = gb_request_id b,
      gb_description = gb_description b, gb_delegated = gb_delegated b, gb_scope = gb_scope b,
      gb_conditions = gb_conditions b, gb_signer = Unsigned\<rparr>"

definition grant_builder_scope :: "scope \<Rightarrow> ('g, unscoped, unsigned) grant_builder \<Rightarrow> ('g, scoped, unsigned) grant_builder" where
  "grant_builder_scope x b =
     \<lparr>gb_granted_to = gb_granted_to b, gb_date_expires = gb_date_expires b, gb_request_id = gb_request_id b,
      gb_description = gb_description b, gb_delegated = gb_delegated b, gb_scope = Scoped x,
      gb_conditions = gb_conditions b, gb_signer = Unsigned\<rparr>"

definition grant_builder_expires_in :: "('s, 'b) env \<Rightarrow> int \<Rightarrow> ('g, 'c, unsigned) grant_builder
    \<Rightarrow> ('s, ('g, 'c, unsigned) grant_builder) io" where
  "grant_builder_expires_in E n b =
     (if n \<le> 0 then sret b
      else sbind (now E) (\<lambda>t. sret (b\<lparr>gb_date_expires := t + seconds n\<rparr>)))"

definition grant_builder_request_id :: "string \<Rightarrow> ('g, 'c, unsigned) grant_builder \<Rightarrow> ('g, 'c, unsigned) grant_builder" where
  "grant_builder_request_id x b = b\<lparr>gb_request_id := Some x\<rparr>"

definition grant_builder_description :: "string \<Rightarrow> ('g, 'c, unsigned) grant_builder \<Rightarrow> ('g, 'c, unsigned) grant_builder" where
  "grant_builder_description x b = b\<lparr>gb_description := Some x\<rparr>"

definition grant_builder_delegated :: "bool \<Rightarrow> ('g, 'c, unsigned) grant_builder \<Rightarrow> ('g, 'c, unsigned) grant_builder" where
  "grant_builder_delegated x b = b\<lparr>gb_delegated := Some x\<rparr>"

definition grant_builder_conditions :: "conditions \<Rightarrow> ('g, 'c, unsigned) grant_builder \<Rightarrow> ('g, 'c, unsigned) grant_builder" where
  "grant_builder_conditions x b = b\<lparr>gb_conditions := Some x\<rparr>"

definition grant_builder_sign :: "'k \<Rightarrow> (grantee, scoped, unsigned) grant_builder \<Rightarrow> (grantee, scoped, 'k signed) grant_builder" where
  "grant_builder_sign signer b =
     \<lparr>gb_granted_to = gb_granted_to b, gb_date_expires = gb_date_expires b, gb_request_id = gb_request_id b,
      gb_description = gb_description b, gb_delegated = gb_delegated b, gb_scope = gb_scope b,
      gb_conditions = gb_conditions b, gb_signer = Signed signer\<rparr>"

text \<open>
  The common end of the three builders: a new write of the permissions protocol with the JSON text as its data and, for
  a scope with a protocol, the protocol as a tag; the text is put into the write as encoded data as well.
\<close>

definition permission_write :: "('s, 'b) env \<Rightarrow> ('s, 'k) client \<Rightarrow> string option \<Rightarrow> string \<Rightarrow> string option \<Rightarrow> scope \<Rightarrow> bytes \<Rightarrow> 'k
    \<Rightarrow> ('s, write_msg) io" where
  "permission_write E C recipient path parent scope bs signer =
     sbind (write_builder_new E) (\<lambda>b.
     let b = (case recipient of None \<Rightarrow> b | Some r \<Rightarrow> write_builder_recipient r b);
         b = write_builder_data (data_from bs) (write_builder_protocol
           \<lparr>ps_protocol = PROTOCOL_URI, ps_protocol_path = path, ps_parent_context_id = parent\<rparr> b) in
     sbind (case scope_protocol scope of
         None \<Rightarrow> sret b
       | Some protocol \<Rightarrow>
           sbind (via_provider (lift (uri_clean E protocol))) (\<lambda>p.
           sret (write_builder_add_tag ''protocol'' (Tag_String p) b))) (\<lambda>b.
     sbind (write_builder_build E C (write_builder_sign signer b)) (\<lambda>w.
     sret (w\<lparr>w_encoded_data := Some (b64_encode E bs)\<rparr>))))"

definition grant_builder_build :: "('s, 'b) env \<Rightarrow> ('s, 'k) client \<Rightarrow> (grantee, scoped, 'k signed) grant_builder \<Rightarrow> ('s, write_msg) io" where
  "grant_builder_build E C b =
     (case gb_scope b of Scoped scope \<Rightarrow> case gb_granted_to b of Grantee to \<Rightarrow> case gb_signer b of Signed signer \<Rightarrow>
      if scope_interface scope = I_Records \<and> scope_protocol scope = None
      then sfail (anyhow_err ''`Records` scope must have protocol set'')
      else
        sbind (lift (map_err (internal ''anyhow'') (to_json_grant C
          \<lparr>gd_description = gb_description b, gd_request_id = gb_request_id b, gd_date_expires = gb_date_expires b,
           gd_delegated = gb_delegated b, gd_scope = scope, gd_conditions = gb_conditions b\<rparr>))) (\<lambda>bs.
        permission_write E C (Some to) GRANT_PATH None scope bs signer))"

record ('c, 'k) request_builder =
  rqb_description :: "string option"
  rqb_delegated :: "bool option"
  rqb_scope :: 'c
  rqb_conditions :: "conditions option"
  rqb_signer :: 'k

definition request_builder_new :: "(unscoped, unsigned) request_builder" where
  "request_builder_new = \<lparr>rqb_description = None, rqb_delegated = None, rqb_scope = Unscoped, rqb_conditions = None,
     rqb_signer = Unsigned\<rparr>"

definition request_builder_scope :: "scope \<Rightarrow> (unscoped, unsigned) request_builder \<Rightarrow> (scoped, unsigned) request_builder" where
  "request_builder_scope x b = \<lparr>rqb_description = rqb_description b, rqb_delegated = rqb_delegated b, rqb_scope = Scoped x,
     rqb_conditions = rqb_conditions b, rqb_signer = Unsigned\<rparr>"

definition request_builder_description :: "string \<Rightarrow> ('c, unsigned) request_builder \<Rightarrow> ('c, unsigned) request_builder" where
  "request_builder_description x b = b\<lparr>rqb_description := Some x\<rparr>"

definition request_builder_delegated :: "bool \<Rightarrow> ('c, unsigned) request_builder \<Rightarrow> ('c, unsigned) request_builder" where
  "request_builder_delegated x b = b\<lparr>rqb_delegated := Some x\<rparr>"

definition request_builder_conditions :: "conditions \<Rightarrow> ('c, unsigned) request_builder \<Rightarrow> ('c, unsigned) request_builder" where
  "request_builder_conditions x b = b\<lparr>rqb_conditions := Some x\<rparr>"

definition request_builder_sign :: "'k \<Rightarrow> (scoped, unsigned) request_builder \<Rightarrow> (scoped, 'k signed) request_builder" where
  "request_builder_sign signer b = \<lparr>rqb_description = rqb_description b, rqb_delegated = rqb_delegated b,
     rqb_scope = rqb_scope b, rqb_conditions = rqb_conditions b, rqb_signer = Signed signer\<rparr>"

definition request_builder_build :: "('s, 'b) env \<Rightarrow> ('s, 'k) client \<Rightarrow> (scoped, 'k signed) request_builder \<Rightarrow> ('s, write_msg) io" where
  "request_builder_build E C b =
     (case rqb_scope b of Scoped scope \<Rightarrow> case rqb_signer b of Signed signer \<Rightarrow>
      sbind (lift (map_err (internal ''anyhow'') (to_json_request C
        \<lparr>req_delegated = (case rqb_delegated b of None \<Rightarrow> False | Some x \<Rightarrow> x), req_description = rqb_description b,
         req_scope = scope, req_conditions = rqb_conditions b\<rparr>))) (\<lambda>bs.
      permission_write E C None REQUEST_PATH None scope bs signer))"

record ('g, 'k) revocation_builder =
  rvb_grant :: 'g
  rvb_description :: "string option"
  rvb_signer :: 'k

definition revocation_builder_new :: "(no_grant, unsigned) revocation_builder" where
  "revocation_builder_new = \<lparr>rvb_grant = NoGrant, rvb_description = None, rvb_signer = Unsigned\<rparr>"

definition revocation_builder_grant :: "write_msg \<Rightarrow> (no_grant, unsigned) revocation_builder \<Rightarrow> (with_grant, unsigned) revocation_builder" where
  "revocation_builder_grant w b = \<lparr>rvb_grant = WithGrant w, rvb_description = rvb_description b, rvb_signer = Unsigned\<rparr>"

definition revocation_builder_description :: "string \<Rightarrow> ('g, unsigned) revocation_builder \<Rightarrow> ('g, unsigned) revocation_builder" where
  "revocation_builder_description x b = b\<lparr>rvb_description := Some x\<rparr>"

definition revocation_builder_sign :: "'k \<Rightarrow> (with_grant, unsigned) revocation_builder \<Rightarrow> (with_grant, 'k signed) revocation_builder" where
  "revocation_builder_sign signer b = \<lparr>rvb_grant = rvb_grant b, rvb_description = rvb_description b, rvb_signer = Signed signer\<rparr>"

definition revocation_builder_build :: "('s, 'b) env \<Rightarrow> ('s, 'k) client \<Rightarrow> (with_grant, 'k signed) revocation_builder \<Rightarrow> ('s, write_msg) io" where
  "revocation_builder_build E C b =
     (case rvb_grant b of WithGrant g \<Rightarrow> case rvb_signer b of Signed signer \<Rightarrow>
      sbind (case w_encoded_data g of None \<Rightarrow> sfail (anyhow_err ''missing grant data'') | Some e \<Rightarrow> sret e) (\<lambda>encoded.
      sbind (lift (map_err (internal ''anyhow'') (b64_decode E encoded))) (\<lambda>grant_bytes.
      sbind (lift (map_err (internal ''anyhow'') (json_grant_data E grant_bytes))) (\<lambda>gd.
      sbind (lift (map_err (internal ''anyhow'') (to_json_revocation C (rvb_description b)))) (\<lambda>bs.
      permission_write E C None REVOCATION_PATH (Some (w_record_id g)) (gd_scope gd) bs signer)))))"

section \<open>Messages\<close>

record 'k messages_query_builder =
  mqb_message_timestamp :: datetime
  mqb_filters :: "messages_filter list option"
  mqb_permission_grant_id :: "string option"
  mqb_signer :: 'k

definition messages_query_builder_new :: "('s, 'b) env \<Rightarrow> ('s, unsigned messages_query_builder) io" where
  "messages_query_builder_new E =
     sbind (now E) (\<lambda>t.
     sret \<lparr>mqb_message_timestamp = t, mqb_filters = None, mqb_permission_grant_id = None, mqb_signer = Unsigned\<rparr>)"

definition messages_query_builder_add_filter :: "messages_filter \<Rightarrow> unsigned messages_query_builder \<Rightarrow> unsigned messages_query_builder" where
  "messages_query_builder_add_filter f b =
     b\<lparr>mqb_filters := Some ((case mqb_filters b of None \<Rightarrow> [] | Some fs \<Rightarrow> fs) @ [f])\<rparr>"

definition messages_query_builder_permission_grant_id :: "string \<Rightarrow> unsigned messages_query_builder \<Rightarrow> unsigned messages_query_builder" where
  "messages_query_builder_permission_grant_id x b = b\<lparr>mqb_permission_grant_id := Some x\<rparr>"

definition messages_query_builder_sign :: "'k \<Rightarrow> unsigned messages_query_builder \<Rightarrow> 'k signed messages_query_builder" where
  "messages_query_builder_sign signer b =
     \<lparr>mqb_message_timestamp = mqb_message_timestamp b, mqb_filters = mqb_filters b,
      mqb_permission_grant_id = mqb_permission_grant_id b, mqb_signer = Signed signer\<rparr>"

definition messages_query_builder_build :: "('s, 'b) env \<Rightarrow> ('s, 'k) client \<Rightarrow> 'k signed messages_query_builder \<Rightarrow> ('s, messages_query) io" where
  "messages_query_builder_build E C b =
     (case mqb_signer b of Signed signer \<Rightarrow>
      let base = \<lparr>base_interface = I_Messages, base_method = M_Query, base_timestamp = mqb_message_timestamp b\<rparr>;
          filters = (case mqb_filters b of None \<Rightarrow> [] | Some fs \<Rightarrow> fs) in
      sbind (via_provider (sign_request E C
        (P_MessagesQueryDescriptor (ser_base base) (map ser_messages_filter filters) None)
        (mqb_permission_grant_id b) None None signer)) (\<lambda>a.
      sret \<lparr>mq_base = base, mq_filters = filters, mq_cursor = None, mq_authorization = a\<rparr>))"

datatype no_message_cid = NoMessageCid
datatype with_message_cid = MessageCid string

record ('m, 'k) messages_read_builder =
  mrb_message_timestamp :: datetime
  mrb_permission_grant_id :: "string option"
  mrb_message_cid :: 'm
  mrb_signer :: 'k

definition messages_read_builder_new :: "('s, 'b) env \<Rightarrow> ('s, (no_message_cid, unsigned) messages_read_builder) io" where
  "messages_read_builder_new E =
     sbind (now E) (\<lambda>t.
     sret \<lparr>mrb_message_timestamp = t, mrb_permission_grant_id = None, mrb_message_cid = NoMessageCid, mrb_signer = Unsigned\<rparr>)"

definition messages_read_builder_message_cid :: "string \<Rightarrow> (no_message_cid, unsigned) messages_read_builder
    \<Rightarrow> (with_message_cid, unsigned) messages_read_builder" where
  "messages_read_builder_message_cid x b =
     \<lparr>mrb_message_timestamp = mrb_message_timestamp b, mrb_permission_grant_id = mrb_permission_grant_id b,
      mrb_message_cid = MessageCid x, mrb_signer = mrb_signer b\<rparr>"

definition messages_read_builder_permission_grant_id :: "string \<Rightarrow> ('m, unsigned) messages_read_builder
    \<Rightarrow> ('m, unsigned) messages_read_builder" where
  "messages_read_builder_permission_grant_id x b = b\<lparr>mrb_permission_grant_id := Some x\<rparr>"

definition messages_read_builder_sign :: "'k \<Rightarrow> (with_message_cid, unsigned) messages_read_builder
    \<Rightarrow> (with_message_cid, 'k signed) messages_read_builder" where
  "messages_read_builder_sign signer b =
     \<lparr>mrb_message_timestamp = mrb_message_timestamp b, mrb_permission_grant_id = mrb_permission_grant_id b,
      mrb_message_cid = mrb_message_cid b, mrb_signer = Signed signer\<rparr>"

definition messages_read_builder_build :: "('s, 'b) env \<Rightarrow> ('s, 'k) client \<Rightarrow> (with_message_cid, 'k signed) messages_read_builder
    \<Rightarrow> ('s, messages_read) io" where
  "messages_read_builder_build E C b =
     (case mrb_message_cid b of MessageCid cid \<Rightarrow> case mrb_signer b of Signed signer \<Rightarrow>
      let base = \<lparr>base_interface = I_Messages, base_method = M_Read, base_timestamp = mrb_message_timestamp b\<rparr> in
      sbind (lift (map_err (\<lambda>e. internal ''anyhow'' (''invalid CID: '' @ e)) (cid_parse E cid))) (\<lambda>_.
      sbind (via_provider (sign_request E C (P_MessagesReadDescriptor (ser_base base) cid)
        (mrb_permission_grant_id b) None None signer)) (\<lambda>a.
      sret \<lparr>mr_base = base, mr_message_cid = cid, mr_authorization = a\<rparr>)))"

record 'k messages_subscribe_builder =
  msb_message_timestamp :: datetime
  msb_filters :: "messages_filter list option"
  msb_permission_grant_id :: "string option"
  msb_signer :: 'k

definition messages_subscribe_builder_new :: "('s, 'b) env \<Rightarrow> ('s, unsigned messages_subscribe_builder) io" where
  "messages_subscribe_builder_new E =
     sbind (now E) (\<lambda>t.
     sret \<lparr>msb_message_timestamp = t, msb_filters = None, msb_permission_grant_id = None, msb_signer = Unsigned\<rparr>)"

definition messages_subscribe_builder_add_filter :: "messages_filter \<Rightarrow> unsigned messages_subscribe_builder
    \<Rightarrow> unsigned messages_subscribe_builder" where
  "messages_subscribe_builder_add_filter f b =
     b\<lparr>msb_filters := Some ((case msb_filters b of None \<Rightarrow> [] | Some fs \<Rightarrow> fs) @ [f])\<rparr>"

definition messages_subscribe_builder_permission_grant_id :: "string \<Rightarrow> unsigned messages_subscribe_builder
    \<Rightarrow> unsigned messages_subscribe_builder" where
  "messages_subscribe_builder_permission_grant_id x b = b\<lparr>msb_permission_grant_id := Some x\<rparr>"

definition messages_subscribe_builder_sign :: "'k \<Rightarrow> unsigned messages_subscribe_builder \<Rightarrow> 'k signed messages_subscribe_builder" where
  "messages_subscribe_builder_sign signer b =
     \<lparr>msb_message_timestamp = msb_message_timestamp b, msb_filters = msb_filters b,
      msb_permission_grant_id = msb_permission_grant_id b, msb_signer = Signed signer\<rparr>"

definition messages_subscribe_builder_build :: "('s, 'b) env \<Rightarrow> ('s, 'k) client \<Rightarrow> 'k signed messages_subscribe_builder
    \<Rightarrow> ('s, messages_subscribe) io" where
  "messages_subscribe_builder_build E C b =
     (case msb_signer b of Signed signer \<Rightarrow>
      let base = \<lparr>base_interface = I_Messages, base_method = M_Subscribe, base_timestamp = msb_message_timestamp b\<rparr>;
          filters = (case msb_filters b of None \<Rightarrow> [] | Some fs \<Rightarrow> fs) in
      sbind (via_provider (sign_request E C
        (P_MessagesSubscribeDescriptor (ser_base base) (map ser_messages_filter filters))
        (msb_permission_grant_id b) None None signer)) (\<lambda>a.
      sret \<lparr>ms_base = base, ms_filters = filters, ms_authorization = a\<rparr>))"

section \<open>Protocols\<close>

definition definition_new :: "string \<Rightarrow> definition_t" where
  "definition_new protocol = \<lparr>def_protocol = protocol, def_published = False, def_types = [], def_structure = []\<rparr>"

definition definition_published :: "bool \<Rightarrow> definition_t \<Rightarrow> definition_t" where
  "definition_published x d = d\<lparr>def_published := x\<rparr>"

definition definition_add_type :: "string \<Rightarrow> protocol_type \<Rightarrow> definition_t \<Rightarrow> definition_t" where
  "definition_add_type name t d = d\<lparr>def_types := bt_insert name t (def_types d)\<rparr>"

definition definition_add_rule :: "string \<Rightarrow> rule_set \<Rightarrow> definition_t \<Rightarrow> definition_t" where
  "definition_add_rule name rs d = d\<lparr>def_structure := bt_insert name rs (def_structure d)\<rparr>"

datatype undefined_state = Undefined
datatype defined_state = Defined definition_t

record ('d, 'k) configure_builder =
  cb_message_timestamp :: datetime
  cb_definition :: 'd
  cb_delegated_grant :: "delegated_grant option"
  cb_permission_grant_id :: "string option"
  cb_signer :: 'k

definition configure_builder_new :: "('s, 'b) env \<Rightarrow> ('s, (undefined_state, unsigned) configure_builder) io" where
  "configure_builder_new E =
     sbind (now E) (\<lambda>t.
     sret \<lparr>cb_message_timestamp = t, cb_definition = Undefined, cb_delegated_grant = None, cb_permission_grant_id = None,
       cb_signer = Unsigned\<rparr>)"

definition configure_builder_definition :: "definition_t \<Rightarrow> (undefined_state, unsigned) configure_builder
    \<Rightarrow> (defined_state, unsigned) configure_builder" where
  "configure_builder_definition x b =
     \<lparr>cb_message_timestamp = cb_message_timestamp b, cb_definition = Defined x, cb_delegated_grant = cb_delegated_grant b,
      cb_permission_grant_id = cb_permission_grant_id b, cb_signer = Unsigned\<rparr>"

definition configure_builder_delegated_grant :: "delegated_grant \<Rightarrow> ('d, unsigned) configure_builder \<Rightarrow> ('d, unsigned) configure_builder" where
  "configure_builder_delegated_grant x b = b\<lparr>cb_delegated_grant := Some x\<rparr>"

definition configure_builder_permission_grant_id :: "string \<Rightarrow> ('d, unsigned) configure_builder \<Rightarrow> ('d, unsigned) configure_builder" where
  "configure_builder_permission_grant_id x b = b\<lparr>cb_permission_grant_id := Some x\<rparr>"

definition configure_builder_sign :: "'k \<Rightarrow> ('d, unsigned) configure_builder \<Rightarrow> ('d, 'k signed) configure_builder" where
  "configure_builder_sign signer b =
     \<lparr>cb_message_timestamp = cb_message_timestamp b, cb_definition = cb_definition b, cb_delegated_grant = cb_delegated_grant b,
      cb_permission_grant_id = cb_permission_grant_id b, cb_signer = Signed signer\<rparr>"

text \<open>The loop over the types, which cleans their schemas in place.\<close>

fun clean_types :: "('s, 'b) env \<Rightarrow> (string \<times> protocol_type) list \<Rightarrow> (string \<times> protocol_type) list result" where
  "clean_types E [] = Inr []"
| "clean_types E ((name, t) # ts) =
     rbind (uri_clean_opt E (pt_schema t)) (\<lambda>schema.
     rbind (clean_types E ts) (\<lambda>ts'.
     Inr ((name, t\<lparr>pt_schema := schema\<rparr>) # ts')))"

definition configure_builder_build :: "('s, 'b) env \<Rightarrow> ('s, 'k) client \<Rightarrow> (defined_state, 'k signed) configure_builder
    \<Rightarrow> ('s, configure) io" where
  "configure_builder_build E C b =
     (case cb_definition b of Defined d0 \<Rightarrow> case cb_signer b of Signed signer \<Rightarrow>
      sbind (lift (uri_clean E (def_protocol d0))) (\<lambda>protocol.
      sbind (lift (clean_types E (def_types d0))) (\<lambda>types.
      let d = d0\<lparr>def_protocol := protocol, def_types := types\<rparr> in
      sbind (lift (validate_structure E d)) (\<lambda>_.
      let descriptor = \<lparr>cd_base = \<lparr>base_interface = I_Protocols, base_method = M_Configure,
            base_timestamp = cb_message_timestamp b\<rparr>, cd_definition = d\<rparr> in
      sbind (sign_request E C (P_ConfigureDescriptor (ser_configure_descriptor descriptor))
        (cb_permission_grant_id b) None (cb_delegated_grant b) signer) (\<lambda>a.
      sret \<lparr>cfg_descriptor = descriptor, cfg_authorization = a\<rparr>)))))"

record 'k protocols_query_builder =
  pqb_message_timestamp :: datetime
  pqb_filter :: "string option"
  pqb_permission_grant_id :: "string option"
  pqb_signer :: 'k

definition protocols_query_builder_new :: "('s, 'b) env \<Rightarrow> ('s, unsigned protocols_query_builder) io" where
  "protocols_query_builder_new E =
     sbind (now E) (\<lambda>t.
     sret \<lparr>pqb_message_timestamp = t, pqb_filter = None, pqb_permission_grant_id = None, pqb_signer = Unsigned\<rparr>)"

definition protocols_query_builder_filter :: "string \<Rightarrow> unsigned protocols_query_builder \<Rightarrow> unsigned protocols_query_builder" where
  "protocols_query_builder_filter x b = b\<lparr>pqb_filter := Some x\<rparr>"

definition protocols_query_builder_permission_grant_id :: "string \<Rightarrow> unsigned protocols_query_builder \<Rightarrow> unsigned protocols_query_builder" where
  "protocols_query_builder_permission_grant_id x b = b\<lparr>pqb_permission_grant_id := Some x\<rparr>"

definition protocols_query_builder_sign :: "'k \<Rightarrow> unsigned protocols_query_builder \<Rightarrow> 'k signed protocols_query_builder" where
  "protocols_query_builder_sign signer b =
     \<lparr>pqb_message_timestamp = pqb_message_timestamp b, pqb_filter = pqb_filter b,
      pqb_permission_grant_id = pqb_permission_grant_id b, pqb_signer = Signed signer\<rparr>"

definition protocols_query_base :: "datetime \<Rightarrow> descriptor" where
  "protocols_query_base t = \<lparr>base_interface = I_Protocols, base_method = M_Query, base_timestamp = t\<rparr>"

definition protocols_query_builder_build_unsigned :: "unsigned protocols_query_builder \<Rightarrow> protocols_query" where
  "protocols_query_builder_build_unsigned b =
     \<lparr>pq_base = protocols_query_base (pqb_message_timestamp b), pq_filter = pqb_filter b, pq_authorization = None\<rparr>"

definition protocols_query_builder_build :: "('s, 'b) env \<Rightarrow> ('s, 'k) client \<Rightarrow> 'k signed protocols_query_builder
    \<Rightarrow> ('s, protocols_query) io" where
  "protocols_query_builder_build E C b =
     (case pqb_signer b of Signed signer \<Rightarrow>
      let base = protocols_query_base (pqb_message_timestamp b) in
      sbind (sign_request E C (P_ProtocolsQueryDescriptor (ser_base base) (pqb_filter b))
        (pqb_permission_grant_id b) None None signer) (\<lambda>a.
      sret \<lparr>pq_base = base, pq_filter = pqb_filter b, pq_authorization = Some a\<rparr>))"

end
