(* ===== verification/Client_Properties.thy ===== *)
theory Client_Properties
  imports Query_Properties Endpoint Request_Builders
begin

text \<open>
  Client and node together: what the builders make is what the node accepts, what the entry point ensures for every
  kind of message, and what the node does not check of a signed message.
\<close>

section \<open>Signing\<close>

text \<open>
  What the node and its clients rely on of the JWS library and of a signer: a signature verifies, names the signer's DID
  and carries the payload that was signed; signing does not touch the provider's store.
\<close>

locale signing =
  fixes E :: "('s, 'b) env" and C :: "('s, 'k) client"
  assumes verifies: "jws_build C p k s = (Inr j, t) \<Longrightarrow> jws_verify E j = Inr ()"
    and identifies: "jws_build C p k s = (Inr j, t) \<Longrightarrow> sg_verification_method C k u = (Inr kid, v) \<Longrightarrow>
      did_from_kid kid = Inr did \<Longrightarrow> jws_did E j = Inr did"
    and signs: "jws_build C (JC_Signature q) k s = (Inr j, t) \<Longrightarrow> \<exists>bs. b64_decode E (jws_payload j) = Inr bs \<and>
      json_signature_payload E bs = Inr q \<and> json_jws_payload E bs = Inr (sp_base q)"
    and signs_request: "jws_build C (JC_Jws jp) k s = (Inr j, t) \<Longrightarrow>
      \<exists>bs. b64_decode E (jws_payload j) = Inr bs \<and> json_jws_payload E bs = Inr jp"
    and build_pure: "snd (jws_build C p k s) = s"
    and method_pure: "snd (sg_verification_method C k s) = s"
begin

lemma build_state: "jws_build C p k s = (r, t) \<Longrightarrow> t = s"
  using build_pure [of p k s] by simp

lemma author_state: "author_of E C dg k s = (r, t) \<Longrightarrow> t = s"
  using method_pure [of k s]
  by (auto simp: author_of_def lift_def sbind_def with_err_def sret_def split: option.splits prod.splits sum.splits)

lemma author_signs:
  assumes "author_of E C None k s = (Inr did, t)" and "jws_build C p k u = (Inr j, v)"
  shows "jws_did E j = Inr did"
  using assms(1) identifies [OF assms(2)] by (auto simp: author_of_def monad_simps)

text \<open>A request that is built is authenticated, and its author is the signer.\<close>

lemma sign_request_authenticates:
  assumes "sign_request E C p gid role None k s = (Inr a, t)" and "author_of E C None k u = (Inr did, v)"
  shows "validate E (Some a) = Inr () \<and> auth_author E a = Inr did \<and> author_delegated_grant a = None \<and> t = s"
proof -
  from assms(1) obtain q j where j: "jws_build C (JC_Jws q) k s = (Inr j, t)" and a: "a = Authorization j None None None"
    by (auto simp: sign_request_def auth_build_def grant_cid_def auth_builder_new_def auth_descriptor_cid_def
        auth_permission_grant_id_def auth_protocol_role_def Let_def monad_simps split: option.splits)
  from verifies [OF j] have "validate E (Some a) = Inr ()"
    using validate_Inr [of E "Some a" "()"] by (simp add: a signatures_def)
  with author_signs [OF assms(2) j] build_state [OF j] show ?thesis by (simp add: a auth_author_def)
qed

text \<open>A write that is signed carries what the node checks of the signature.\<close>

lemma sign_as_author_verifies:
  assumes "sign_as_author E C gid role k w s = (Inr w', t)" and "author_of E C None k u = (Inr did, v)"
    and "w_authorization w = Authorization j0 None None None"
  shows "\<exists>j. w' = w\<lparr>w_authorization := Authorization j None None None\<rparr> \<and> jws_did E j = Inr did \<and> jws_verify E j = Inr () \<and>
    verify_signed E w' = Inr () \<and> t = s"
proof -
  from assms(1,3) obtain att enc q j where att: "(case w_attestation w of None \<Rightarrow> Inr None
        | Some j \<Rightarrow> rbind (from_value E (P_Attestation (Some j))) (\<lambda>c. Inr (Some c))) = Inr att"
      and enc: "(case w_encryption w of None \<Rightarrow> Inr None
        | Some e \<Rightarrow> rbind (from_value E (P_Encryption (Some e))) (\<lambda>c. Inr (Some c))) = Inr enc"
      and j: "jws_build C (JC_Signature q) k s = (Inr j, t)"
      and w': "w' = w\<lparr>w_authorization := Authorization j None None None\<rparr>"
      and ids: "sp_record_id q = w_record_id w" "sp_context_id q = w_context_id w" "sp_attestation_cid q = att" "sp_encryption_cid q = enc"
    by (auto simp: sign_as_author_def grant_cid_def with_signature_def sbind_Inr_iff lift_eq_iff sret_eq_iff with_err_Inr_iff)
  have q: "from_value E (P_Attestation (w_attestation w)) = Inr c" if "att = Some c" for c
    using att that by (auto simp: monad_simps split: option.splits)
  have q': "from_value E (P_Encryption (w_encryption w)) = Inr c" if "enc = Some c" for c
    using enc that by (auto simp: monad_simps split: option.splits)
  from signs [OF j] ids q q' have "verify_signed E w' = Inr ()"
    by (auto simp: verify_signed_def decode_signature_payload_def w' split: option.splits)
  with author_signs [OF assms(2) j] verifies [OF j] build_state [OF j] w' show ?thesis by blast
qed

text \<open>What a new builder without a protocol makes of its data.\<close>

lemma to_write_new:
  assumes "to_write E C b did s = (Inr w, t)" and "wb_existing b = None" and "wb_record_id b = None" and "wb_protocol b = None"
    and "wb_delegated_grant b = None" and "wb_data b = Some (Data_Stream bs)"
  shows "t = s \<and> w_authorization w = Authorization (jws_default C) None None None \<and> entry_id E w did = Inr (w_record_id w) \<and>
    w_data_stream w = Some bs \<and> from_reader E bs s = (Inr (wd_data_cid (w_descriptor w), wd_data_size (w_descriptor w)), s) \<and>
    wd_protocol (w_descriptor w) = None \<and> wd_date_created (w_descriptor w) = wb_date_created b \<and> w_encoded_data w = None \<and>
    wd_base (w_descriptor w) = \<lparr>base_interface = I_Records, base_method = M_Write, base_timestamp = wb_message_timestamp b\<rparr>"
proof -
  let ?m = "\<lambda>w. w\<lparr>w_descriptor := set_mutable b (w_descriptor w)\<rparr>"
  from assms(1) obtain w1 w2 w3 u where w1: "set_immutable E C b = Inr w1" and w2: "set_data E (wb_data b) (?m w1) s = (Inr w2, u)"
    and w3: "set_encryption b w2 = Inr w3" and ids: "set_ids E b did (w3\<lparr>w_authorization := Authorization (jws_default C) None (wb_delegated_grant b) None\<rparr>) = Inr w"
    and t: "t = u"
    by (auto simp: to_write_def monad_simps)
  from w1 assms(2-4) have i: "w_record_id w1 = []" "wd_protocol (w_descriptor w1) = None" "w_encoded_data w1 = None"
    "wd_date_created (w_descriptor w1) = wb_date_created b" "base_interface (wd_base (w_descriptor w1)) = I_Records"
    "base_method (wd_base (w_descriptor w1)) = M_Write"
    by (auto simp: set_immutable_def default_write_def Let_def monad_simps split: option.splits)
  from w2 assms(6) obtain c n where r: "from_reader E bs s = (Inr (c, n), u)"
    and w2': "w2 = (?m w1)\<lparr>w_descriptor := (set_mutable b (w_descriptor w1))\<lparr>wd_data_cid := c, wd_data_size := n\<rparr>, w_data_stream := Some bs\<rparr>"
    by (auto simp: set_data_def monad_simps)
  have u: "u = s" using from_reader_state [OF r] .
  from w3 obtain e where w3': "w3 = w2\<lparr>w_encryption := e\<rparr>"
  proof (cases "wb_encryption b")
    case None
    with w3 that [of "w_encryption w2"] show ?thesis by (simp add: set_encryption_def)
  next
    case (Some x)
    with w3 that [of "Some x"] show ?thesis by (auto simp: set_encryption_def monad_simps)
  qed
  have m: "wd_protocol (set_mutable b d) = wd_protocol d" "wd_date_created (set_mutable b d) = wd_date_created d"
    "wd_base (set_mutable b d) = (wd_base d)\<lparr>base_timestamp := wb_message_timestamp b\<rparr>" for d
    by (simp_all add: set_mutable_def Let_def split: option.splits)
  show ?thesis
    using ids i r u t m assms(4,5) by (auto simp: set_ids_def w3' w2' entry_id_def monad_simps)
qed

lemma built_write:
  assumes build: "write_builder_build E C b s = (Inr w, t)" and signer: "wb_signer b = Signed k" "author_of E C None k s = (Inr did, s)"
    and new: "wb_existing b = None" "wb_record_id b = None" "wb_protocol b = None" "wb_delegated_grant b = None"
      "wb_data b = Some (Data_Stream bs)" "wb_message_timestamp b = wb_date_created b"
  shows "t = s" and "validate E (Some (w_authorization w)) = Inr ()" and "is_initial E w = Inr True"
    and "write_authorize E did w u = (Inr (), u)" and "verify_integrity E ow w u = (Inr (), u)"
    and "w_data_stream w = Some bs" and "wd_protocol (w_descriptor w) = None"
    and "from_reader E bs s = (Inr (wd_data_cid (w_descriptor w), wd_data_size (w_descriptor w)), s)"
    and "wd_base (w_descriptor w) = \<lparr>base_interface = I_Records, base_method = M_Write, base_timestamp = wb_message_timestamp b\<rparr>"
    and "w_encoded_data w = None"
proof -
  from build signer new(4) obtain w0 u0 where w0: "to_write E C b did s = (Inr w0, u0)"
    and sign: "sign_as_author E C (wb_permission_grant_id b) (wb_protocol_role b) k w0 u0 = (Inr w, t)"
    by (auto simp: write_builder_build_def monad_simps)
  note n = to_write_new [OF w0 new(1-5)]
  from sign_as_author_verifies [OF sign signer(2)] n obtain j where w: "w = w0\<lparr>w_authorization := Authorization j None None None\<rparr>"
    and j: "jws_did E j = Inr did" "jws_verify E j = Inr ()" "verify_signed E w = Inr ()" "t = u0" by blast
  show "t = s" using j(4) n by blast
  have a: "auth_author E (w_authorization w) = Inr did" "auth_owner E (w_authorization w) = Inr None"
    using j(1) by (simp_all add: w auth_author_def auth_owner_def)
  show "validate E (Some (w_authorization w)) = Inr ()"
    using validate_Inr [of E "Some (w_authorization w)" "()"] j(2) by (simp add: w signatures_def)
  show init: "is_initial E w = Inr True"
    using a(1) n by (simp add: is_initial_def) (simp add: w entry_id_def)
  show "write_authorize E did w u = (Inr (), u)"
    using a by (simp add: write_authorize_def) (simp add: w sret_def)
  show "verify_integrity E ow w u = (Inr (), u)"
    using init j(3) n new(6) by (simp add: verify_integrity_def verify_initial_def lift_def sret_def sbind_def w)
  show "w_data_stream w = Some bs" "wd_protocol (w_descriptor w) = None"
    "from_reader E bs s = (Inr (wd_data_cid (w_descriptor w), wd_data_size (w_descriptor w)), s)"
    "wd_base (w_descriptor w) = \<lparr>base_interface = I_Records, base_method = M_Write, base_timestamp = wb_message_timestamp b\<rparr>"
    "w_encoded_data w = None"
    using n by (simp_all add: w)
qed

end

section \<open>A client on the demonstration provider\<close>

text \<open>
  A signer is a DID. A payload is signed as the text that the demonstration provider reads, and only when that text carries
  all of it.
\<close>

definition demo_text :: "signature_payload \<Rightarrow> bytes" where
  "demo_text q = sp_record_id q @ ''|'' @ or_empty (sp_context_id q) @ ''|'' @ or_empty (jp_permission_grant_id (sp_base q))
     @ ''|'' @ or_empty (jp_protocol_role (sp_base q))"

definition demo_content :: "jws_content \<Rightarrow> bytes option" where
  "demo_content p =
     (case p of
        JC_Signature q \<Rightarrow>
          if demo_signature_payload (demo_text q) = Inr q \<and> demo_payload (demo_text q) = Inr (sp_base q) then Some (demo_text q) else None
      | JC_Jws q \<Rightarrow>
          let t = demo_text \<lparr>sp_base = q, sp_record_id = [], sp_context_id = None, sp_attestation_cid = None, sp_encryption_cid = None\<rparr> in
          if demo_payload t = Inr q then Some t else None
      | JC_Attestation c \<Rightarrow> Some c)"

definition demo_client :: "(demo, string) client" where
  "demo_client =
     \<lparr>sg_verification_method = (\<lambda>k s. (Inr (k @ ''#key''), s)),
      jws_build = (\<lambda>p k s. (case demo_content p of
          Some t \<Rightarrow> if k = [] \<or> CHR ''#'' \<in> set k then Inl ''not a DID'' else Inr (Jws t k)
        | None \<Rightarrow> Inl ''not supported'', s)),
      jws_default = Jws [] [], uuid_new = (\<lambda>s. (''uuid'', s)), to_json_grant = (\<lambda>g. Inl ''not supported''),
      to_json_request = (\<lambda>r. Inl ''not supported''), to_json_revocation = (\<lambda>r. Inr [])\<rparr>"

lemma demo_did: "CHR ''#'' \<notin> set k \<Longrightarrow> did_from_kid (k @ ''#key'') = Inr k"
  using split_on_append [of "CHR ''#''" k "''key''"] by (simp add: did_from_kid_def)

lemma demo_build: "jws_build demo_client p k s = (Inr j, t) \<longleftrightarrow>
    (\<exists>x. demo_content p = Some x \<and> k \<noteq> [] \<and> CHR ''#'' \<notin> set k \<and> j = Jws x k \<and> t = s)"
  by (auto simp: demo_client_def split: option.splits)

interpretation demo_signing: signing demo_env demo_client
proof unfold_locales
  show "jws_build demo_client p k s = (Inr j, t) \<Longrightarrow> jws_verify demo_env j = Inr ()" for p k s j t
    by (auto simp: demo_build)
  show "jws_build demo_client p k s = (Inr j, t) \<Longrightarrow> sg_verification_method demo_client k u = (Inr kid, v) \<Longrightarrow>
      did_from_kid kid = Inr did \<Longrightarrow> jws_did demo_env j = Inr did" for p k s j t u kid v did
    using demo_did [of k] by (auto simp: demo_build) (auto simp: demo_client_def)
  show "jws_build demo_client (JC_Signature q) k s = (Inr j, t) \<Longrightarrow> \<exists>bs. b64_decode demo_env (jws_payload j) = Inr bs \<and>
      json_signature_payload demo_env bs = Inr q \<and> json_jws_payload demo_env bs = Inr (sp_base q)" for q k s j t
    by (auto simp: demo_build demo_content_def split: if_splits)
  show "jws_build demo_client (JC_Jws jp) k s = (Inr j, t) \<Longrightarrow>
      \<exists>bs. b64_decode demo_env (jws_payload j) = Inr bs \<and> json_jws_payload demo_env bs = Inr jp" for jp k s j t
    by (auto simp: demo_build demo_content_def Let_def split: if_splits)
qed (simp_all add: demo_client_def)

lemma author_alice: "author_of demo_env demo_client None alice s = (Inr alice, s)"
  using demo_did [of alice] by (simp add: author_of_def demo_client_def sbind_def with_err_def lift_def) (simp add: alice_def)

text \<open>The builder that makes the first write of the examples.\<close>

definition hello_builder :: "(new_origin, unattested, string signed) write_builder" where
  "hello_builder = write_builder_sign alice (write_builder_data_format ''text'' (write_builder_data (data_from hello)
     (write_builder_date_created 5000 (write_builder_message_timestamp 5000 (projr (fst (write_builder_new demo_env demo_empty)))))))"

lemmas hello_builder_defs = hello_builder_def write_builder_sign_def write_builder_data_format_def write_builder_data_def
  data_from_def write_builder_date_created_def write_builder_message_timestamp_def write_builder_new_def now_def

lemma hello_builder_fields:
  "wb_existing hello_builder = None" "wb_record_id hello_builder = None" "wb_protocol hello_builder = None"
  "wb_delegated_grant hello_builder = None" "wb_data hello_builder = Some (Data_Stream hello)"
  "wb_message_timestamp hello_builder = 5000" "wb_date_created hello_builder = 5000" "wb_signer hello_builder = Signed alice"
  "wb_recipient hello_builder = None" "wb_schema hello_builder = None" "wb_tags hello_builder = None"
  "wb_data_format hello_builder = ''text''" "wb_published hello_builder = None" "wb_encryption hello_builder = None"
  "wb_permission_grant_id hello_builder = None" "wb_protocol_role hello_builder = None"
  by (simp_all add: hello_builder_defs sbind_def sret_def)

lemma hello_built: "write_builder_build demo_env demo_client hello_builder s = (Inr hello_write, s)"
proof -
  let ?w = "hello_write\<lparr>w_authorization := Authorization (Jws [] []) None None None\<rparr>"
  have "to_write demo_env demo_client hello_builder alice s = (Inr ?w, s)"
    by (simp add: to_write_def set_immutable_def default_write_def hello_builder_fields set_mutable_def set_data_def hello_read_in
        set_encryption_def set_ids_def entry_id_def from_value_def sbind_def lift_def sret_def via_provider_def Let_def)
      (simp add: hello_defs demo_client_def id_by_def ser_write_descriptor_def ser_base_def rfc3339_micros_def timestamp_micros_def)
  moreover have "sign_as_author demo_env demo_client None None alice ?w s = (Inr hello_write, s)"
    using payload_split [of alice]
    by (simp add: sign_as_author_def grant_cid_def descriptor_cid_def from_value_def demo_client_def demo_content_def demo_text_def
        demo_payload_def demo_signature_payload_def non_empty_def with_signature_def hello_defs sbind_def lift_def sret_def with_err_def
        or_empty_def alice_def)
  ultimately show ?thesis
    by (simp add: write_builder_build_def hello_builder_fields author_alice sbind_def via_provider_def)
qed

section \<open>From the builder to the store and back\<close>

lemma described_update:
  assumes "wd_protocol (w_descriptor w) = None" and "wd_data_size (w_descriptor w) \<le> MAX_ENCODED_SIZE"
    and "from_reader E bs s = (Inr (wd_data_cid (w_descriptor w), wd_data_size (w_descriptor w)), s)"
  shows "update_data E ow bs w s = (Inr (w\<lparr>w_encoded_data := Some (b64_encode E bs)\<rparr>), s)"
  using assms by (simp add: update_data_def check_data_def sbind_def lift_def sret_def Let_def)

context signing
begin

lemma built_read:
  assumes "read_builder_build E C rb s = (Inr r, t)" and "rb_filter rb = Filtered f" and "normalize E f = Inr f'"
    and "rb_signer rb = Signed k" and "rb_delegated_grant rb = None" and "author_of E C None k u = (Inr did, v)"
  shows "t = s \<and> rd_filter (rd_descriptor r) = f' \<and> (\<exists>a. rd_authorization r = Some a \<and> validate E (Some a) = Inr () \<and>
    auth_author E a = Inr did \<and> author_delegated_grant a = None)"
proof -
  from assms(1-5) obtain p a where a: "sign_request E C p (rb_permission_grant_id rb) (rb_protocol_role rb) None k s = (Inr a, t)"
    and r: "rd_authorization r = Some a" "rd_filter (rd_descriptor r) = f'"
    by (auto simp: read_builder_build_def Let_def monad_simps)
  from sign_request_authenticates [OF a assms(6)] r show ?thesis by blast
qed

end

lemma normalize_by_id: "normalize E (filter_record_id rid records_filter_new) = Inr (records_filter_new\<lparr>rf_record_id := Some rid\<rparr>)"
  by (simp add: normalize_def uri_clean_opt_def filter_record_id_def records_filter_new_def)


definition hello_read_builder :: "(filtered, string signed) read_builder" where
  "hello_read_builder = read_builder_sign alice (read_builder_filter (filter_record_id hello_id records_filter_new)
     (projr (fst (read_builder_new demo_env demo_empty))))"

lemma hello_read_builder_fields:
  "rb_filter hello_read_builder = Filtered (filter_record_id hello_id records_filter_new)" "rb_signer hello_read_builder = Signed alice"
  "rb_delegated_grant hello_read_builder = None" "rb_permission_grant_id hello_read_builder = None" "rb_protocol_role hello_read_builder = None"
  by (simp_all add: hello_read_builder_def read_builder_sign_def read_builder_filter_def read_builder_new_def now_def sbind_def sret_def)

lemma hello_read_built: "\<exists>r. read_builder_build demo_env demo_client hello_read_builder s = (Inr r, s)"
  by (simp add: read_builder_build_def hello_read_builder_fields normalize_by_id sign_request_def auth_build_def grant_cid_def
      from_value_def auth_builder_new_def auth_descriptor_cid_def sbind_def lift_def sret_def via_provider_def with_err_def Let_def)
    (simp add: demo_client_def demo_content_def demo_text_def demo_payload_def or_empty_def non_empty_def alice_def sret_def)


section \<open>The entry point\<close>

text \<open>
  C16. At the entry point, requests to read, query and subscribe change nothing, whatever they ask for and however they
  end, and neither does any message that is not authenticated.
\<close>

theorem endpoint_reads_only:
  assumes "pure_reads E" and "\<not> changes m \<or> validate E (message_authorization m) \<noteq> Inr ()"
  shows "snd (handle E ow m s) = s"
proof (cases "validate E (message_authorization m)")
  case (Inl f)
  then show ?thesis by (simp add: handle_rejects)
next
  case (Inr u)
  with assms have "reads_only (message_handle E ow m)" by (auto intro: pure_reads.message_handle_ro)
  with Inr show ?thesis by (simp add: handle_accepts reads_only_def)
qed

theorem endpoint_reads_only_witness: "snd (handle demo_env alice (Msg_Read hello_read) demo_empty) = demo_empty"
  by (rule endpoint_reads_only [OF demo_reads.pure_reads_axioms]) simp

section \<open>What the node does not check\<close>

text \<open>
  C40. The signature of a message does not cover what the message asks for: the node never compares the descriptor CID in
  the signed payload with the message. Whatever the owner signed, a read for instance, is accepted as the owner's
  authorization to delete any record.
\<close>

theorem signature_not_bound:
  assumes "signing E C" and "read_builder_build E C rb s = (Inr r, t)" and "rb_filter rb = Filtered f" and "normalize E f = Inr f'"
    and "rb_signer rb = Signed k" and "rb_delegated_grant rb = None" and "author_of E C None k s = (Inr ow, s)"
    and "rd_authorization r = Some (del_authorization d)"
  shows "validate E (message_authorization (Msg_Delete d)) = Inr () \<and> delete_authorize E ow w d u = (Inr (), u)"
proof -
  from signing.built_read [OF assms(1-7)] assms(8)
  have "validate E (Some (del_authorization d)) = Inr ()" "auth_author E (del_authorization d) = Inr ow"
    "author_delegated_grant (del_authorization d) = None" by auto
  then show ?thesis by (simp add: delete_authorize_def sret_def)
qed

theorem signature_not_bound_witness:
  "\<exists>r a. read_builder_build demo_env demo_client hello_read_builder demo_empty = (Inr r, demo_empty) \<and> rd_authorization r = Some a \<and>
    delete_authorize demo_env alice hello_write (hello_delete\<lparr>del_authorization := a\<rparr>) demo_empty = (Inr (), demo_empty)"
proof -
  obtain r where r: "read_builder_build demo_env demo_client hello_read_builder demo_empty = (Inr r, demo_empty)" using hello_read_built by blast
  from demo_signing.built_read [OF r hello_read_builder_fields(1) normalize_by_id hello_read_builder_fields(2,3) author_alice]
  obtain a where a: "rd_authorization r = Some a" by blast
  with signature_not_bound [OF demo_signing.signing_axioms r hello_read_builder_fields(1) normalize_by_id hello_read_builder_fields(2,3)
      author_alice, of "hello_delete\<lparr>del_authorization := a\<rparr>"] r show ?thesis by auto
qed

text \<open>
  Whoever shows a delegated grant of the owner reads as the owner: a read takes the grantor for its author before it
  looks at the grant, so neither the grantee, nor the signer, nor the scope, nor the lifetime of the grant matters.
\<close>

theorem delegate_reads_all:
  assumes "rd_authorization r = Some a" and "author_delegated_grant a = Some dg"
    and "jws_did E (signature (dg_authorization dg)) = Inr ow"
  shows "read_authorize E ow w r s = (Inr (), s)"
  using assms by (simp add: read_authorize_def auth_author_def sret_def)

definition mallory_read :: read where
  "mallory_read = hello_read\<lparr>rd_authorization := Some (Authorization (Jws ''|||'' ''mallory'') None
     (Some (DelegatedGrant (hello_descriptor\<lparr>wd_recipient := Some ''bob''\<rparr>) (Authorization (Jws ''|||'' alice) None None None) [] None [])) None)\<rparr>"

theorem delegate_reads_all_witness: "read_authorize demo_env alice hello_write mallory_read demo_empty = (Inr (), demo_empty)"
  by (rule delegate_reads_all) (auto simp: mallory_read_def)

text \<open>
  An owner's delegate cannot retain a message: when a write is signed by a delegate under a grant of the owner, the
  node takes the grantor for the delegate as well, and refuses the write unless the grant was granted to the grantor.
\<close>

theorem owner_delegate_refused:
  assumes "sign_as_delegate E C dg k w s = (Inr w', t)" and "to_grant E dg = Inr g" and "g_grantee g \<noteq> g_grantor g"
  shows "\<exists>f v. write_authorize E ow w' u = (Inl f, v)"
proof -
  have dg: "owner_delegated_grant (w_authorization w') = Some dg"
    using assms(1) by (cases "w_authorization w") (auto simp: sign_as_delegate_def monad_simps)
  obtain r v where run: "write_authorize E ow w' u = (r, v)" by (cases "write_authorize E ow w' u")
  have "r \<noteq> Inr ()"
  proof
    assume "r = Inr ()"
    with run dg assms(2) obtain ro signer x y where "auth_owner E (w_authorization w') = Inr (Some ro)"
      "auth_owner_signer E (w_authorization w') = Inr signer" and p: "grant_permit_write E g ro signer w' x = (Inr (), y)"
      by (auto simp: write_authorize_def Let_def monad_simps)
    then have did: "jws_did E (signature (dg_authorization dg)) = Inr signer" using dg by (auto simp: auth_owner_signer_def monad_simps)
    have "g_grantor g = signer" using assms(2) did by (auto simp: to_grant_def auth_signer_def monad_simps)
    moreover have "g_grantee g = signer"
      using p by (auto simp: grant_permit_write_def grant_verify_def monad_simps)
    ultimately show False using assms(3) by simp
  qed
  with run show ?thesis by (cases r) auto
qed

definition app_grant :: delegated_grant where
  "app_grant = DelegatedGrant (hello_descriptor\<lparr>wd_recipient := Some ''app''\<rparr>) (Authorization (Jws ''|||'' alice) None None None)
     ''id'' None ''9999999|https://chat''"

definition app_client :: "(demo, string) client" where
  "app_client = demo_client\<lparr>jws_build := (\<lambda>p k s. (Inr (Jws ''|||'' k), s))\<rparr>"

theorem owner_delegate_refused_witness:
  "\<exists>w' f v. sign_as_delegate demo_env app_client app_grant ''app'' hello_write demo_empty = (Inr w', demo_empty) \<and>
    write_authorize demo_env alice w' demo_empty = (Inl f, v)"
proof -
  obtain w' where w': "sign_as_delegate demo_env app_client app_grant ''app'' hello_write demo_empty = (Inr w', demo_empty)"
    by (simp add: sign_as_delegate_def is_err_def auth_author_def descriptor_cid_def from_value_def app_client_def hello_defs
        sbind_def lift_def sret_def with_err_def)
  obtain g where "to_grant demo_env app_grant = Inr g" "g_grantee g \<noteq> g_grantor g"
    by (simp add: to_grant_def app_grant_def demo_grant_data_def auth_signer_def hello_descriptor_def alice_def)
  from owner_delegate_refused [OF w' this, of alice demo_empty] w' show ?thesis by blast
qed

end
