(* ===== verification/Sound_Query.thy ===== *)
theory Sound_Query
  imports Full_Scan Read_Only
begin

text \<open>
  What holds of every query of the message store, paged or not, concise or full, and whatever its sort keys: what it
  returns are messages of the store that one of its match sets accepts. The lookup of a record's messages moreover
  always succeeds on a store whose messages carry their timestamp.
\<close>

section \<open>Collecting\<close>

lemma set_bt_insert_within: "set (bt_insert k v ps) \<subseteq> insert (k, v) (set ps)"
  by (induction ps) auto

lemma concise_items_within:
  assumes "concise_items E sf ms items r = Inr r'"
  shows "snd ` set (snd r') \<subseteq> snd ` set (snd r) \<union> {it \<in> set items. match_all E ms it = Inr True}"
  using assms
proof (induction items arbitrary: r)
  case (Cons it items)
  obtain mt rs where r: "r = (mt, rs)" by (cases r)
  from Cons.prems r consider "concise_items E sf ms items (mt, rs) = Inr r'"
    | v where "match_all E ms it = Inr True" "concise_items E sf ms items (ii_message_cid it # mt, bt_insert (v @ ii_message_cid it) it rs) = Inr r'"
    by (auto simp: monad_simps split: if_splits option.splits)
  then show ?case
  proof cases
    case 1
    from Cons.IH [OF this] show ?thesis using r by auto
  next
    case (2 v)
    have "snd ` set (bt_insert (v @ ii_message_cid it) it rs) \<subseteq> insert it (snd ` set rs)"
      using set_bt_insert_within [of "v @ ii_message_cid it" it rs] by force
    with Cons.IH [OF 2(2)] 2(1) show ?thesis using r by auto
  qed
qed simp

lemma concise_items_total:
  assumes "\<forall>it\<in>set items. (\<exists>b. match_all E ms it = Inr b) \<and> map_of (ii_fields it) sf \<noteq> None"
  shows "\<exists>r'. concise_items E sf ms items r = Inr r'"
  using assms
proof (induction items arbitrary: r)
  case (Cons it items)
  obtain mt rs where r: "r = (mt, rs)" by (cases r)
  from Cons.prems obtain b v where "match_all E ms it = Inr b" "map_of (ii_fields it) sf = Some v" by auto
  with Cons r show ?case by (cases b) auto
qed auto

lemma paginate_within: "paginate E pg items = Inr r \<Longrightarrow> set r \<subseteq> set items"
  by (auto simp: paginate_def slice_def Let_def monad_simps split: option.splits if_splits dest!: in_set_takeD in_set_dropD)

lemma pop_cursor_within: "pop_cursor q f items = Inr (r, cur) \<Longrightarrow> set r \<subseteq> set items"
  by (auto simp: pop_cursor_def Let_def split: if_splits option.splits dest: in_set_butlastD)

lemma smapm_within:
  "smapm xs f s = (Inr ys, t) \<Longrightarrow> (\<And>x. reads_only (f x)) \<Longrightarrow> \<forall>y\<in>set ys. \<exists>x\<in>set xs. f x s = (Inr y, s)"
proof (induction xs arbitrary: ys)
  case (Cons x xs)
  from Cons.prems(1) obtain y zs u where y: "f x s = (Inr y, u)" "smapm xs f u = (Inr zs, t)" "ys = y # zs"
    by (auto simp: monad_simps)
  have "u = s" using Cons.prems(2) y(1) by (rule reads_only_state)
  with y Cons.IH [of zs] Cons.prems(2) show ?case by auto
qed (simp add: monad_simps)

section \<open>The indexes\<close>

context index_store
begin

lemma concise_sets_within:
  assumes ix: "indexed s ow pa live"
    and fields: "\<forall>ms\<in>set mss. \<forall>f v. mst_index ms = Some (f, v) \<longrightarrow> f \<noteq> ''message_cid''"
    and run: "concise_sets E ow pa sf mss r s = (Inr r', t)"
  shows "snd ` set (snd r') \<subseteq> snd ` set (snd r) \<union>
    {it \<in> items_of live. \<exists>ms\<in>set mss. match_all E (mst_inner ms) it = Inr True}"
  using fields run
proof (induction mss arbitrary: r)
  case (Cons ms mss)
  show ?case
  proof (cases "mst_index ms")
    case None
    then show ?thesis using Cons.IH [of r] Cons.prems by auto
  next
    case (Some fv)
    obtain f v where fv: "fv = (f, v)" by (cases fv)
    from indexed_field [OF ix, of f] obtain ixf where
      ixf: "the_index s ow pa f = Some ixf" "field_ok live f ixf" by blast
    have mc: "f \<noteq> ''message_cid''" using Cons.prems(1) Some fv by simp
    have sub: "set (index_matches v ixf) \<subseteq> items_of live"
      unfolding set_index_matches [OF ixf(2) mc, of v] items_of_def by blast
    from Cons.prems(2) Some fv obtain r1
      where r1: "concise_items E sf (mst_inner ms) (index_matches v ixf) r = Inr r1"
        "concise_sets E ow pa sf mss r1 s = (Inr r', t)"
      by (auto simp: indexes_get_run [OF ixf(1)] monad_simps)
    note now = concise_items_within [OF r1(1)]
    have later: "snd ` set (snd r') \<subseteq> snd ` set (snd r1) \<union>
      {it \<in> items_of live. \<exists>ms\<in>set mss. match_all E (mst_inner ms) it = Inr True}"
      using Cons.prems(1) by (intro Cons.IH [OF _ r1(2)]) auto
    show ?thesis using subset_trans [OF later Un_mono [OF now subset_refl]] sub by auto
  qed
qed (simp add: sret_def)

lemma concise_sets_total:
  assumes ix: "indexed s ow pa live"
    and fields: "\<forall>ms\<in>set mss. \<forall>f v. mst_index ms = Some (f, v) \<longrightarrow> f \<noteq> ''message_cid''"
    and total: "\<forall>ms\<in>set mss. \<forall>it\<in>items_of live. \<exists>b. match_all E (mst_inner ms) it = Inr b"
    and sf: "\<forall>it\<in>items_of live. map_of (ii_fields it) sf \<noteq> None"
  shows "\<exists>r'. concise_sets E ow pa sf mss r s = (Inr r', s)"
  using fields total
proof (induction mss arbitrary: r)
  case (Cons ms mss)
  show ?case
  proof (cases "mst_index ms")
    case (Some fv)
    obtain f v where fv: "fv = (f, v)" by (cases fv)
    from indexed_field [OF ix, of f] obtain ixf where
      ixf: "the_index s ow pa f = Some ixf" "field_ok live f ixf" by blast
    have mc: "f \<noteq> ''message_cid''" using Cons.prems(1) Some fv by simp
    have "set (index_matches v ixf) \<subseteq> items_of live"
      unfolding set_index_matches [OF ixf(2) mc, of v] items_of_def by blast
    then have "\<forall>it\<in>set (index_matches v ixf). (\<exists>b. match_all E (mst_inner ms) it = Inr b) \<and> map_of (ii_fields it) sf \<noteq> None"
      using Cons.prems(2) sf by auto
    from concise_items_total [OF this] obtain r1 where "concise_items E sf (mst_inner ms) (index_matches v ixf) r = Inr r1"
      by blast
    then show ?thesis
      using Some fv Cons.IH [of r1] Cons.prems indexes_get_run [OF ixf(1)] by (simp add: sbind_run)
  qed (use Cons in auto)
qed (simp add: sret_def)

lemma index_query_within:
  assumes ix: "indexed s ow pa live"
    and fields: "\<forall>ms\<in>set (q_match_sets q). \<forall>f v. mst_index ms = Some (f, v) \<longrightarrow> f \<noteq> ''message_cid''"
    and run: "index_query E ow pa q s = (Inr items, t)"
  shows "set items \<subseteq> {it \<in> items_of live. accepts E (q_match_sets q) it}"
proof (cases "query_is_concise q")
  case True
  with run obtain mt rs u where r: "concise_sets E ow pa (sort_str (q_sort q)) (q_match_sets q) ([], []) s = (Inr (mt, rs), u)"
    and p: "paginate E (q_pagination q) (if sort_is_ascending (q_sort q) then map snd rs else rev (map snd rs)) = Inr items"
    by (auto simp: index_query_def query_concise_def Let_def monad_simps)
  have "set items \<subseteq> snd ` set rs" using paginate_within [OF p] by (simp split: if_splits)
  then have "set items \<subseteq> {it \<in> items_of live. \<exists>ms\<in>set (q_match_sets q). match_all E (mst_inner ms) it = Inr True}"
    using concise_sets_within [OF ix fields r] by (metis (no_types, lifting) image_empty list.set(1) order_trans snd_conv sup_bot_left)
  then show ?thesis by (auto simp: accepts_def)
next
  case False
  from indexed_field [OF ix, of "sort_str (q_sort q)"] obtain ixf where
    ixf: "the_index s ow pa (sort_str (q_sort q)) = Some ixf" "field_ok live (sort_str (q_sort q)) ixf" by blast
  have "sort_str (q_sort q) \<noteq> ''message_cid''" by (cases "q_sort q") simp_all
  then have rows: "snd ` set (ix_items ixf) \<subseteq> items_of live"
    using ixf(2) by (auto simp: field_ok_def rows_def items_of_def)
  from False run obtain k lim where "full_items E (q_match_sets q) lim (map snd (lower_bound k ixf)) ([], []) = Inr items"
    by (auto simp: index_query_def query_full_def Let_def indexes_get_run [OF ixf(1)] monad_simps)
  from full_items_sound [OF this] have "set items \<subseteq> snd ` set (lower_bound k ixf)" "\<forall>it\<in>set items. accepts E (q_match_sets q) it"
    by auto
  moreover have "set (lower_bound k ixf) \<subseteq> set (ix_items ixf)" by (auto simp: lower_bound_def split: option.splits)
  ultimately show ?thesis using rows by fastforce
qed

section \<open>Messages\<close>

theorem message_query_within:
  assumes st: "stored s ow MESSAGE_PARTITION msgs" and pure: "pure_reads E"
    and fields: "\<forall>ms\<in>set (q_match_sets q). \<forall>f v. mst_index ms = Some (f, v) \<longrightarrow> f \<noteq> ''message_cid''"
    and run: "message_query E ow q s = (Inr (es, cur), t)" and e: "e \<in> set es"
  shows "\<exists>c m. msgs c = Some m \<and> e = ser_entry m \<and> accepts E (q_match_sets q) (item_of c (e_indexes m))"
proof -
  have ix: "indexed s ow MESSAGE_PARTITION (map_option e_indexes \<circ> msgs)" using st by (simp add: stores_def)
  from run obtain results items u v where r: "index_query E ow MESSAGE_PARTITION q s = (Inr results, u)"
      "pop_cursor q (sort_str (q_sort q)) results = Inr (items, cur)"
    and l: "smapm items (load_entry E ow MESSAGE_PARTITION) u = (Inr es, v)"
    by (auto simp: message_query_def monad_simps)
  from smapm_within [OF l pure_reads.load_entry_ro [OF pure]] e obtain it
    where it: "it \<in> set items" "load_entry E ow MESSAGE_PARTITION it u = (Inr e, u)" by blast
  have "u = s"
    using r(1) pure_reads.index_query_ro [OF pure] reads_only_state by metis
  have "it \<in> set results" using pop_cursor_within [OF r(2)] it(1) by blast
  then have "it \<in> items_of (map_option e_indexes \<circ> msgs)" "accepts E (q_match_sets q) it"
    using index_query_within [OF ix fields r(1)] by auto
  then obtain m where m: "msgs (ii_message_cid it) = Some m" "it = item_of (ii_message_cid it) (e_indexes m)"
    by (auto simp: items_of_def)
  have "e = ser_entry m" using load_stored [OF st m(1)] it(2) \<open>u = s\<close> by simp
  with m \<open>accepts E (q_match_sets q) it\<close> show ?thesis by metis
qed

text \<open>A lookup by a field succeeds when every message has the sort field.\<close>

theorem message_query_total:
  assumes st: "stored s ow MESSAGE_PARTITION msgs" and q: "query_is_concise q" "q_pagination q = None"
    and fields: "\<forall>ms\<in>set (q_match_sets q). \<forall>f v. mst_index ms = Some (f, v) \<longrightarrow> f \<noteq> ''message_cid''"
    and total: "\<forall>ms\<in>set (q_match_sets q). list_all total_matcher (mst_inner ms)"
    and sf: "\<forall>c e. msgs c = Some e \<longrightarrow> map_of (e_indexes e) (sort_str (q_sort q)) \<noteq> None"
  shows "\<exists>es. message_query E ow q s = (Inr (es, None), s)"
proof -
  let ?live = "map_option e_indexes \<circ> msgs" and ?sf = "sort_str (q_sort q)"
  have ix: "indexed s ow MESSAGE_PARTITION ?live" using st by (simp add: stores_def)
  have "\<forall>ms\<in>set (q_match_sets q). \<forall>it\<in>items_of ?live. \<exists>b. match_all E (mst_inner ms) it = Inr b"
    using total match_all_total by blast
  moreover have "\<forall>it\<in>items_of ?live. map_of (ii_fields it) ?sf \<noteq> None" using sf by (auto simp: items_of_def)
  ultimately obtain mt rs where "concise_sets E ow MESSAGE_PARTITION ?sf (q_match_sets q) ([], []) s = (Inr (mt, rs), s)"
    using concise_sets_total [OF ix fields, of ?sf "([], [])"] by fastforce
  then obtain items where items: "index_query E ow MESSAGE_PARTITION q s = (Inr items, s)"
    using q by (auto simp: index_query_def query_concise_def sbind_run Let_def lift_def paginate_def)
  have "load_entry E ow MESSAGE_PARTITION it s = (Inr (ser_entry (the (msgs (ii_message_cid it)))), s)" if "it \<in> set items" for it
    using index_query_within [OF ix fields items] that load_stored [OF st] by (auto simp: items_of_def)
  from load_all [OF this] show ?thesis
    using q items by (simp add: message_query_def pop_cursor_def sbind_run lift_def sret_def sbind_def)
qed

end

end
