(* ===== verification/Invariant.thy ===== *)
theory Invariant
  imports Client_Properties Sound_Query
begin

text \<open>
  The invariant of a node's state. Whatever message is handled and whatever comes of it, the message store and the event
  log of every owner stay well-formed: indexes and blocks represent the same messages, every message is indexed by the
  fields its kind prescribes, and every message that is not an archived initial write is also in the event log. The
  states that are reachable from an empty store, message by message, are therefore all well-formed.
\<close>

section \<open>Operations that keep an invariant\<close>

text \<open>Whatever the operation returns, an error included, the invariant holds afterwards when it held before.\<close>

definition keeps :: "('s \<Rightarrow> bool) \<Rightarrow> ('s, 'a) io \<Rightarrow> bool" where
  "keeps I m \<longleftrightarrow> (\<forall>s. I s \<longrightarrow> I (snd (m s)))"

named_theorems keeps_intros \<open>operations that keep an invariant\<close>

lemma keepsI: "(\<And>s. I s \<Longrightarrow> I (snd (m s))) \<Longrightarrow> keeps I m"
  by (simp add: keeps_def)

lemma keepsD: "keeps I m \<Longrightarrow> I s \<Longrightarrow> I (snd (m s))"
  by (simp add: keeps_def)

lemma keeps_reads_only: "reads_only m \<Longrightarrow> keeps I m"
  by (simp add: keeps_def reads_only_def)

lemma keeps_pure [keeps_intros]: "keeps I (sret a)" "keeps I (sfail e)" "keeps I (lift r)"
  by (intro keeps_reads_only reads_only_intros)+

lemma keeps_sbind [keeps_intros]:
  assumes "keeps I m" and "\<And>a. keeps I (k a)"
  shows "keeps I (sbind m k)"
proof (rule keepsI)
  fix s assume s: "I s"
  obtain r t where m: "m s = (r, t)" by (cases "m s")
  with assms(1) s have "I t" using keepsD by fastforce
  with m assms(2) show "I (snd (sbind m k s))" by (cases r) (auto simp: sbind_def dest: keepsD)
qed

text \<open>What follows a check that passed may use what it checked.\<close>

lemma keeps_sbind_lift: "(\<And>a. r = Inr a \<Longrightarrow> keeps I (k a)) \<Longrightarrow> keeps I (sbind (lift r) k)"
  by (cases r) (simp_all add: keeps_pure)

lemma keeps_if [keeps_intros]: "(c \<Longrightarrow> keeps I m) \<Longrightarrow> (\<not> c \<Longrightarrow> keeps I n) \<Longrightarrow> keeps I (if c then m else n)"
  by simp

lemma keeps_case_option [keeps_intros]:
  "keeps I n \<Longrightarrow> (\<And>a. keeps I (f a)) \<Longrightarrow> keeps I (case x of None \<Rightarrow> n | Some a \<Rightarrow> f a)"
  by (cases x) simp_all

lemma keeps_case_prod [keeps_intros]: "(\<And>a b. keeps I (f a b)) \<Longrightarrow> keeps I (case p of (a, b) \<Rightarrow> f a b)"
  by (cases p) simp

lemma keeps_case_list [keeps_intros]:
  "keeps I n \<Longrightarrow> (\<And>x xs. keeps I (f x xs)) \<Longrightarrow> keeps I (case l of [] \<Rightarrow> n | x # xs \<Rightarrow> f x xs)"
  by (cases l) simp_all

lemma keeps_Let [keeps_intros]: "(\<And>x. keeps I (f x)) \<Longrightarrow> keeps I (let x = a in f x)"
  by simp

lemma keeps_sfor [keeps_intros]: "(\<And>x. keeps I (f x)) \<Longrightarrow> keeps I (sfor xs f)"
  by (induction xs) (auto intro!: keeps_intros)

lemma keeps_via_provider [keeps_intros]: "keeps I m \<Longrightarrow> keeps I (via_provider m)"
  by (simp add: keeps_def)

lemma keeps_smap [keeps_intros]: "keeps I m \<Longrightarrow> keeps I (smap f m)"
  unfolding smap_def by (intro keeps_intros)

lemma snd_provider_err [simp]: "snd (provider_err f m s) = snd (m s)"
  by (auto simp: provider_err_def split: prod.splits sum.splits failure.splits)

lemma keeps_with_err [keeps_intros]: "keeps I m \<Longrightarrow> keeps I (provider_err g m)"
  by (simp add: keeps_def)

section \<open>Well-formed stores\<close>

text \<open>The entries the handlers store: a write, a delete or a protocol configuration with the index fields of its kind.\<close>

definition typed_entry :: "('s, 'b) env \<Rightarrow> entry \<Rightarrow> bool" where
  "typed_entry E e \<longleftrightarrow>
     (case e_message e of
        E_Write w \<Rightarrow> \<exists>code. e = write_entry E code w
      | E_Delete d \<Rightarrow> \<exists>w. e = delete_entry E w d \<and> w_record_id w = del_record_id (del_descriptor d)
      | E_Configure c \<Rightarrow> e = entry_from_configure E c)"

lemma typed_entries:
  "typed_entry E (write_entry E code w)"
  "w_record_id w = del_record_id (del_descriptor d) \<Longrightarrow> typed_entry E (delete_entry E w d)"
  "typed_entry E (entry_from_configure E c)"
  by (auto simp: typed_entry_def write_entry_def write_entry_fields delete_entry_def entry_from_delete_def
      entry_from_configure_def split: entry_type.splits)

lemma typed_fields:
  assumes "typed_entry E e"
  shows "wf_fields (e_indexes e)"
proof (cases "e_message e")
  case (E_Write w)
  with assms obtain code where "e = write_entry E code w" by (auto simp: typed_entry_def)
  then show ?thesis by (simp add: write_entry_def write_entry_fields wf_fields_insert wf_write_indexes)
next
  case (E_Delete d)
  with assms obtain w where "e = delete_entry E w d" by (auto simp: typed_entry_def)
  then show ?thesis using wf_delete_entry by simp
next
  case (E_Configure c)
  with assms have "e = entry_from_configure E c" by (simp add: typed_entry_def)
  then show ?thesis using wf_configure_entry by simp
qed

text \<open>An archived initial write: it answers no query, and is kept for what it says of the record.\<close>

definition archived_entry :: "entry \<Rightarrow> bool" where
  "archived_entry e \<longleftrightarrow> has_field (e_indexes e) ''initial'' ''true''"

text \<open>
  The messages and the events of an owner, as the store represents them: all typed, and whatever is not archived is in
  the event log.
\<close>

definition owner_state :: "('s, 'b) env \<Rightarrow> (string \<Rightarrow> string \<Rightarrow> string \<Rightarrow> 'k) \<Rightarrow> ('s \<Rightarrow> 'k \<Rightarrow> 'b option) \<Rightarrow>
    's \<Rightarrow> string \<Rightarrow> (string \<rightharpoonup> entry) \<Rightarrow> (string \<rightharpoonup> entry) \<Rightarrow> bool" where
  "owner_state E cell view s ow msgs evs \<longleftrightarrow>
     stores E cell view s ow MESSAGE_PARTITION msgs \<and> stores E cell view s ow EVENTLOG_PARTITION evs \<and>
     (\<forall>c e. msgs c = Some e \<longrightarrow> typed_entry E e \<and> (archived_entry e \<or> evs c \<noteq> None))"

definition wf_node :: "('s, 'b) env \<Rightarrow> (string \<Rightarrow> string \<Rightarrow> string \<Rightarrow> 'k) \<Rightarrow> ('s \<Rightarrow> 'k \<Rightarrow> 'b option) \<Rightarrow> 's \<Rightarrow> bool" where
  "wf_node E cell view s \<longleftrightarrow> (\<forall>ow. \<exists>msgs evs. owner_state E cell view s ow msgs evs)"

context open_node
begin

abbreviation wf :: "'s \<Rightarrow> bool" where
  "wf \<equiv> wf_node E cell view"

lemma owner_state_only:
  assumes "owner_state E cell view s ow' msgs evs" and "only ow pa s t" and "ow \<noteq> ow' \<or> pa = DATA_PARTITION"
  shows "owner_state E cell view t ow' msgs evs"
  using assms partitions_differ stored_other [OF assms(2)] unfolding owner_state_def by metis

lemma wf_owner:
  assumes "wf s" and "\<And>ow' msgs evs. ow' \<noteq> ow \<Longrightarrow> owner_state E cell view s ow' msgs evs \<Longrightarrow> owner_state E cell view t ow' msgs evs"
    and "owner_state E cell view t ow msgs evs"
  shows "wf t"
  using assms unfolding wf_node_def by metis

lemma wf_stores:
  assumes "wf s"
  obtains msgs evs where "owner_state E cell view s ow msgs evs"
  using assms unfolding wf_node_def by meson

lemma only_data_keeps: "only_data ow m \<Longrightarrow> keeps wf m"
  unfolding keeps_def wf_node_def only_data_def using owner_state_only by blast

lemma delete_data_data: "only_data ow (delete_data E ow e latest)"
proof -
  have "only_data ow (provider_err f (data_delete E ow rid dc))" for f rid dc
    using data_delete_data by (simp add: only_data_def)
  then show ?thesis
    unfolding delete_data_def by (auto intro!: only_data_sbind_lift intro: only_data_pure [OF reads_only_sret])
qed

lemmas data_keeps [keeps_intros] = data_put_data [THEN only_data_keeps] data_delete_data [THEN only_data_keeps]

section \<open>The message store and the event log\<close>

text \<open>A message that is stored and appended to the event log.\<close>

lemma put_log_wf:
  assumes "wf s" and typed: "typed_entry E e" and cid: "entry_cid E e = Inr c"
  obtains x y where "message_put E ow e s = (Inr (), x)" and "event_append E ow e x = (Inr (), y)" and "wf y"
proof -
  obtain msgs evs where o: "owner_state E cell view s ow msgs evs" by (rule wf_stores [OF assms(1)])
  then have st: "stored s ow MESSAGE_PARTITION msgs" "stored s ow EVENTLOG_PARTITION evs"
    and ty: "\<forall>c e. msgs c = Some e \<longrightarrow> typed_entry E e \<and> (archived_entry e \<or> evs c \<noteq> None)"
    by (simp_all add: owner_state_def)
  note fields = typed_fields [OF typed]
  obtain x where x: "message_put E ow e s = (Inr (), x)" using message_put_total [OF st(1) cid fields] by blast
  note mx = message_put_refines [OF st(1) cid fields x]
  then have ex: "stored x ow EVENTLOG_PARTITION evs" using st(2) partitions_differ by (blast intro: stored_other)
  obtain y where y: "event_append E ow e x = (Inr (), y)" using event_append_total [OF ex cid fields] by blast
  note oy = event_append_refines(2) [OF ex cid fields y ulid_view]
  obtain w where ey: "stored y ow EVENTLOG_PARTITION (evs(c \<mapsto> e\<lparr>e_indexes := hm_insert ''watermark'' w (e_indexes e)\<rparr>))"
    using event_append_refines(1) [OF ex cid fields y ulid_view] by blast
  have my: "stored y ow MESSAGE_PARTITION (msgs(c \<mapsto> e))" using mx oy partitions_differ by (blast intro: stored_other)
  have "wf y"
  proof (rule wf_owner [OF assms(1)])
    show "owner_state E cell view y ow' m v" if "ow' \<noteq> ow" "owner_state E cell view s ow' m v" for ow' m v
      using that mx oy owner_state_only by metis
    show "owner_state E cell view y ow (msgs(c \<mapsto> e)) (evs(c \<mapsto> e\<lparr>e_indexes := hm_insert ''watermark'' w (e_indexes e)\<rparr>))"
      using my ey ty typed by (auto simp: owner_state_def)
  qed
  with x y show thesis by (rule that)
qed

lemma put_log_keeps [keeps_intros]:
  assumes "typed_entry E e" and "keeps wf k"
  shows "keeps wf (sbind (MessageStore_put E ow e) (\<lambda>_. sbind (EventLog_append E ow e) (\<lambda>_. k)))"
proof (rule keepsI)
  fix s assume s: "wf s"
  show "wf (snd (sbind (MessageStore_put E ow e) (\<lambda>_. sbind (EventLog_append E ow e) (\<lambda>_. k)) s))"
  proof (cases "entry_cid E e")
    case (Inl f)
    then have "message_put E ow e s = (Inl f, s)" by (simp add: message_put_def sfail_def)
    with s show ?thesis by (simp add: sbind_def via_provider_def)
  next
    case (Inr c)
    obtain x y where "message_put E ow e s = (Inr (), x)" "event_append E ow e x = (Inr (), y)" "wf y"
      by (rule put_log_wf [OF s assms(1) Inr])
    then show ?thesis using assms(2) by (auto simp: sbind_run via_provider_run dest: keepsD)
  qed
qed

text \<open>An initial write that is archived; its event is in the log already, or not any more.\<close>

lemma archive_keeps: "keeps wf (MessageStore_put E ow (add_index ''initial'' (bool_str True) (entry_from_write E w)))"
  (is "keeps wf (MessageStore_put E ow ?e)")
proof (rule keepsI)
  fix s assume s: "wf s"
  show "wf (snd (MessageStore_put E ow ?e s))"
  proof (cases "entry_cid E ?e")
    case (Inl f)
    then have "message_put E ow ?e s = (Inl f, s)" by (simp add: message_put_def sfail_def)
    with s show ?thesis by simp
  next
    case (Inr c)
    have e: "?e = write_entry E 204 w" by (simp add: write_entry_def)
    obtain msgs evs where o: "owner_state E cell view s ow msgs evs" by (rule wf_stores [OF s])
    then have st: "stored s ow MESSAGE_PARTITION msgs" "stored s ow EVENTLOG_PARTITION evs" by (simp_all add: owner_state_def)
    have fields: "wf_fields (e_indexes ?e)" unfolding e by (rule typed_fields [OF typed_entries(1)])
    obtain x where x: "message_put E ow ?e s = (Inr (), x)" using message_put_total [OF st(1) Inr fields] by blast
    note mx = message_put_refines [OF st(1) Inr fields x]
    have "archived_entry ?e" by (simp add: archived_entry_def has_field_def write_entry_fields bool_str_def)
    moreover have "stored x ow EVENTLOG_PARTITION evs" using mx st(2) partitions_differ by (blast intro: stored_other)
    ultimately have "owner_state E cell view x ow (msgs(c \<mapsto> ?e)) evs"
      using mx o typed_entries(1) [of E 204 w] unfolding e by (simp add: owner_state_def)
    then have "wf x" by (rule wf_owner [OF s, rotated]) (use mx owner_state_only in metis)
    with x show ?thesis by simp
  qed
qed

text \<open>A message that is removed, with its data and its event.\<close>

lemma remove_data_keeps:
  assumes cid: "entry_cid E e = Inr c" and M: "only_data ow M"
  shows "keeps wf (sbind (MessageStore_delete E ow c) (\<lambda>_. sbind M (\<lambda>_. EventLog_delete E ow c)))"
proof (rule keepsI)
  fix s assume s: "wf s"
  obtain msgs evs where o: "owner_state E cell view s ow msgs evs" by (rule wf_stores [OF s])
  then have st: "stored s ow MESSAGE_PARTITION msgs" "stored s ow EVENTLOG_PARTITION evs"
    and ty: "\<forall>c e. msgs c = Some e \<longrightarrow> typed_entry E e \<and> (archived_entry e \<or> evs c \<noteq> None)"
    by (simp_all add: owner_state_def)
  obtain x where x: "message_delete E ow c s = (Inr (), x)" using message_delete_total [OF st(1) cid] by blast
  note mx = message_delete_refines [OF st(1) cid x]
  have "stored x ow EVENTLOG_PARTITION evs" using mx st(2) partitions_differ by (blast intro: stored_other)
  then have ox: "owner_state E cell view x ow (msgs(c := None)) evs" using mx ty by (simp add: owner_state_def)
  then have wx: "wf x" by (rule wf_owner [OF s, rotated]) (use mx owner_state_only in metis)
  obtain r y where y: "M x = (r, y)" by (cases "M x")
  have dy: "only ow DATA_PARTITION x y" using M y by (metis only_data_def snd_conv)
  have wy: "wf y" using only_data_keeps [OF M] wx y by (metis keepsD snd_conv)
  have oy: "owner_state E cell view y ow (msgs(c := None)) evs" using owner_state_only [OF ox dy] by simp
  then have ey: "stored y ow EVENTLOG_PARTITION evs" by (simp add: owner_state_def)
  obtain z where z: "event_delete E ow c y = (Inr (), z)" using event_delete_total [OF ey cid] by blast
  note ez = event_delete_refines [OF ey cid z]
  have "stored z ow MESSAGE_PARTITION (msgs(c := None))"
    using ez oy partitions_differ unfolding owner_state_def by (blast intro: stored_other)
  then have "owner_state E cell view z ow (msgs(c := None)) (evs(c := None))" using ez ty by (simp add: owner_state_def)
  then have "wf z" by (rule wf_owner [OF wy, rotated]) (use ez owner_state_only in metis)
  with wy show "wf (snd (sbind (MessageStore_delete E ow c) (\<lambda>_. sbind M (\<lambda>_. EventLog_delete E ow c)) s))"
    using x y z by (cases r) (simp_all add: sbind_run sbind_run_err via_provider_run)
qed

lemma remove_keeps:
  assumes "entry_cid E e = Inr c"
  shows "keeps wf (sbind (MessageStore_delete E ow c) (\<lambda>_. EventLog_delete E ow c))"
  using remove_data_keeps [OF assms only_data_pure [OF reads_only_sret]] by simp

lemma emit_keeps [keeps_intros]: "keeps wf (EventStream_emit E ow e)"
proof (rule keepsI)
  fix s assume s: "wf s"
  have "view (snd (EventStream_emit E ow e s)) = view s" using emit_view by simp
  then have "only ow DATA_PARTITION s (snd (EventStream_emit E ow e s))" by (simp add: changes_only_def)
  then show "wf (snd (EventStream_emit E ow e s))"
    using s owner_state_only unfolding wf_node_def by metis
qed

section \<open>The handlers\<close>

lemma update_data_keeps [keeps_intros]: "keeps wf (update_data E ow stream w)"
proof -
  have "reads_only (from_reader E stream)" using from_reader_state unfolding reads_only_def by (metis prod.collapse)
  then show ?thesis unfolding update_data_def by (intro keeps_intros keeps_reads_only [of "from_reader E stream"])
qed

lemma clone_data_keeps [keeps_intros]: "keeps wf (clone_data E ow e w)"
  unfolding clone_data_def by (intro keeps_reads_only reads_only_intros)

lemma process_data_keeps [keeps_intros]: "keeps wf (process_data E ow init latest w)"
  unfolding process_data_def by (intro keeps_intros)

lemma save_write_keeps [keeps_intros]: "keeps wf (save_write E ow code w)"
  unfolding save_write_def Let_def write_entry_def [symmetric] by (intro keeps_intros typed_entries)

lemma archive_initial_keeps [keeps_intros]: "keeps wf (archive_initial E ow w initial)"
proof -
  have "typed_entry E (add_index ''initial'' (bool_str True) (entry_from_write E v))" for v
    using typed_entries(1) [of E 204 v] by (simp add: write_entry_def)
  then show ?thesis unfolding archive_initial_def Let_def by (intro keeps_intros)
qed

text \<open>A write's CID is that of its entry.\<close>

lemma entry_of_write: "write_cid E w = Inr c \<Longrightarrow> entry_cid E (write_entry E code w) = Inr c"
  by (rule write_entry_facts(1))

lemma delete_previous_keeps [keeps_intros]: "keeps wf (delete_previous E ow e)"
proof -
  have "only_data ow (DataStore_delete E ow rid dc)" for rid dc using data_delete_data by (simp add: only_data_def)
  then show ?thesis
    unfolding delete_previous_def by (intro keeps_sbind_lift) (blast intro: remove_data_keeps entry_of_write)
qed

lemma delete_authorized_keeps [keeps_intros]: "keeps wf (delete_authorized E ow e)"
  unfolding delete_authorized_def by (intro keeps_sbind_lift) (rule remove_keeps)

lemma revoke_grants_keeps [keeps_intros]: "keeps wf (revoke_grants E ow w)"
  unfolding revoke_grants_def
  by (intro keeps_intros keeps_reads_only [OF fetch_grant_ro]
      keeps_reads_only [OF reads_only_via_provider [OF message_query_ro]])

theorem write_handle_keeps: "keeps wf (write_handle E ow w)"
  unfolding write_handle_def
  by (intro keeps_intros keeps_reads_only [OF write_authorize_ro] keeps_reads_only [OF verify_integrity_ro]
      keeps_reads_only [OF initial_write_ro(2)])

lemma delete_one_keeps [keeps_intros]: "keeps wf (delete_one E ow latest e)"
  unfolding delete_one_def
  by (intro keeps_if keeps_sbind_lift keeps_sbind [OF only_data_keeps [OF delete_data_data]] archive_keeps keeps_pure)
    (rule remove_keeps)

lemma delete_children_keeps [keeps_intros]: "keeps wf (delete_children E n ow rid)"
  using keeps_reads_only [OF delete_children_ro] by (cases n) (simp_all add: keeps_pure del: delete_children.simps(2))

text \<open>The lookup of a record's messages finds writes of this record only.\<close>

lemma existing_within:
  assumes "stored s ow MESSAGE_PARTITION msgs" and "message_query E ow (existing_query rid) s = (Inr (es, cur), t)" and "e \<in> set es"
  shows "\<exists>c m. msgs c = Some m \<and> e = ser_entry m \<and> has_field (e_indexes m) ''interface'' ''Records'' \<and>
    has_field (e_indexes m) ''recordId'' rid"
proof -
  obtain c m where m: "msgs c = Some m" "e = ser_entry m"
    and "accepts E (q_match_sets (existing_query rid)) (item_of c (e_indexes m))"
    using message_query_within [OF assms(1) pure_reads_axioms _ assms(2,3)] by (auto simp: existing_query_sets)
  then have "has_field (e_indexes m) ''interface'' ''Records'' \<and> has_field (e_indexes m) ''recordId'' rid"
    by (auto simp: existing_query_sets accepts_def match_all_True has_field_def matcher_is_match_def simp del: match_all.simps)
  with m show ?thesis by blast
qed

lemma typed_record_id:
  assumes "typed_entry E e" and "has_field (e_indexes e) ''recordId'' rid" and "as_write e = Some w"
  shows "w_record_id w = rid"
  using assms by (auto simp: typed_entry_def as_write_def has_field_def write_entry_def write_entry_fields write_indexes_fields
      split: entry_type.splits)

lemma existing_query_keeps:
  assumes "\<And>es cur. (\<forall>e\<in>set es. \<forall>w. as_write e = Some w \<longrightarrow> w_record_id w = rid) \<Longrightarrow> keeps wf (k es cur)"
  shows "keeps wf (sbind (MessageStore_query E ow (existing_query rid)) (\<lambda>(es, cur). k es cur))"
proof (rule keepsI)
  fix s assume s: "wf s"
  obtain r where r: "message_query E ow (existing_query rid) s = (r, s)"
    using reads_only_state [OF message_query_ro] by (metis prod.collapse)
  show "wf (snd (sbind (MessageStore_query E ow (existing_query rid)) (\<lambda>(es, cur). k es cur) s))"
  proof (cases r)
    case (Inr p)
    obtain es cur where p: "p = (es, cur)" by (cases p)
    obtain msgs evs where o: "owner_state E cell view s ow msgs evs" by (rule wf_stores [OF s])
    then have st: "stored s ow MESSAGE_PARTITION msgs" by (simp add: owner_state_def)
    have "w_record_id w = rid" if e: "e \<in> set es" "as_write e = Some w" for e w
    proof -
      obtain c m where m: "msgs c = Some m" "e = ser_entry m" "has_field (e_indexes m) ''recordId'' rid"
        using existing_within [OF st r [unfolded Inr p] e(1)] by blast
      then obtain v where v: "as_write m = Some v" "w = ser_write v"
        using e(2) by (cases "e_message m") (auto simp: as_write_def ser_entry_def)
      have "typed_entry E m" using o m(1) by (simp add: owner_state_def)
      from typed_record_id [OF this m(3) v(1)] v(2) show ?thesis by simp
    qed
    then have "keeps wf (k es cur)" using assms by blast
    with s r Inr p show ?thesis by (auto simp: sbind_def via_provider_def dest: keepsD)
  qed (use s r in \<open>simp add: sbind_def via_provider_def\<close>)
qed

lemma delete_task_keeps [keeps_intros]: "keeps wf (delete_task E ow d)"
proof -
  have rid: "w_record_id w = rid"
    if "es \<noteq> []" "write_try_from (hd es) = Inr w" "\<forall>e\<in>set es. \<forall>w. as_write e = Some w \<longrightarrow> w_record_id w = rid" for es rid w
    using that hd_in_set [OF that(1)] by (auto simp: write_try_from_def monad_simps simp del: hd_in_set)
  show ?thesis
    unfolding delete_task_def delete_earlier_def Let_def delete_entry_def [symmetric]
    by (intro existing_query_keeps keeps_sbind_lift put_log_keeps typed_entries rid keeps_intros) assumption+
qed

lemma tasks_run_keeps [keeps_intros]: "keeps wf (tasks_run E ow task)"
proof -
  have "keeps wf (task_run E ow task)" by (cases task) (simp add: delete_task_keeps)
  then have run: "keeps wf (\<lambda>s. case task_run E ow task s of (Inl (Err e), t) \<Rightarrow> (Inr (), t) | r \<Rightarrow> r)"
    by (auto simp: keeps_def split: prod.splits sum.splits failure.splits)
  have "keeps wf (task_deadline E)" by (simp add: keeps_def task_deadline_def Let_def)
  with run show ?thesis unfolding tasks_run_def task_register_def by (intro keeps_intros)
qed

theorem delete_handle_keeps: "keeps wf (delete_handle E ow d)"
  unfolding delete_handle_def
  by (intro keeps_intros keeps_reads_only [OF reads_only_via_provider [OF message_query_ro]]
      keeps_reads_only [OF delete_authorize_ro])

lemma entry_of_configure: "configure_cid E c = Inr cid \<Longrightarrow> entry_cid E (entry_from_configure E c) = Inr cid"
  by (rule configure_entry_facts(1))

lemma remove_configure_keeps [keeps_intros]: "keeps wf (remove_configure E ow c)"
  unfolding remove_configure_def by (intro keeps_sbind_lift) (blast intro: remove_keeps entry_of_configure)

theorem configure_handle_keeps: "keeps wf (configure_handle E ow c)"
  unfolding configure_handle_def replace_existing_def save_configure_def Let_def
  by (intro keeps_intros typed_entries keeps_reads_only [OF configure_authorize_ro] keeps_reads_only [OF fetch_config_ro])

text \<open>Every message, at the entry point.\<close>

theorem handle_keeps: "keeps wf (handle E ow m)"
proof -
  have "keeps wf (message_handle E ow m)"
  proof (cases "changes m")
    case True
    then show ?thesis
      using write_handle_keeps delete_handle_keeps configure_handle_keeps by (cases m) (simp_all add: keeps_smap)
  qed (rule keeps_reads_only [OF message_handle_ro])
  then show ?thesis
    unfolding handle_def endpoint_handle_def by (auto intro!: keeps_intros split: sum.splits)
qed

end

end
