(* ===== verification/Reachable.thy ===== *)
theory Reachable
  imports Invariant
begin

text \<open>
  The states a node can be in. A step handles one message of one owner at the entry point (\<open>endpoint::handle\<close> of
  \<open>src/src/endpoint.rs\<close>), whatever it replies, or lets time pass and events be delivered, which leaves the store
  alone. What holds of every state that is reachable from an empty store is shown by rule induction from the
  invariant.
\<close>

inductive node_step :: "('s, 'b) env \<Rightarrow> ('s \<Rightarrow> 'k \<Rightarrow> 'b option) \<Rightarrow> 's \<Rightarrow> 's \<Rightarrow> bool" for E view where
  message: "handle E ow m s = (r, t) \<Longrightarrow> node_step E view s t"
| elapse: "view t = view s \<Longrightarrow> node_step E view s t"

inductive_cases node_stepE: "node_step E view s t"

inductive reachable :: "('s, 'b) env \<Rightarrow> ('s \<Rightarrow> 'k \<Rightarrow> 'b option) \<Rightarrow> 's \<Rightarrow> bool" for E view where
  empty: "(\<And>k. view s k = None) \<Longrightarrow> reachable E view s"
| step: "reachable E view s \<Longrightarrow> node_step E view s t \<Longrightarrow> reachable E view t"

text \<open>The record an entry belongs to.\<close>

definition entry_record :: "entry \<Rightarrow> string option" where
  "entry_record e =
     (case e_message e of
        E_Write w \<Rightarrow> Some (w_record_id w)
      | E_Delete d \<Rightarrow> Some (del_record_id (del_descriptor d))
      | E_Configure c \<Rightarrow> None)"

lemma entry_record_ser [simp]: "entry_record (ser_entry e) = entry_record e"
  by (cases "e_message e") (simp_all add: entry_record_def ser_entry_def ser_delete_def ser_delete_descriptor_def)

text \<open>The index fields of a typed entry say what record it belongs to and when it was made.\<close>

lemma add_index_keep: "map_of (e_indexes e) k = Some v \<Longrightarrow> map_of (e_indexes (add_index k' v' e)) k = Some v"
  by (auto simp: add_index_def)

lemma add_indexes_keep: "map_of (e_indexes e) k = Some v \<Longrightarrow> map_of (e_indexes (add_indexes kvs e)) k = Some v"
  by (induction kvs e rule: add_indexes.induct) (simp_all add: add_index_keep)

lemma delete_entry_fields:
  "map_of (e_indexes (delete_entry E w d)) ''recordId'' = Some (del_record_id (del_descriptor d))"
  "map_of (e_indexes (delete_entry E w d)) ''messageTimestamp'' = Some (fmt_micros E (base_timestamp (del_base (del_descriptor d))))"
  unfolding delete_entry_def by (intro add_indexes_keep; simp add: entry_from_delete_def delete_indexes_def Let_def)+

lemma typed_entry_cases:
  assumes "typed_entry E e"
  obtains code w where "e = write_entry E code w" "e_message e = E_Write w"
  | w d where "e = delete_entry E w d" "e_message e = E_Delete d" "w_record_id w = del_record_id (del_descriptor d)"
  | c where "e = entry_from_configure E c" "e_message e = E_Configure c"
  using assms by (cases "e_message e") (auto simp: typed_entry_def)

lemma typed_timestamp: "typed_entry E e \<Longrightarrow> map_of (e_indexes e) ''messageTimestamp'' \<noteq> None"
  by (erule typed_entry_cases)
    (auto simp: write_entry_def write_entry_fields write_indexes_fields delete_entry_fields entry_from_configure_def
      configure_indexes_def Let_def)

lemma typed_record: "typed_entry E e \<Longrightarrow> has_field (e_indexes e) ''recordId'' rid \<Longrightarrow> entry_record e = Some rid"
  by (erule typed_entry_cases)
    (auto simp: write_entry_def write_entry_fields write_indexes_fields delete_entry_fields entry_from_configure_def
      configure_indexes_def Let_def has_field_def entry_record_def)

context open_node
begin

lemma empty_wf:
  assumes "\<And>k. view s k = None"
  shows "wf s"
proof -
  have "stored s ow pa Map.empty" for ow pa
    using indexed_empty [of s ow pa] assms by (simp add: stores_def block_holds_def comp_def)
  then have "owner_state E cell view s ow Map.empty Map.empty" for ow by (simp add: owner_state_def)
  then show ?thesis unfolding wf_node_def by blast
qed

lemma wf_view: "wf s \<Longrightarrow> view t = view s \<Longrightarrow> wf t"
  using owner_state_only [of s _ _ _ _ DATA_PARTITION t] unfolding wf_node_def changes_only_def by metis

lemma step_wf: "node_step E view s t \<Longrightarrow> wf s \<Longrightarrow> wf t"
  using keepsD [OF handle_keeps] wf_view by (elim node_stepE) (metis snd_conv)+

lemma reachable_wf: "reachable E view s \<Longrightarrow> wf s"
  by (induction rule: reachable.induct) (auto intro: empty_wf step_wf)

lemma wf_lookup:
  assumes "wf s" and rid: "rid \<noteq> []"
  shows "\<exists>es. existing_entries E ow rid s = (Inr es, s) \<and>
    (\<forall>e\<in>set es. entry_record e = Some rid \<and> (\<exists>c. entry_cid E e = Inr c \<and> message_get E ow c s = (Inr (Some e), s)))"
proof -
  obtain msgs evs where o: "owner_state E cell view s ow msgs evs" by (rule wf_stores [OF assms(1)])
  then have st: "stored s ow MESSAGE_PARTITION msgs" and ty: "\<And>c e. msgs c = Some e \<Longrightarrow> typed_entry E e"
    by (simp_all add: owner_state_def)
  have "\<exists>es. message_query E ow (existing_query rid) s = (Inr (es, None), s)"
    using rid typed_timestamp [OF ty]
    by (intro message_query_total [OF st]) (auto simp: existing_query_sets query_is_concise_def total_matcher_def)
  then obtain es where es: "message_query E ow (existing_query rid) s = (Inr (es, None), s)" by blast
  have "entry_record e = Some rid \<and> (\<exists>c. entry_cid E e = Inr c \<and> message_get E ow c s = (Inr (Some e), s))"
    if e: "e \<in> set es" for e
  proof -
    obtain c m where m: "msgs c = Some m" "e = ser_entry m" "has_field (e_indexes m) ''recordId'' rid"
      using existing_within [OF st es e] by blast
    have c: "entry_cid E m = Inr c" using st m(1) by (simp add: stores_def)
    then show ?thesis
      using typed_record [OF ty [OF m(1)] m(3)] message_get_stored [OF st c] m by simp
  qed
  with es show ?thesis by (auto simp: existing_entries_def sbind_run via_provider_run sret_def)
qed

text \<open>What a read by record id finds is in the event log.\<close>

lemma wf_read_logged:
  assumes "wf s" and r: "read_by_id r rid" and run: "message_query E ow (query_from_read r) s = (Inr (es, cur), t)"
    and e: "e \<in> set es"
  shows "\<exists>c x. entry_cid E e = Inr c \<and> load_entry E ow EVENTLOG_PARTITION (item_of c fs) s = (Inr x, s) \<and> entry_cid E x = Inr c"
proof -
  obtain msgs evs where o: "owner_state E cell view s ow msgs evs" by (rule wf_stores [OF assms(1)])
  then have st: "stored s ow MESSAGE_PARTITION msgs" "stored s ow EVENTLOG_PARTITION evs" by (simp_all add: owner_state_def)
  obtain c m where m: "msgs c = Some m" "e = ser_entry m"
    and acc: "accepts E (q_match_sets (query_from_read r)) (item_of c (e_indexes m))"
    using message_query_within [OF st(1) pure_reads_axioms _ run e] by (auto simp: read_query_sets [OF r])
  have "has_field (e_indexes m) ''initial'' ''false''"
    using acc by (auto simp: read_query_sets [OF r] accepts_def match_all_True has_field_def matcher_is_match_def
        simp del: match_all.simps)
  then have "\<not> archived_entry m" by (simp add: archived_entry_def has_field_def)
  then obtain v where v: "evs c = Some v" using o m(1) by (auto simp: owner_state_def)
  have "entry_cid E m = Inr c" "entry_cid E v = Inr c" using st m(1) v by (simp_all add: stores_def)
  moreover have "load_entry E ow EVENTLOG_PARTITION (item_of c fs) s = (Inr (ser_entry v), s)"
    using load_stored [OF st(2), of "item_of c fs" v] v by simp
  ultimately show ?thesis using m(2) by simp
qed

end

section \<open>Every message keeps the store well-formed\<close>


lemma demo_empty_wf: "wf_node demo_env demo_cell dm_blocks demo_empty"
  by (rule demo_open.empty_wf) (simp add: demo_empty_def)



lemma demo_reachable: "reachable demo_env dm_blocks (snd (handle demo_env ow m demo_empty))"
proof -
  have "reachable demo_env dm_blocks demo_empty" by (rule reachable.empty) (simp add: demo_empty_def)
  then show ?thesis by (rule reachable.step) (metis node_step.message prod.collapse)
qed



lemma hello_write_facts:
  "w_record_id hello_write \<noteq> []" "w_data_stream hello_write = Some hello"
  "wd_data_size (w_descriptor hello_write) \<le> MAX_ENCODED_SIZE" "\<not> is_revocation hello_write" "timestamped 20 Map.empty"
  by (simp_all add: hello_defs hello_id_def id_by_nonempty MAX_ENCODED_SIZE_def is_revocation_def timestamped_def)

lemma hello_accepted: "\<exists>t. write_handle demo_env alice hello_write demo_empty = (Inr (reply_with 202 None), t)"
  by (rule demo_open.write_handle_total [OF empty_stored empty_stored hello_write_facts(5,1) _ hello_write_facts(2,3) hello_initial
        hello_write_cid hello_write_facts(4)])
    (simp_all add: hello_checks hello_update hello_saved_def)

lemma hello_handled:
  "\<exists>u. handle demo_env alice (Msg_Write hello_write) demo_empty = (Inr (Rep_Write (reply_with 202 None)), u) \<and>
    demo.stored u alice MESSAGE_PARTITION [hello_cid \<mapsto> hello_entry]"
proof -
  note w = hello_write_facts
  have saved: "hello_write\<lparr>w_encoded_data := Some (b64_encode demo_env hello)\<rparr> = hello_saved" by (simp add: hello_saved_def)
  obtain u where u: "write_handle demo_env alice hello_write demo_empty = (Inr (reply_with 202 None), u)" using hello_accepted by blast
  from demo_node.write_handle_initial [OF empty_stored empty_stored w(5,1) _ w(2,3) hello_initial hello_write_cid w(4) u] saved
  have "demo.stored u alice MESSAGE_PARTITION [hello_cid \<mapsto> hello_entry]" by (simp add: hello_entry_def)
  moreover have "validate demo_env (message_authorization (Msg_Write hello_write)) = Inr ()"
    by (simp add: validate_def auth_verify_def hello_defs alice_def)
  ultimately show ?thesis using u by (auto simp: handle_accepts)
qed


end
