(* ===== verification/Deleted.thy ===== *)
theory Deleted
  imports Reachable
begin

text \<open>
  A record after its delete: the delete (\<open>src/src/records/delete.rs\<close>) and the read (\<open>src/src/records/read.rs\<close>) put
  together. A read by record id of a deleted record is answered with 404, the delete message and the initial write. A
  delete that carries the very timestamp of the record's only version is accepted but leaves that version live, after
  which the record cannot be read at all.
\<close>

section \<open>The reads\<close>

text \<open>The initial writes among the messages of a record.\<close>

definition initial_cids :: "('s, 'b) env \<Rightarrow> (string \<rightharpoonup> entry) \<Rightarrow> string \<Rightarrow> string set" where
  "initial_cids E msgs rid =
     {c \<in> record_cids msgs rid. \<exists>w. map_option e_message (msgs c) = Some (E_Write w) \<and> is_initial E w = Inr True}"

lemma delete_entry_live:
  "has_field (e_indexes (delete_entry E w d)) ''initial'' ''false''"
  "has_field (e_indexes (delete_entry E w d)) ''interface'' ''Records''"
  "has_field (e_indexes (delete_entry E w d)) ''recordId'' (del_record_id (del_descriptor d))"
  unfolding delete_entry_def has_field_def
  by (intro add_indexes_keep; simp add: entry_from_delete_def delete_indexes_def Let_def)+

lemma archived_fields:
  "has_field (e_indexes (write_entry E a (ser_write w))) ''interface'' v = has_field (e_indexes (write_entry E b w)) ''interface'' v"
  "has_field (e_indexes (write_entry E a (ser_write w))) ''recordId'' v = has_field (e_indexes (write_entry E b w)) ''recordId'' v"
  by (simp_all add: has_field_def write_entry_def write_entry_fields write_indexes_fields)
    (simp add: ser_write_def ser_write_descriptor_def ser_base_def)

context node
begin

lemma read_query_stored:
  assumes "stored t ow MESSAGE_PARTITION msgs" and "timestamped n msgs" and "rid \<noteq> []" and "read_by_id r rid"
  shows "\<exists>cs. MessageStore_query E ow (query_from_read r) t = (Inr (map (\<lambda>c. ser_entry (the (msgs c))) cs, None), t) \<and>
    distinct cs \<and> set cs = {c \<in> record_cids msgs rid. has_field (e_indexes (the (msgs c))) ''initial'' ''false''}"
proof -
  from query_by_field [OF assms(1,2) read_query_sets(1) [OF assms(4)], of "''recordId''" rid] assms(3) read_query_sets [OF assms(4)]
  obtain cs where "message_query E ow (query_from_read r) t = (Inr (map (\<lambda>c. ser_entry (the (msgs c))) cs, None), t)"
    and "distinct cs" "set cs = selected E (query_from_read r) msgs"
    by (auto simp: total_matcher_def)
  moreover have "selected E (query_from_read r) msgs =
      {c \<in> record_cids msgs rid. has_field (e_indexes (the (msgs c))) ''initial'' ''false''}"
    by (auto simp: selected_def selects_read [OF assms(4)] record_cids_def)
  ultimately show ?thesis by (auto simp: via_provider_run)
qed

text \<open>Two live messages of a record make it unreadable.\<close>

lemma read_multiple:
  assumes "stored t ow MESSAGE_PARTITION msgs" and "timestamped n msgs" and "rid \<noteq> []" and "read_by_id r rid"
    and "a \<noteq> b" and "{a, b} \<subseteq> {c \<in> record_cids msgs rid. has_field (e_indexes (the (msgs c))) ''initial'' ''false''}"
  shows "read_handle E ow r t = (Inl (Err (BadRequest ''multiple messages exist'')), t)"
proof -
  from read_query_stored [OF assms(1-4)] obtain cs
    where q: "MessageStore_query E ow (query_from_read r) t = (Inr (map (\<lambda>c. ser_entry (the (msgs c))) cs, None), t)"
      and "set cs = {c \<in> record_cids msgs rid. has_field (e_indexes (the (msgs c))) ''initial'' ''false''}" by blast
  with assms(6) have "a \<in> set cs" "b \<in> set cs" by auto
  with assms(5) obtain x y zs where "cs = x # y # zs" by (cases cs; cases "tl cs") auto
  with q show ?thesis by (simp add: read_handle_def sbind_run sfail_def)
qed

text \<open>A record of which the store holds the archived initial write and a later delete.\<close>

lemma read_deleted_stored:
  assumes st: "stored t ow MESSAGE_PARTITION msgs" and ts: "timestamped n msgs" and rid: "rid \<noteq> []" and r: "read_by_id r rid"
    and R: "record_cids msgs rid = {c0, c}" "c0 \<noteq> c" and d: "del_record_id (del_descriptor d) = rid"
    and m: "msgs c0 = Some (write_entry E 204 (ser_write i))" "msgs c = Some (delete_entry E w d)" and i: "is_initial E i = Inr True"
    and before: "fmt_micros E (base_timestamp (wd_base (w_descriptor (ser_write i)))) < fmt_micros E (base_timestamp (del_base (del_descriptor d)))"
    and base: "base_method (del_base (del_descriptor d)) = M_Delete"
    and auth: "read_authorize E ow (ser_write i) r t = (Inr (), t)"
  shows "read_handle E ow r t = (Inr (reply_with 404 (Some \<lparr>rr_records_write = None, rr_records_delete = Some (ser_delete d),
    rr_initial_write = Some (ser_write i), rr_data = None\<rparr>)), t)"
proof -
  from read_query_stored [OF st ts rid r] obtain cs
    where q: "MessageStore_query E ow (query_from_read r) t = (Inr (map (\<lambda>c. ser_entry (the (msgs c))) cs, None), t)"
      and cs: "distinct cs" "set cs = {c \<in> record_cids msgs rid. has_field (e_indexes (the (msgs c))) ''initial'' ''false''}" by blast
  have "\<not> has_field (e_indexes (write_entry E 204 (ser_write i))) ''initial'' ''false''"
    by (simp add: has_field_def write_entry_def write_entry_fields bool_str_def)
  then have "set cs = {c}" using cs(2) R m delete_entry_live(1) by auto
  with cs(1) have "cs = [c]" by (intro distinct_single) auto
  with q m(2) have q: "MessageStore_query E ow (query_from_read r) t = (Inr ([ser_entry (delete_entry E w d)], None), t)" by simp
  from existing_stored [OF st ts rid] obtain es
    where ex: "existing_entries E ow rid t = (Inr (map (\<lambda>c. ser_entry (the (msgs c))) es), t)" and es: "distinct es"
      "set es = {c0, c}" "in_order (existing_query rid) msgs es"
    using R by (auto simp: record_cids_def selected_def selects_existing)
  have t: "map_of (e_indexes (write_entry E 204 (ser_write i))) ''messageTimestamp'' =
      Some (fmt_micros E (base_timestamp (wd_base (w_descriptor (ser_write i)))))"
    by (simp add: write_entry_def write_entry_fields write_indexes_fields)
  have "length (fmt_micros E (base_timestamp (wd_base (w_descriptor (ser_write i))))) = n"
    "length (fmt_micros E (base_timestamp (del_base (del_descriptor d)))) = n"
    using ts m t delete_entry_fields(2) [of E w d] unfolding timestamped_def by (metis option.inject)+
  then have "sort_of ''messageTimestamp'' (item_of c0 (e_indexes (the (msgs c0)))) < sort_of ''messageTimestamp'' (item_of c (e_indexes (the (msgs c))))"
    using m t delete_entry_fields(2) [of E w d] before by (simp add: sort_of_def less_append_width)
  then have "es = [c0, c]"
    using distinct_pair [OF es(1,2) R(2)] es(3) by (auto simp: in_order_def existing_query_sets sort_is_ascending_def)
  with ex m(1) i have "initial_write E ow rid t = (Inr (Some (ser_write i)), t)"
    by (simp add: initial_write_def sbind_run write_try_from_def as_write_def ser_entry_def write_entry_def write_entry_fields
        monad_simps lift_def rguard_def)
  moreover have "as_delete (ser_entry (delete_entry E w d)) = Some (ser_delete d)"
    "base_method (entry_descriptor (ser_entry (delete_entry E w d))) = M_Delete" "del_record_id (del_descriptor (ser_delete d)) = rid"
    using base d by (simp_all add: ser_entry_def delete_entry_def entry_from_delete_def as_delete_def entry_descriptor_def ser_delete_def
        ser_delete_descriptor_def ser_base_def)
  ultimately show ?thesis
    using q auth by (simp add: read_handle_def read_deleted_def sbind_def lift_def try_io_def some_or_def sret_def)
qed

end

section \<open>The handler\<close>

context pure_reads
begin

lemma delete_handle_task:
  assumes "delete_handle E ow d s = (Inr rep, t)" and "fst (delete_task E ow d s) = Inr ()"
  shows "rep = reply_with 202 None \<and> delete_task E ow d s = (Inr (), t)"
proof -
  note ro = reads_only_state [OF reads_only_via_provider [OF message_query_ro]] reads_only_state [OF delete_authorize_ro]
  from assms(1) obtain es cur where "MessageStore_query E ow (delete_query (del_record_id (del_descriptor d))) s = (Inr (es, cur), s)"
    by (auto simp: delete_handle_def sbind_Inr_iff dest: ro)
  with assms(1) have "tasks_run E ow (RecordsDelete d) s = (Inr (), t) \<and> rep = reply_with 202 None"
    by (cases es) (auto simp: delete_handle_def sbind_run sbind_Inr_iff sfail_def sret_def lift_eq_iff dest!: ro)
  moreover from this have "delete_task E ow d s = (Inr (), t)"
    using assms(2)
    by (auto simp: tasks_run_def sbind_Inr_iff task_deadline_def lift_eq_iff via_provider_Inr_iff task_register_def sret_def Let_def
        split: if_splits prod.splits)
  ultimately show ?thesis by simp
qed

end

context node
begin

lemma delete_read:
  assumes st: "records s ow msgs" and ts: "timestamped n msgs" and rid: "rid \<noteq> []" "del_record_id (del_descriptor d) = rid"
    and new: "delete_cid E d = Inr c" "msgs c = None" and fuel: "0 < walk_fuel E"
    and earlier: "\<forall>c e. c \<in> record_cids msgs rid \<longrightarrow> msgs c = Some e \<longrightarrow>
      rfc3339_micros (base_timestamp (entry_descriptor e)) < base_timestamp (del_base (del_descriptor d))"
    and init: "initial_cids E msgs rid = {c0}" "msgs c0 = Some (write_entry E code i)"
    and before: "fmt_micros E (base_timestamp (wd_base (w_descriptor (ser_write i)))) < fmt_micros E (base_timestamp (del_base (del_descriptor d)))"
    and width: "length (fmt_micros E (base_timestamp (wd_base (w_descriptor (ser_write i))))) = n"
      "length (fmt_micros E (base_timestamp (del_base (del_descriptor d)))) = n"
    and base: "base_method (del_base (del_descriptor d)) = M_Delete"
    and run: "delete_task E ow d s = (Inr (), t)" and r: "read_by_id r rid" "read_authorize E ow (ser_write i) r t = (Inr (), t)"
  shows "read_handle E ow r t = (Inr (reply_with 404 (Some \<lparr>rr_records_write = None, rr_records_delete = Some (ser_delete d),
    rr_initial_write = Some (ser_write i), rr_data = None\<rparr>)), t)"
proof -
  let ?R = "record_cids msgs rid"
  let ?m = "(msgs |` (- ?R))(c0 \<mapsto> write_entry E 204 (ser_write i), c \<mapsto> delete_entry E (ser_write i) d)"
  have i: "e_message (write_entry E code i) = E_Write i" by (simp add: write_entry_def write_entry_fields)
  have "c0 \<in> initial_cids E msgs rid" using init(1) by simp
  then have c0: "c0 \<in> ?R" "is_initial E i = Inr True" using init(2) i by (simp_all add: initial_cids_def)
  have only: "x = c0" if "x \<in> ?R" "msgs x = Some e" "e_message e = E_Write v" "is_initial E v = Inr True" for x e v
  proof -
    have "x \<in> initial_cids E msgs rid" using that by (simp add: initial_cids_def)
    then show ?thesis using init(1) by simp
  qed
  from delete_task_records [OF st ts _ new fuel _ run, unfolded rid(2), OF rid(1) earlier] obtain c1 e1 i1
    where 1: "c1 \<in> ?R" "msgs c1 = Some e1" "e_message e1 = E_Write i1" "is_initial E i1 = Inr True"
      and t: "records t ow ((\<lambda>c. if c \<in> ?R then archived E (the (msgs c)) else msgs c)(c \<mapsto> delete_entry E (ser_write i1) d))"
    by blast
  from only [OF 1] 1 init(2) i have eq: "c1 = c0" "i1 = i" by auto
  have "archived E (the (msgs x)) = (if x = c0 then Some (write_entry E 204 (ser_write i)) else None)" if x: "x \<in> ?R" for x
  proof (cases "x = c0")
    case True
    with init(2) i c0(2) show ?thesis by (simp add: archived_def)
  next
    case False
    obtain e where e: "msgs x = Some e" using x by (auto simp: record_cids_def)
    with only [OF x] False show ?thesis by (cases "e_message e") (auto simp: archived_def)
  qed
  moreover have "c \<notin> ?R" using new(2) by (simp add: record_cids_def)
  ultimately have "(\<lambda>c. if c \<in> ?R then archived E (the (msgs c)) else msgs c)(c \<mapsto> delete_entry E (ser_write i) d) = ?m"
    using c0(1) by (auto simp: restrict_map_def fun_eq_iff)
  with t eq have m: "stored t ow MESSAGE_PARTITION ?m" by (simp add: records_def)
  have ne: "c0 \<noteq> c" using c0(1) \<open>c \<notin> ?R\<close> by auto
  have R: "record_cids ?m rid = {c0, c}"
    using ne c0(1) init(2) rid(2) delete_entry_live [of E "ser_write i" d]
    by (auto simp: record_cids_def restrict_map_def archived_fields [of E 204 i _ code] split: if_splits)
  have "timestamped n ?m"
    using ts width by (auto simp: timestamped_def restrict_map_def delete_entry_fields write_entry_def write_entry_fields write_indexes_fields)
  from read_deleted_stored [OF m this rid(1) r(1) R ne rid(2) _ _ c0(2) before base r(2)] ne show ?thesis by simp
qed

text \<open>A delete dated as the record's only version, an initial write that is live.\<close>

lemma delete_same_instant_records:
  assumes st: "records s ow msgs" and ts: "timestamped n msgs" and rid: "rid \<noteq> []" "del_record_id (del_descriptor d) = rid"
    and new: "delete_cid E d = Inr c" and fuel: "0 < walk_fuel E"
    and R: "record_cids msgs rid = {c0}" "msgs c0 = Some e0"
    and same: "base_timestamp (del_base (del_descriptor d)) = rfc3339_micros (base_timestamp (entry_descriptor e0))"
    and run: "delete_task E ow d s = (Inr (), t)"
  shows "\<exists>i. e_message e0 = E_Write i \<and> records t ow (msgs(c \<mapsto> delete_entry E (ser_write i) d))"
proof -
  from delete_task_steps [OF st ts _ new fuel run, unfolded rid(2) R(1), OF rid(1)] obtain cs i x
    where cs: "distinct cs" "set cs = {c0}" and i: "e_message (the (msgs (hd cs))) = E_Write i"
      and x: "records x ow (msgs(c \<mapsto> delete_entry E (ser_write i) d))"
      and de: "delete_earlier E ow (entry_from_delete E d) (map (\<lambda>c. ser_entry (the (msgs c))) cs) x = (Inr (), t)" by blast
  have "cs = [c0]" using distinct_single [OF cs] .
  with de R(2) same have "t = x"
    by (simp add: delete_earlier_def delete_one_def entry_from_delete_facts ser_entry_timestamp sbind_Inr_iff sret_def)
  with i x R(2) \<open>cs = [c0]\<close> show ?thesis by auto
qed

end

text \<open>
  C5. A deleted record reads as gone: after a delete that is later than the record's versions was accepted and its task
  succeeded, the owner's read of the record by its id is answered with 404, the delete message and the initial write,
  and no data.
\<close>

theorem delete_then_read:
  assumes "node E cell good view" and "stores E cell view s ow MESSAGE_PARTITION msgs"
    and "stores E cell view s ow EVENTLOG_PARTITION evs" and "timestamped n msgs"
    and "rid \<noteq> []" and "del_record_id (del_descriptor d) = rid" and "delete_cid E d = Inr c" and "msgs c = None" and "0 < walk_fuel E"
    and "\<forall>c e. c \<in> record_cids msgs rid \<longrightarrow> msgs c = Some e \<longrightarrow>
      rfc3339_micros (base_timestamp (entry_descriptor e)) < base_timestamp (del_base (del_descriptor d))"
    and "initial_cids E msgs rid = {c0}" and "msgs c0 = Some (write_entry E code i)"
    and "fmt_micros E (base_timestamp (wd_base (w_descriptor (ser_write i)))) < fmt_micros E (base_timestamp (del_base (del_descriptor d)))"
    and "length (fmt_micros E (base_timestamp (wd_base (w_descriptor (ser_write i))))) = n"
    and "length (fmt_micros E (base_timestamp (del_base (del_descriptor d)))) = n"
    and "base_method (del_base (del_descriptor d)) = M_Delete"
    and "delete_handle E ow d s = (Inr rep, t)" and "fst (delete_task E ow d s) = Inr ()"
    and "read_by_id r rid" and "rd_authorization r = Some a" and "auth_author E a = Inr ow"
  shows "rep = reply_with 202 None \<and>
    read_handle E ow r t = (Inr (reply_with 404 (Some \<lparr>rr_records_write = None, rr_records_delete = Some (ser_delete d),
      rr_initial_write = Some (ser_write i), rr_data = None\<rparr>)), t)"
proof
  note task = pure_reads.delete_handle_task [OF node.axioms(2) [OF assms(1)] assms(17,18)]
  from task show "rep = reply_with 202 None" by blast
  have "node.records E cell view s ow msgs" using assms(2,3) node.records_def [OF assms(1)] by blast
  moreover have "read_authorize E ow (ser_write i) r t = (Inr (), t)"
    using node.read_authorize_owner [OF assms(1)] assms(20,21) by blast
  ultimately show "read_handle E ow r t = (Inr (reply_with 404 (Some \<lparr>rr_records_write = None, rr_records_delete = Some (ser_delete d),
      rr_initial_write = Some (ser_write i), rr_data = None\<rparr>)), t)"
    using node.delete_read [OF assms(1) _ assms(4-16) conjunct2 [OF task] assms(19)] by blast
qed

text \<open>The example record, written at 5 microseconds, is deleted by its owner.\<close>

lemma hello_deletable:
  assumes st: "demo.stored s alice MESSAGE_PARTITION [hello_cid \<mapsto> hello_entry]" "demo.stored s alice EVENTLOG_PARTITION Map.empty"
    "existing_entries demo_env alice hello_id s = (Inr [ser_entry hello_entry], s)"
    and d: "del_record_id (del_descriptor d) = hello_id" "del_authorization d = del_authorization hello_delete"
      "\<not> del_prune (del_descriptor d)" "5000 \<le> base_timestamp (del_base (del_descriptor d))"
  shows "\<exists>rep t. delete_handle demo_env alice d s = (Inr rep, t)" and "fst (delete_task demo_env alice d s) = Inr ()"
proof -
  have r: "demo_node.records s alice [hello_cid \<mapsto> hello_entry]" using st unfolding demo_node.records_def by blast
  have cid: "delete_cid demo_env d = Inr (demo_cid (P_Delete (ser_delete d)))" by (simp add: delete_cid_def from_value_def)
  have init: "is_initial demo_env hello_saved = Inr True" by (simp add: hello_saved_def hello_initial)
  have time: "base_timestamp (entry_descriptor (ser_entry hello_entry)) = 5000"
    by (simp add: ser_entry_timestamp hello_entry_time rfc3339_micros_def timestamp_micros_def)
  from demo_open.delete_task_total [OF r _ hello_entry_facts(1) hello_entry_write init cid _ d(3) demo_roots] st(3) d(1,4) time
  obtain u where task: "delete_task demo_env alice d s = (Inr (), u)" by auto
  then show "fst (delete_task demo_env alice d s) = Inr ()" by simp
  let ?q = "delete_query hello_id" and ?m = "[hello_cid \<mapsto> hello_entry]"
  from index_store.query_by_field [OF demo.index_store_axioms st(1) hello_entry_facts(5) delete_query_sets(1) [of hello_id], of "''recordId''" hello_id]
    delete_query_sets [of hello_id] hello_id_nonempty
  obtain cs where run: "message_query demo_env alice ?q s = (Inr (map (\<lambda>c. ser_entry (the (?m c))) cs, None), s)"
    and cs: "distinct cs" "set cs = selected demo_env ?q ?m"
    by (auto simp: total_matcher_def)
  have "has_field (e_indexes hello_entry) ''initial'' ''false''"
    by (simp add: hello_entry_def has_field_def write_entry_def write_entry_fields bool_str_def)
  then have "selected demo_env ?q ?m = {hello_cid}" using hello_entry_facts by (auto simp: selected_def selects_delete)
  with cs have "cs = [hello_cid]" by (intro distinct_single) auto
  with run have q: "MessageStore_query demo_env alice ?q s = (Inr ([ser_entry hello_entry], None), s)" by (simp add: via_provider_run)
  have e: "write_try_from (ser_entry hello_entry) = Inr (ser_write hello_saved)" "base_method (entry_descriptor (ser_entry hello_entry)) = M_Write"
    by (simp_all add: write_try_from_def as_write_def ser_entry_def hello_entry_write entry_descriptor_def ser_write_def
        ser_write_descriptor_def ser_base_def hello_saved_def hello_defs)
  have "delete_authorize demo_env alice (ser_write hello_saved) d s = (Inr (), s)"
    using d(2) by (simp add: delete_authorize_def hello_delete_def auth_author_def sbind_def lift_def sret_def)
  moreover have "tasks_run demo_env alice (RecordsDelete d) s = (Inr (), u)"
    using task cid by (simp add: tasks_run_def task_deadline_def EXTEND_SECS_def sbind_def lift_def via_provider_def task_register_def sret_def Let_def)
  ultimately have "delete_handle demo_env alice d s = (Inr (reply_with 202 None), u)"
    using q e d(1,4) time by (simp add: delete_handle_def sbind_def lift_def check_not_deleted_def rguard_def sret_def timestamp_micros_def)
  then show "\<exists>rep t. delete_handle demo_env alice d s = (Inr rep, t)" by blast
qed

theorem delete_then_read_witness:
  "\<exists>s t. delete_handle demo_env alice hello_delete s = (Inr (reply_with 202 None), t) \<and>
    read_handle demo_env alice hello_read t = (Inr (reply_with 404 (Some \<lparr>rr_records_write = None,
      rr_records_delete = Some (ser_delete hello_delete), rr_initial_write = Some (ser_write hello_saved), rr_data = None\<rparr>)), t)"
proof -
  obtain s where s: "demo.stored s alice MESSAGE_PARTITION [hello_cid \<mapsto> hello_entry]" "demo.stored s alice EVENTLOG_PARTITION Map.empty"
    "existing_entries demo_env alice hello_id s = (Inr [ser_entry hello_entry], s)" using hello_written by blast
  obtain rep t where run: "delete_handle demo_env alice hello_delete s = (Inr rep, t)"
    and task: "fst (delete_task demo_env alice hello_delete s) = Inr ()"
    using hello_deletable [OF s, of hello_delete] hello_delete_facts by auto
  have R: "record_cids [hello_cid \<mapsto> hello_entry] hello_id = {hello_cid}"
    using hello_entry_facts by (auto simp: record_cids_def)
  then have init: "initial_cids demo_env [hello_cid \<mapsto> hello_entry] hello_id = {hello_cid}"
    by (auto simp: initial_cids_def hello_entry_write hello_saved_def hello_initial)
  have width: "demo_micros (base_timestamp (wd_base (w_descriptor (ser_write hello_saved)))) < demo_micros 7000"
    "length (demo_micros (base_timestamp (wd_base (w_descriptor (ser_write hello_saved))))) = 20" "length (demo_micros 7000) = 20"
    by (simp_all add: demo_micros_def ser_write_def ser_write_descriptor_def ser_base_def hello_saved_def hello_defs
        rfc3339_micros_def timestamp_micros_def decimal.simps [of 5] decimal.simps [of 7] Let_def append_less_same less_char_def)
  have rd: "read_by_id hello_read hello_id" "rd_authorization hello_read = Some (del_authorization hello_delete)"
    "auth_author demo_env (del_authorization hello_delete) = Inr alice" "base_method (del_base (del_descriptor hello_delete)) = M_Delete"
    by (simp_all add: hello_read_def hello_delete_def read_by_id_def auth_author_def)
  have "rep = reply_with 202 None \<and> read_handle demo_env alice hello_read t = (Inr (reply_with 404 (Some \<lparr>rr_records_write = None,
      rr_records_delete = Some (ser_delete hello_delete), rr_initial_write = Some (ser_write hello_saved), rr_data = None\<rparr>)), t)"
    by (rule delete_then_read [where code = 202, OF demo_node.node_axioms s(1,2) hello_entry_facts(5) hello_id_nonempty hello_delete_facts(3,1) _ _ _ init
          _ _ _ _ rd(4) run task rd(1-3)])
      (use width R hello_delete_facts(2,5) in \<open>auto simp: hello_entry_time rfc3339_micros_def timestamp_micros_def hello_entry_def [symmetric]\<close>)
  with run show ?thesis by blast
qed

section \<open>A delete at the time of the write\<close>

text \<open>
  The handler accepts a delete that is dated as the stored version, and the task keeps what is not strictly earlier. The
  write then stays live next to the delete, and no read of the record succeeds.
\<close>

theorem delete_same_instant:
  assumes "node E cell good view" and "stores E cell view s ow MESSAGE_PARTITION msgs"
    and "stores E cell view s ow EVENTLOG_PARTITION evs" and "timestamped n msgs"
    and "rid \<noteq> []" and "del_record_id (del_descriptor d) = rid" and "delete_cid E d = Inr c" and "0 < walk_fuel E"
    and "record_cids msgs rid = {c0}" and "msgs c0 = Some (write_entry E 202 i)" and "c \<noteq> c0"
    and "base_timestamp (del_base (del_descriptor d)) = rfc3339_micros (base_timestamp (wd_base (w_descriptor i)))"
    and "length (fmt_micros E (base_timestamp (del_base (del_descriptor d)))) = n"
    and "delete_handle E ow d s = (Inr rep, t)" and "fst (delete_task E ow d s) = Inr ()" and "read_by_id r rid"
  shows "rep = reply_with 202 None \<and> read_handle E ow r t = (Inl (Err (BadRequest ''multiple messages exist'')), t)"
proof
  note task = pure_reads.delete_handle_task [OF node.axioms(2) [OF assms(1)] assms(14,15)]
  from task show "rep = reply_with 202 None" by blast
  have i: "e_message (write_entry E 202 i) = E_Write i" by (simp add: write_entry_def write_entry_fields)
  then have same: "base_timestamp (del_base (del_descriptor d)) = rfc3339_micros (base_timestamp (entry_descriptor (write_entry E 202 i)))"
    using assms(12) by (simp add: entry_descriptor_def)
  let ?m = "msgs(c \<mapsto> delete_entry E (ser_write i) d)"
  have "node.records E cell view s ow msgs" using assms(2,3) node.records_def [OF assms(1)] by blast
  from node.delete_same_instant_records [OF assms(1) this assms(4-10) same conjunct2 [OF task]] i
  have m: "stores E cell view t ow MESSAGE_PARTITION ?m" unfolding node.records_def [OF assms(1)] by auto
  have "timestamped n ?m" using assms(4,13) by (auto simp: timestamped_def delete_entry_fields)
  moreover have "c0 \<in> record_cids msgs rid" using assms(9) by simp
  then have "{c0, c} \<subseteq> {x \<in> record_cids ?m rid. has_field (e_indexes (the (?m x))) ''initial'' ''false''}"
    using assms(6,10,11) delete_entry_live [of E "ser_write i" d]
    by (auto simp: record_cids_def) (simp add: has_field_def write_entry_def write_entry_fields bool_str_def)
  ultimately show "read_handle E ow r t = (Inl (Err (BadRequest ''multiple messages exist'')), t)"
    using node.read_multiple [OF assms(1) m _ assms(5,16) not_sym [OF assms(11)]] by blast
qed

definition prompt_delete :: delete where
  "prompt_delete = hello_delete\<lparr>del_descriptor := (del_descriptor hello_delete)
     \<lparr>del_base := \<lparr>base_interface = I_Records, base_method = M_Delete, base_timestamp = 5000\<rparr>\<rparr>\<rparr>"

theorem delete_same_instant_witness:
  "\<exists>s t. delete_handle demo_env alice prompt_delete s = (Inr (reply_with 202 None), t) \<and>
    read_handle demo_env alice hello_read t = (Inl (Err (BadRequest ''multiple messages exist'')), t)"
proof -
  obtain s where s: "demo.stored s alice MESSAGE_PARTITION [hello_cid \<mapsto> hello_entry]" "demo.stored s alice EVENTLOG_PARTITION Map.empty"
    "existing_entries demo_env alice hello_id s = (Inr [ser_entry hello_entry], s)" using hello_written by blast
  let ?c = "demo_cid (P_Delete (ser_delete prompt_delete))"
  have d: "del_record_id (del_descriptor prompt_delete) = hello_id" "delete_cid demo_env prompt_delete = Inr ?c" "?c \<noteq> hello_cid"
    "base_timestamp (del_base (del_descriptor prompt_delete)) = 5000" "del_authorization prompt_delete = del_authorization hello_delete"
    "\<not> del_prune (del_descriptor prompt_delete)"
    by (simp_all add: delete_cid_def from_value_def prompt_delete_def hello_delete_def hello_cid_def)
  obtain rep t where run: "delete_handle demo_env alice prompt_delete s = (Inr rep, t)"
    and task: "fst (delete_task demo_env alice prompt_delete s) = Inr ()"
    using hello_deletable [OF s d(1,5,6)] d(4) by auto
  have "record_cids [hello_cid \<mapsto> hello_entry] hello_id = {hello_cid}" using hello_entry_facts by (auto simp: record_cids_def)
  moreover have "length (demo_micros 5000) = 20" by (simp add: demo_micros_def timestamp_micros_def decimal.simps [of 5])
  ultimately show ?thesis
    using delete_same_instant [OF demo_node.node_axioms s(1,2) hello_entry_facts(5) hello_id_nonempty d(1,2) _ _ _ d(3) _ _ run task,
        of hello_saved hello_read] run d(4)
    by (auto simp: hello_entry_def hello_saved_def hello_defs rfc3339_micros_def timestamp_micros_def hello_read_def read_by_id_def)
qed

end
