(* ===== verification/Interleaving.thy ===== *)
theory Interleaving
  imports Deleted
begin

text \<open>
  Writes that are handled at the same time. The handler of a write awaits the store between its checks and its own
  changes, and no lock spans the two, so other handlers may run in between. Here each write of a pool is checked in one
  step and stored in a later one (the two halves of the handler of \<open>src/src/records/write.rs\<close>). A write that runs alone
  does what the handler does, and every interleaving, also with whole handlers of other messages, keeps the store
  well-formed; but two updates that are both checked before either is stored are both accepted, neither replaces the
  other, and the record can no longer be read.
\<close>

datatype phase = Checking write_msg | Storing write_msg bool "entry list" | Finished "unit reply result"

inductive write_step :: "('s, 'b) env \<Rightarrow> string \<Rightarrow> 's \<times> phase list \<Rightarrow> 's \<times> phase list \<Rightarrow> bool" for E ow where
  check: "i < length ps \<Longrightarrow> ps ! i = Checking w \<Longrightarrow> write_checks E ow w s = (Inr (init, es), t) \<Longrightarrow>
    write_step E ow (s, ps) (t, ps[i := Storing w init es])"
| refuse: "i < length ps \<Longrightarrow> ps ! i = Checking w \<Longrightarrow> write_checks E ow w s = (Inl f, t) \<Longrightarrow>
    write_step E ow (s, ps) (t, ps[i := Finished (Inl f)])"
| save: "i < length ps \<Longrightarrow> ps ! i = Storing w init es \<Longrightarrow> write_stores E ow w init es s = (r, t) \<Longrightarrow>
    write_step E ow (s, ps) (t, ps[i := Finished r])"

inductive_cases write_stepE: "write_step E ow (s, ps) (t, qs)"

abbreviation write_steps :: "('s, 'b) env \<Rightarrow> string \<Rightarrow> 's \<times> phase list \<Rightarrow> 's \<times> phase list \<Rightarrow> bool" where
  "write_steps E ow \<equiv> (write_step E ow)\<^sup>*\<^sup>*"

text \<open>Between the steps of the pool, any other message of any owner may be handled.\<close>

inductive pool_step :: "('s, 'b) env \<Rightarrow> string \<Rightarrow> 's \<times> phase list \<Rightarrow> 's \<times> phase list \<Rightarrow> bool" for E ow where
  own: "write_step E ow c d \<Longrightarrow> pool_step E ow c d"
| other: "handle E ow' m s = (r, t) \<Longrightarrow> pool_step E ow (s, ps) (t, ps)"

inductive_cases pool_stepE: "pool_step E ow (s, ps) (t, qs)"

abbreviation pool_steps :: "('s, 'b) env \<Rightarrow> string \<Rightarrow> 's \<times> phase list \<Rightarrow> 's \<times> phase list \<Rightarrow> bool" where
  "pool_steps E ow \<equiv> (pool_step E ow)\<^sup>*\<^sup>*"

section \<open>A write on its own\<close>

lemma step_finished: "\<not> write_step E ow (s, [Finished r]) c"
  by (cases c) (auto elim!: write_stepE)

lemma step_storing:
  "write_step E ow (s, [Storing w init es]) (t, ps) \<longleftrightarrow> (\<exists>r. write_stores E ow w init es s = (r, t) \<and> ps = [Finished r])"
  using write_step.save [of 0 "[Storing w init es]" w init es] by (auto elim!: write_stepE)

lemma step_checking:
  "write_step E ow (s, [Checking w]) (t, ps) \<longleftrightarrow>
    (\<exists>init es. write_checks E ow w s = (Inr (init, es), t) \<and> ps = [Storing w init es]) \<or>
    (\<exists>f. write_checks E ow w s = (Inl f, t) \<and> ps = [Finished (Inl f)])"
  using write_step.check [of 0 "[Checking w]" w] write_step.refuse [of 0 "[Checking w]" w] by (auto elim!: write_stepE)

lemma finished_steps: "write_steps E ow (s, [Finished r]) (t, ps) \<longleftrightarrow> t = s \<and> ps = [Finished r]"
  using step_finished by (metis converse_rtranclpE prod.inject rtranclp.rtrancl_refl)

text \<open>The halves of the handler run one after the other are the handler.\<close>

lemma write_alone: "write_steps E ow (s, [Checking w]) (t, [Finished r]) \<longleftrightarrow> write_handle E ow w s = (r, t)"
proof
  assume "write_steps E ow (s, [Checking w]) (t, [Finished r])"
  then obtain x ps where "write_step E ow (s, [Checking w]) (x, ps)" and rest: "write_steps E ow (x, ps) (t, [Finished r])"
    by (rule converse_rtranclpE) auto
  then consider init es where "write_checks E ow w s = (Inr (init, es), x)" "ps = [Storing w init es]"
    | f where "write_checks E ow w s = (Inl f, x)" "ps = [Finished (Inl f)]" by (auto simp: step_checking)
  then show "write_handle E ow w s = (r, t)"
  proof cases
    case (1 init es)
    from rest [unfolded 1(2)] obtain y qs
      where "write_step E ow (x, [Storing w init es]) (y, qs)" "write_steps E ow (y, qs) (t, [Finished r])"
      by (rule converse_rtranclpE) auto
    with 1 show ?thesis by (auto simp: step_storing finished_steps write_handle_halves sbind_run)
  next
    case (2 f)
    with rest show ?thesis by (auto simp: finished_steps write_handle_halves sbind_run_err)
  qed
next
  assume run: "write_handle E ow w s = (r, t)"
  obtain c x where c: "write_checks E ow w s = (c, x)" by (cases "write_checks E ow w s")
  show "write_steps E ow (s, [Checking w]) (t, [Finished r])"
  proof (cases c)
    case (Inl f)
    with run c show ?thesis by (auto simp: write_handle_halves sbind_run_err step_checking intro!: r_into_rtranclp)
  next
    case (Inr p)
    obtain init es where p: "p = (init, es)" by (cases p)
    from Inr p c have "write_step E ow (s, [Checking w]) (x, [Storing w init es])" by (simp add: step_checking)
    moreover have "write_step E ow (x, [Storing w init es]) (t, [Finished r])"
      using run c Inr p by (auto simp: step_storing write_handle_halves sbind_run)
    ultimately show ?thesis by (meson converse_rtranclp_into_rtranclp r_into_rtranclp)
  qed
qed

section \<open>Any number of writes\<close>

context open_node
begin

lemma write_stores_keeps: "keeps wf (write_stores E ow w init es)"
  unfolding write_stores_def by (intro keeps_intros)

lemma write_step_wf: "write_step E ow (s, ps) (t, qs) \<Longrightarrow> wf s \<Longrightarrow> wf t"
  by (elim write_stepE) (use keepsD [OF write_stores_keeps] keepsD [OF keeps_reads_only [OF write_checks_ro]] in \<open>metis snd_conv\<close>)+

lemma pool_step_wf: "pool_step E ow (s, ps) (t, qs) \<Longrightarrow> wf s \<Longrightarrow> wf t"
  using keepsD [OF handle_keeps] write_step_wf by (elim pool_stepE) (metis snd_conv)+

lemma pool_steps_wf: "pool_steps E ow (s, ps) (t, qs) \<Longrightarrow> wf s \<Longrightarrow> wf t"
  by (induction rule: rtranclp_induct2) (auto intro: pool_step_wf)

end

context node
begin

text \<open>Two updates of a record that were both checked in the state before either was stored.\<close>

lemma both_stored:
  assumes st: "records s ow msgs" and ts: "timestamped n msgs" and rid: "rid \<noteq> []" "w_record_id w1 = rid" "w_record_id w2 = rid"
    and ne: "record_cids msgs rid \<noteq> {}" and new: "write_cid E w1 = Inr c1" "write_cid E w2 = Inr c2" "msgs c1 = None" "msgs c2 = None" "c1 \<noteq> c2"
    and rev: "\<not> is_revocation w1" "\<not> is_revocation w2"
    and chk: "write_checks E ow w1 s = (Inr (i1, es1), s)" "write_checks E ow w2 s = (Inr (i2, es2), s)"
    and sto: "write_stores E ow w1 i1 es1 s = (Inr r1, t)" "write_stores E ow w2 i2 es2 t = (Inr r2, u)"
  shows "\<exists>c0 i d1 d2. c0 \<in> record_cids msgs rid \<and> map_option e_message (msgs c0) = Some (E_Write i) \<and> records u ow ((msgs |` (- record_cids msgs rid))
    (c0 \<mapsto> write_entry E 204 (ser_write i), c1 \<mapsto> write_entry E (write_code i1 w1) (w1\<lparr>w_encoded_data := d1\<rparr>),
     c2 \<mapsto> write_entry E (write_code i2 w2) (w2\<lparr>w_encoded_data := d2\<rparr>)))"
proof -
  let ?R = "record_cids msgs rid" and ?f = "\<lambda>c. the (msgs c)"
  have msgs: "stored s ow MESSAGE_PARTITION msgs" using st by (simp add: records_def)
  from existing_stored [OF msgs ts rid(1)] obtain cs
    where es: "existing_entries E ow rid s = (Inr (map (\<lambda>c. ser_entry (?f c)) cs), s)" and cs: "distinct cs" "set cs = ?R"
    by (auto simp: record_cids_def selected_def selects_existing)
  have c: "\<And>c. c \<in> set cs \<Longrightarrow> entry_cid E (?f c) = Inr c"
    using msgs cs(2) by (auto simp: stores_def record_cids_def)
  have es12: "es1 = map (\<lambda>c. ser_entry (?f c)) cs" "es2 = map (\<lambda>c. ser_entry (?f c)) cs"
    using write_checks_existing [OF chk(1)] write_checks_existing [OF chk(2)] es rid by simp_all
  have cs0: "cs \<noteq> []" using ne cs(2) by auto
  from write_checks_acceptable(1) [OF chk(1)] obtain i' where "write_try_from (ser_entry (?f (hd cs))) = Inr i'"
    using cs0 by (cases cs) (auto simp: es12 acceptable_def same_record_def)
  then obtain i where i: "e_message (?f (hd cs)) = E_Write i"
    by (cases "e_message (?f (hd cs))") (auto simp: write_try_from_def as_write_def ser_entry_def monad_simps)
  note first = write_stores_records [where f = ?f, OF st new(1) rev(1) cs0 c i sto(1) [unfolded es12]]
  then obtain d1 where t: "records t ow (msgs(c1 \<mapsto> write_entry E (write_code i1 w1) (w1\<lparr>w_encoded_data := d1\<rparr>),
      hd cs \<mapsto> write_entry E 204 (ser_write i)) |` (- set (tl cs)))" by blast
  from write_stores_records [where f = ?f, OF t new(2) rev(2) cs0 c i sto(2) [unfolded es12]]
  obtain d2 where u: "records u ow ((msgs(c1 \<mapsto> write_entry E (write_code i1 w1) (w1\<lparr>w_encoded_data := d1\<rparr>),
      hd cs \<mapsto> write_entry E 204 (ser_write i)) |` (- set (tl cs)))
      (c2 \<mapsto> write_entry E (write_code i2 w2) (w2\<lparr>w_encoded_data := d2\<rparr>), hd cs \<mapsto> write_entry E 204 (ser_write i)) |` (- set (tl cs)))"
    by blast
  have h: "hd cs \<in> ?R" "set (tl cs) = ?R - {hd cs}" using cs cs0 by (cases cs; auto)+
  have "c1 \<notin> ?R" "c2 \<notin> ?R" using new by (simp_all add: record_cids_def)
  then have "(msgs(c1 \<mapsto> a, hd cs \<mapsto> b) |` (- set (tl cs)))(c2 \<mapsto> x, hd cs \<mapsto> b) |` (- set (tl cs)) =
      (msgs |` (- ?R))(hd cs \<mapsto> b, c1 \<mapsto> a, c2 \<mapsto> x)" for a b x
    using h new(5) by (auto simp: restrict_map_def fun_eq_iff)
  note this [of "write_entry E (write_code i1 w1) (w1\<lparr>w_encoded_data := d1\<rparr>)" "write_entry E 204 (ser_write i)"
      "write_entry E (write_code i2 w2) (w2\<lparr>w_encoded_data := d2\<rparr>)"]
  with u have "records u ow ((msgs |` (- ?R))(hd cs \<mapsto> write_entry E 204 (ser_write i),
      c1 \<mapsto> write_entry E (write_code i1 w1) (w1\<lparr>w_encoded_data := d1\<rparr>), c2 \<mapsto> write_entry E (write_code i2 w2) (w2\<lparr>w_encoded_data := d2\<rparr>)))"
    by (simp only:)
  moreover have "map_option e_message (msgs (hd cs)) = Some (E_Write i)" using h(1) i by (auto simp: record_cids_def)
  ultimately show ?thesis using h(1) by blast
qed

end

text \<open>The timestamps of a store have one width, and so have those that its writes get when they are stored again.\<close>

definition dated :: "('s, 'b) env \<Rightarrow> nat \<Rightarrow> (string \<rightharpoonup> entry) \<Rightarrow> bool" where
  "dated E n msgs \<longleftrightarrow> timestamped n msgs \<and> (\<forall>c e w. msgs c = Some e \<longrightarrow> e_message e = E_Write w \<longrightarrow>
     length (fmt_micros E (base_timestamp (wd_base (w_descriptor (ser_write w))))) = n)"

text \<open>A write that is a live version of a record.\<close>

definition live_version :: "('s, 'b) env \<Rightarrow> nat \<Rightarrow> string \<Rightarrow> write_msg \<Rightarrow> bool" where
  "live_version E n rid w \<longleftrightarrow> w_record_id w = rid \<and> base_interface (wd_base (w_descriptor w)) = I_Records \<and>
     length (fmt_micros E (base_timestamp (wd_base (w_descriptor w)))) = n"

lemma live_version_fields:
  assumes "live_version E n rid w"
  shows "has_field (e_indexes (write_entry E 202 (w\<lparr>w_encoded_data := d\<rparr>))) ''interface'' ''Records''"
    and "has_field (e_indexes (write_entry E 202 (w\<lparr>w_encoded_data := d\<rparr>))) ''recordId'' rid"
    and "has_field (e_indexes (write_entry E 202 (w\<lparr>w_encoded_data := d\<rparr>))) ''initial'' ''false''"
  using assms by (simp_all add: live_version_def has_field_def write_entry_def write_entry_fields write_indexes_fields bool_str_def)

context node
begin

lemma two_live_unreadable:
  assumes st: "stored u ow MESSAGE_PARTITION (msgs(c0 \<mapsto> write_entry E 204 (ser_write i), c1 \<mapsto> write_entry E 202 (w1\<lparr>w_encoded_data := d1\<rparr>),
      c2 \<mapsto> write_entry E 202 (w2\<lparr>w_encoded_data := d2\<rparr>)))"
    and ts: "timestamped n msgs" and i: "length (fmt_micros E (base_timestamp (wd_base (w_descriptor (ser_write i))))) = n"
    and w: "live_version E n rid w1" "live_version E n rid w2" and c: "c1 \<noteq> c2" and r: "rid \<noteq> []" "read_by_id r rid"
  shows "read_handle E ow r u = (Inl (Err (BadRequest ''multiple messages exist'')), u)"
proof (rule read_multiple [OF st _ r c])
  show "timestamped n (msgs(c0 \<mapsto> write_entry E 204 (ser_write i), c1 \<mapsto> write_entry E 202 (w1\<lparr>w_encoded_data := d1\<rparr>),
      c2 \<mapsto> write_entry E 202 (w2\<lparr>w_encoded_data := d2\<rparr>)))"
    using w by (intro timestamped_write ts i) (simp_all add: live_version_def)
  show "{c1, c2} \<subseteq> {c \<in> record_cids (msgs(c0 \<mapsto> write_entry E 204 (ser_write i), c1 \<mapsto> write_entry E 202 (w1\<lparr>w_encoded_data := d1\<rparr>),
      c2 \<mapsto> write_entry E 202 (w2\<lparr>w_encoded_data := d2\<rparr>))) rid. has_field (e_indexes (the ((msgs(c0 \<mapsto> write_entry E 204 (ser_write i),
      c1 \<mapsto> write_entry E 202 (w1\<lparr>w_encoded_data := d1\<rparr>), c2 \<mapsto> write_entry E 202 (w2\<lparr>w_encoded_data := d2\<rparr>))) c))) ''initial'' ''false''}"
    using live_version_fields [OF w(1)] live_version_fields [OF w(2)] c by (auto simp: record_cids_def)
qed

end

section \<open>Two updates at once\<close>



text \<open>
  C18. Two updates of a record that are both checked before either is stored are both accepted, and both stay: the store
  then holds the archived initial write and two current versions, where one update after the other would leave one, and
  every read of the record by its id fails.
\<close>

theorem updates_race:
  assumes "node E cell good view" and "stores E cell view s ow MESSAGE_PARTITION msgs"
    and "stores E cell view s ow EVENTLOG_PARTITION evs" and "dated E n msgs"
    and "rid \<noteq> []" and "live_version E n rid w1" and "live_version E n rid w2" and "record_cids msgs rid \<noteq> {}"
    and "write_cid E w1 = Inr c1" and "write_cid E w2 = Inr c2" and "msgs c1 = None" and "msgs c2 = None" and "c1 \<noteq> c2"
    and "\<not> is_revocation w1" and "\<not> is_revocation w2"
    and "write_checks E ow w1 s = (Inr (False, es1), s)" and "write_checks E ow w2 s = (Inr (False, es2), s)"
    and "write_stores E ow w1 False es1 s = (Inr r1, t)" and "write_stores E ow w2 False es2 t = (Inr r2, u)"
  shows "write_steps E ow (s, [Checking w1, Checking w2]) (u, [Finished (Inr r1), Finished (Inr r2)]) \<and>
    (\<exists>c0 i d1 d2. c0 \<in> record_cids msgs rid \<and> stores E cell view u ow MESSAGE_PARTITION ((msgs |` (- record_cids msgs rid))
      (c0 \<mapsto> write_entry E 204 (ser_write i), c1 \<mapsto> write_entry E 202 (w1\<lparr>w_encoded_data := d1\<rparr>),
       c2 \<mapsto> write_entry E 202 (w2\<lparr>w_encoded_data := d2\<rparr>)))) \<and>
    (\<forall>r. read_by_id r rid \<longrightarrow> read_handle E ow r u = (Inl (Err (BadRequest ''multiple messages exist'')), u))"
proof (intro conjI)
  let ?S1 = "Storing w1 False es1" and ?S2 = "Storing w2 False es2"
  have "write_step E ow (s, [Checking w1, Checking w2]) (s, [?S1, Checking w2])"
    using write_step.check [of 0 "[Checking w1, Checking w2]" w1] assms(16) by simp
  moreover have "write_step E ow (s, [?S1, Checking w2]) (s, [?S1, ?S2])"
    using write_step.check [of 1 "[?S1, Checking w2]" w2] assms(17) by simp
  moreover have "write_step E ow (s, [?S1, ?S2]) (t, [Finished (Inr r1), ?S2])"
    using write_step.save [of 0 "[?S1, ?S2]" w1 False es1] assms(18) by simp
  moreover have "write_step E ow (t, [Finished (Inr r1), ?S2]) (u, [Finished (Inr r1), Finished (Inr r2)])"
    using write_step.save [of 1 "[Finished (Inr r1), ?S2]" w2 False es2] assms(19) by simp
  ultimately show "write_steps E ow (s, [Checking w1, Checking w2]) (u, [Finished (Inr r1), Finished (Inr r2)])"
    by (meson converse_rtranclp_into_rtranclp rtranclp.rtrancl_refl)
  have rid: "w_record_id w1 = rid" "w_record_id w2 = rid" and ts: "timestamped n msgs"
    using assms(4,6,7) by (simp_all add: live_version_def dated_def)
  have code: "write_code False w = 202" for w by (simp add: write_code_def)
  have "node.records E cell view s ow msgs" using assms(2,3) node.records_def [OF assms(1)] by blast
  from node.both_stored [OF assms(1) this ts assms(5) rid assms(8-19)] obtain c0 i d1 d2
    where c0: "c0 \<in> record_cids msgs rid" "map_option e_message (msgs c0) = Some (E_Write i)"
      and u: "stores E cell view u ow MESSAGE_PARTITION ((msgs |` (- record_cids msgs rid))
      (c0 \<mapsto> write_entry E 204 (ser_write i), c1 \<mapsto> write_entry E 202 (w1\<lparr>w_encoded_data := d1\<rparr>),
       c2 \<mapsto> write_entry E 202 (w2\<lparr>w_encoded_data := d2\<rparr>)))"
    unfolding node.records_def [OF assms(1)] code by blast
  from c0(1) u show "\<exists>c0 i d1 d2. c0 \<in> record_cids msgs rid \<and> stores E cell view u ow MESSAGE_PARTITION ((msgs |` (- record_cids msgs rid))
      (c0 \<mapsto> write_entry E 204 (ser_write i), c1 \<mapsto> write_entry E 202 (w1\<lparr>w_encoded_data := d1\<rparr>),
       c2 \<mapsto> write_entry E 202 (w2\<lparr>w_encoded_data := d2\<rparr>)))" by blast
  have "timestamped n (msgs |` (- record_cids msgs rid))" using ts by (auto simp: timestamped_def restrict_map_def)
  moreover have "length (fmt_micros E (base_timestamp (wd_base (w_descriptor (ser_write i))))) = n"
    using assms(4) c0(2) by (auto simp: dated_def)
  ultimately show "\<forall>r. read_by_id r rid \<longrightarrow> read_handle E ow r u = (Inl (Err (BadRequest ''multiple messages exist'')), u)"
    using node.two_live_unreadable [OF assms(1) u _ _ assms(6,7,13,5)] by blast
qed

text \<open>Two versions of the example record, at different times.\<close>

lemma hello_at_checks:
  assumes "5 < m" and "existing_entries demo_env alice hello_id s = (Inr [ser_entry hello_entry], s)"
  shows "write_checks demo_env alice (hello_at m) s = (Inr (False, [ser_entry hello_entry]), s)"
proof -
  have "check_earliest demo_env (hello_at m) False (Some (ser_entry hello_entry)) = Inr ()"
    "check_latest demo_env (hello_at m) (Some (ser_entry hello_entry)) = Inr ()"
    using hello_at_acceptable [OF assms(1)]
    by (auto simp: acceptable_def check_earliest_iff check_latest_iff)
  then show ?thesis
    using assms hello_at_facts [of m]
    by (simp add: write_checks_def sbind_run earliest_and_latest_def lift_def sret_def)
qed

lemma cid_at_inj: "cid_at m = cid_at k \<Longrightarrow> m = k"
  by (simp add: cid_at_def hello_at_def hello_defs ser_write_def ser_write_descriptor_def ser_base_def rfc3339_micros_def
      timestamp_micros_def decimal_inj)

lemma hello_at_stores:
  assumes "5 < m" and "demo_node.records s alice msgs"
  shows "\<exists>rep t. write_stores demo_env alice (hello_at m) False [ser_entry hello_entry] s = (Inr rep, t)"
proof -
  obtain x where p: "process_data demo_env alice False (Some (ser_entry hello_entry)) (hello_at m) s =
      (Inr ((hello_at m)\<lparr>w_encoded_data := Some hello\<rparr>), x)"
    using hello_at_facts(6) [of m] assms(1) by (metis less_irrefl prod.collapse)
  have m: "m \<noteq> 5" using assms(1) by simp
  from demo_open.write_stores_total [where f = "\<lambda>_. hello_entry" and cs = "[hello_cid]",
      OF assms(2) hello_at_facts(1) [OF m] hello_at_facts(8) [OF m] _ _ _ demo_roots, of False] p hello_entry_facts(1) hello_entry_write
  show ?thesis by auto
qed

lemma hello_dated:
  "dated demo_env 20 [hello_cid \<mapsto> hello_entry]" "live_version demo_env 20 hello_id (hello_at 7)" "live_version demo_env 20 hello_id (hello_at 6)"
  using hello_entry_facts(5) hello_at_facts(7) [of 7] hello_at_facts(7) [of 6]
  by (auto simp: dated_def live_version_def hello_entry_write hello_saved_def hello_at_def hello_defs ser_write_def ser_write_descriptor_def
      ser_base_def rfc3339_micros_def timestamp_micros_def demo_micros_def decimal.simps [of 5] decimal.simps [of 6] decimal.simps [of 7])

theorem updates_race_witness:
  "\<exists>s u r1 r2 i d1 d2. write_steps demo_env alice (s, [Checking (hello_at 7), Checking (hello_at 6)]) (u, [Finished (Inr r1), Finished (Inr r2)]) \<and>
    demo.stored u alice MESSAGE_PARTITION [hello_cid \<mapsto> write_entry demo_env 204 (ser_write i),
      cid_at 7 \<mapsto> write_entry demo_env 202 ((hello_at 7)\<lparr>w_encoded_data := d1\<rparr>),
      cid_at 6 \<mapsto> write_entry demo_env 202 ((hello_at 6)\<lparr>w_encoded_data := d2\<rparr>)] \<and>
    read_handle demo_env alice hello_read u = (Inl (Err (BadRequest ''multiple messages exist'')), u)"
proof -
  obtain s where s: "demo.stored s alice MESSAGE_PARTITION [hello_cid \<mapsto> hello_entry]" "demo.stored s alice EVENTLOG_PARTITION Map.empty"
    "existing_entries demo_env alice hello_id s = (Inr [ser_entry hello_entry], s)" using hello_written by blast
  then have r: "demo_node.records s alice [hello_cid \<mapsto> hello_entry]" unfolding demo_node.records_def by blast
  obtain r1 t where t: "write_stores demo_env alice (hello_at 7) False [ser_entry hello_entry] s = (Inr r1, t)"
    using hello_at_stores [OF _ r, of 7] by auto
  have rt: "\<exists>m. demo_node.records t alice m"
    using demo_node.write_stores_records [where f = "\<lambda>_. hello_entry" and cs = "[hello_cid]", OF r hello_at_facts(1,8) [of 7]]
      t hello_entry_facts(1) hello_entry_write by fastforce
  then obtain m where "demo_node.records t alice m" by blast
  then obtain r2 u where u: "write_stores demo_env alice (hello_at 6) False [ser_entry hello_entry] t = (Inr r2, u)"
    using hello_at_stores [of 6 t m] by auto
  have empty: "[hello_cid \<mapsto> hello_entry] |` (- {hello_cid}) = Map.empty" by (auto simp: restrict_map_def)
  have rd: "read_by_id hello_read hello_id" by (simp add: read_by_id_def hello_read_def)
  have "cid_at 7 \<noteq> cid_at 6" using cid_at_inj [of 7 6] by auto
  with updates_race [OF demo_node.node_axioms s(1,2) hello_dated(1) hello_id_nonempty hello_dated(2,3)
      _ hello_at_facts(1) [of 7] hello_at_facts(1) [of 6] _ _ _ hello_at_facts(8) [of 7] hello_at_facts(8) [of 6]
      hello_at_checks [OF _ s(3), of 7] hello_at_checks [OF _ s(3), of 6] t u]
    hello_at_facts(2) [of 7] hello_at_facts(2) [of 6] rd
  have "write_steps demo_env alice (s, [Checking (hello_at 7), Checking (hello_at 6)]) (u, [Finished (Inr r1), Finished (Inr r2)]) \<and>
    (\<exists>i d1 d2. demo.stored u alice MESSAGE_PARTITION [hello_cid \<mapsto> write_entry demo_env 204 (ser_write i),
      cid_at 7 \<mapsto> write_entry demo_env 202 ((hello_at 7)\<lparr>w_encoded_data := d1\<rparr>),
      cid_at 6 \<mapsto> write_entry demo_env 202 ((hello_at 6)\<lparr>w_encoded_data := d2\<rparr>)]) \<and>
    read_handle demo_env alice hello_read u = (Inl (Err (BadRequest ''multiple messages exist'')), u)"
    by (simp add: empty)
  then show ?thesis by blast
qed

end
