(* ===== verification/Announcements.thy ===== *)
theory Announcements
  imports Reachable
begin

text \<open>
  What subscribers hear. A provider's event stream (\<open>EventStream\<close> of \<open>src/src/provider.rs\<close>) keeps the events of each
  owner in the order they were emitted, and a subscription yields those emitted after it was opened. An accepted write is
  announced once, to the subscribers of its owner, who receive it when it passes the filter of their subscription; whatever
  message is handled, the subscribers of other owners hear nothing of it.
\<close>

section \<open>Operations that change blocks only\<close>

text \<open>
  An invariant that the block store and the generator of ULIDs keep is kept by every operation that emits no event, and by
  a handler if emitting keeps it.
\<close>

locale kept_by_blocks = pure_reads E for E :: "('s, 'b) env" +
  fixes I :: "'s \<Rightarrow> bool"
  assumes put_block: "I s \<Longrightarrow> I (snd (bs_put E ow pa c d s))"
    and delete_block: "I s \<Longrightarrow> I (snd (bs_delete E ow pa c s))"
    and new_ulid: "I s \<Longrightarrow> I (snd (ulid_new E s))"
begin

lemma blocks_keep [keeps_intros]:
  "keeps I (with_err f (bs_put E ow pa c d))" "keeps I (with_err f (bs_delete E ow pa c))"
  "keeps I (\<lambda>s. case ulid_new E s of (u, t) \<Rightarrow> (Inr u, t))"
  using put_block delete_block new_ulid by (simp_all add: keeps_def split_beta)

lemmas index_get_keep [keeps_intros] = keeps_reads_only [OF indexes_get_ro]

lemma indexes_keep [keeps_intros]:
  "keeps I (indexes_put E ow pa ix)" "keeps I (index_delete E ow pa c)" "keeps I (index_insert E ow pa e)"
  unfolding indexes_put_def index_delete_def index_insert_def by (intro keeps_intros)+

lemma messages_keep [keeps_intros]:
  "keeps I (message_put E ow e)" "keeps I (message_delete E ow c)" "keeps I (event_append E ow e)" "keeps I (event_delete E ow c)"
  unfolding message_put_def message_delete_def event_append_def event_delete_def by (intro keeps_intros)+

lemma put_chunks_keep [keeps_intros]: "keeps I (put_chunks E ow rd links n)"
proof (induction "length rd" arbitrary: rd links n rule: less_induct)
  case less
  have "keeps I (put_chunks E ow (drop (length (take CHUNK_SIZE rd)) rd) l m)" if "rd \<noteq> []" for l m
    using that by (intro less) (simp add: CHUNK_SIZE_def)
  then show ?case by (subst put_chunks.simps, unfold Let_def) (intro keeps_intros)
qed

lemma data_keep [keeps_intros]: "keeps I (data_put E ow rid dc rd)" "keeps I (data_delete E ow rid dc)"
  unfolding data_put_def data_delete_def by (intro keeps_intros)+

lemma from_reader_keep [keeps_intros]: "keeps I (from_reader E rd)"
proof -
  have "reads_only (from_reader E rd)" using from_reader_state unfolding reads_only_def by (metis prod.collapse)
  then show ?thesis by (rule keeps_reads_only)
qed

lemma process_data_keep [keeps_intros]: "keeps I (process_data E ow init latest w)"
proof -
  have "keeps I (clone_data E ow e w)" for e unfolding clone_data_def by (intro keeps_reads_only reads_only_intros)
  then show ?thesis unfolding process_data_def update_data_def by (intro keeps_intros)
qed

lemma replacing_keep [keeps_intros]:
  "keeps I (archive_initial E ow w initial)" "keeps I (delete_previous E ow e)" "keeps I (delete_authorized E ow e)"
  "keeps I (delete_data E ow e latest)" "keeps I (remove_configure E ow c)"
  unfolding archive_initial_def delete_previous_def delete_authorized_def delete_data_def remove_configure_def
  by (intro keeps_intros)+

lemma revoke_grants_keep [keeps_intros]: "keeps I (revoke_grants E ow w)"
  unfolding revoke_grants_def
  by (intro keeps_intros keeps_reads_only [OF fetch_grant_ro] keeps_reads_only [OF reads_only_via_provider [OF message_query_ro]])

lemma delete_one_keep [keeps_intros]: "keeps I (delete_one E ow latest e)"
  unfolding delete_one_def by (intro keeps_intros)

lemma delete_children_keep [keeps_intros]: "keeps I (delete_children E n ow rid)"
  using keeps_reads_only [OF delete_children_ro] by (cases n) (simp_all add: keeps_pure del: delete_children.simps(2))

text \<open>The handlers, for an invariant that emitting keeps.\<close>

lemma write_handle_keep:
  assumes "\<And>e. keeps I (EventStream_emit E ow e)"
  shows "keeps I (write_handle E ow w)"
  unfolding write_handle_def save_write_def
  by (intro keeps_intros assms keeps_reads_only [OF write_authorize_ro] keeps_reads_only [OF verify_integrity_ro]
      keeps_reads_only [OF initial_write_ro(2)])

lemma tasks_run_keep:
  assumes "keeps I (delete_task E ow d)"
  shows "keeps I (tasks_run E ow (RecordsDelete d))"
proof -
  have "keeps I (\<lambda>s. case task_run E ow (RecordsDelete d) s of (Inl (Err e), t) \<Rightarrow> (Inr (), t) | r \<Rightarrow> r)"
    using assms by (auto simp: keeps_def split: prod.splits sum.splits failure.splits)
  moreover have "keeps I (task_deadline E)" by (simp add: keeps_def task_deadline_def Let_def)
  ultimately show ?thesis unfolding tasks_run_def task_register_def by (intro keeps_intros)
qed

lemma delete_handle_keep:
  assumes "\<And>e. keeps I (EventStream_emit E ow e)"
  shows "keeps I (delete_handle E ow d)"
proof -
  note query = keeps_reads_only [OF reads_only_via_provider [OF message_query_ro]]
  have "keeps I (delete_task E ow d)"
    unfolding delete_task_def delete_earlier_def by (intro keeps_intros assms query)
  from tasks_run_keep [OF this] show ?thesis
    unfolding delete_handle_def by (intro keeps_intros query keeps_reads_only [OF delete_authorize_ro])
qed

lemma configure_handle_keep:
  assumes "\<And>e. keeps I (EventStream_emit E ow e)"
  shows "keeps I (configure_handle E ow c)"
  unfolding configure_handle_def replace_existing_def save_configure_def
  by (intro keeps_intros assms keeps_reads_only [OF configure_authorize_ro] keeps_reads_only [OF fetch_config_ro])

lemma handle_keep:
  assumes "\<And>e. keeps I (EventStream_emit E ow e)"
  shows "keeps I (handle E ow m)"
proof -
  have "keeps I (message_handle E ow m)"
  proof (cases "changes m")
    case True
    then show ?thesis
      using write_handle_keep [OF assms] delete_handle_keep [OF assms] configure_handle_keep [OF assms]
      by (cases m) (simp_all add: keeps_smap)
  qed (rule keeps_reads_only [OF message_handle_ro])
  then show ?thesis
    unfolding handle_def endpoint_handle_def by (auto intro!: keeps_intros split: sum.splits)
qed

end

lemma process_data_message: "process_data E ow init latest w s = (Inr w', t) \<Longrightarrow> w' = w\<lparr>w_encoded_data := w_encoded_data w'\<rparr>"
  by (auto simp: process_data_def clone_data_def update_data_def Let_def monad_simps split: option.splits if_splits)

section \<open>The contract of an event stream\<close>

text \<open>
  \<open>heard\<close> is what has been emitted to an owner's stream, in order, as serialization leaves it; \<open>named\<close> are the owners whose
  streams the provider tells apart.
\<close>

locale event_stream = pure_reads E for E :: "('s, 'b) env" +
  fixes heard :: "string \<Rightarrow> 's \<Rightarrow> entry list" and named :: "string \<Rightarrow> bool"
  assumes put_heard: "heard who (snd (bs_put E ow pa c d s)) = heard who s"
    and delete_heard: "heard who (snd (bs_delete E ow pa c s)) = heard who s"
    and ulid_heard: "heard who (snd (ulid_new E s)) = heard who s"
    and emit_heard: "named who \<Longrightarrow> es_emit E ow e s = (Inr (), t) \<Longrightarrow> heard who t = heard who s @ (if who = ow then [ser_entry e] else [])"
    and emit_failed: "es_emit E ow e s = (Inl x, t) \<Longrightarrow> heard who t = heard who s"
    and subscribe_heard: "named ow \<Longrightarrow> es_subscribe E ow s = (Inr sub, t) \<Longrightarrow> heard ow u = heard ow s @ es \<Longrightarrow> sub_inner sub u = es"

sublocale event_stream \<subseteq> quiet: kept_by_blocks E "\<lambda>s. heard who s = h" for who h
  by unfold_locales (simp_all add: put_heard delete_heard ulid_heard)

context event_stream
begin

text \<open>An operation that keeps the events of an owner, whatever they are.\<close>

lemma quiet_run:
  assumes "\<And>h. keeps (\<lambda>s. heard who s = h) m" and "m s = (r, t)"
  shows "heard who t = heard who s"
  using keepsD [OF assms(1) refl, of s] assms(2) by simp

text \<open>The events of one owner do not reach the streams of the others.\<close>

lemma emit_elsewhere: "named who \<Longrightarrow> who \<noteq> ow \<Longrightarrow> keeps (\<lambda>s. heard who s = h) (EventStream_emit E ow e)"
proof (rule keepsI)
  fix s assume "named who" "who \<noteq> ow" "heard who s = h"
  then show "heard who (snd (EventStream_emit E ow e s)) = h"
    using emit_heard [of who ow e s] emit_failed [of ow e s _ _ who] by (cases "es_emit E ow e s"; cases "fst (es_emit E ow e s)") auto
qed

lemma handle_elsewhere: "handle E ow m s = (r, t) \<Longrightarrow> named who \<Longrightarrow> who \<noteq> ow \<Longrightarrow> heard who t = heard who s"
  by (rule quiet_run [OF quiet.handle_keep [OF emit_elsewhere]])

lemma write_announced:
  assumes run: "write_handle E ow w s = (Inr rep, t)"
  shows "\<exists>d. \<forall>who. named who \<longrightarrow> heard who t = heard who s @
    (if who = ow then [ser_entry (write_entry E (status_code (reply_status rep)) (w\<lparr>w_encoded_data := d\<rparr>))] else [])"
proof -
  from run obtain init es where sto: "write_stores E ow w init es s = (Inr rep, t)"
    using reads_only_state [OF write_checks_ro] by (auto simp: write_handle_halves sbind_Inr_iff) (metis)
  then obtain w' x1 x2 x3 where p: "process_data E ow init (snd (earliest_and_latest es)) w s = (Inr w', x1)"
    and put: "message_put E ow (write_entry E (write_code init w') w') x1 = (Inr (), x2)"
    and app: "event_append E ow (write_entry E (write_code init w') w') x2 = (Inr (), x3)"
    and rest: "sbind (EventStream_emit E ow (write_entry E (write_code init w') w')) (\<lambda>_.
      sbind (archive_initial E ow w' (fst (earliest_and_latest es))) (\<lambda>_.
      sbind (sfor (tl es) (delete_previous E ow)) (\<lambda>_.
      sbind (if is_revocation w' then revoke_grants E ow w' else sret ()) (\<lambda>_.
      sret (reply_with (write_code init w') None))))) x3 = (Inr rep, t)"
    by (auto simp: write_stores_def save_write_def write_entry_def Let_def sbind_Inr_iff via_provider_Inr_iff)
  from rest obtain x4 where emit: "es_emit E ow (write_entry E (write_code init w') w') x3 = (Inr (), x4)"
    and rep: "rep = reply_with (write_code init w') None"
    and "sbind (archive_initial E ow w' (fst (earliest_and_latest es))) (\<lambda>_. sbind (sfor (tl es) (delete_previous E ow)) (\<lambda>_.
      if is_revocation w' then revoke_grants E ow w' else sret ())) x4 = (Inr (), t)"
    by (auto simp: sbind_Inr_iff sret_def with_err_Inr_iff)
  then have "heard who t = heard who x4" for who
    by (intro quiet_run [of who "sbind (archive_initial E ow w' (fst (earliest_and_latest es))) (\<lambda>_. sbind (sfor (tl es) (delete_previous E ow)) (\<lambda>_.
      if is_revocation w' then revoke_grants E ow w' else sret ()))"]) (intro keeps_intros)
  moreover have "heard who x3 = heard who s" for who
    using quiet_run [OF quiet.process_data_keep p] quiet_run [OF quiet.messages_keep(1) put] quiet_run [OF quiet.messages_keep(3) app] by simp
  moreover obtain d where "w' = w\<lparr>w_encoded_data := d\<rparr>" using process_data_message [OF p] by blast
  ultimately show ?thesis using emit_heard [OF _ emit] rep by (auto simp: reply_with_def)
qed

text \<open>Streams only grow.\<close>

lemma emit_grows: "named who \<Longrightarrow> keeps (\<lambda>s. prefix h (heard who s)) (EventStream_emit E ow e)"
proof (rule keepsI)
  fix s assume "named who" "prefix h (heard who s)"
  then show "prefix h (heard who (snd (EventStream_emit E ow e s)))"
    using emit_heard [of who ow e s] emit_failed [of ow e s _ _ who]
    by (cases "es_emit E ow e s"; cases "fst (es_emit E ow e s)") auto
qed

end

sublocale event_stream \<subseteq> growing: kept_by_blocks E "\<lambda>s. prefix h (heard who s)" for who h
  by unfold_locales (simp_all add: put_heard delete_heard ulid_heard)

text \<open>The node handles a message, of any owner.\<close>

definition handles :: "('s, 'b) env \<Rightarrow> 's \<Rightarrow> 's \<Rightarrow> bool" where
  "handles E s t \<longleftrightarrow> (\<exists>ow m. t = snd (handle E ow m s))"

context event_stream
begin

lemma handles_grows:
  assumes "(handles E)\<^sup>*\<^sup>* s t" and "named who"
  shows "\<exists>es. heard who t = heard who s @ es"
proof -
  have "prefix (heard who s) (heard who t)" using assms(1)
  proof (induction rule: rtranclp_induct)
    case (step t u)
    then show ?case
      using keepsD [OF growing.handle_keep [OF emit_grows [OF assms(2)]]] unfolding handles_def by blast
  qed simp
  then show ?thesis by (auto simp: prefix_def)
qed

text \<open>What a subscription has received when an owner's stream goes on.\<close>

lemma subscription_received:
  assumes "es_subscribe E ow s = (Inr sub, s1)" and "(handles E)\<^sup>*\<^sup>* s1 t" and "named ow" and "heard ow u = heard ow t @ es"
  shows "sub_inner sub u = sub_inner sub t @ es"
proof -
  have "s1 = s" using subscribe_pure [of ow s] assms(1) by simp
  with handles_grows [OF assms(2,3)] obtain fs where t: "heard ow t = heard ow s @ fs" by blast
  with subscribe_heard [OF assms(3,1)] assms(4) show ?thesis by auto
qed

lemma subscribed:
  assumes "subscribe_handle E ow q s = (Inr rep, s1)"
  shows "\<exists>a author sub. rs_authorization q = Some a \<and> auth_author E a = Inr author \<and> es_subscribe E ow s = (Inr sub, s1) \<and>
    reply_body rep = Some (filtered E (SF_Records (subscribe_filter_for ow author (sd_filter (rs_descriptor q)))) sub)"
proof -
  have "reads_only (subscribe_authorize E ow q)" unfolding subscribe_authorize_def by (intro reads_only_intros)
  note ro = reads_only_state [OF this]
  from assms show ?thesis
    by (auto simp: subscribe_handle_def sbind_Inr_iff lift_eq_iff with_err_Inr_iff sret_def Let_def reply_with_def some_or_def
        split: option.splits dest!: ro)
qed

lemma messages_subscribed:
  assumes "messages_subscribe_handle E ow q s = (Inr rep, s1)"
  shows "\<exists>sub. es_subscribe E ow s = (Inr sub, s1) \<and>
    reply_body rep = Some (if ms_filters q = [] then sub else filtered E (SF_Messages (ms_filters q)) sub)"
proof -
  have "reads_only (messages_subscribe_authorize E ow q)" unfolding messages_subscribe_authorize_def by (intro reads_only_intros)
  note ro = reads_only_state [OF this]
  from assms show ?thesis
    by (auto simp: messages_subscribe_handle_def sbind_Inr_iff with_err_Inr_iff sret_def reply_with_def dest!: ro)
qed

end

interpretation demo_events: event_stream demo_env demo_heard "\<lambda>_. True"
  by unfold_locales (auto simp: demo_env_def demo_heard_def)

section \<open>Who hears of what\<close>

text \<open>The stream of a records subscription has writes only: whatever the filter, no delete and no configuration gets through.\<close>

lemma deletes_unheard: "\<forall>ev \<in> set (sub_inner (filtered E (SF_Records f) sub) s). as_write ev \<noteq> None"
  by (auto simp: filtered_def stream_filter_def records_filter_is_match_def as_write_def split: entry_type.splits if_splits)

text \<open>
  C6. A subscriber hears an accepted write when it passes the subscription's filter: whatever messages were handled since
  the subscription was opened, the stream then goes on with the write's entry, or with nothing when the filter does not
  let it through; a subscriber who had taken everything before is given it by the next poll.
\<close>

theorem subscriber_hears_write:
  assumes "event_stream E heard named" and "named ow" and "subscribe_handle E ow q s = (Inr rep, s1)" and "reply_body rep = Some sub"
    and "rs_authorization q = Some a" and "auth_author E a = Inr author" and "(handles E)\<^sup>*\<^sup>* s1 s2"
    and "write_handle E ow w s2 = (Inr r, t)"
  shows "\<exists>d. let e = ser_entry (write_entry E (status_code (reply_status r)) (w\<lparr>w_encoded_data := d\<rparr>));
      new = (if records_filter_is_match E (subscribe_filter_for ow author (sd_filter (rs_descriptor q))) e then [e] else []) in
    sub_inner sub t = sub_inner sub s2 @ new \<and> poll_next sub (length (sub_inner sub s2)) t = (if new = [] then None else Some e)"
proof -
  let ?f = "subscribe_filter_for ow author (sd_filter (rs_descriptor q))"
  from event_stream.subscribed [OF assms(1,3)] assms(4-6) obtain i
    where i: "es_subscribe E ow s = (Inr i, s1)" and sub: "sub = filtered E (SF_Records ?f) i" by auto
  from event_stream.write_announced [OF assms(1,8)] assms(2) obtain d
    where "heard ow t = heard ow s2 @ [ser_entry (write_entry E (status_code (reply_status r)) (w\<lparr>w_encoded_data := d\<rparr>))]"
      (is "_ = _ @ [?e]") by auto
  from event_stream.subscription_received [OF assms(1) i assms(7,2) this] have "sub_inner i t = sub_inner i s2 @ [?e]" .
  moreover have "as_configure ?e = None"
    by (simp add: as_configure_def ser_entry_def write_entry_def write_entry_fields)
  ultimately show ?thesis
    by (intro exI [of _ d]) (auto simp: Let_def sub filtered_def stream_filter_def poll_next_def stream_poll_def)
qed

definition alice_subscribe :: records_subscribe where
  "alice_subscribe = bob_subscribe\<lparr>rs_authorization := Some (Authorization (Jws ''|||'' alice) None None None)\<rparr>"

lemma demo_subscribe:
  "es_subscribe demo_env ow s = (Inr \<lparr>sub_inner = (\<lambda>t. drop (length (demo_heard ow s)) (demo_heard ow t))\<rparr>, s)"
  by (simp add: demo_env_def)

lemma alice_subscribed:
  "\<exists>sub. subscribe_handle demo_env alice alice_subscribe s = (Inr (reply_with 200 (Some sub)), s)"
  by (simp add: subscribe_handle_def subscribe_authorize_def alice_subscribe_def bob_subscribe_def records_filter_new_def auth_author_def
      auth_payload_def demo_payload_def non_empty_def alice_def sbind_def lift_def sret_def with_err_def demo_subscribe Let_def) blast

theorem subscriber_hears_write_witness:
  "\<exists>sub t e. subscribe_handle demo_env alice alice_subscribe demo_empty = (Inr (reply_with 200 (Some sub)), demo_empty) \<and>
    write_handle demo_env alice hello_write demo_empty = (Inr (reply_with 202 None), t) \<and>
    poll_next sub (length (sub_inner sub demo_empty)) t = Some e \<and> entry_record e = Some hello_id"
proof -
  obtain sub where sub: "subscribe_handle demo_env alice alice_subscribe demo_empty = (Inr (reply_with 200 (Some sub)), demo_empty)"
    using alice_subscribed by blast
  obtain t where t: "write_handle demo_env alice hello_write demo_empty = (Inr (reply_with 202 None), t)" using hello_accepted by blast
  let ?a = "Authorization (Jws ''|||'' alice) None None None" and ?e = "\<lambda>d. ser_entry (write_entry demo_env 202 (hello_write\<lparr>w_encoded_data := d\<rparr>))"
  have a: "rs_authorization alice_subscribe = Some ?a" "auth_author demo_env ?a = Inr alice"
    "subscribe_filter_for alice alice (sd_filter (rs_descriptor alice_subscribe)) = records_filter_new"
    by (simp_all add: alice_subscribe_def bob_subscribe_def auth_author_def subscribe_filter_for_def)
  have m: "records_filter_is_match demo_env records_filter_new (?e d)" "entry_record (?e d) = Some hello_id" for d
    by (simp_all add: records_filter_is_match_def records_filter_new_def opt_all_def ser_entry_def write_entry_def write_entry_fields
        entry_record_def hello_defs hello_id_def ser_write_def Let_def)
  from subscriber_hears_write [OF demo_events.event_stream_axioms _ sub _ a(1,2) rtranclp.rtrancl_refl t] m a(3)
  have "\<exists>d. poll_next sub (length (sub_inner sub demo_empty)) t = Some (?e d)" by (auto simp: reply_with_def Let_def)
  with sub t m(2) show ?thesis by blast
qed

text \<open>
  C21. Owners do not hear of each other: however a message of another owner is handled, whatever comes of it, a stream of
  events that was opened before receives nothing from it.
\<close>

theorem events_isolated:
  assumes "event_stream E heard named" and "named who" and "messages_subscribe_handle E who q s = (Inr rep, s1)"
    and "reply_body rep = Some sub" and "(handles E)\<^sup>*\<^sup>* s1 s2" and "handle E ow m s2 = (r, t)" and "who \<noteq> ow"
  shows "sub_inner sub t = sub_inner sub s2"
proof -
  from event_stream.messages_subscribed [OF assms(1,3)] assms(4) obtain i
    where i: "es_subscribe E who s = (Inr i, s1)" "sub = (if ms_filters q = [] then i else filtered E (SF_Messages (ms_filters q)) i)"
    by auto
  have "heard who t = heard who s2 @ []" using event_stream.handle_elsewhere [OF assms(1,6,2,7)] by simp
  from event_stream.subscription_received [OF assms(1) i(1) assms(5,2) this] i(2) show ?thesis
    by (simp add: filtered_def stream_filter_def)
qed

definition alice_messages :: messages_subscribe where
  "alice_messages = bob_messages\<lparr>ms_authorization := Authorization (Jws ''|||'' alice) None None None\<rparr>"

theorem events_isolated_witness:
  "\<exists>sub. messages_subscribe_handle demo_env alice alice_messages demo_empty = (Inr (reply_with 200 (Some sub)), demo_empty) \<and>
    sub_inner sub (snd (handle demo_env ''bob'' (Msg_Write hello_write) demo_empty)) = sub_inner sub demo_empty"
proof -
  have "\<exists>sub. messages_subscribe_handle demo_env alice alice_messages demo_empty = (Inr (reply_with 200 (Some sub)), demo_empty)"
    by (simp add: messages_subscribe_handle_def messages_subscribe_authorize_def filters_authorize_def alice_messages_def bob_messages_def
        auth_author_def sbind_def lift_def sret_def with_err_def demo_subscribe) blast
  then obtain sub where sub: "messages_subscribe_handle demo_env alice alice_messages demo_empty = (Inr (reply_with 200 (Some sub)), demo_empty)"
    by blast
  have "alice \<noteq> ''bob''" by (simp add: alice_def)
  from events_isolated [OF demo_events.event_stream_axioms _ sub _ rtranclp.rtrancl_refl prod.collapse [symmetric] this] sub show ?thesis
    by (auto simp: reply_with_def)
qed

end
