(* ===== verification/Encryption.thy ===== *)
theory Encryption
  imports Hd_Key Protocols
begin

text \<open>
  Encryption of record data (\<open>src/src/records/encryption.rs\<close>): the options, the encryption property of a
  write, and decryption with a key derived from an ancestor key. The random parts (the content key, the
  ephemeral keys) come from the environment's state.
\<close>

record recipient =
  rc_key_id :: string
  rc_public_key :: public_key_jwk
  rc_derivation_scheme :: derivation_scheme

record encrypt_options =
  eo_content_algorithm :: content_algorithm
  eo_key_algorithm :: key_algorithm
  eo_data :: bytes
  eo_recipients :: "recipient list"

record encrypted =
  en_content_algorithm :: content_algorithm
  en_key_algorithm :: key_algorithm
  en_recipients :: "recipient list"
  en_cek :: bytes
  en_iv :: string
  en_tag :: string
  en_ciphertext :: bytes

definition encrypt_options_new :: encrypt_options where
  "encrypt_options_new = \<lparr>eo_content_algorithm = A256Gcm, eo_key_algorithm = EcdhEsA256Kw,
     eo_data = [], eo_recipients = []\<rparr>"

definition with_recipient :: "recipient \<Rightarrow> encrypt_options \<Rightarrow> encrypt_options" where
  "with_recipient r o' = o'\<lparr>eo_recipients := eo_recipients o' @ [r]\<rparr>"

definition encrypt :: "('s, 'b) env \<Rightarrow> encrypt_options \<Rightarrow> ('s, encrypted) io" where
  "encrypt E opts =
     sbind (\<lambda>s. case cek_generate E s of (k, t) \<Rightarrow> (Inr k, t)) (\<lambda>cek.
     sbind (lift (map_err (internal ''serde_json'') (json_protected E (eo_content_algorithm opts)))) (\<lambda>aad.
     sbind (anyhow (jwe_content E (eo_content_algorithm opts) (eo_data opts) cek aad)) (\<lambda>(iv, tag, ciphertext).
     sret \<lparr>en_content_algorithm = eo_content_algorithm opts, en_key_algorithm = eo_key_algorithm opts,
       en_recipients = eo_recipients opts, en_cek = cek, en_iv = iv, en_tag = tag,
       en_ciphertext = ciphertext\<rparr>)))"

definition encrypted_add_recipient :: "recipient \<Rightarrow> encrypted \<Rightarrow> encrypted" where
  "encrypted_add_recipient r e = e\<lparr>en_recipients := en_recipients e @ [r]\<rparr>"

definition decode_public :: "('s, 'b) env \<Rightarrow> public_key_jwk \<Rightarrow> bytes result" where
  "decode_public E jwk =
     (if jwk_crv jwk = ''Ed25519'' then map_err (internal ''base64ct'') (b64_decode E (jwk_x jwk))
      else
        rbind (map_err (internal ''base64ct'') (b64_decode E (jwk_x jwk))) (\<lambda>x.
        rbind (some_or (jwk_y jwk) (BadRequest ''missing y'')) (\<lambda>y.
        rbind (map_err (internal ''base64ct'') (b64_decode E y)) (\<lambda>y.
        Inr (x @ y)))))"

text \<open>The encrypted content key of one recipient.\<close>

definition encrypt_key :: "('s, 'b) env \<Rightarrow> encrypted \<Rightarrow> recipient \<Rightarrow> ('s, encrypted_key) io" where
  "encrypt_key E e r =
     sbind (lift (decode_public E (rc_public_key r))) (\<lambda>decoded.
     sbind (lift (map_err (internal ''anyhow'') (jwe_public_key E decoded))) (\<lambda>pk.
     sbind (lift (rguard (length (en_cek e) = 32) (BadRequest ''invalid CEK key''))) (\<lambda>_.
     sbind (if en_key_algorithm e = EcdhEs
       then sfail (Err (BadRequest ''ECDH-ES requires a single recipient''))
       else anyhow (jwe_wrap E (en_key_algorithm e) (en_cek e) (rc_key_id r) pk)) (\<lambda>ke.
     sret \<lparr>ek_root_key_id = rc_key_id r,
       ek_derived_public_key =
         (if rc_derivation_scheme r = ProtocolContext then Some (rc_public_key r) else None),
       ek_derivation_scheme = rc_derivation_scheme r,
       ek_algorithm = kw_alg ke,
       ek_ephemeral_public_key = kw_epk ke,
       ek_initialization_vector = kw_iv ke,
       ek_message_authentication_code = kw_tag ke,
       ek_cek = kw_encrypted_key ke\<rparr>))))"

definition finalize :: "('s, 'b) env \<Rightarrow> encrypted \<Rightarrow> ('s, encryption_property) io" where
  "finalize E e =
     sbind (smapm (en_recipients e) (encrypt_key E e)) (\<lambda>keys.
     sret \<lparr>ep_algorithm = en_content_algorithm e, ep_initialization_vector = en_iv e,
       ep_key_encryption = keys, ep_message_authentication_code = Some (en_tag e)\<rparr>)"

section \<open>Decryption\<close>

definition key_derivation_path :: "encrypted_key \<Rightarrow> write_msg \<Rightarrow> string list result" where
  "key_derivation_path k w =
     (let d = w_descriptor w in
      case ek_derivation_scheme k of
        DataFormats \<Rightarrow>
          Inr (case wd_schema d of
                 Some schema \<Rightarrow> [scheme_str DataFormats, schema, wd_data_format d]
               | None \<Rightarrow> [scheme_str DataFormats, wd_data_format d])
      | ProtocolPath \<Rightarrow>
          rbind (some_or (wd_protocol d) (BadRequest ''`protocol` not set'')) (\<lambda>protocol.
          rbind (some_or (wd_protocol_path d) (BadRequest ''`protocol_path` not set'')) (\<lambda>path.
          Inr ([scheme_str ProtocolPath, protocol] @ split_on (CHR ''/'') path)))
      | ProtocolContext \<Rightarrow>
          rbind (some_or (w_context_id w) (BadRequest ''`context_id` not set'')) (\<lambda>ctx.
          Inr [scheme_str ProtocolContext, hd (split_on (CHR ''/'') ctx)])
      | Schemas \<Rightarrow>
          rbind (some_or (wd_schema d) (BadRequest ''`schema` not set'')) (\<lambda>schema.
          Inr [scheme_str Schemas, schema]))"

definition decrypt :: "('s, 'b) env \<Rightarrow> bytes \<Rightarrow> write_msg \<Rightarrow> derived_private_jwk \<Rightarrow> bytes result" where
  "decrypt E data w ancestor =
     rbind (some_or (w_encryption w) (BadRequest ''encryption parameter not set'')) (\<lambda>enc.
     rbind (some_or (find (\<lambda>k. ek_root_key_id k = dj_root_key_id ancestor
         \<and> ek_derivation_scheme k = dj_derivation_scheme ancestor) (ep_key_encryption enc))
       (BadRequest ''encryption key not found'')) (\<lambda>k.
     rbind (key_derivation_path k w) (\<lambda>path.
     rbind (derive_jwk E ancestor (Full path)) (\<lambda>derived.
     rbind (map_err (internal ''serde_json'') (json_protected E (ep_algorithm enc))) (\<lambda>aad.
     map_err (\<lambda>e. BadRequest (''failed to decrypt: '' @ e))
       (jwe_decrypt E
         \<lparr>jwe_enc = ep_algorithm enc, jwe_kid = ek_root_key_id k,
          jwe_key = \<lparr>kw_alg = ek_algorithm k, kw_epk = ek_ephemeral_public_key k,
            kw_iv = ek_initialization_vector k, kw_tag = ek_message_authentication_code k,
            kw_encrypted_key = ek_cek k\<rparr>,
          jwe_aad = b64_encode E aad, jwe_iv = ep_initialization_vector enc,
          jwe_tag = (case ep_message_authentication_code enc of None \<Rightarrow> [] | Some t \<Rightarrow> t),
          jwe_ciphertext = b64_encode E data\<rparr>
         (pk_d (dj_derived_private_key derived))))))))"

section \<open>The key of a protocol path\<close>

text \<open>The keys \<open>add_encryption\<close> puts into the structure, found at a path.\<close>

lemma map_of_add_encryption:
  assumes "add_encryption E st parent = Inr st'" and "map_of st' name = Some rs'"
  shows "\<exists>rs derived. map_of st name = Some rs \<and> derive_jwk E parent (Relative [name]) = Inr derived \<and>
     rs_encryption rs' = Some \<lparr>pe_root_key_id = dj_root_key_id parent,
       pe_public_key_jwk = pk_public_key (dj_derived_private_key derived)\<rparr> \<and>
     add_encryption E (rs_structure rs) derived = Inr (rs_structure rs')"
  using assms
proof (induction st arbitrary: st')
  case (Cons p st)
  obtain key en ac ro si ta sub where p: "p = (key, RuleSet en ac ro si ta sub)"
    by (metis rule_set.exhaust prod.exhaust)
  from Cons.prems(1) obtain derived sub' st'' where
      "derive_jwk E parent (Relative [key]) = Inr derived"
      "add_encryption E sub derived = Inr sub'" "add_encryption E st parent = Inr st''"
      "st' = (key, RuleSet (Some \<lparr>pe_root_key_id = dj_root_key_id parent,
         pe_public_key_jwk = pk_public_key (dj_derived_private_key derived)\<rparr>) ac ro si ta sub') # st''"
    unfolding p by (auto simp: monad_simps)
  then show ?case
    using Cons.IH Cons.prems(2) p by (cases "name = key") auto
qed simp

context key_codec
begin

lemma add_encryption_at:
  assumes "add_encryption E st parent = Inr st'" and "rule_set_at path st' = Some rs"
  shows "\<exists>derived. derive_jwk E parent (Relative (split_on (CHR ''/'') path)) = Inr derived \<and>
     rs_encryption rs = Some \<lparr>pe_root_key_id = dj_root_key_id parent,
       pe_public_key_jwk = pk_public_key (dj_derived_private_key derived)\<rparr>"
  using assms
proof (induction path st' arbitrary: st parent rule: rule_set_at.induct)
  case (1 path st')
  show ?case
  proof (cases "split_once (CHR ''/'') path")
    case None
    then have "split_on (CHR ''/'') path = [path]" by (simp add: split_once_None split_on_no_sep)
    moreover have "map_of st' path = Some rs"
      using "1.prems"(2) None by (simp add: rule_set_at.simps)
    ultimately show ?thesis
      using map_of_add_encryption [OF "1.prems"(1)] by fastforce
  next
    case (Some nr)
    obtain name rest where nr: "nr = (name, rest)" by (cases nr)
    with Some split_once_Some have path: "path = name @ CHR ''/'' # rest" "CHR ''/'' \<notin> set name"
      by blast+
    from "1.prems"(2) Some nr obtain rs1 where rs1: "map_of st' name = Some rs1"
      and at: "rule_set_at rest (rs_structure rs1) = Some rs"
      by (auto simp: rule_set_at.simps [of path] split: option.splits)
    from map_of_add_encryption [OF "1.prems"(1) rs1] obtain rs0 derived
      where d: "derive_jwk E parent (Relative [name]) = Inr derived"
        and sub: "add_encryption E (rs_structure rs0) derived = Inr (rs_structure rs1)"
      by blast
    from "1.IH" [OF Some nr [symmetric] rs1 sub at] obtain k
      where k: "derive_jwk E derived (Relative (split_on (CHR ''/'') rest)) = Inr k"
        and en: "rs_encryption rs = Some \<lparr>pe_root_key_id = dj_root_key_id derived,
          pe_public_key_jwk = pk_public_key (dj_derived_private_key k)\<rparr>"
      by blast
    from derive_jwk_compose [OF d] k
    have "derive_jwk E parent (Relative (split_on (CHR ''/'') path)) = Inr k"
      using path by (simp add: split_on_append)
    moreover have "dj_root_key_id derived = dj_root_key_id parent"
      using derive_jwk_Inr [OF d] by blast
    ultimately show ?thesis using en by auto
  qed
qed

text \<open>
  The key a definition publishes for a path is the key the decrypting side derives for a record of
  that path from the same root.
\<close>

theorem published_key:
  assumes enc: "with_encryption E rid jwk d = Inr d'"
    and at: "rule_set_at path (def_structure d') = Some rs"
    and w: "wd_protocol (w_descriptor w) = Some (def_protocol d)" "wd_protocol_path (w_descriptor w) = Some path"
    and k: "ek_derivation_scheme k = ProtocolPath"
  shows "\<exists>p derived. key_derivation_path k w = Inr p \<and>
     derive_jwk E (root_key rid jwk) (Full p) = Inr derived \<and>
     rs_encryption rs = Some \<lparr>pe_root_key_id = rid, pe_public_key_jwk = pk_public_key (dj_derived_private_key derived)\<rparr>"
proof -
  let ?pre = "[scheme_str ProtocolPath, def_protocol d]"
  from enc obtain parent st where
      parent: "derive_jwk E (root_key rid jwk) (Relative ?pre) = Inr parent"
      and st: "add_encryption E (def_structure d) parent = Inr st" "d' = d\<lparr>def_structure := st\<rparr>"
    by (auto simp: with_encryption_def monad_simps)
  from add_encryption_at [OF st(1)] at st(2) obtain derived
    where der: "derive_jwk E parent (Relative (split_on (CHR ''/'') path)) = Inr derived"
      and en: "rs_encryption rs = Some \<lparr>pe_root_key_id = dj_root_key_id parent,
       pe_public_key_jwk = pk_public_key (dj_derived_private_key derived)\<rparr>"
    by auto
  have "dj_root_key_id parent = dj_root_key_id (root_key rid jwk)"
    using derive_jwk_Inr [OF parent] by blast
  then have "dj_root_key_id parent = rid" by (simp add: root_key_def)
  moreover have "derive_jwk E (root_key rid jwk) (Full (?pre @ split_on (CHR ''/'') path)) = Inr derived"
    using derive_jwk_compose [OF parent] der derive_jwk_root by metis
  moreover have "key_derivation_path k w = Inr (?pre @ split_on (CHR ''/'') path)"
    using w k by (simp add: key_derivation_path_def)
  ultimately show ?thesis using en by blast
qed

end

end
