(* ===== verification/Key_Properties.thy ===== *)
theory Key_Properties
  imports Encryption Examples
begin

text \<open>
  Keys and encryption: a key derived in steps is the key derived at once, and data encrypted to the key a protocol
  publishes for a path is decrypted with the root key, or with any key between the root and the path.
\<close>

section \<open>Derivation\<close>

text \<open>
  The holder of an intermediate key derives the same keys below it as the holder of the key it came from, by
  relative and by full paths; the derived key records the path that leads to it and the root it comes from.
\<close>

theorem derivation_agrees:
  assumes "key_codec E" and "derive_jwk E a (Relative p) = Inr k"
  shows "derive_jwk E k (Relative q) = derive_jwk E a (Relative (p @ q)) \<and>
    derive_jwk E k (Full (ancestor_path a @ p @ q)) = derive_jwk E a (Full (ancestor_path a @ p @ q)) \<and>
    ancestor_path k = ancestor_path a @ p \<and> dj_root_key_id k = dj_root_key_id a"
  using key_codec.derive_jwk_compose [OF assms] key_codec.derive_jwk_full [OF assms] key_codec.derive_jwk_Inr [OF assms] by blast

definition demo_root :: derived_private_jwk where
  "demo_root = root_key ''root'' \<lparr>pk_public_key = \<lparr>jwk_crv = ''Ed25519'', jwk_x = [], jwk_y = None\<rparr>,
     pk_d = replicate 32 (CHR ''s'')\<rparr>"

lemma derive_key_demo: "list_all (\<lambda>s. s \<noteq> []) p \<Longrightarrow> \<exists>k. derive_key demo_env key p = Inr k"
  by (induction p arbitrary: key) (simp_all add: demo_env_def demo_hkdf_def)

lemma derive_demo_root: "list_all (\<lambda>s. s \<noteq> []) p \<Longrightarrow> \<exists>k. derive_jwk demo_env demo_root (Relative p) = Inr k"
  using derive_key_demo [of p "replicate 32 (CHR ''s'')"]
  by (auto simp: derive_jwk_def demo_root_def root_key_def demo_env_def PUBLIC_KEY_LENGTH_def)

theorem derivation_agrees_witness:
  "\<exists>k. derive_jwk demo_env demo_root (Relative [''a'']) = Inr k \<and>
    derive_jwk demo_env k (Full [''a'', ''b'']) = derive_jwk demo_env demo_root (Full [''a'', ''b''])"
proof -
  obtain k where k: "derive_jwk demo_env demo_root (Relative [''a'']) = Inr k" using derive_demo_root [of "[''a'']"] by auto
  have "ancestor_path demo_root = []" by (simp add: demo_root_def root_key_def ancestor_path_def)
  with derivation_agrees [OF demo_keys.key_codec_axioms k, of "[''b'']"] k show ?thesis by auto
qed

section \<open>Encryption\<close>

text \<open>What the node relies on of the JWE library: decryption undoes encryption to the public key of the decrypting key.\<close>

locale jwe_codec = key_codec E for E :: "('s, 'b) env" +
  assumes jwe: "jwe_content E alg data cek aad s = (Inr (iv, tag, ct), t) \<Longrightarrow>
      jwe_public_key E (x25519_public E key) = Inr pk \<Longrightarrow> jwe_wrap E kalg cek kid pk s' = (Inr kw, t') \<Longrightarrow>
      jwe_decrypt E \<lparr>jwe_enc = alg, jwe_kid = kid, jwe_key = kw, jwe_aad = b64_encode E aad, jwe_iv = iv, jwe_tag = tag,
        jwe_ciphertext = b64_encode E ct\<rparr> (b64_encode E key) = Inr data"
begin

lemma encrypted_keys:
  assumes "smapm rs (encrypt_key E e) s = (Inr ks, t)" and "find (\<lambda>r. rc_key_id r = i \<and> rc_derivation_scheme r = sch) rs = Some r"
  shows "\<exists>k u v. find (\<lambda>k. ek_root_key_id k = i \<and> ek_derivation_scheme k = sch) ks = Some k \<and> encrypt_key E e r u = (Inr k, v)"
  using assms
proof (induction rs arbitrary: s ks)
  case (Cons x rs)
  from Cons.prems(1) obtain k ks' u where k: "encrypt_key E e x s = (Inr k, u)" "ks = k # ks'" and r: "smapm rs (encrypt_key E e) u = (Inr ks', t)"
    by (auto simp: monad_simps)
  have "ek_root_key_id k = rc_key_id x" "ek_derivation_scheme k = rc_derivation_scheme x"
    using k(1) by (auto simp: encrypt_key_def monad_simps)
  with k Cons.IH [OF r] Cons.prems(2) show ?case by (auto split: if_splits)
qed simp

lemma decrypts:
  assumes enc: "encrypt E opts s = (Inr e, t)"
    and rs: "find (\<lambda>r. rc_key_id r = dj_root_key_id a \<and> rc_derivation_scheme r = dj_derivation_scheme a) rs = Some r"
    and fin: "finalize E (e\<lparr>en_recipients := rs\<rparr>) u = (Inr ep, v)" and w: "w_encryption w = Some ep"
    and path: "\<And>k. ek_derivation_scheme k = dj_derivation_scheme a \<Longrightarrow> key_derivation_path k w = Inr path"
    and key: "derive_jwk E a (Full path) = Inr d" "rc_public_key r = pk_public_key (dj_derived_private_key d)"
  shows "decrypt E (en_ciphertext e) w a = Inr (eo_data opts)"
proof -
  let ?e = "e\<lparr>en_recipients := rs\<rparr>"
  from enc obtain x aad where aad: "json_protected E (eo_content_algorithm opts) = Inr aad"
    and content: "jwe_content E (eo_content_algorithm opts) (eo_data opts) (en_cek e) aad x = (Inr (en_iv e, en_tag e, en_ciphertext e), t)"
    and alg: "en_content_algorithm e = eo_content_algorithm opts"
    by (auto simp: encrypt_def monad_simps split: prod.splits)
  from fin obtain ks where ks: "smapm rs (encrypt_key E ?e) u = (Inr ks, v)"
    and ep: "ep = \<lparr>ep_algorithm = en_content_algorithm e, ep_initialization_vector = en_iv e, ep_key_encryption = ks,
      ep_message_authentication_code = Some (en_tag e)\<rparr>"
    by (auto simp: finalize_def monad_simps)
  from encrypted_keys [OF ks rs] obtain k y z
    where k: "find (\<lambda>k. ek_root_key_id k = dj_root_key_id a \<and> ek_derivation_scheme k = dj_derivation_scheme a) ks = Some k"
      and wrap: "encrypt_key E ?e r y = (Inr k, z)" by blast
  have sch: "ek_root_key_id k = dj_root_key_id a" "ek_derivation_scheme k = dj_derivation_scheme a"
    using k by (auto simp: find_Some_iff)
  obtain secret where secret: "pk_d (dj_derived_private_key d) = b64_encode E secret"
    "pk_public_key (dj_derived_private_key d) = \<lparr>jwk_crv = ''Ed25519'', jwk_x = b64_encode E (x25519_public E secret), jwk_y = None\<rparr>"
    using key(1) by (auto simp: derive_jwk_def monad_simps)
  have "decode_public E (rc_public_key r) = Inr (x25519_public E secret)"
    unfolding key(2) secret(2) by (simp add: decode_public_def b64)
  with wrap obtain pk kw where pk: "jwe_public_key E (x25519_public E secret) = Inr pk"
    and kw: "jwe_wrap E (en_key_algorithm e) (en_cek e) (rc_key_id r) pk y = (Inr kw, z)"
    and fields: "ek_root_key_id k = rc_key_id r" "ek_algorithm k = kw_alg kw" "ek_ephemeral_public_key k = kw_epk kw"
      "ek_initialization_vector k = kw_iv kw" "ek_message_authentication_code k = kw_tag kw" "ek_cek k = kw_encrypted_key kw"
    by (auto simp: encrypt_key_def monad_simps split: if_splits)
  have wrapped: "kw = \<lparr>kw_alg = ek_algorithm k, kw_epk = ek_ephemeral_public_key k, kw_iv = ek_initialization_vector k,
      kw_tag = ek_message_authentication_code k, kw_encrypted_key = ek_cek k\<rparr>"
    using fields by (cases kw) simp
  from jwe [OF content pk kw] show ?thesis
    unfolding wrapped using w ep k path [OF sch(2)] key(1) aad alg fields(1) secret(1) by (simp add: decrypt_def)
qed

end

interpretation demo_jwe: jwe_codec demo_env
  by unfold_locales (simp add: demo_env_def)

section \<open>Encryption to the key a protocol publishes\<close>

text \<open>
  C26. Data encrypted for the key that a definition publishes at a protocol path is given back by decryption of a record
  of that path with the root key, and with every key derived from the root on the way to the path.
\<close>

theorem published_key_decrypts:
  assumes codec: "jwe_codec E" and published: "with_encryption E rid jwk d = Inr d'"
    and at: "rule_set_at path (def_structure d') = Some rs" "rs_encryption rs = Some pe"
    and stored: "wd_protocol (w_descriptor w) = Some (def_protocol d)" "wd_protocol_path (w_descriptor w) = Some path"
    and encrypted: "encrypt E opts s = (Inr e, t)"
    and recipient: "find (\<lambda>r. rc_key_id r = rid \<and> rc_derivation_scheme r = ProtocolPath) recipients = Some r"
      "rc_public_key r = pe_public_key_jwk pe"
    and sealed: "finalize E (e\<lparr>en_recipients := recipients\<rparr>) u = (Inr ep, v)" "w_encryption w = Some ep"
  shows "decrypt E (en_ciphertext e) w (root_key rid jwk) = Inr (eo_data opts) \<and>
    (\<forall>p q a. [''protocolPath'', def_protocol d] @ split_on (CHR ''/'') path = p @ q \<longrightarrow>
       derive_jwk E (root_key rid jwk) (Relative p) = Inr a \<longrightarrow> decrypt E (en_ciphertext e) w a = Inr (eo_data opts))"
proof -
  note keys = jwe_codec.axioms(1) [OF codec]
  let ?root = "root_key rid jwk" and ?path = "[''protocolPath'', def_protocol d] @ split_on (CHR ''/'') path"
  have path: "key_derivation_path k w = Inr ?path" if "ek_derivation_scheme k = ProtocolPath" for k
    using stored that by (simp add: key_derivation_path_def)
  obtain k0 :: encrypted_key where k0: "ek_derivation_scheme k0 = ProtocolPath" by (metis encrypted_key.select_convs(3))
  from key_codec.published_key [OF keys published at(1) stored k0] path [OF k0] at(2) obtain d1
    where d1: "derive_jwk E ?root (Full ?path) = Inr d1" "pe_public_key_jwk pe = pk_public_key (dj_derived_private_key d1)"
    by auto
  have dec: "decrypt E (en_ciphertext e) w a = Inr (eo_data opts)"
    if "derive_jwk E a (Full ?path) = Inr d1" "dj_root_key_id a = rid" "dj_derivation_scheme a = ProtocolPath" for a
    using jwe_codec.decrypts [OF codec encrypted _ sealed _ that(1)] recipient d1(2) path that(2,3) by simp
  have root: "decrypt E (en_ciphertext e) w ?root = Inr (eo_data opts)"
    by (rule dec [OF d1(1)]) (simp_all add: root_key_def)
  have below: "decrypt E (en_ciphertext e) w a = Inr (eo_data opts)"
    if split: "?path = p @ q" and a: "derive_jwk E ?root (Relative p) = Inr a" for p q a
  proof (rule dec)
    have "ancestor_path ?root = []" by (simp add: root_key_def ancestor_path_def)
    with key_codec.derive_jwk_full [OF keys a, of q] d1(1) split show "derive_jwk E a (Full ?path) = Inr d1" by simp
  qed (use key_codec.derive_jwk_Inr [OF keys a] in \<open>auto simp: root_key_def\<close>)
  from root below show ?thesis by blast
qed

text \<open>A definition with a path of two types, and a record of that path.\<close>

definition blog_definition :: definition_t where
  "blog_definition = \<lparr>def_protocol = ''https://blog'', def_published = True,
     def_types = [(''post'', \<lparr>pt_schema = None, pt_data_formats = None\<rparr>), (''comment'', \<lparr>pt_schema = None, pt_data_formats = None\<rparr>)],
     def_structure = [(''post'', RuleSet None None None None None [(''comment'', RuleSet None None None None None [])])]\<rparr>"

definition blog_recipient :: "public_key_jwk \<Rightarrow> recipient" where
  "blog_recipient key = \<lparr>rc_key_id = ''root'', rc_public_key = key, rc_derivation_scheme = ProtocolPath\<rparr>"

definition comment_write :: "encryption_property \<Rightarrow> write_msg" where
  "comment_write ep =
     \<lparr>w_descriptor = hello_descriptor\<lparr>wd_protocol := Some ''https://blog'', wd_protocol_path := Some ''post/comment''\<rparr>,
      w_authorization = Authorization (Jws ''|||'' alice) None None None, w_record_id = [], w_context_id = None,
      w_attestation = None, w_encryption = Some ep, w_encoded_data = None, w_data_stream = None\<rparr>"

lemma derive_demo:
  assumes "list_all (\<lambda>s. s \<noteq> []) p" and "length (pk_d (dj_derived_private_key a)) = PUBLIC_KEY_LENGTH"
  shows "\<exists>k. derive_jwk demo_env a (Relative p) = Inr k \<and> length (pk_d (dj_derived_private_key k)) = PUBLIC_KEY_LENGTH \<and>
    jwk_crv (pk_public_key (dj_derived_private_key k)) = ''Ed25519''"
proof -
  from derive_key_demo [OF assms(1)] obtain key where "derive_key demo_env (pk_d (dj_derived_private_key a)) p = Inr key" by blast
  with assms demo_keys.derive_key_length [OF this] show ?thesis by (auto simp: derive_jwk_def demo_env_def)
qed

lemma blog_published:
  "\<exists>d' rs key. with_encryption demo_env ''root'' (dj_derived_private_key demo_root) blog_definition = Inr d' \<and>
    rule_set_at ''post/comment'' (def_structure d') = Some rs \<and>
    rs_encryption rs = Some \<lparr>pe_root_key_id = ''root'', pe_public_key_jwk = key\<rparr> \<and> jwk_crv key = ''Ed25519''"
  (is "\<exists>d' rs key. with_encryption demo_env ''root'' ?jwk blog_definition = _ \<and> _ \<and> _")
proof -
  let ?root = "root_key ''root'' ?jwk"
  have "length (pk_d (dj_derived_private_key ?root)) = PUBLIC_KEY_LENGTH"
    by (simp add: root_key_def demo_root_def PUBLIC_KEY_LENGTH_def)
  then obtain k1 where k1: "derive_jwk demo_env ?root (Relative [''protocolPath'', ''https://blog'']) = Inr k1"
      "length (pk_d (dj_derived_private_key k1)) = PUBLIC_KEY_LENGTH"
    using derive_demo [of "[''protocolPath'', ''https://blog'']"] by auto
  obtain k2 where k2: "derive_jwk demo_env k1 (Relative [''post'']) = Inr k2" "length (pk_d (dj_derived_private_key k2)) = PUBLIC_KEY_LENGTH"
    using derive_demo [OF _ k1(2), of "[''post'']"] by auto
  obtain k3 where k3: "derive_jwk demo_env k2 (Relative [''comment'']) = Inr k3" "jwk_crv (pk_public_key (dj_derived_private_key k3)) = ''Ed25519''"
    using derive_demo [OF _ k2(2), of "[''comment'']"] by auto
  have root: "dj_root_key_id k2 = ''root''"
    using demo_keys.derive_jwk_Inr [OF k1(1)] demo_keys.derive_jwk_Inr [OF k2(1)] by (simp add: root_key_def)
  from k1 k2 k3 root show ?thesis
    by (simp add: with_encryption_def blog_definition_def rule_set_at.simps)
qed

theorem published_key_decrypts_witness:
  "\<exists>e key ep. encrypt demo_env (encrypt_options_new\<lparr>eo_data := ''secret''\<rparr>) demo_empty = (Inr e, demo_empty) \<and>
    finalize demo_env (e\<lparr>en_recipients := [blog_recipient key]\<rparr>) demo_empty = (Inr ep, demo_empty) \<and>
    decrypt demo_env (en_ciphertext e) (comment_write ep) (root_key ''root'' (dj_derived_private_key demo_root)) = Inr ''secret''"
proof -
  from blog_published obtain d' rs key
    where d: "with_encryption demo_env ''root'' (dj_derived_private_key demo_root) blog_definition = Inr d'"
      "rule_set_at ''post/comment'' (def_structure d') = Some rs"
      "rs_encryption rs = Some \<lparr>pe_root_key_id = ''root'', pe_public_key_jwk = key\<rparr>"
      and crv: "jwk_crv key = ''Ed25519''" by blast
  have w: "wd_protocol (w_descriptor (comment_write ep)) = Some (def_protocol blog_definition)"
    "wd_protocol_path (w_descriptor (comment_write ep)) = Some ''post/comment''" "w_encryption (comment_write ep) = Some ep" for ep
    by (simp_all add: comment_write_def hello_descriptor_def blog_definition_def)
  obtain e where e: "encrypt demo_env (encrypt_options_new\<lparr>eo_data := ''secret''\<rparr>) demo_empty = (Inr e, demo_empty)"
      "length (en_cek e) = 32" "en_key_algorithm e = EcdhEsA256Kw"
    by (simp add: encrypt_def encrypt_options_new_def demo_env_def sbind_def with_err_def sret_def lift_def)
  obtain ep where ep: "finalize demo_env (e\<lparr>en_recipients := [blog_recipient key]\<rparr>) demo_empty = (Inr ep, demo_empty)"
    using e(2,3) crv
    by (simp add: finalize_def encrypt_key_def decode_public_def blog_recipient_def demo_env_def sbind_def with_err_def sret_def lift_def)
  have r: "find (\<lambda>r. rc_key_id r = ''root'' \<and> rc_derivation_scheme r = ProtocolPath) [blog_recipient key] = Some (blog_recipient key)"
    "rc_public_key (blog_recipient key) = pe_public_key_jwk \<lparr>pe_root_key_id = ''root'', pe_public_key_jwk = key\<rparr>"
    by (simp_all add: blog_recipient_def)
  from published_key_decrypts [OF demo_jwe.jwe_codec_axioms d w(1,2) e(1) r ep w(3)] e(1) ep show ?thesis by auto
qed

end
