(* ===== verification/Test_Node.thy ===== *)
theory Test_Node
  imports Announcements Key_Properties
begin

text \<open>
  The test node (\<open>src/crates/test-node\<close>): its event stream, which is a NATS client, its key rings, and the receiver of
  \<open>src/src/records/encryption.rs\<close> that works on the secret key of such a ring. The NATS client, the Ed25519 and X25519
  libraries, SHA-512 and the multibase encoding are parameters with their documented laws. The stream keeps the contract
  of an event stream, and what is encrypted to a key ring's public key can be decrypted with its secret key.
\<close>

section \<open>The event stream\<close>

text \<open>A NATS client and the JSON form of events; the payload \<open>'p\<close> of a message is only passed on.\<close>

record ('s, 'p) nats =
  nats_publish :: "string \<Rightarrow> 'p \<Rightarrow> 's \<Rightarrow> (string + unit) \<times> 's"
  nats_subscribe :: "string \<Rightarrow> 's \<Rightarrow> (string + ('s \<Rightarrow> 'p list)) \<times> 's"
  json_event :: "entry \<Rightarrow> string + 'p"
  json_to_event :: "'p \<Rightarrow> string + entry"

definition SUBJECT :: string where
  "SUBJECT = ''events''"

definition subject :: "string \<Rightarrow> string" where
  "subject ow = SUBJECT @ ''.'' @ ow"

text \<open>The payloads are decoded as they are polled; one that cannot be decoded panics, and nothing comes after it.\<close>

fun decoded :: "('s, 'p) nats \<Rightarrow> 'p list \<Rightarrow> entry list" where
  "decoded N [] = []"
| "decoded N (m # ms) = (case json_to_event N m of Inl x \<Rightarrow> [] | Inr e \<Rightarrow> e # decoded N ms)"

definition node_subscribe :: "('s, 'p) nats \<Rightarrow> string \<Rightarrow> 's \<Rightarrow> (string + 's subscriber) \<times> 's" where
  "node_subscribe N ow s =
     (case nats_subscribe N (subject ow) s of
        (Inl x, t) \<Rightarrow> (Inl x, t)
      | (Inr messages, t) \<Rightarrow> (Inr (subscriber_new (\<lambda>u. decoded N (messages u))), t))"

definition node_emit :: "('s, 'p) nats \<Rightarrow> string \<Rightarrow> entry \<Rightarrow> 's \<Rightarrow> (string + unit) \<times> 's" where
  "node_emit N ow event s =
     (case json_event N event of
        Inl x \<Rightarrow> (Inl x, s)
      | Inr bytes \<Rightarrow> nats_publish N (subject ow) bytes s)"

text \<open>The test node: a block store with this stream of events.\<close>

definition provider_impl :: "('s, 'p) nats \<Rightarrow> ('s, 'b) env \<Rightarrow> ('s, 'b) env" where
  "provider_impl N E = E\<lparr>es_emit := node_emit N, es_subscribe := node_subscribe N\<rparr>"

text \<open>
  The contract of the client. \<open>delivered\<close> is what was published on a subject; a subscription to a subject without wildcards
  (\<open>plain\<close>) receives what is published on this subject from then on, in order. Nobody but the node publishes on the
  subjects of owners.
\<close>

locale nats_client = pure_reads E for E :: "('s, 'b) env" +
  fixes N :: "('s, 'p) nats" and delivered :: "string \<Rightarrow> 's \<Rightarrow> 'p list" and plain :: "string \<Rightarrow> bool"
  assumes put_delivered: "delivered q (snd (bs_put E ow pa c d s)) = delivered q s"
    and delete_delivered: "delivered q (snd (bs_delete E ow pa c s)) = delivered q s"
    and ulid_delivered: "delivered q (snd (ulid_new E s)) = delivered q s"
    and publish: "plain q \<Longrightarrow> nats_publish N p m s = (Inr (), t) \<Longrightarrow> delivered q t = delivered q s @ (if q = p then [m] else [])"
    and publish_failed: "nats_publish N p m s = (Inl x, t) \<Longrightarrow> delivered q t = delivered q s"
    and subscribe_only: "snd (nats_subscribe N p s) = s"
    and subscribe_receives: "plain p \<Longrightarrow> nats_subscribe N p s = (Inr str, t) \<Longrightarrow> str u = drop (length (delivered p s)) (delivered p u)"
    and json_back: "json_event N e = Inr m \<Longrightarrow> json_to_event N m = Inr (ser_entry e)"
    and node_only: "m \<in> set (delivered (subject ow) s) \<Longrightarrow> \<exists>e. json_to_event N m = Inr e"

lemma subject_inj [simp]: "subject a = subject b \<longleftrightarrow> a = b"
  by (simp add: subject_def)

text \<open>Where every payload can be decoded, decoding is a map.\<close>

lemma decoded_map: "(\<And>m. m \<in> set ms \<Longrightarrow> \<exists>e. json_to_event N m = Inr e) \<Longrightarrow> decoded N ms = map (\<lambda>m. projr (json_to_event N m)) ms"
  by (induction ms) fastforce+

context nats_client
begin

definition received :: "string \<Rightarrow> 's \<Rightarrow> entry list" where
  "received ow s = decoded N (delivered (subject ow) s)"

lemma received_map: "received ow s = map (\<lambda>m. projr (json_to_event N m)) (delivered (subject ow) s)"
  unfolding received_def by (rule decoded_map) (rule node_only)

lemma decoded_drop: "decoded N (drop n (delivered (subject ow) s)) = drop n (received ow s)"
proof -
  have "decoded N (drop n (delivered (subject ow) s)) = map (\<lambda>m. projr (json_to_event N m)) (drop n (delivered (subject ow) s))"
    by (rule decoded_map) (meson in_set_dropD node_only)
  then show ?thesis by (simp add: received_map drop_map)
qed

lemma node_emits:
  assumes "plain (subject who)" and "node_emit N ow e s = (Inr (), t)"
  shows "received who t = received who s @ (if who = ow then [ser_entry e] else [])"
proof -
  from assms(2) obtain m where m: "json_event N e = Inr m" "nats_publish N (subject ow) m s = (Inr (), t)"
    by (auto simp: node_emit_def split: sum.splits)
  with publish [OF assms(1) m(2)] json_back [OF m(1)] show ?thesis by (simp add: received_map)
qed

lemma node_emit_failed: "node_emit N ow e s = (Inl x, t) \<Longrightarrow> received who t = received who s"
  using publish_failed by (auto simp: node_emit_def received_def split: sum.splits)

lemma node_subscribes:
  assumes "plain (subject ow)" and "node_subscribe N ow s = (Inr sub, t)"
  shows "sub_inner sub u = drop (length (received ow s)) (received ow u)"
proof -
  from assms(2) obtain str where "nats_subscribe N (subject ow) s = (Inr str, t)" "sub = subscriber_new (\<lambda>u. decoded N (str u))"
    by (auto simp: node_subscribe_def split: prod.splits sum.splits)
  moreover from this(1) have "str u = drop (length (received ow s)) (delivered (subject ow) u)"
    using subscribe_receives [OF assms(1)] by (simp add: received_map)
  ultimately show ?thesis by (simp add: subscriber_new_def decoded_drop)
qed

lemma blocks_received:
  "received who (snd (bs_put E ow pa c d s)) = received who s" "received who (snd (bs_delete E ow pa c s)) = received who s"
  "received who (snd (ulid_new E s)) = received who s"
  by (simp_all add: received_def put_delivered delete_delivered ulid_delivered)

end

sublocale nats_client \<subseteq> node: event_stream "provider_impl N E" received "\<lambda>ow. plain (subject ow)"
proof
  fix ow pa c s show "snd (bs_get (provider_impl N E) ow pa c s) = s" using get_pure by (simp add: provider_impl_def)
next
  fix ow s show "snd (es_subscribe (provider_impl N E) ow s) = s"
    using subscribe_only [of "subject ow" s] by (auto simp: provider_impl_def node_subscribe_def split: prod.splits sum.splits)
qed (auto simp: provider_impl_def blocks_received node_emits node_emit_failed node_subscribes)

text \<open>A client that keeps all messages.\<close>

definition demo_nats :: "(demo, entry) nats" where
  "demo_nats =
     \<lparr>nats_publish = (\<lambda>q m s. (Inr (), s\<lparr>dm_events := dm_events s @ [(q, m)]\<rparr>)),
      nats_subscribe = (\<lambda>q s. (Inr (\<lambda>u. drop (length (filter (\<lambda>p. fst p = q) (dm_events s)))
        (map snd (filter (\<lambda>p. fst p = q) (dm_events u)))), s)),
      json_event = (\<lambda>e. Inr (ser_entry e)),
      json_to_event = Inr\<rparr>"

interpretation demo_client: nats_client demo_env demo_nats "\<lambda>q s. map snd (filter (\<lambda>p. fst p = q) (dm_events s))" "\<lambda>_. True"
  by unfold_locales (auto simp: demo_nats_def demo_env_def)

section \<open>Key rings\<close>

text \<open>
  The libraries: Ed25519 keys and signatures, the conversion of a verifying key to X25519, the Diffie-Hellman function,
  SHA-512 and multibase.
\<close>

record 's dalek =
  ed_generate :: "'s \<Rightarrow> bytes \<times> 's"
  ed_public :: "bytes \<Rightarrow> bytes"
  ed_sign :: "bytes \<Rightarrow> bytes \<Rightarrow> bytes"
  to_montgomery :: "bytes \<Rightarrow> bytes"
  dh_shared :: "bytes \<Rightarrow> bytes \<Rightarrow> string + bytes"
  sha512 :: "bytes \<Rightarrow> bytes"
  base58btc :: "bytes \<Rightarrow> string"

definition ED25519_CODEC :: bytes where
  "ED25519_CODEC = [CHR 0xED, CHR 0x01]"

record keyring =
  kr_did :: string
  kr_public_key :: string
  kr_secret_key :: string

definition new_keyring :: "'s dalek \<Rightarrow> ('s, 'b) env \<Rightarrow> 's \<Rightarrow> keyring \<times> 's" where
  "new_keyring L E s =
     (let (signing_key, t) = ed_generate L s;
          verifying_key = ed_public L signing_key;
          verifying_multi = base58btc L (ED25519_CODEC @ verifying_key);
          x25519_bytes = to_montgomery L verifying_key
      in (\<lparr>kr_did = ''did:key:'' @ verifying_multi, kr_public_key = b64_encode E x25519_bytes,
           kr_secret_key = b64_encode E signing_key\<rparr>, t))"

text \<open>Both \<open>unwrap\<close>s of \<open>public_key\<close> panic: on text that is not base64url, and on bytes that are not a key.\<close>

definition keyring_public_key :: "('s, 'b) env \<Rightarrow> keyring \<Rightarrow> bytes result" where
  "keyring_public_key E k =
     (case b64_decode E (kr_public_key k) of
        Inl x \<Rightarrow> Inl (Panic (''called `Result::unwrap()` on an `Err` value: '' @ x))
      | Inr public_bytes \<Rightarrow>
          if length public_bytes = 32 then Inr public_bytes
          else Inl (Panic ''called `Result::unwrap()` on an `Err` value''))"

text \<open>The signing key that a secret, encoded, stands for.\<close>

definition decode_secret :: "('s, 'b) env \<Rightarrow> string \<Rightarrow> string + bytes" where
  "decode_secret E secret =
     (case b64_decode E secret of
        Inl x \<Rightarrow> Inl x
      | Inr bytes \<Rightarrow> if length bytes = PUBLIC_KEY_LENGTH then Inr bytes else Inl ''invalid secret key'')"

definition keyring_try_sign :: "'s dalek \<Rightarrow> ('s, 'b) env \<Rightarrow> keyring \<Rightarrow> bytes \<Rightarrow> string + bytes" where
  "keyring_try_sign L E k msg =
     (case decode_secret E (kr_secret_key k) of Inl x \<Rightarrow> Inl x | Inr sk \<Rightarrow> Inr (ed_sign L sk msg))"

definition keyring_verifying_key :: "'s dalek \<Rightarrow> ('s, 'b) env \<Rightarrow> keyring \<Rightarrow> string + bytes" where
  "keyring_verifying_key L E k =
     (case decode_secret E (kr_secret_key k) of Inl x \<Rightarrow> Inl x | Inr sk \<Rightarrow> Inr (ed_public L sk))"

definition strip_prefix :: "string \<Rightarrow> string \<Rightarrow> string option" where
  "strip_prefix p s = (if starts_with s p then Some (drop (length p) s) else None)"

definition keyring_verification_method :: "keyring \<Rightarrow> string" where
  "keyring_verification_method k =
     (let verify_key = (case strip_prefix ''did:key:'' (kr_did k) of None \<Rightarrow> [] | Some v \<Rightarrow> v)
      in kr_did k @ ''#'' @ verify_key)"

definition keyring_key_id :: "keyring \<Rightarrow> string" where
  "keyring_key_id k = kr_did k"

text \<open>The X25519 secret of an Ed25519 signing key is the first half of its hash.\<close>

definition dh_secret :: "'s dalek \<Rightarrow> bytes \<Rightarrow> bytes" where
  "dh_secret L sk = take PUBLIC_KEY_LENGTH (sha512 L sk)"

definition keyring_shared_secret :: "'s dalek \<Rightarrow> ('s, 'b) env \<Rightarrow> keyring \<Rightarrow> bytes \<Rightarrow> string + bytes" where
  "keyring_shared_secret L E k sender_public =
     (case decode_secret E (kr_secret_key k) of
        Inl x \<Rightarrow> Inl x
      | Inr sk \<Rightarrow> dh_shared L (dh_secret L sk) sender_public)"

text \<open>The receiver with which a record is decrypted, made from an encoded secret.\<close>

datatype receiver_impl = ReceiverImpl string

primrec receiver_key_id :: "receiver_impl \<Rightarrow> string" where
  "receiver_key_id (ReceiverImpl secret) = []"

primrec receiver_shared_secret :: "'s dalek \<Rightarrow> ('s, 'b) env \<Rightarrow> receiver_impl \<Rightarrow> bytes \<Rightarrow> string + bytes" where
  "receiver_shared_secret L E (ReceiverImpl secret) sender_public =
     (case decode_secret E secret of
        Inl x \<Rightarrow> Inl x
      | Inr sk \<Rightarrow> dh_shared L (dh_secret L sk) sender_public)"

text \<open>
  The laws of the libraries: base64url, the length of keys, signatures, the agreement of the Diffie-Hellman function, and
  that converting a verifying key gives the X25519 public key of the hashed signing key.
\<close>

locale curves =
  fixes E :: "('s, 'b) env" and L :: "'s dalek" and verifies :: "bytes \<Rightarrow> bytes \<Rightarrow> bytes \<Rightarrow> bool" and x_public :: "bytes \<Rightarrow> bytes"
  assumes b64_same: "b64_decode E (b64_encode E b) = Inr b"
    and secret_length: "ed_generate L s = (sk, t) \<Longrightarrow> length sk = PUBLIC_KEY_LENGTH"
    and public_length: "length (to_montgomery L vk) = PUBLIC_KEY_LENGTH"
    and signature: "verifies (ed_public L sk) msg (ed_sign L sk msg)"
    and conversion: "to_montgomery L (ed_public L sk) = x_public (take PUBLIC_KEY_LENGTH (sha512 L sk))"
    and agreement: "dh_shared L a (x_public b) = dh_shared L b (x_public a)"
begin

lemma keyring_secret:
  assumes "new_keyring L E s = (k, t)"
  shows "\<exists>sk. decode_secret E (kr_secret_key k) = Inr sk \<and> kr_did k = ''did:key:'' @ base58btc L (ED25519_CODEC @ ed_public L sk) \<and>
    keyring_public_key E k = Inr (x_public (dh_secret L sk))"
proof -
  obtain sk u where g: "ed_generate L s = (sk, u)" by (cases "ed_generate L s")
  have "length (x_public (dh_secret L sk)) = 32" using public_length [of "ed_public L sk"] conversion [of sk]
    by (simp add: PUBLIC_KEY_LENGTH_def dh_secret_def)
  with g assms secret_length [OF g] show ?thesis
    by (auto simp: new_keyring_def decode_secret_def keyring_public_key_def b64_same conversion dh_secret_def [symmetric] Let_def)
qed

end

text \<open>
  C27. A new key ring holds together: with the key it publishes, a sender computes the secret that the ring computes from
  the sender's public key, and so does the receiver made from the ring's secret key; its signatures verify with its
  verifying key, which its identifier and its verification method name.
\<close>

theorem keyring_agrees:
  assumes "curves E L verifies x_public" and "new_keyring L E s = (k, t)"
  shows "\<exists>pk vk. keyring_public_key E k = Inr pk \<and> keyring_verifying_key L E k = Inr vk \<and>
    keyring_shared_secret L E k (x_public e) = dh_shared L e pk \<and>
    receiver_shared_secret L E (ReceiverImpl (kr_secret_key k)) (x_public e) = dh_shared L e pk \<and>
    (\<exists>sig. keyring_try_sign L E k msg = Inr sig \<and> verifies vk msg sig) \<and>
    keyring_key_id k = ''did:key:'' @ base58btc L (ED25519_CODEC @ vk) \<and>
    keyring_verification_method k = keyring_key_id k @ ''#'' @ base58btc L (ED25519_CODEC @ vk)"
proof -
  from curves.keyring_secret [OF assms] obtain sk where "decode_secret E (kr_secret_key k) = Inr sk"
    "kr_did k = ''did:key:'' @ base58btc L (ED25519_CODEC @ ed_public L sk)" "keyring_public_key E k = Inr (x_public (dh_secret L sk))"
    by blast
  then show ?thesis
    using curves.agreement [OF assms(1), of e "dh_secret L sk"] curves.signature [OF assms(1), of sk msg]
    by (simp add: keyring_verifying_key_def keyring_shared_secret_def keyring_try_sign_def keyring_verification_method_def
        keyring_key_id_def strip_prefix_def starts_with_def)
qed

definition demo_dalek :: "demo dalek" where
  "demo_dalek =
     \<lparr>ed_generate = (\<lambda>s. (replicate PUBLIC_KEY_LENGTH (CHR ''s''), s)),
      ed_public = (\<lambda>sk. sk),
      ed_sign = (\<lambda>sk msg. sk @ msg),
      to_montgomery = (\<lambda>vk. take PUBLIC_KEY_LENGTH (vk @ replicate 64 (CHR ''0''))),
      dh_shared = (\<lambda>a b. Inr (if a \<le> b then a @ b else b @ a)),
      sha512 = (\<lambda>b. take 64 (b @ replicate 64 (CHR ''0''))),
      base58btc = (\<lambda>b. b)\<rparr>"

interpretation demo_curves: curves demo_env demo_dalek "\<lambda>vk msg sig. sig = vk @ msg" "\<lambda>k. k"
  by unfold_locales (auto simp: demo_dalek_def PUBLIC_KEY_LENGTH_def)

theorem keyring_agrees_witness:
  "\<exists>k pk. new_keyring demo_dalek demo_env demo_empty = (k, demo_empty) \<and> keyring_public_key demo_env k = Inr pk \<and>
    keyring_shared_secret demo_dalek demo_env k hello = dh_shared demo_dalek hello pk"
proof -
  obtain k where k: "new_keyring demo_dalek demo_env demo_empty = (k, demo_empty)" by (simp add: new_keyring_def demo_dalek_def)
  from keyring_agrees [OF demo_curves.curves_axioms k, of hello "[]"] k show ?thesis by blast
qed

end
