(* ===== verification/Store_Builders.thy ===== *)
theory Store_Builders
  imports Endpoint Client
begin

text \<open>
  The builders the node itself uses: of store queries (\<open>src/src/store.rs\<close>), of the handle through which the indexes are
  reached (\<open>src/src/store/index.rs\<close>), and of pages; with the default values and conversions of the data types
  (\<open>src/src/lib.rs\<close>, \<open>src/src/records.rs\<close>, \<open>src/src/grants.rs\<close>). The handlers' queries are stated in their theories as what
  the builder yields. The lemmas here show that each is made by the chain of calls in the source.
\<close>

section \<open>Defaults and conversions\<close>

text \<open>A type's own default value is an argument.\<close>

definition one_or_many_default :: "'a \<Rightarrow> 'a one_or_many" where
  "one_or_many_default d = One d"

definition one_or_many_from :: "'a \<Rightarrow> 'a one_or_many" where
  "one_or_many_from v = One v"

definition one_or_many_from_vec :: "'a list \<Rightarrow> 'a one_or_many" where
  "one_or_many_from_vec vs = Many vs"

definition lower_default :: "'a \<Rightarrow> 'a lower" where
  "lower_default d = Lower_Exclusive d"

definition upper_default :: "'a \<Rightarrow> 'a upper" where
  "upper_default d = Upper_Exclusive d"

definition tag_filter_default :: tag_filter where
  "tag_filter_default = TF_Equal Tag_Empty"

definition records_scope_default :: records_scope where
  "records_scope_default = Scope_ContextId []"

definition scope_default :: scope where
  "scope_default = Scope_Records M_Read [] None"

lemma to_vec_from_vec: "to_vec (one_or_many_from_vec vs) = vs" "to_vec (one_or_many_from v) = [v]"
  by (simp_all add: one_or_many_from_vec_def one_or_many_from_def)

text \<open>A tag filter that is left at its default matches no tag that has a value.\<close>

lemma default_tag_filter: "tag_filter_is_match tag_filter_default t \<longleftrightarrow> t = Tag_Empty"
  by (auto simp: tag_filter_default_def)

section \<open>Pages\<close>

definition pagination_new :: pagination where
  "pagination_new = \<lparr>pg_limit = None, pg_cursor = None\<rparr>"

definition pagination_limit :: "usize \<Rightarrow> pagination \<Rightarrow> pagination" where
  "pagination_limit n p = p\<lparr>pg_limit := Some n\<rparr>"

definition pagination_cursor :: "cursor \<Rightarrow> pagination \<Rightarrow> pagination" where
  "pagination_cursor c p = p\<lparr>pg_cursor := Some c\<rparr>"

section \<open>Store queries\<close>

record protocols_store_builder =
  psb_protocol :: "string option"
  psb_published :: "bool option"

definition protocols_store_builder_new :: protocols_store_builder where
  "protocols_store_builder_new = \<lparr>psb_protocol = None, psb_published = None\<rparr>"

definition protocols_store_builder_protocol :: "string \<Rightarrow> protocols_store_builder \<Rightarrow> protocols_store_builder" where
  "protocols_store_builder_protocol p b = b\<lparr>psb_protocol := Some p\<rparr>"

definition protocols_store_builder_published :: "bool \<Rightarrow> protocols_store_builder \<Rightarrow> protocols_store_builder" where
  "protocols_store_builder_published x b = b\<lparr>psb_published := Some x\<rparr>"

definition protocols_store_builder_build :: "protocols_store_builder \<Rightarrow> query" where
  "protocols_store_builder_build b = protocols_query_build (psb_protocol b) (psb_published b)"

definition records_query_method :: "dwn_method option \<Rightarrow> records_query_builder \<Rightarrow> records_query_builder" where
  "records_query_method m b = b\<lparr>rqb_method := m\<rparr>"

definition records_query_include_archived :: "bool \<Rightarrow> records_query_builder \<Rightarrow> records_query_builder" where
  "records_query_include_archived x b = b\<lparr>rqb_include_archived := x\<rparr>"

definition records_query_sort :: "sort \<Rightarrow> records_query_builder \<Rightarrow> records_query_builder" where
  "records_query_sort x b = b\<lparr>rqb_sort := x\<rparr>"

definition records_query_pagination :: "pagination \<Rightarrow> records_query_builder \<Rightarrow> records_query_builder" where
  "records_query_pagination p b = b\<lparr>rqb_pagination := Some p\<rparr>"

record granted_query_builder =
  gqb_permission_grant_id :: "string option"
  gqb_date_created :: "date_range option"

definition granted_query_builder_new :: granted_query_builder where
  "granted_query_builder_new = \<lparr>gqb_permission_grant_id = None, gqb_date_created = None\<rparr>"

definition granted_query_permission_grant_id :: "string \<Rightarrow> granted_query_builder \<Rightarrow> granted_query_builder" where
  "granted_query_permission_grant_id i b = b\<lparr>gqb_permission_grant_id := Some i\<rparr>"

definition granted_query_date_created :: "date_range \<Rightarrow> granted_query_builder \<Rightarrow> granted_query_builder" where
  "granted_query_date_created r b = b\<lparr>gqb_date_created := Some r\<rparr>"

definition granted_query_builder_build :: "granted_query_builder \<Rightarrow> query" where
  "granted_query_builder_build b = granted_query_build (gqb_permission_grant_id b) (gqb_date_created b)"

lemmas store_setters =
  protocols_store_builder_new_def protocols_store_builder_protocol_def protocols_store_builder_published_def
  protocols_store_builder_build_def records_query_method_def records_query_include_archived_def records_query_sort_def
  records_query_pagination_def granted_query_builder_new_def granted_query_permission_grant_id_def
  granted_query_date_created_def granted_query_builder_build_def filter_record_id_def filter_parent_id_def
  filter_protocol_def filter_protocol_path_def filter_context_id_def add_filter_def

subsection \<open>The queries of the handlers are built this way\<close>

lemma existing_query_built:
  "existing_query rid = records_query_build (records_query_method None (records_query_include_archived True
     (add_filter (filter_record_id rid records_filter_new) records_query_builder_new)))"
  by (simp add: existing_query_def store_setters)

lemma all_writes_query_built:
  "all_writes_query rid = records_query_build (records_query_include_archived True
     (add_filter (filter_record_id rid records_filter_new) records_query_builder_new))"
  by (simp add: all_writes_query_def store_setters)

lemma delete_query_built:
  "delete_query rid = records_query_build
     (add_filter (filter_record_id rid records_filter_new) (records_query_method None records_query_builder_new))"
  by (simp add: delete_query_def store_setters records_query_builder_new_def)

lemma by_record_id_built:
  "by_record_id rid = records_query_build (add_filter (filter_record_id rid records_filter_new) records_query_builder_new)"
  by (simp add: by_record_id_def store_setters)

lemma children_query_built:
  "children_query rid = records_query_build (add_filter (filter_parent_id rid records_filter_new) records_query_builder_new)"
  by (simp add: children_query_def store_setters)

lemma parent_query_built:
  "parent_query i p = records_query_build
     (add_filter (filter_protocol p (filter_record_id i records_filter_new)) records_query_builder_new)"
  by (simp add: parent_query_def store_setters)

lemma revocations_of_built:
  "revocations_of i = records_query_build
     (add_filter (filter_protocol_path REVOCATION_PATH (filter_parent_id i records_filter_new)) records_query_builder_new)"
  by (simp add: revocations_of_def store_setters)

text \<open>The query of \<open>fetch_config\<close>, where the protocol is optional, and that of the protocols query.\<close>

lemma protocols_query_built:
  "protocols_query_build p x = protocols_store_builder_build
     (let b = protocols_store_builder_new;
          b = (case p of None \<Rightarrow> b | Some u \<Rightarrow> protocols_store_builder_protocol u b)
      in case x of None \<Rightarrow> b | Some y \<Rightarrow> protocols_store_builder_published y b)"
  by (cases p; cases x) (simp_all add: store_setters)

lemma granted_query_built:
  "granted_query_build (Some i) (Some r) = granted_query_builder_build
     (granted_query_date_created r (granted_query_permission_grant_id i granted_query_builder_new))"
  by (simp add: store_setters)

text \<open>The query of someone other than the owner, with the sort order and the page of the request.\<close>

lemma into_non_owner_built:
  "into_non_owner E q =
     (let d = rq_descriptor q;
          b = records_query_builder_new;
          b = (case qd_date_sort d of None \<Rightarrow> b | Some x \<Rightarrow> records_query_sort x b);
          b = (case qd_pagination d of None \<Rightarrow> b | Some p \<Rightarrow> records_query_pagination p b) in
      rbind (some_or (rq_authorization q) (Forbidden ''missing authorization'')) (\<lambda>a.
      rbind (auth_author E a) (\<lambda>author.
      rbind (auth_payload E a) (\<lambda>payload.
      Inr (records_query_build (fold add_filter
        (non_owner_filters (qd_filter d) author (jp_protocol_role payload \<noteq> None)) b))))))"
  unfolding into_non_owner_def records_query_sort_def records_query_pagination_def foldl_conv_fold ..

text \<open>The setters of a store query commute with adding a filter: the order of the calls does not matter.\<close>

lemma add_filter_commutes:
  "add_filter f (records_query_method m b) = records_query_method m (add_filter f b)"
  "add_filter f (records_query_include_archived x b) = records_query_include_archived x (add_filter f b)"
  "add_filter f (records_query_sort y b) = records_query_sort y (add_filter f b)"
  "add_filter f (records_query_pagination p b) = records_query_pagination p (add_filter f b)"
  by (simp_all add: store_setters)

section \<open>The handle on the indexes\<close>

text \<open>The type states of the builder: what is set and what is not.\<close>

datatype no_owner = NoOwner
datatype index_owner = Owner string
datatype no_partition = NoPartition
datatype index_partition = Partition string
datatype no_store = NoStore
datatype 'e index_backend = Backend 'e

record ('o, 'p, 'e) indexes_builder =
  ixb_owner :: 'o
  ixb_partition :: 'p
  ixb_indexes :: "(string \<times> string) list option"
  ixb_store :: 'e

record 'e indexes =
  ixs_owner :: string
  ixs_partition :: string
  ixs_store :: 'e

definition indexes_builder_new :: "(no_owner, no_partition, no_store) indexes_builder" where
  "indexes_builder_new = \<lparr>ixb_owner = NoOwner, ixb_partition = NoPartition, ixb_indexes = None, ixb_store = NoStore\<rparr>"

definition indexes_builder_owner :: "string \<Rightarrow> (no_owner, 'p, 'e) indexes_builder \<Rightarrow> (index_owner, 'p, 'e) indexes_builder" where
  "indexes_builder_owner ow b =
     \<lparr>ixb_owner = Owner ow, ixb_partition = ixb_partition b, ixb_indexes = None, ixb_store = ixb_store b\<rparr>"

definition indexes_builder_partition :: "string \<Rightarrow> ('o, no_partition, 'e) indexes_builder
    \<Rightarrow> ('o, index_partition, 'e) indexes_builder" where
  "indexes_builder_partition pa b =
     \<lparr>ixb_owner = ixb_owner b, ixb_partition = Partition pa, ixb_indexes = None, ixb_store = ixb_store b\<rparr>"

definition indexes_builder_store :: "'e \<Rightarrow> ('o, 'p, no_store) indexes_builder \<Rightarrow> ('o, 'p, 'e index_backend) indexes_builder" where
  "indexes_builder_store E b =
     \<lparr>ixb_owner = ixb_owner b, ixb_partition = ixb_partition b, ixb_indexes = ixb_indexes b, ixb_store = Backend E\<rparr>"

definition indexes_builder_build :: "(index_owner, index_partition, 'e index_backend) indexes_builder \<Rightarrow> 'e indexes" where
  "indexes_builder_build b =
     (case (ixb_owner b, ixb_partition b, ixb_store b) of
        (Owner ow, Partition pa, Backend E) \<Rightarrow> \<lparr>ixs_owner = ow, ixs_partition = pa, ixs_store = E\<rparr>)"

text \<open>The handle that \<open>insert\<close>, \<open>query\<close> and \<open>delete\<close> start from.\<close>

definition indexes_of :: "'e \<Rightarrow> string \<Rightarrow> string \<Rightarrow> 'e indexes" where
  "indexes_of E ow pa = indexes_builder_build (indexes_builder_store E (indexes_builder_partition pa
     (indexes_builder_owner ow indexes_builder_new)))"

lemma indexes_of_simps [simp]:
  "ixs_owner (indexes_of E ow pa) = ow" "ixs_partition (indexes_of E ow pa) = pa" "ixs_store (indexes_of E ow pa) = E"
  by (simp_all add: indexes_of_def indexes_builder_build_def indexes_builder_store_def indexes_builder_partition_def
      indexes_builder_owner_def indexes_builder_new_def)

text \<open>The handle can be built in any order of the calls.\<close>

lemma indexes_builder_commutes:
  "indexes_builder_partition pa (indexes_builder_owner ow b) = indexes_builder_owner ow (indexes_builder_partition pa b)"
  by (simp add: indexes_builder_owner_def indexes_builder_partition_def)

section \<open>The extension of a task's timeout\<close>

text \<open>
  The other arm of \<open>select!\<close> in \<open>tasks::run\<close>: it sleeps and then extends the timeout, twice. Sleeping changes nothing
  in the provider.
\<close>

definition extend_timeout :: "string \<Rightarrow> string \<Rightarrow> ('s, unit) io" where
  "extend_timeout ow tid =
     sfor [0, 1 :: nat] (\<lambda>_.
       provider_err (\<lambda>e. BadRequest (''failed to extend timeout: '' @ e)) (task_extend ow tid (of_int EXTEND_SECS)))"

text \<open>A task that is not done within thirty seconds panics: the store's \<open>extend\<close> is not implemented.\<close>

lemma extend_timeout_panics: "extend_timeout ow i s = (Inl (Panic ''not yet implemented''), s)"
  by (simp add: extend_timeout_def provider_err_def task_extend_def sfail_def sbind_def)

end
