(* ===== verification/Error_Json.thy ===== *)
theory Error_Json
  imports Env
begin

text \<open>
  The JSON form of an error (\<open>src/src/error.rs\<close>). Both \<open>Serialize\<close> and \<open>to_json\<close> parse the \<open>Display\<close> text, into which
  the detail is written as it is. The parser is a library function and an argument; what is used of it is the contract
  \<open>json_text\<close>. An error whose detail needs no escaping gets its code and detail back; one that has passed through a
  provider, and carries the text of another error, cannot be serialized.
\<close>

section \<open>The source\<close>

record dwn_error =
  dwn_code :: "16 word"
  dwn_detail :: string

definition error_serialize :: "(string \<Rightarrow> string + dwn_error) \<Rightarrow> error \<Rightarrow> string + dwn_error" where
  "error_serialize from_str e =
     (case from_str (error_display e) of
        Inl _ \<Rightarrow> Inl ''issue deserializing Err''
      | Inr x \<Rightarrow> Inr x)"

text \<open>\<open>to_json\<close> takes the default value of the JSON type, null, when the text cannot be parsed.\<close>

definition error_to_json :: "(string \<Rightarrow> string + 'v) \<Rightarrow> 'v \<Rightarrow> error \<Rightarrow> 'v" where
  "error_to_json from_str null e = (case from_str (error_display e) of Inl _ \<Rightarrow> null | Inr v \<Rightarrow> v)"

section \<open>What the parser does\<close>

text \<open>Characters that stand for themselves in a JSON string, and those that may follow a value.\<close>

definition verbatim :: "char \<Rightarrow> bool" where
  "verbatim c \<longleftrightarrow> c \<noteq> CHR 0x22 \<and> c \<noteq> CHR 0x5C \<and> 32 \<le> (of_char c :: nat)"

definition follows :: "char \<Rightarrow> bool" where
  "follows c \<longleftrightarrow> c = CHR '','' \<or> c = CHR ''}'' \<or> c = CHR '' '' \<or> c = CHR 0x09 \<or> c = CHR 0x0A \<or> c = CHR 0x0D"

definition error_text :: "nat \<Rightarrow> string \<Rightarrow> string" where
  "error_text n d = ''{\"code\": '' @ decimal n @ '', \"detail\": \"'' @ d"

lemma error_display_text: "error_display e = error_text (error_code e) (error_detail e @ ''\"}'')"
  by (simp add: error_display_def error_text_def)

text \<open>
  A text without escapes is read as it is written, and after the quote that ends it only a comma, a brace or white
  space may come.
\<close>

locale json_text =
  fixes from_str :: "string \<Rightarrow> string + dwn_error"
  assumes plain: "n < 65536 \<Longrightarrow> list_all verbatim d
      \<Longrightarrow> from_str (error_text n (d @ ''\"}'')) = Inr \<lparr>dwn_code = of_nat n, dwn_detail = d\<rparr>"
    and trailing: "list_all verbatim d \<Longrightarrow> \<not> follows c \<Longrightarrow> \<exists>x. from_str (error_text n (d @ CHR 0x22 # c # rest)) = Inl x"
begin

lemma serialize_plain:
  assumes "list_all verbatim (error_detail e)"
  shows "error_serialize from_str e = Inr \<lparr>dwn_code = of_nat (error_code e), dwn_detail = error_detail e\<rparr>"
proof -
  have "error_code e < 65536" by (cases e) simp_all
  from plain [OF this assms] show ?thesis
    by (simp add: error_serialize_def error_display_text)
qed

lemma serialize_quoted:
  assumes "error_detail e = d @ CHR 0x22 # c # rest" "list_all verbatim d" "\<not> follows c"
  shows "error_serialize from_str e = Inl ''issue deserializing Err''"
    and "error_to_json from_str null e = null"
proof -
  obtain x where "from_str (error_display e) = Inl x"
    using trailing [OF assms(2,3), of "error_code e" "rest @ ''\"}''"] by (auto simp: error_display_text assms(1))
  then show "error_serialize from_str e = Inl ''issue deserializing Err''" "error_to_json from_str null e = null"
    by (simp_all add: error_serialize_def error_to_json_def)
qed

text \<open>An error that a default method of the provider returns carries the text of the store's error.\<close>

lemma provider_error_unserializable:
  "as_provider_error (Err e) = Err e' \<Longrightarrow> error_serialize from_str e' = Inl ''issue deserializing Err''"
  by (rule serialize_quoted [where d = "''anyhow: {''" and c = "CHR ''c''"
        and rest = "''ode\": '' @ decimal (error_code e) @ '', \"detail\": \"'' @ error_detail e @ ''\"}''"])
    (auto simp: as_provider_error_def internal_def error_display_def verbatim_def follows_def)

end

section \<open>A parser that meets the contract\<close>

text \<open>It reads the texts that errors display, and no others.\<close>

definition starts :: "string \<Rightarrow> string \<Rightarrow> string option" where
  "starts p s = (if take (length p) s = p then Some (drop (length p) s) else None)"

definition demo_from_str :: "string \<Rightarrow> string + dwn_error" where
  "demo_from_str s =
     (case starts ''{\"code\": '' s of
        None \<Rightarrow> Inl ''expected an object''
      | Some t \<Rightarrow>
          (let n = digits_value 0 (takeWhile is_digit t) in
           case starts '', \"detail\": \"'' (dropWhile is_digit t) of
             None \<Rightarrow> Inl ''expected a detail''
           | Some u \<Rightarrow>
               if n < 65536 \<and> dropWhile verbatim u = ''\"}''
               then Inr \<lparr>dwn_code = of_nat n, dwn_detail = takeWhile verbatim u\<rparr>
               else Inl ''expected the end of the object''))"

lemma starts_append [simp]: "starts p (p @ s) = Some s"
  by (simp add: starts_def)

lemma digits_span:
  "takeWhile is_digit (decimal n @ CHR '','' # s) = decimal n" "dropWhile is_digit (decimal n @ CHR '','' # s) = CHR '','' # s"
  using decimal_digits [of n] by (simp_all add: list_all_iff is_digit_def takeWhile_append dropWhile_append)

lemma verbatim_span:
  "list_all verbatim d \<Longrightarrow> takeWhile verbatim (d @ CHR 0x22 # s) = d"
  "list_all verbatim d \<Longrightarrow> dropWhile verbatim (d @ CHR 0x22 # s) = CHR 0x22 # s"
  by (simp_all add: list_all_iff takeWhile_append dropWhile_append verbatim_def [of "CHR 0x22"])

lemma demo_from_str_text:
  "demo_from_str (error_text n u) =
     (if n < 65536 \<and> dropWhile verbatim u = ''\"}'' then Inr \<lparr>dwn_code = of_nat n, dwn_detail = takeWhile verbatim u\<rparr>
      else Inl ''expected the end of the object'')"
proof -
  have "starts ''{\"code\": '' (error_text n u) = Some (decimal n @ '', \"detail\": \"'' @ u)"
    unfolding error_text_def by (rule starts_append)
  moreover have "starts '', \"detail\": \"'' ('', \"detail\": \"'' @ u) = Some u" by (rule starts_append)
  ultimately show ?thesis
    using digits_span [of n "'' \"detail\": \"'' @ u"] by (simp add: demo_from_str_def Let_def decimal_value)
qed

interpretation demo_json: json_text demo_from_str
  by unfold_locales (auto simp: demo_from_str_text verbatim_span follows_def)

text \<open>An error of the store, met through a provider, and one of the node itself.\<close>

lemma error_serialize_witness:
  "error_serialize demo_from_str (NotFound ''no matching record found'') =
     Inr \<lparr>dwn_code = 404, dwn_detail = ''no matching record found''\<rparr>"
  "error_to_json demo_from_str null (InternalServerError ''anyhow: {\"code\": 400, \"detail\": \"x\"}'') = null"
  using demo_json.serialize_plain [of "NotFound ''no matching record found''"]
    demo_json.serialize_quoted(2) [of "InternalServerError ''anyhow: {\"code\": 400, \"detail\": \"x\"}''" "''anyhow: {''" "CHR ''c''"]
  by (simp_all add: verbatim_def follows_def)

end
