(* ===== verification/Spec2Isabelle.thy ===== *)
theory Spec2Isabelle
  imports Interleaving Test_Node Store_Builders Error_Json
begin

text \<open>
  A verification of the decentralized web node \<open>dwn\<close>: the Rust crate under \<open>src/src\<close> and the provider of \<open>src/crates/test-node\<close>.

  \<^bold>\<open>The program.\<close> A node keeps, for each owner, signed messages: records (\<open>RecordsWrite\<close>, \<open>RecordsDelete\<close>), protocol
  configurations (\<open>ProtocolsConfigure\<close>) and the requests to read, query and subscribe to them. A message enters through
  \<open>endpoint::handle\<close>, which validates and authenticates it and gives it to the handler of its kind. Handlers
  authorize the message (owner, author, permission grant, or the rules of the installed protocol), check it against what
  is stored, and change three stores that share one key-value block store: messages, record data and
  the event log. Messages and events have an index, one block per field and owner, over which queries run. What is stored
  is also emitted on the owner's stream of events, to which clients subscribe.

  \<^bold>\<open>State and effects.\<close> The block store, the event stream and every library (IPLD codec, CID, base64, JSON, JWS, JWE, HKDF,
  URIs, JSON schemas, clock, ULIDs) are fields of the record \<open>env\<close> (theory \<open>Env\<close>), an argument of every
  definition that uses them. A computation with effects is a function from the provider's state to a result and
  a state; a result is an error, a panic or a value, so every \<open>?\<close>, early return, \<open>unwrap\<close>, \<open>todo!\<close> and
  out-of-range index of the source is a branch of the model. A state change made before a later error stays.
  What the node relies on of the provider is stated in locales (below), never as a definition.

  \<^bold>\<open>Theories and sources.\<close>
    \<^item> \<open>Prelude\<close>: results, the effect monad and its simplification rules (\<open>monad_simps\<close>), strings and decimal numbers, words.
    \<^item> \<open>Core_Types\<close> (\<open>lib.rs\<close>, \<open>error.rs\<close>), \<open>Schema\<close> (\<open>schema.rs\<close>), \<open>Model\<close> (the message, descriptor, filter, grant and definition types), \<open>Env\<close>
      (\<open>provider.rs\<close>, \<open>utils.rs\<close>), \<open>Auth\<close> (\<open>authorization.rs\<close>, \<open>endpoint.rs\<close>).
    \<^item> \<open>Data_Store\<close> (\<open>store/block.rs\<close>, \<open>store/data.rs\<close>), \<open>Store\<close> (\<open>store.rs\<close>), \<open>Index_Store\<close> (\<open>store/index.rs\<close>), \<open>Message_Store\<close>
      (\<open>store/message.rs\<close>, \<open>store/event_log.rs\<close>, \<open>store/task.rs\<close>).
    \<^item> \<open>Protocols\<close>, \<open>Protocol_Handlers\<close> (\<open>protocols.rs\<close>, \<open>protocols/*.rs\<close>), \<open>Grants\<close> (\<open>grants.rs\<close>, \<open>grants/verify.rs\<close>).
    \<^item> \<open>Record_Base\<close>, \<open>Authorizer\<close>, \<open>Record_Integrity\<close>, \<open>Record_Write\<close>, \<open>Record_Delete\<close>, \<open>Record_Access\<close>, \<open>Events\<close>
      (\<open>records/*.rs\<close>, \<open>tasks.rs\<close>, \<open>event.rs\<close>), \<open>Message_Handlers\<close> (\<open>messages/*.rs\<close>).
    \<^item> \<open>Hd_Key\<close> (\<open>hd_key.rs\<close>), \<open>Encryption\<close> (\<open>records/encryption.rs\<close>).
    \<^item> \<open>Endpoint\<close> (\<open>endpoint.rs\<close>): the \<open>Message\<close> trait over all messages, and the entry point that routes them.
    \<^item> \<open>Client\<close>, \<open>Record_Builders\<close>, \<open>Write_Builder\<close>, \<open>Request_Builders\<close> (\<open>interfaces/*.rs\<close>, \<open>AuthorizationBuilder\<close>, the
      signing methods of \<open>records/write.rs\<close>): what a client calls to make messages. The signer and the JWS library are
      the fields of a record \<open>client\<close>; the type states of a builder are the type parameters of its record.
    \<^item> \<open>Store_Builders\<close> (\<open>store.rs\<close>, \<open>store/index.rs\<close>, \<open>lib.rs\<close>, \<open>tasks.rs\<close>): the node's own builders of store queries, pages and index
      handles, the defaults of the data types, and the extension of a task's timeout. \<open>Error_Json\<close> (\<open>error.rs\<close>): errors as JSON.
    \<^item> \<open>Providers\<close> and \<open>Test_Node\<close> (\<open>crates/test-node/src/provider\<close>): its block store, its event stream over NATS, its key rings.
  A subscription is a stream: at every state the list of the events that have arrived on it, of which a poll takes the next.
  Definitions have the names of the functions they model, with the type in front where two types share a method name.

  \<^bold>\<open>Contracts.\<close> \<open>block_store\<close> (a key-value store) with \<open>partitioned_store\<close> (one cell per owner, partition and key) and \<open>codec\<close>
  (decoding undoes encoding) state what a provider promises; \<open>data_store\<close>, \<open>index_store\<close> and \<open>node\<close> combine them for
  record data, for messages and events, and for the handlers. \<open>roomy_store\<close> and \<open>open_node\<close> add that blocks fit the size
  limit and calls succeed, which the theorems that a handler returns need; \<open>pure_reads\<close> says that lookups change
  nothing; \<open>key_codec\<close> and \<open>jwe_codec\<close> say what key derivation and encryption need; \<open>signing\<close> says what a signature
  promises; \<open>event_stream\<close> says what a provider's stream delivers, and rests on \<open>kept_by_blocks\<close>, by which whatever the block
  store leaves alone is left alone by every operation but an emit; \<open>memory_blockstore\<close>, \<open>nats_client\<close> and \<open>curves\<close> are the
  contracts of the test node's libraries, and a NATS client gives an \<open>event_stream\<close>; \<open>json_text\<close> is that of a JSON parser. Each is interpreted on the demonstration provider of \<open>Providers\<close>, which keeps
  blocks in a map, and every witness runs there.

  \<^bold>\<open>What is proved.\<close>
    \<^item> Stores (\<open>Index_Refinement\<close>, \<open>Index_Query\<close>, \<open>Store_Refinement\<close>, \<open>Paging\<close>, \<open>Full_Scan\<close>, \<open>Sound_Query\<close>, \<open>Store_Properties\<close>): the message store and
      the event log refine finite maps from CIDs to entries (\<open>stores\<close>), blocks and index together; queries return the selected
      entries in order; pages join up; data is got back byte for byte; owners do not see each other.
    \<^item> Requests (\<open>Access_Properties\<close>, \<open>Request_Properties\<close>, \<open>Read_Only\<close>, \<open>Query_Properties\<close>): nothing unauthenticated reaches a handler;
      what a write, a read, a query, a subscription and a grant check let through, and that checks change nothing.
    \<^item> Records (\<open>Record_Lookup\<close>, \<open>End_To_End\<close>, \<open>Acceptance\<close>, \<open>Record_Update\<close>, \<open>Write_Properties\<close>, \<open>Delete_Properties\<close>,
      \<open>Deleted\<close>): a write followed by a read, updates that replace earlier versions, refusal of what the stored versions do
      not admit, deletion, the read of a deleted record, and that the handlers return.
    \<^item> Protocols (\<open>Protocol_Properties\<close>): what validation ensures everywhere in a definition, and that a configured
      protocol is the one looked up.
    \<^item> Client and node (\<open>Client_Properties\<close>): what the write builder makes is accepted and read back through the entry
      point; requests change nothing; and what the node fails to check of a signed message (the descriptor's CID, the
      grantee of a delegated grant).
    \<^item> The state as a whole (\<open>Invariant\<close>, \<open>Reachable\<close>): every message at the entry point keeps all stores well-formed
      (\<open>wf_node\<close>), an error half-way included, by rules for operations that keep an invariant (\<open>keeps_intros\<close>); hence
      what holds in every state that can be reached from an empty store.
    \<^item> Subscriptions (\<open>Announcements\<close>): a stream opened earlier receives exactly the accepted writes that its filter lets
      through, whatever is handled in between, and nothing from other owners; deletes are not heard by records subscriptions.
    \<^item> Concurrency (\<open>Interleaving\<close>): the handler of a write in two steps, checks and changes, interleaved with those of other
      writes and with other messages; well-formedness survives, the replacement of earlier versions does not, and a
      record updated twice at the same time can no longer be read by its id.
    \<^item> The test node (\<open>Test_Node\<close>): its stream is an \<open>event_stream\<close>, and a new key ring is consistent: its public key, its secret
      key, the receiver made from it, its signatures and its DID fit.
    \<^item> Queries and errors (\<open>Store_Builders\<close>, \<open>Error_Json\<close>): the handlers' queries are what the chains of builder calls make; an
      error with a plain detail has a JSON form with its code and detail, one that came through a provider has none.
    \<^item> Schemas (\<open>Schema\<close>): each kind of message has a schema, and all references between the embedded documents resolve.
    \<^item> Keys (\<open>Key_Properties\<close>): derivation composes, and the key a protocol publishes for a path fits the root key.

  \<^bold>\<open>Bounds and fuel.\<close> Sizes and limits are 64-bit words, as \<open>usize\<close> is, and a cursor's end wraps or panics as the build's
  overflow checks say (\<open>overflow_checks\<close>). Blocks are at most 1 MiB, data chunks 64 bytes, and data up to 30000 bytes is
  kept in the message. Two loops follow references between stored records and need not end on arbitrary stores: the
  walk up the ancestors and the deletion of descendants take fuel (\<open>walk_fuel\<close>) and give \<open>OutOfFuel\<close> when it runs out.
  \<open>ancestor_walk_exact\<close> shows that fuel for the length of the lineage is enough, \<open>prune_keeps_children\<close> that one step
  is enough for the deletion. All other recursion is structural or has a measure.

  \<^bold>\<open>Not modelled.\<close> When a waiting subscriber is woken, and whether its stream has ended; serialization other than what it
  drops (\<open>ser_write\<close> and its siblings) and the JSON of errors; of the test node, the connection to the NATS server, the stub of
  a DID resolver and a macro for tests. Tasks run to their end before their timeout is first extended. Handlers run one at
  a time, except in \<open>Interleaving\<close>, where the checks and the changes of a write are one step each: finer interleavings, at
  every \<open>await\<close>, and those of the steps of other handlers are not considered. What is left of the sources is documentation,
  imports, attributes, tests, and the accessors of the \<open>Message\<close> trait, which \<open>Endpoint\<close> has once for all messages.
\<close>

end
